(* ===== verification/Prelude.thy ===== *)
theory Prelude
  imports
    Main
    "HOL-Library.Word"
    "HOL-Library.Char_ord"
    "HOL-Library.List_Lexorder"
    "HOL-Library.Finite_Map"
begin

text \<open>
  Shared vocabulary of the development: the Rust result type with the operators its code uses
  on it (\<open>?\<close>, \<open>map_err\<close>, \<open>ok_or\<close>, collecting an iterator of results), machine integers
  with checked addition, strings as UTF-8 byte lists with the ASCII classes of the standard
  library, and the list searches (\<open>position\<close>, insertion into a set with a duplicate test,
  lookup and update of keyed rows) that several components share.  The collection
  \<open>res_simps\<close> holds the equations that evaluate result-valued code.
\<close>

named_theorems res_simps "equations that evaluate result-valued code"

section \<open>Results\<close>

datatype ('a, 'e) result = Ok 'a | Err 'e

fun and_then :: "('a, 'e) result \<Rightarrow> ('a \<Rightarrow> ('b, 'e) result) \<Rightarrow> ('b, 'e) result" where
  "and_then (Ok x) f = f x"
| "and_then (Err e) f = Err e"

fun map_err :: "('e \<Rightarrow> 'f) \<Rightarrow> ('a, 'e) result \<Rightarrow> ('a, 'f) result" where
  "map_err f (Ok x) = Ok x"
| "map_err f (Err e) = Err (f e)"

fun map_ok :: "('a \<Rightarrow> 'b) \<Rightarrow> ('a, 'e) result \<Rightarrow> ('b, 'e) result" where
  "map_ok f (Ok x) = Ok (f x)"
| "map_ok f (Err e) = Err e"

fun ok_or :: "'a option \<Rightarrow> 'e \<Rightarrow> ('a, 'e) result" where
  "ok_or (Some x) e = Ok x"
| "ok_or None e = Err e"

definition ensure :: "bool \<Rightarrow> 'e \<Rightarrow> (unit, 'e) result" where
  "ensure b e = (if b then Ok () else Err e)"

fun is_ok :: "('a, 'e) result \<Rightarrow> bool" where
  "is_ok (Ok x) = True"
| "is_ok (Err e) = False"

fun traverse :: "('a \<Rightarrow> ('b, 'e) result) \<Rightarrow> 'a list \<Rightarrow> ('b list, 'e) result" where
  "traverse f [] = Ok []"
| "traverse f (x # xs) =
     and_then (f x) (\<lambda>y. and_then (traverse f xs) (\<lambda>ys. Ok (y # ys)))"

lemma and_then_Ok_iff:
  "and_then m f = Ok b \<longleftrightarrow> (\<exists>a. m = Ok a \<and> f a = Ok b)"
  by (cases m) auto

lemma and_then_Err_iff:
  "and_then m f = Err e \<longleftrightarrow> m = Err e \<or> (\<exists>a. m = Ok a \<and> f a = Err e)"
  by (cases m) auto

lemma and_then_OkE:
  assumes "and_then m f = Ok b"
  obtains a where "m = Ok a" and "f a = Ok b"
  using assms by (auto simp: and_then_Ok_iff)

lemma map_err_Ok_iff [simp]: "map_err f m = Ok x \<longleftrightarrow> m = Ok x"
  by (cases m) auto

lemma map_err_Err_iff: "map_err f m = Err e \<longleftrightarrow> (\<exists>e'. m = Err e' \<and> e = f e')"
  by (cases m) auto

lemma map_ok_Ok_iff: "map_ok f m = Ok y \<longleftrightarrow> (\<exists>x. m = Ok x \<and> y = f x)"
  by (cases m) auto

lemma ok_or_Ok_iff [simp]: "ok_or m e = Ok x \<longleftrightarrow> m = Some x"
  by (cases m) auto

lemma ok_or_Err_iff [simp]: "ok_or m e = Err e' \<longleftrightarrow> m = None \<and> e' = e"
  by (cases m) auto

lemma ensure_Ok_iff [simp]: "ensure b e = Ok u \<longleftrightarrow> b"
  by (simp add: ensure_def)

lemma ensure_Err_iff [simp]: "ensure b e = Err e' \<longleftrightarrow> \<not> b \<and> e' = e"
  by (auto simp: ensure_def)

lemma ensure_True [res_simps]: "b \<Longrightarrow> ensure b e = Ok ()"
  by (simp add: ensure_def)

lemma ensure_False [res_simps]: "\<not> b \<Longrightarrow> ensure b e = Err e"
  by (simp add: ensure_def)

lemma result_unit_cases: "(r :: (unit, 'e) result) = Ok () \<or> (\<exists>e. r = Err e)"
  by (cases r) auto

lemma traverse_Ok_all:
  "(\<And>x. x \<in> set xs \<Longrightarrow> f x = Ok (g x)) \<Longrightarrow> traverse f xs = Ok (map g xs)"
  by (induction xs) auto

lemma traverse_Ok_length: "traverse f xs = Ok ys \<Longrightarrow> length ys = length xs"
  by (induction xs arbitrary: ys) (auto simp: and_then_Ok_iff)

lemma traverse_Ok_set:
  "traverse f xs = Ok ys \<Longrightarrow> y \<in> set ys \<Longrightarrow> \<exists>x \<in> set xs. f x = Ok y"
  by (induction xs arbitrary: ys) (auto simp: and_then_Ok_iff)

lemma traverse_Ok_list_all2:
  "traverse f xs = Ok ys \<longleftrightarrow> list_all2 (\<lambda>x y. f x = Ok y) xs ys"
proof (induction xs arbitrary: ys)
  case Nil
  then show ?case by (cases ys) auto
next
  case (Cons x xs)
  then show ?case by (cases ys) (auto simp: and_then_Ok_iff)
qed

section \<open>Machine integers\<close>

type_synonym u8 = "8 word"
type_synonym u16 = "16 word"
type_synonym u32 = "32 word"
type_synonym u64 = "64 word"

definition checked_add :: "'l::len word \<Rightarrow> 'l word \<Rightarrow> 'l word option" where
  "checked_add a b = (if unat a + unat b < 2 ^ LENGTH('l) then Some (a + b) else None)"

lemma checked_add_Some_iff:
  "checked_add a b = Some c \<longleftrightarrow> unat a + unat b < 2 ^ LENGTH('l) \<and> c = a + b"
  for a b c :: "'l::len word"
  by (auto simp: checked_add_def)

lemma unat_add_small:
  "unat a + unat b < 2 ^ LENGTH('l) \<Longrightarrow> unat (a + b) = unat a + unat b"
  for a b :: "'l::len word"
  by (simp add: unat_word_ariths)

lemma unat_checked_add:
  "checked_add a b = Some c \<Longrightarrow> unat c = unat a + unat b"
  for a b c :: "'l::len word"
  by (auto simp: checked_add_Some_iff unat_add_small)

lemma unat_u32_lt: "unat (x :: u32) < 4294967296"
  using unsigned_less [of x] by simp

lemma unat_u64_lt: "unat (x :: u64) < 18446744073709551616"
  using unsigned_less [of x] by simp

lemma unat_u64_of_u32 [simp]: "unat (ucast (x :: u32) :: u64) = unat x"
proof -
  have "unat x < 2 ^ 64"
    using unat_u32_lt [of x] by simp
  then show ?thesis
    by (simp add: unsigned_ucast_eq take_bit_nat_eq_self)
qed

section \<open>Strings\<close>

text \<open>
  A Rust \<open>String\<close> is its UTF-8 bytes; \<open>len\<close> counts bytes, as \<open>length\<close> does here.  A character
  of the list is one byte.
\<close>

type_synonym str = string
type_synonym bytes = "u8 list"

definition byte_code :: "char \<Rightarrow> nat" where
  "byte_code c = of_char c"

definition is_ascii_digit :: "char \<Rightarrow> bool" where
  "is_ascii_digit c \<longleftrightarrow> 48 \<le> byte_code c \<and> byte_code c \<le> 57"

definition is_ascii_lowercase :: "char \<Rightarrow> bool" where
  "is_ascii_lowercase c \<longleftrightarrow> 97 \<le> byte_code c \<and> byte_code c \<le> 122"

definition is_ascii_uppercase :: "char \<Rightarrow> bool" where
  "is_ascii_uppercase c \<longleftrightarrow> 65 \<le> byte_code c \<and> byte_code c \<le> 90"

definition is_ascii_alphanumeric :: "char \<Rightarrow> bool" where
  "is_ascii_alphanumeric c \<longleftrightarrow>
     is_ascii_digit c \<or> is_ascii_lowercase c \<or> is_ascii_uppercase c"

text \<open>
  \<open>chars().count()\<close> of a UTF-8 string: every byte but the continuation bytes
  (\<open>0x80\<close> to \<open>0xBF\<close>) starts a character.
\<close>

definition is_utf8_continuation :: "char \<Rightarrow> bool" where
  "is_utf8_continuation c \<longleftrightarrow> 128 \<le> byte_code c \<and> byte_code c \<le> 191"

definition char_count :: "str \<Rightarrow> nat" where
  "char_count s = length (filter (\<lambda>c. \<not> is_utf8_continuation c) s)"

fun strip_prefix :: "str \<Rightarrow> str \<Rightarrow> str option" where
  "strip_prefix [] s = Some s"
| "strip_prefix (p # ps) [] = None"
| "strip_prefix (p # ps) (c # cs) = (if p = c then strip_prefix ps cs else None)"

fun split_once :: "char \<Rightarrow> str \<Rightarrow> (str \<times> str) option" where
  "split_once d [] = None"
| "split_once d (c # cs) =
     (if c = d then Some ([], cs)
      else map_option (\<lambda>(l, r). (c # l, r)) (split_once d cs))"

lemma strip_prefix_Some_iff: "strip_prefix p s = Some r \<longleftrightarrow> s = p @ r"
  by (induction p s rule: strip_prefix.induct) auto

lemma split_once_Some: "split_once d s = Some (l, r) \<Longrightarrow> s = l @ d # r \<and> d \<notin> set l"
proof (induction d s arbitrary: l r rule: split_once.induct)
  case (1 d)
  then show ?case by simp
next
  case (2 d c cs)
  then show ?case by (auto split: if_splits prod.splits)
qed

lemma split_once_append: "d \<notin> set l \<Longrightarrow> split_once d (l @ d # r) = Some (l, r)"
  by (induction l) auto

lemma char_count_le_length: "char_count s \<le> length s"
  by (simp add: char_count_def)

lemmas ascii_defs = byte_code_def is_ascii_digit_def is_ascii_lowercase_def is_ascii_uppercase_def
  is_ascii_alphanumeric_def

section \<open>Lists\<close>

fun position :: "('a \<Rightarrow> bool) \<Rightarrow> 'a list \<Rightarrow> nat option" where
  "position P [] = None"
| "position P (x # xs) = (if P x then Some 0 else map_option Suc (position P xs))"

lemma position_None_iff: "position P xs = None \<longleftrightarrow> (\<forall>x \<in> set xs. \<not> P x)"
  by (induction xs) auto

lemma position_SomeD:
  "position P xs = Some i \<Longrightarrow> i < length xs \<and> P (xs ! i) \<and> (\<forall>x \<in> set (take i xs). \<not> P x)"
proof (induction xs arbitrary: i)
  case Nil
  then show ?case by simp
next
  case (Cons x xs)
  then show ?case by (auto split: if_splits)
qed

text \<open>
  The loop that inserts items one by one into a \<open>BTreeSet\<close> and stops at the first item that
  was there already.
\<close>

fun all_fresh :: "'a set \<Rightarrow> 'a list \<Rightarrow> bool" where
  "all_fresh seen [] = True"
| "all_fresh seen (x # xs) = (if x \<in> seen then False else all_fresh (insert x seen) xs)"

lemma all_fresh_iff: "all_fresh seen xs \<longleftrightarrow> distinct xs \<and> set xs \<inter> seen = {}"
  by (induction xs arbitrary: seen) auto

section \<open>Keyed rows\<close>

text \<open>
  A table is the list of its rows; \<open>sel\<close> is the row with a key, \<open>upd\<close> rewrites the rows with
  a key in place.
\<close>

definition sel :: "('r \<Rightarrow> 'k) \<Rightarrow> 'k \<Rightarrow> 'r list \<Rightarrow> 'r option" where
  "sel key k t = find (\<lambda>r. key r = k) t"

definition upd :: "('r \<Rightarrow> 'k) \<Rightarrow> 'k \<Rightarrow> ('r \<Rightarrow> 'r) \<Rightarrow> 'r list \<Rightarrow> 'r list" where
  "upd key k f t = map (\<lambda>r. if key r = k then f r else r) t"

lemma sel_SomeD: "sel key k t = Some r \<Longrightarrow> r \<in> set t \<and> key r = k"
  by (auto simp: sel_def find_Some_iff)

lemma sel_None_iff: "sel key k t = None \<longleftrightarrow> k \<notin> key ` set t"
  by (auto simp: sel_def find_None_iff)

lemma sel_Nil [simp]: "sel key k [] = None"
  by (simp add: sel_def)

lemma sel_Cons: "sel key k (r # t) = (if key r = k then Some r else sel key k t)"
  by (simp add: sel_def)

lemma sel_append:
  "sel key k (t @ u) = (case sel key k t of Some r \<Rightarrow> Some r | None \<Rightarrow> sel key k u)"
  by (induction t) (auto simp: sel_Cons)

lemma sel_upd:
  "(\<And>r. key (f r) = key r) \<Longrightarrow>
     sel key k (upd key k' f t) =
       (if k = k' then map_option f (sel key k t) else sel key k t)"
  by (induction t) (auto simp: sel_Cons upd_def)

lemma set_upd:
  "set (upd key k f t) = (\<lambda>r. if key r = k then f r else r) ` set t"
  by (auto simp: upd_def)

lemma map_upd_id:
  "(\<And>r. g (f r) = g r) \<Longrightarrow> map g (upd key k f t) = map g t"
  by (simp add: upd_def)

lemma sel_distinct:
  "distinct (map key t) \<Longrightarrow> r \<in> set t \<Longrightarrow> sel key (key r) t = Some r"
  by (induction t) (auto simp: sel_Cons)

end
