(* ===== verification/Domain_Values.thy ===== *)
theory Domain_Values
  imports Prelude
begin

text \<open>
  The validated value types of \<open>crates/openoj-domain\<close>: the error type of \<open>error.rs\<close>, the
  opaque identifiers, digests and tokens of \<open>value.rs\<close> and the artifact references of
  \<open>artifact.rs\<close>.  A newtype of the source is a datatype with one constructor; its \<open>parse\<close> is
  the only way the source builds one, so the values a program can hold are those that satisfy
  the \<open>_ok\<close> predicate of the type, which characterises the parser.
\<close>

section \<open>Errors\<close>

datatype domain_error =
    Empty str
  | TooLong str nat nat
  | InvalidFormat str str
  | OutOfRange str u64 u64 u64
  | TooManyItems str nat nat
  | DuplicateItem str
  | InvalidPlan
  | InvalidScore
  | InvalidResult str
  | InvalidProvenance str
  | InvalidTransition str str str

section \<open>Opaque identifiers\<close>

definition MAX_OPAQUE_ID_LENGTH :: nat where "MAX_OPAQUE_ID_LENGTH = 64"
definition MAX_IDEMPOTENCY_KEY_LENGTH :: nat where "MAX_IDEMPOTENCY_KEY_LENGTH = 128"
definition MAX_CAPABILITY_LENGTH :: nat where "MAX_CAPABILITY_LENGTH = 64"
definition MAX_DIAGNOSTIC_CODE_LENGTH :: nat where "MAX_DIAGNOSTIC_CODE_LENGTH = 64"
definition MAX_EVIDENCE_KIND_LENGTH :: nat where "MAX_EVIDENCE_KIND_LENGTH = 64"

lemmas value_bounds = MAX_OPAQUE_ID_LENGTH_def MAX_IDEMPOTENCY_KEY_LENGTH_def
  MAX_CAPABILITY_LENGTH_def MAX_DIAGNOSTIC_CODE_LENGTH_def MAX_EVIDENCE_KIND_LENGTH_def

definition is_separator :: "char \<Rightarrow> bool" where
  "is_separator c \<longleftrightarrow> c = CHR ''.'' \<or> c = CHR ''_'' \<or> c = CHR '':'' \<or> c = CHR ''-''"

definition validate_opaque :: "str \<Rightarrow> str \<Rightarrow> nat \<Rightarrow> (unit, domain_error) result" where
  "validate_opaque value field maximum =
     (if value = [] then Err (Empty field)
      else if length value > maximum then Err (TooLong field maximum (length value))
      else case value of
        [] \<Rightarrow> Err (Empty field)
      | first # rest \<Rightarrow>
          if \<not> is_ascii_alphanumeric first
             \<or> \<not> list_all (\<lambda>b. is_ascii_alphanumeric b \<or> is_separator b) rest
          then Err (InvalidFormat field
                 ''use ASCII letters, digits, dot, underscore, colon, or hyphen'')
          else Ok ())"

text \<open>The expansion of \<open>opaque_id!\<close>: parse the text under the type's field name, then wrap it.\<close>

definition parse_opaque_id :: "(str \<Rightarrow> 'a) \<Rightarrow> str \<Rightarrow> str \<Rightarrow> ('a, domain_error) result" where
  "parse_opaque_id mk field value =
     and_then (validate_opaque value field MAX_OPAQUE_ID_LENGTH) (\<lambda>_. Ok (mk value))"

datatype request_id = RequestId (request_id_str: str)
datatype problem_id = ProblemId (problem_id_str: str)
datatype problem_version_id = ProblemVersionId (problem_version_id_str: str)
datatype submission_id = SubmissionId (submission_id_str: str)
datatype evaluation_id = EvaluationId (evaluation_id_str: str)
datatype attempt_id = AttemptId (attempt_id_str: str)
datatype runtime_id = RuntimeId (runtime_id_str: str)
datatype artifact_id = ArtifactId (artifact_id_str: str)
datatype evidence_id = EvidenceId (evidence_id_str: str)
datatype node_id = NodeId (node_id_str: str)
datatype lease_token = LeaseToken (lease_token_str: str)
datatype claim_operation_id = ClaimOperationId (claim_operation_id_str: str)
datatype result_operation_id = ResultOperationId (result_operation_id_str: str)

definition RequestId_parse where
  "RequestId_parse = parse_opaque_id RequestId ''request_id''"
definition ProblemId_parse where
  "ProblemId_parse = parse_opaque_id ProblemId ''problem_id''"
definition ProblemVersionId_parse where
  "ProblemVersionId_parse = parse_opaque_id ProblemVersionId ''problem_version_id''"
definition SubmissionId_parse where
  "SubmissionId_parse = parse_opaque_id SubmissionId ''submission_id''"
definition EvaluationId_parse where
  "EvaluationId_parse = parse_opaque_id EvaluationId ''evaluation_id''"
definition AttemptId_parse where
  "AttemptId_parse = parse_opaque_id AttemptId ''attempt_id''"
definition RuntimeId_parse where
  "RuntimeId_parse = parse_opaque_id RuntimeId ''runtime_id''"
definition ArtifactId_parse where
  "ArtifactId_parse = parse_opaque_id ArtifactId ''artifact_id''"
definition EvidenceId_parse where
  "EvidenceId_parse = parse_opaque_id EvidenceId ''evidence_id''"
definition NodeId_parse where
  "NodeId_parse = parse_opaque_id NodeId ''node_id''"
definition LeaseToken_parse where
  "LeaseToken_parse = parse_opaque_id LeaseToken ''lease_token''"
definition ClaimOperationId_parse where
  "ClaimOperationId_parse = parse_opaque_id ClaimOperationId ''claim_operation_id''"
definition ResultOperationId_parse where
  "ResultOperationId_parse = parse_opaque_id ResultOperationId ''result_operation_id''"

lemmas opaque_parse_defs = RequestId_parse_def ProblemId_parse_def ProblemVersionId_parse_def
  SubmissionId_parse_def EvaluationId_parse_def AttemptId_parse_def RuntimeId_parse_def
  ArtifactId_parse_def EvidenceId_parse_def NodeId_parse_def LeaseToken_parse_def
  ClaimOperationId_parse_def ResultOperationId_parse_def

datatype idempotency_key = IdempotencyKey (idempotency_key_str: str)

definition IdempotencyKey_parse :: "str \<Rightarrow> (idempotency_key, domain_error) result" where
  "IdempotencyKey_parse value =
     and_then (validate_opaque value ''idempotency_key'' MAX_IDEMPOTENCY_KEY_LENGTH)
       (\<lambda>_. Ok (IdempotencyKey value))"

text \<open>The canonical opaque-identifier alphabet, as a predicate on the text.\<close>

definition opaque_ok :: "nat \<Rightarrow> str \<Rightarrow> bool" where
  "opaque_ok maximum s \<longleftrightarrow>
     s \<noteq> [] \<and> length s \<le> maximum \<and> is_ascii_alphanumeric (hd s) \<and>
     list_all (\<lambda>b. is_ascii_alphanumeric b \<or> is_separator b) (tl s)"

lemma validate_opaque_Ok_iff: "validate_opaque s f m = Ok u \<longleftrightarrow> opaque_ok m s"
  by (cases s) (auto simp: validate_opaque_def opaque_ok_def)

lemma parse_opaque_id_Ok_iff:
  "parse_opaque_id mk f s = Ok v \<longleftrightarrow> opaque_ok MAX_OPAQUE_ID_LENGTH s \<and> v = mk s"
  by (auto simp: parse_opaque_id_def and_then_Ok_iff validate_opaque_Ok_iff)

lemma parse_opaque_id_Ok [res_simps]:
  "opaque_ok MAX_OPAQUE_ID_LENGTH s \<Longrightarrow> parse_opaque_id mk f s = Ok (mk s)"
  by (simp add: parse_opaque_id_Ok_iff)

lemma IdempotencyKey_parse_Ok_iff:
  "IdempotencyKey_parse s = Ok v \<longleftrightarrow>
     opaque_ok MAX_IDEMPOTENCY_KEY_LENGTH s \<and> v = IdempotencyKey s"
  by (auto simp: IdempotencyKey_parse_def and_then_Ok_iff validate_opaque_Ok_iff)

lemma IdempotencyKey_parse_Ok [res_simps]:
  "opaque_ok MAX_IDEMPOTENCY_KEY_LENGTH s \<Longrightarrow> IdempotencyKey_parse s = Ok (IdempotencyKey s)"
  by (simp add: IdempotencyKey_parse_Ok_iff)

text \<open>
  Every identifier of 64 bytes is also an idempotency key: the control plane parses a result
  operation identifier as one.
\<close>

lemma opaque_ok_mono: "opaque_ok m s \<Longrightarrow> m \<le> n \<Longrightarrow> opaque_ok n s"
  by (auto simp: opaque_ok_def)

section \<open>Content digests\<close>

datatype content_digest = ContentDigest (content_digest_str: str)

definition is_lower_hex :: "char \<Rightarrow> bool" where
  "is_lower_hex c \<longleftrightarrow> is_ascii_digit c \<or> (97 \<le> byte_code c \<and> byte_code c \<le> 102)"

definition ContentDigest_parse :: "str \<Rightarrow> (content_digest, domain_error) result" where
  "ContentDigest_parse value =
     (case strip_prefix ''sha256:'' value of
        None \<Rightarrow> Err (InvalidFormat ''content_digest''
                   ''only lowercase sha256 digests are accepted'')
      | Some hex \<Rightarrow>
          if length hex \<noteq> 64 \<or> \<not> list_all is_lower_hex hex
          then Err (InvalidFormat ''content_digest''
                 ''expected sha256 followed by 64 lowercase hexadecimal characters'')
          else Ok (ContentDigest value))"

definition digest_ok :: "str \<Rightarrow> bool" where
  "digest_ok s \<longleftrightarrow>
     (\<exists>hex. s = ''sha256:'' @ hex \<and> length hex = 64 \<and> list_all is_lower_hex hex)"

lemma ContentDigest_parse_Ok_iff:
  "ContentDigest_parse s = Ok d \<longleftrightarrow> digest_ok s \<and> d = ContentDigest s"
proof (cases "strip_prefix ''sha256:'' s")
  case None
  then have "\<And>r. s \<noteq> ''sha256:'' @ r"
    using strip_prefix_Some_iff by force
  then show ?thesis
    using None by (auto simp: ContentDigest_parse_def digest_ok_def)
next
  case (Some hex)
  then have "s = ''sha256:'' @ hex"
    by (simp only: strip_prefix_Some_iff)
  then show ?thesis
    using Some by (auto simp: ContentDigest_parse_def digest_ok_def)
qed

lemma ContentDigest_parse_Ok [res_simps]:
  "digest_ok s \<Longrightarrow> ContentDigest_parse s = Ok (ContentDigest s)"
  by (simp add: ContentDigest_parse_Ok_iff)

section \<open>Lowercase tokens\<close>

text \<open>
  The loop of \<open>validate_lower_token\<close>: \<open>segment_start\<close> is true at the start and after a
  separator; the final flag is what the code tests after the loop.
\<close>

fun lower_token_loop :: "str \<Rightarrow> str \<Rightarrow> bool \<Rightarrow> str \<Rightarrow> (bool, domain_error) result" where
  "lower_token_loop value field segment_start [] = Ok segment_start"
| "lower_token_loop value field segment_start (byte # rest) =
     (if is_separator byte
      then if segment_start
           then Err (InvalidFormat field
                  ''separators must occur between lowercase alphanumeric segments'')
           else lower_token_loop value field True rest
      else if is_ascii_lowercase byte \<or> is_ascii_digit byte
      then if segment_start \<and> is_ascii_digit byte
              \<and> (case value of [] \<Rightarrow> False | first # _ \<Rightarrow> first = byte)
           then Err (InvalidFormat field
                  ''the first segment must start with a lowercase letter'')
           else lower_token_loop value field False rest
      else Err (InvalidFormat field
             ''use lowercase ASCII letters, digits, and bounded separators''))"

definition validate_lower_token :: "str \<Rightarrow> str \<Rightarrow> nat \<Rightarrow> (unit, domain_error) result" where
  "validate_lower_token value field maximum =
     (if value = [] then Err (Empty field)
      else if length value > maximum then Err (TooLong field maximum (length value))
      else and_then (lower_token_loop value field True value) (\<lambda>segment_start.
        if segment_start
        then Err (InvalidFormat field ''the value must not end with a separator'')
        else Ok ()))"

datatype capability = Capability (capability_str: str)
datatype evidence_kind = EvidenceKind (evidence_kind_str: str)
datatype diagnostic_code = DiagnosticCode (diagnostic_code_str: str)

definition Capability_parse :: "str \<Rightarrow> (capability, domain_error) result" where
  "Capability_parse value =
     and_then (validate_lower_token value ''capability'' MAX_CAPABILITY_LENGTH)
       (\<lambda>_. Ok (Capability value))"

definition EvidenceKind_parse :: "str \<Rightarrow> (evidence_kind, domain_error) result" where
  "EvidenceKind_parse value =
     and_then (validate_lower_token value ''evidence_kind'' MAX_EVIDENCE_KIND_LENGTH)
       (\<lambda>_. Ok (EvidenceKind value))"

definition DiagnosticCode_parse :: "str \<Rightarrow> (diagnostic_code, domain_error) result" where
  "DiagnosticCode_parse value =
     (if value = [] then Err (Empty ''diagnostic_code'')
      else if length value > MAX_DIAGNOSTIC_CODE_LENGTH
      then Err (TooLong ''diagnostic_code'' MAX_DIAGNOSTIC_CODE_LENGTH (length value))
      else if \<not> is_ascii_uppercase (hd value)
           \<or> \<not> list_all (\<lambda>b. is_ascii_uppercase b \<or> is_ascii_digit b \<or> b = CHR ''_'') value
      then Err (InvalidFormat ''diagnostic_code''
             ''use uppercase ASCII letters, digits, and underscore'')
      else Ok (DiagnosticCode value))"

text \<open>
  The grammar the canonical schema gives for these tokens, \<open>[a-z][a-z0-9]*([._:-][a-z0-9]+)*\<close>:
  the text cut at its separators, each piece non-empty and lowercase alphanumeric, the first
  one starting with a letter.
\<close>

fun segments :: "str \<Rightarrow> str list" where
  "segments [] = [[]]"
| "segments (c # cs) =
     (if is_separator c then [] # segments cs
      else case segments cs of [] \<Rightarrow> [[c]] | s # ss \<Rightarrow> (c # s) # ss)"

definition is_lower_alnum :: "char \<Rightarrow> bool" where
  "is_lower_alnum c \<longleftrightarrow> is_ascii_lowercase c \<or> is_ascii_digit c"

definition lower_token_ok :: "nat \<Rightarrow> str \<Rightarrow> bool" where
  "lower_token_ok maximum s \<longleftrightarrow>
     length s \<le> maximum \<and> s \<noteq> [] \<and> is_ascii_lowercase (hd s) \<and>
     list_all (\<lambda>seg. seg \<noteq> [] \<and> list_all is_lower_alnum seg) (segments s)"

lemma segments_not_Nil [simp]: "segments s \<noteq> []"
  by (cases s) (auto split: list.splits)

lemma separator_not_lower_alnum: "is_separator c \<Longrightarrow> \<not> is_lower_alnum c"
  by (auto simp: is_separator_def is_lower_alnum_def ascii_defs)

text \<open>
  The loop in terms of the pieces that are left: in the middle of a piece the first of them
  may be empty.
\<close>

lemma lower_token_loop_Ok_iff:
  assumes "value = v # vs" and "is_ascii_lowercase v"
  shows "lower_token_loop value f b bs = Ok False \<longleftrightarrow>
     list_all (list_all is_lower_alnum) (segments bs) \<and>
     list_all (\<lambda>seg. seg \<noteq> []) (tl (segments bs)) \<and> (b \<longrightarrow> hd (segments bs) \<noteq> [])"
proof (induction bs arbitrary: b)
  case Nil
  show ?case by simp
next
  case (Cons c cs)
  obtain s ss where seg: "segments cs = s # ss"
    by (cases "segments cs") auto
  have first: "is_ascii_digit c \<Longrightarrow> v \<noteq> c"
    using assms(2) by (auto simp: ascii_defs)
  show ?case
  proof (cases "is_separator c")
    case True
    then show ?thesis using Cons.IH [of True] seg by auto
  next
    case False
    then show ?thesis
      using Cons.IH [of False] seg first assms(1) by (auto simp: is_lower_alnum_def)
  qed
qed

lemma lower_token_loop_first:
  assumes "\<not> is_ascii_lowercase c"
  shows "\<exists>e. lower_token_loop (c # cs) f True (c # cs) = Err e"
  using assms by auto

lemma validate_lower_token_Ok_iff:
  "validate_lower_token s f m = Ok u \<longleftrightarrow> lower_token_ok m s"
proof (cases s)
  case Nil
  then show ?thesis by (simp add: validate_lower_token_def lower_token_ok_def)
next
  case (Cons c cs)
  show ?thesis
  proof (cases "is_ascii_lowercase c")
    case True
    have "validate_lower_token s f m = Ok u \<longleftrightarrow>
        length s \<le> m \<and> lower_token_loop s f True s = Ok False"
      using Cons by (auto simp: validate_lower_token_def and_then_Ok_iff simp del: lower_token_loop.simps)
    also have "\<dots> \<longleftrightarrow> lower_token_ok m s"
      unfolding lower_token_loop_Ok_iff [OF Cons True, of f True s]
      using Cons True by (cases "segments s") (auto simp: lower_token_ok_def list_all_iff
          simp del: segments.simps)
    finally show ?thesis .
  next
    case False
    then obtain e where "lower_token_loop s f True s = Err e"
      using lower_token_loop_first Cons by blast
    then show ?thesis
      using Cons False by (auto simp: validate_lower_token_def lower_token_ok_def
          simp del: lower_token_loop.simps)
  qed
qed

lemma Capability_parse_Ok_iff:
  "Capability_parse s = Ok c \<longleftrightarrow> lower_token_ok MAX_CAPABILITY_LENGTH s \<and> c = Capability s"
  by (auto simp: Capability_parse_def and_then_Ok_iff validate_lower_token_Ok_iff)

lemma EvidenceKind_parse_Ok_iff:
  "EvidenceKind_parse s = Ok c \<longleftrightarrow>
     lower_token_ok MAX_EVIDENCE_KIND_LENGTH s \<and> c = EvidenceKind s"
  by (auto simp: EvidenceKind_parse_def and_then_Ok_iff validate_lower_token_Ok_iff)

lemma Capability_parse_Ok [res_simps]:
  "lower_token_ok MAX_CAPABILITY_LENGTH s \<Longrightarrow> Capability_parse s = Ok (Capability s)"
  by (simp add: Capability_parse_Ok_iff)

lemma EvidenceKind_parse_Ok [res_simps]:
  "lower_token_ok MAX_EVIDENCE_KIND_LENGTH s \<Longrightarrow> EvidenceKind_parse s = Ok (EvidenceKind s)"
  by (simp add: EvidenceKind_parse_Ok_iff)

definition diagnostic_code_ok :: "str \<Rightarrow> bool" where
  "diagnostic_code_ok s \<longleftrightarrow>
     s \<noteq> [] \<and> length s \<le> MAX_DIAGNOSTIC_CODE_LENGTH \<and> is_ascii_uppercase (hd s) \<and>
     list_all (\<lambda>b. is_ascii_uppercase b \<or> is_ascii_digit b \<or> b = CHR ''_'') s"

lemma DiagnosticCode_parse_Ok_iff:
  "DiagnosticCode_parse s = Ok c \<longleftrightarrow> diagnostic_code_ok s \<and> c = DiagnosticCode s"
  by (auto simp: DiagnosticCode_parse_def diagnostic_code_ok_def)

lemma DiagnosticCode_parse_Ok [res_simps]:
  "diagnostic_code_ok s \<Longrightarrow> DiagnosticCode_parse s = Ok (DiagnosticCode s)"
  by (simp add: DiagnosticCode_parse_Ok_iff)

text \<open>
  Capabilities and node identities order as their texts do (the derived \<open>Ord\<close>), which is the
  order of the \<open>BTreeSet\<close> and \<open>BTreeMap\<close> that hold them.
\<close>

instantiation capability :: linorder
begin

definition less_eq_capability :: "capability \<Rightarrow> capability \<Rightarrow> bool" where
  "less_eq_capability a b \<longleftrightarrow> capability_str a \<le> capability_str b"

definition less_capability :: "capability \<Rightarrow> capability \<Rightarrow> bool" where
  "less_capability a b \<longleftrightarrow> capability_str a < capability_str b"

instance
  by standard (auto simp: less_eq_capability_def less_capability_def intro: capability.expand)

end

instantiation node_id :: linorder
begin

definition less_eq_node_id :: "node_id \<Rightarrow> node_id \<Rightarrow> bool" where
  "less_eq_node_id a b \<longleftrightarrow> node_id_str a \<le> node_id_str b"

definition less_node_id :: "node_id \<Rightarrow> node_id \<Rightarrow> bool" where
  "less_node_id a b \<longleftrightarrow> node_id_str a < node_id_str b"

instance
  by standard (auto simp: less_eq_node_id_def less_node_id_def intro: node_id.expand)

end

section \<open>Artifact references\<close>

definition MAX_ARTIFACT_BYTES :: u64 where "MAX_ARTIFACT_BYTES = 1099511627776"
definition MAX_MEDIA_TYPE_LENGTH :: nat where "MAX_MEDIA_TYPE_LENGTH = 129"

datatype artifact_sensitivity =
    ArtifactSensitivity_Public
  | ArtifactSensitivity_Private
  | ArtifactSensitivity_Hidden

datatype media_type = MediaType (media_type_str: str)

definition is_media_type_byte :: "char \<Rightarrow> bool" where
  "is_media_type_byte c \<longleftrightarrow> is_ascii_alphanumeric c \<or> c \<in> set ''!#$&^_.+-''"

definition MediaType_parse :: "str \<Rightarrow> (media_type, domain_error) result" where
  "MediaType_parse value =
     (if length value > MAX_MEDIA_TYPE_LENGTH
      then Err (TooLong ''media_type'' MAX_MEDIA_TYPE_LENGTH (length value))
      else case split_once (CHR ''/'') value of
        None \<Rightarrow> Err (InvalidFormat ''media_type'' ''expected type/subtype'')
      | Some (top_level, subtype) \<Rightarrow>
          if top_level = [] \<or> subtype = [] \<or> length top_level > 64 \<or> length subtype > 64
             \<or> \<not> list_all is_media_type_byte top_level
             \<or> \<not> list_all is_media_type_byte subtype
          then Err (InvalidFormat ''media_type''
                 ''type and subtype must be bounded ASCII tokens'')
          else Ok (MediaType value))"

definition media_type_ok :: "str \<Rightarrow> bool" where
  "media_type_ok s \<longleftrightarrow>
     (\<exists>top sub. s = top @ CHR ''/'' # sub \<and> top \<noteq> [] \<and> sub \<noteq> [] \<and>
        length top \<le> 64 \<and> length sub \<le> 64 \<and>
        list_all is_media_type_byte top \<and> list_all is_media_type_byte sub)"

lemma slash_not_media_type_byte: "list_all is_media_type_byte t \<Longrightarrow> CHR ''/'' \<notin> set t"
  by (auto simp: list_all_iff is_media_type_byte_def ascii_defs)

lemma MediaType_parse_Ok_iff:
  "MediaType_parse s = Ok t \<longleftrightarrow> media_type_ok s \<and> t = MediaType s"
proof
  assume ok: "MediaType_parse s = Ok t"
  then obtain top sub where "split_once (CHR ''/'') s = Some (top, sub)"
    and parts: "top \<noteq> []" "sub \<noteq> []" "length top \<le> 64" "length sub \<le> 64"
      "list_all is_media_type_byte top" "list_all is_media_type_byte sub" "t = MediaType s"
    by (auto simp: MediaType_parse_def split: if_splits option.splits)
  then have "s = top @ CHR ''/'' # sub"
    using split_once_Some by blast
  then show "media_type_ok s \<and> t = MediaType s"
    using parts by (auto simp: media_type_ok_def)
next
  assume "media_type_ok s \<and> t = MediaType s"
  then obtain top sub where s: "s = top @ CHR ''/'' # sub" and t: "t = MediaType s"
    and parts: "top \<noteq> []" "sub \<noteq> []" "length top \<le> 64" "length sub \<le> 64"
      "list_all is_media_type_byte top" "list_all is_media_type_byte sub"
    by (auto simp: media_type_ok_def)
  have "split_once (CHR ''/'') s = Some (top, sub)"
    using s split_once_append [OF slash_not_media_type_byte [OF parts(5)]] by simp
  then show "MediaType_parse s = Ok t"
    using s t parts by (auto simp: MediaType_parse_def MAX_MEDIA_TYPE_LENGTH_def)
qed

lemma MediaType_parse_Ok [res_simps]: "media_type_ok s \<Longrightarrow> MediaType_parse s = Ok (MediaType s)"
  by (simp add: MediaType_parse_Ok_iff)

record artifact_ref =
  art_artifact_id :: artifact_id
  art_digest :: content_digest
  art_media_type :: media_type
  art_size_bytes :: u64
  art_sensitivity :: artifact_sensitivity

definition ArtifactRef_new ::
  "artifact_id \<Rightarrow> content_digest \<Rightarrow> media_type \<Rightarrow> u64 \<Rightarrow> artifact_sensitivity \<Rightarrow>
     (artifact_ref, domain_error) result" where
  "ArtifactRef_new artifact_id digest media_type size_bytes sensitivity =
     (if size_bytes > MAX_ARTIFACT_BYTES
      then Err (OutOfRange ''artifact_size_bytes'' 0 MAX_ARTIFACT_BYTES size_bytes)
      else Ok \<lparr>art_artifact_id = artifact_id, art_digest = digest,
               art_media_type = media_type, art_size_bytes = size_bytes,
               art_sensitivity = sensitivity\<rparr>)"

section \<open>The values a program can hold\<close>

text \<open>
  The fields of the source's types are private, so a value of a type satisfies what its
  constructor checks.  \<open>id_ok\<close> is that condition for the text of an opaque identifier.
\<close>

abbreviation id_ok :: "str \<Rightarrow> bool" where
  "id_ok \<equiv> opaque_ok MAX_OPAQUE_ID_LENGTH"

definition artifact_ref_ok :: "artifact_ref \<Rightarrow> bool" where
  "artifact_ref_ok a \<longleftrightarrow>
     id_ok (artifact_id_str (art_artifact_id a)) \<and>
     digest_ok (content_digest_str (art_digest a)) \<and>
     media_type_ok (media_type_str (art_media_type a)) \<and>
     art_size_bytes a \<le> MAX_ARTIFACT_BYTES"

lemma ArtifactRef_new_Ok_iff:
  "ArtifactRef_new i d m z s = Ok a \<longleftrightarrow> z \<le> MAX_ARTIFACT_BYTES \<and>
     a = \<lparr>art_artifact_id = i, art_digest = d, art_media_type = m,
          art_size_bytes = z, art_sensitivity = s\<rparr>"
  by (auto simp: ArtifactRef_new_def not_le [symmetric])

end
