(* ===== verification/Domain_Control.thy ===== *)
theory Domain_Control
  imports Domain_Values
begin

text \<open>
  \<open>crates/openoj-domain/src/control.rs\<close>: bounded timestamps and lease durations, and the
  lifecycles of an Evaluation and of an Attempt.
\<close>

section \<open>Time\<close>

definition MAX_UNIX_MILLIS :: u64 where "MAX_UNIX_MILLIS = 253402300799999"
definition MAX_LEASE_DURATION_MS :: u64 where "MAX_LEASE_DURATION_MS = 3600000"

datatype unix_millis = UnixMillis (unix_millis_value: u64)
datatype lease_duration = LeaseDuration (lease_duration_value: u64)

definition UnixMillis_new :: "u64 \<Rightarrow> (unix_millis, domain_error) result" where
  "UnixMillis_new value =
     (if value > MAX_UNIX_MILLIS then Err (OutOfRange ''unix_millis'' 0 MAX_UNIX_MILLIS value)
      else Ok (UnixMillis value))"

definition LeaseDuration_new :: "u64 \<Rightarrow> (lease_duration, domain_error) result" where
  "LeaseDuration_new value =
     (if \<not> (1 \<le> value \<and> value \<le> MAX_LEASE_DURATION_MS)
      then Err (OutOfRange ''lease_duration_ms'' 1 MAX_LEASE_DURATION_MS value)
      else Ok (LeaseDuration value))"

text \<open>The sum is the wrapping \<open>u64\<close> addition; the code adds without a check.\<close>

definition UnixMillis_checked_add ::
  "unix_millis \<Rightarrow> lease_duration \<Rightarrow> (unix_millis, domain_error) result" where
  "UnixMillis_checked_add self duration =
     (let actual = unix_millis_value self + lease_duration_value duration in
      if actual > MAX_UNIX_MILLIS
      then Err (OutOfRange ''lease_expires_at_ms'' 0 MAX_UNIX_MILLIS actual)
      else Ok (UnixMillis actual))"

definition unix_millis_ok :: "unix_millis \<Rightarrow> bool" where
  "unix_millis_ok t \<longleftrightarrow> unix_millis_value t \<le> MAX_UNIX_MILLIS"

definition lease_duration_ok :: "lease_duration \<Rightarrow> bool" where
  "lease_duration_ok d \<longleftrightarrow>
     1 \<le> lease_duration_value d \<and> lease_duration_value d \<le> MAX_LEASE_DURATION_MS"

text \<open>A timestamp as the number the database compares.\<close>

definition millis :: "unix_millis \<Rightarrow> int" where
  "millis t = uint (unix_millis_value t)"

lemma UnixMillis_new_Ok_iff: "UnixMillis_new v = Ok t \<longleftrightarrow> v \<le> MAX_UNIX_MILLIS \<and> t = UnixMillis v"
  by (auto simp: UnixMillis_new_def not_le [symmetric])

lemma LeaseDuration_new_Ok_iff:
  "LeaseDuration_new v = Ok d \<longleftrightarrow> 1 \<le> v \<and> v \<le> MAX_LEASE_DURATION_MS \<and> d = LeaseDuration v"
  by (auto simp: LeaseDuration_new_def)

lemma UnixMillis_new_ok: "UnixMillis_new v = Ok t \<Longrightarrow> unix_millis_ok t"
  by (auto simp: UnixMillis_new_Ok_iff unix_millis_ok_def)

lemma LeaseDuration_new_ok: "LeaseDuration_new v = Ok d \<Longrightarrow> lease_duration_ok d"
  by (auto simp: LeaseDuration_new_Ok_iff lease_duration_ok_def)

lemma millis_bounds: "unix_millis_ok t \<Longrightarrow> 0 \<le> millis t \<and> millis t \<le> 253402300799999"
  by (cases t) (auto simp: unix_millis_ok_def millis_def MAX_UNIX_MILLIS_def word_le_def)

text \<open>Bounded operands cannot wrap, so the unchecked addition is the addition of numbers.\<close>

lemma uint_checked_add:
  assumes "unix_millis_ok t" and "lease_duration_ok d"
  shows "uint (unix_millis_value t + lease_duration_value d) =
     uint (unix_millis_value t) + uint (lease_duration_value d)"
proof -
  have "uint (unix_millis_value t) \<le> 253402300799999" "uint (lease_duration_value d) \<le> 3600000"
    using assms by (auto simp: unix_millis_ok_def lease_duration_ok_def MAX_UNIX_MILLIS_def
        MAX_LEASE_DURATION_MS_def word_le_def)
  moreover have "0 \<le> uint (unix_millis_value t)" "0 \<le> uint (lease_duration_value d)"
    by simp_all
  ultimately show ?thesis
    by (simp add: uint_word_ariths mod_pos_pos_trivial)
qed

lemma UnixMillis_checked_add_Ok_iff:
  assumes "unix_millis_ok t" and "lease_duration_ok d"
  shows "UnixMillis_checked_add t d = Ok e \<longleftrightarrow>
     millis e = millis t + uint (lease_duration_value d) \<and> millis e \<le> 253402300799999"
proof -
  have "(unix_millis_value t + lease_duration_value d > MAX_UNIX_MILLIS) \<longleftrightarrow>
      \<not> (millis t + uint (lease_duration_value d) \<le> 253402300799999)"
    by (simp add: MAX_UNIX_MILLIS_def word_less_def uint_checked_add [OF assms] millis_def not_le)
  then show ?thesis
    by (cases e) (auto simp: UnixMillis_checked_add_def Let_def millis_def
        uint_checked_add [OF assms] word_uint_eq_iff)
qed

lemma UnixMillis_checked_add_ok:
  "UnixMillis_checked_add t d = Ok e \<Longrightarrow> unix_millis_ok e"
  by (auto simp: UnixMillis_checked_add_def Let_def unix_millis_ok_def split: if_splits)

section \<open>Lifecycles\<close>

datatype evaluation_state =
    EvaluationState_Queued
  | EvaluationState_Leased
  | EvaluationState_Completed
  | EvaluationState_Failed
  | EvaluationState_Cancelled

fun EvaluationState_as_str :: "evaluation_state \<Rightarrow> str" where
  "EvaluationState_as_str EvaluationState_Queued = ''queued''"
| "EvaluationState_as_str EvaluationState_Leased = ''leased''"
| "EvaluationState_as_str EvaluationState_Completed = ''completed''"
| "EvaluationState_as_str EvaluationState_Failed = ''failed''"
| "EvaluationState_as_str EvaluationState_Cancelled = ''cancelled''"

fun evaluation_transition_valid :: "evaluation_state \<Rightarrow> evaluation_state \<Rightarrow> bool" where
  "evaluation_transition_valid EvaluationState_Queued EvaluationState_Leased = True"
| "evaluation_transition_valid EvaluationState_Queued EvaluationState_Cancelled = True"
| "evaluation_transition_valid EvaluationState_Leased EvaluationState_Queued = True"
| "evaluation_transition_valid EvaluationState_Leased EvaluationState_Completed = True"
| "evaluation_transition_valid EvaluationState_Leased EvaluationState_Failed = True"
| "evaluation_transition_valid EvaluationState_Leased EvaluationState_Cancelled = True"
| "evaluation_transition_valid _ _ = False"

definition EvaluationState_transition_to ::
  "evaluation_state \<Rightarrow> evaluation_state \<Rightarrow> (evaluation_state, domain_error) result" where
  "EvaluationState_transition_to self next =
     (if \<not> evaluation_transition_valid self next
      then Err (InvalidTransition ''evaluation'' (EvaluationState_as_str self)
                  (EvaluationState_as_str next))
      else Ok next)"

datatype attempt_state =
    AttemptState_Queued
  | AttemptState_Leased
  | AttemptState_Completed
  | AttemptState_Failed
  | AttemptState_Cancelled
  | AttemptState_Expired

fun AttemptState_as_str :: "attempt_state \<Rightarrow> str" where
  "AttemptState_as_str AttemptState_Queued = ''queued''"
| "AttemptState_as_str AttemptState_Leased = ''leased''"
| "AttemptState_as_str AttemptState_Completed = ''completed''"
| "AttemptState_as_str AttemptState_Failed = ''failed''"
| "AttemptState_as_str AttemptState_Cancelled = ''cancelled''"
| "AttemptState_as_str AttemptState_Expired = ''expired''"

fun attempt_transition_valid :: "attempt_state \<Rightarrow> attempt_state \<Rightarrow> bool" where
  "attempt_transition_valid AttemptState_Queued AttemptState_Leased = True"
| "attempt_transition_valid AttemptState_Queued AttemptState_Cancelled = True"
| "attempt_transition_valid AttemptState_Leased AttemptState_Completed = True"
| "attempt_transition_valid AttemptState_Leased AttemptState_Failed = True"
| "attempt_transition_valid AttemptState_Leased AttemptState_Cancelled = True"
| "attempt_transition_valid AttemptState_Leased AttemptState_Expired = True"
| "attempt_transition_valid _ _ = False"

definition AttemptState_transition_to ::
  "attempt_state \<Rightarrow> attempt_state \<Rightarrow> (attempt_state, domain_error) result" where
  "AttemptState_transition_to self next =
     (if \<not> attempt_transition_valid self next
      then Err (InvalidTransition ''attempt'' (AttemptState_as_str self)
                  (AttemptState_as_str next))
      else Ok next)"

fun evaluation_terminal :: "evaluation_state \<Rightarrow> bool" where
  "evaluation_terminal EvaluationState_Queued = False"
| "evaluation_terminal EvaluationState_Leased = False"
| "evaluation_terminal _ = True"

fun attempt_terminal :: "attempt_state \<Rightarrow> bool" where
  "attempt_terminal AttemptState_Queued = False"
| "attempt_terminal AttemptState_Leased = False"
| "attempt_terminal _ = True"

lemma evaluation_terminal_final:
  "evaluation_terminal s \<longleftrightarrow> (\<forall>t. \<not> is_ok (EvaluationState_transition_to s t))"
  by (cases s) (auto simp: EvaluationState_transition_to_def
      intro: exI [of _ EvaluationState_Leased] exI [of _ EvaluationState_Queued])

lemma attempt_terminal_final:
  "attempt_terminal s \<longleftrightarrow> (\<forall>t. \<not> is_ok (AttemptState_transition_to s t))"
  by (cases s) (auto simp: AttemptState_transition_to_def
      intro: exI [of _ AttemptState_Leased] exI [of _ AttemptState_Expired])

text \<open>
  An attempt never goes back: every step raises its rank, so an attempt takes at most two
  steps.
\<close>

fun attempt_rank :: "attempt_state \<Rightarrow> nat" where
  "attempt_rank AttemptState_Queued = 0"
| "attempt_rank AttemptState_Leased = 1"
| "attempt_rank _ = 2"

lemma attempt_transition_rank: "attempt_transition_valid s t \<Longrightarrow> attempt_rank s < attempt_rank t"
  by (induction s t rule: attempt_transition_valid.induct) auto

lemma EvaluationState_as_str_inject [simp]:
  "EvaluationState_as_str s = EvaluationState_as_str t \<longleftrightarrow> s = t"
  by (cases s; cases t) auto

lemma AttemptState_as_str_inject [simp]:
  "AttemptState_as_str s = AttemptState_as_str t \<longleftrightarrow> s = t"
  by (cases s; cases t) auto

end
