(* ===== verification/Domain_Evaluation.thy ===== *)
theory Domain_Evaluation
  imports Domain_Control
begin

text \<open>
  \<open>crates/openoj-domain/src/evaluation.rs\<close>: plans, policies, requests, usage, reports, scores,
  provenance and results, each with the checks of its constructor.  The predicates ending in
  \<open>_ok\<close> describe the values the constructors can build; \<open>terminal_semantics\<close> is the
  declarative form of what \<open>validate_terminal_semantics\<close> accepts.
\<close>

definition MAX_CAPABILITIES :: nat where "MAX_CAPABILITIES = 32"
definition MAX_STAGES :: nat where "MAX_STAGES = 32"
definition MAX_STAGE_DIAGNOSTICS :: nat where "MAX_STAGE_DIAGNOSTICS = 64"
definition MAX_STAGE_EVIDENCE :: nat where "MAX_STAGE_EVIDENCE = 256"
definition MAX_RESULT_DIAGNOSTICS :: nat where "MAX_RESULT_DIAGNOSTICS = 64"
definition MAX_RESULT_EVIDENCE :: nat where "MAX_RESULT_EVIDENCE = 256"
definition MAX_DIAGNOSTIC_MESSAGE_LENGTH :: nat where "MAX_DIAGNOSTIC_MESSAGE_LENGTH = 2048"
definition MAX_CPU_TIME_MS :: u64 where "MAX_CPU_TIME_MS = 86400000"
definition MAX_WALL_TIME_MS :: u64 where "MAX_WALL_TIME_MS = 86400000"
definition MAX_MEMORY_BYTES :: u64 where "MAX_MEMORY_BYTES = 1099511627776"
definition MAX_OUTPUT_BYTES :: u64 where "MAX_OUTPUT_BYTES = 1073741824"
definition MAX_PROCESS_LIMIT :: u64 where "MAX_PROCESS_LIMIT = 65535"

lemmas evaluation_bounds = MAX_CAPABILITIES_def MAX_STAGES_def MAX_STAGE_DIAGNOSTICS_def
  MAX_STAGE_EVIDENCE_def MAX_RESULT_DIAGNOSTICS_def MAX_RESULT_EVIDENCE_def
  MAX_DIAGNOSTIC_MESSAGE_LENGTH_def MAX_CPU_TIME_MS_def MAX_WALL_TIME_MS_def
  MAX_MEMORY_BYTES_def MAX_OUTPUT_BYTES_def MAX_PROCESS_LIMIT_def

section \<open>Plans\<close>

datatype stage_kind =
    StageKind_Prepare
  | StageKind_Build
  | StageKind_Run
  | StageKind_Check
  | StageKind_Aggregate

fun StageKind_as_str :: "stage_kind \<Rightarrow> str" where
  "StageKind_as_str StageKind_Prepare = ''prepare''"
| "StageKind_as_str StageKind_Build = ''build''"
| "StageKind_as_str StageKind_Run = ''run''"
| "StageKind_as_str StageKind_Check = ''check''"
| "StageKind_as_str StageKind_Aggregate = ''aggregate''"

definition ALGORITHM_BATCH_STAGES :: "stage_kind list" where
  "ALGORITHM_BATCH_STAGES =
     [StageKind_Prepare, StageKind_Build, StageKind_Run, StageKind_Check, StageKind_Aggregate]"

datatype evaluation_profile = EvaluationProfile_AlgorithmBatch

fun EvaluationProfile_as_str :: "evaluation_profile \<Rightarrow> str" where
  "EvaluationProfile_as_str EvaluationProfile_AlgorithmBatch = ''algorithm_batch''"

record evaluation_plan =
  plan_profile :: evaluation_profile
  plan_stages :: "stage_kind list"

definition EvaluationPlan_algorithm_batch :: evaluation_plan where
  "EvaluationPlan_algorithm_batch =
     \<lparr>plan_profile = EvaluationProfile_AlgorithmBatch, plan_stages = ALGORITHM_BATCH_STAGES\<rparr>"

definition EvaluationPlan_try_algorithm_batch ::
  "stage_kind list \<Rightarrow> (evaluation_plan, domain_error) result" where
  "EvaluationPlan_try_algorithm_batch stages =
     (if length stages > MAX_STAGES
      then Err (TooManyItems ''plan.stages'' MAX_STAGES (length stages))
      else if stages \<noteq> ALGORITHM_BATCH_STAGES then Err InvalidPlan
      else Ok \<lparr>plan_profile = EvaluationProfile_AlgorithmBatch, plan_stages = stages\<rparr>)"

definition evaluation_plan_ok :: "evaluation_plan \<Rightarrow> bool" where
  "evaluation_plan_ok p \<longleftrightarrow> plan_stages p = ALGORITHM_BATCH_STAGES"

lemma evaluation_plan_ok_iff: "evaluation_plan_ok p \<longleftrightarrow> p = EvaluationPlan_algorithm_batch"
  by (cases p; cases "plan_profile p")
    (auto simp: evaluation_plan_ok_def EvaluationPlan_algorithm_batch_def)

lemma EvaluationPlan_try_algorithm_batch_Ok_iff:
  "EvaluationPlan_try_algorithm_batch s = Ok p \<longleftrightarrow>
     s = ALGORITHM_BATCH_STAGES \<and> p = EvaluationPlan_algorithm_batch"
  by (auto simp: EvaluationPlan_try_algorithm_batch_def EvaluationPlan_algorithm_batch_def
      ALGORITHM_BATCH_STAGES_def MAX_STAGES_def)

section \<open>Policies\<close>

definition require_range :: "str \<Rightarrow> u64 \<Rightarrow> u64 \<Rightarrow> u64 \<Rightarrow> (unit, domain_error) result" where
  "require_range field actual minimum maximum =
     (if \<not> (minimum \<le> actual \<and> actual \<le> maximum)
      then Err (OutOfRange field minimum maximum actual)
      else Ok ())"

lemma require_range_Ok_iff [simp]:
  "require_range f a lo hi = Ok u \<longleftrightarrow> lo \<le> a \<and> a \<le> hi"
  by (simp add: require_range_def)

lemma require_range_Err_iff:
  "require_range f a lo hi = Err e \<longleftrightarrow> \<not> (lo \<le> a \<and> a \<le> hi) \<and> e = OutOfRange f lo hi a"
  by (auto simp: require_range_def)

datatype network_policy = NetworkPolicy_Denied

fun NetworkPolicy_as_str :: "network_policy \<Rightarrow> str" where
  "NetworkPolicy_as_str NetworkPolicy_Denied = ''denied''"

record resource_policy =
  pol_cpu_time_ms :: u64
  pol_wall_time_ms :: u64
  pol_memory_bytes :: u64
  pol_output_bytes :: u64
  pol_process_limit :: u32
  pol_network :: network_policy

definition ResourcePolicy_new ::
  "u64 \<Rightarrow> u64 \<Rightarrow> u64 \<Rightarrow> u64 \<Rightarrow> u32 \<Rightarrow> network_policy \<Rightarrow> (resource_policy, domain_error) result"
where
  "ResourcePolicy_new cpu_time_ms wall_time_ms memory_bytes output_bytes process_limit network =
     and_then (require_range ''cpu_time_ms'' cpu_time_ms 1 MAX_CPU_TIME_MS) (\<lambda>_.
     and_then (require_range ''wall_time_ms'' wall_time_ms 1 MAX_WALL_TIME_MS) (\<lambda>_.
     and_then (require_range ''memory_bytes'' memory_bytes 1 MAX_MEMORY_BYTES) (\<lambda>_.
     and_then (require_range ''output_bytes'' output_bytes 1 MAX_OUTPUT_BYTES) (\<lambda>_.
     and_then (require_range ''process_limit'' (ucast process_limit) 1 MAX_PROCESS_LIMIT) (\<lambda>_.
       Ok \<lparr>pol_cpu_time_ms = cpu_time_ms, pol_wall_time_ms = wall_time_ms,
           pol_memory_bytes = memory_bytes, pol_output_bytes = output_bytes,
           pol_process_limit = process_limit, pol_network = network\<rparr>)))))"

definition resource_policy_ok :: "resource_policy \<Rightarrow> bool" where
  "resource_policy_ok p \<longleftrightarrow>
     1 \<le> pol_cpu_time_ms p \<and> pol_cpu_time_ms p \<le> MAX_CPU_TIME_MS \<and>
     1 \<le> pol_wall_time_ms p \<and> pol_wall_time_ms p \<le> MAX_WALL_TIME_MS \<and>
     1 \<le> pol_memory_bytes p \<and> pol_memory_bytes p \<le> MAX_MEMORY_BYTES \<and>
     1 \<le> pol_output_bytes p \<and> pol_output_bytes p \<le> MAX_OUTPUT_BYTES \<and>
     1 \<le> (ucast (pol_process_limit p) :: u64) \<and>
     (ucast (pol_process_limit p) :: u64) \<le> MAX_PROCESS_LIMIT"

lemma ResourcePolicy_new_Ok_iff:
  "ResourcePolicy_new c w m out l n = Ok p \<longleftrightarrow>
     p = \<lparr>pol_cpu_time_ms = c, pol_wall_time_ms = w, pol_memory_bytes = m,
          pol_output_bytes = out, pol_process_limit = l, pol_network = n\<rparr> \<and>
     resource_policy_ok p"
  by (auto simp: ResourcePolicy_new_def and_then_Ok_iff resource_policy_ok_def)

section \<open>References\<close>

record problem_version_ref =
  pv_problem_id :: problem_id
  pv_problem_version_id :: problem_version_id
  pv_digest :: content_digest

record runtime_ref =
  rt_runtime_id :: runtime_id
  rt_digest :: content_digest

record submission_ref =
  sub_submission_id :: submission_id
  sub_source :: artifact_ref

definition problem_version_ref_ok :: "problem_version_ref \<Rightarrow> bool" where
  "problem_version_ref_ok r \<longleftrightarrow>
     id_ok (problem_id_str (pv_problem_id r)) \<and>
     id_ok (problem_version_id_str (pv_problem_version_id r)) \<and>
     digest_ok (content_digest_str (pv_digest r))"

definition runtime_ref_ok :: "runtime_ref \<Rightarrow> bool" where
  "runtime_ref_ok r \<longleftrightarrow>
     id_ok (runtime_id_str (rt_runtime_id r)) \<and> digest_ok (content_digest_str (rt_digest r))"

definition submission_ref_ok :: "submission_ref \<Rightarrow> bool" where
  "submission_ref_ok r \<longleftrightarrow>
     id_ok (submission_id_str (sub_submission_id r)) \<and> artifact_ref_ok (sub_source r)"

section \<open>Requests\<close>

record evaluation_request =
  req_request_id :: request_id
  req_idempotency_key :: idempotency_key
  req_evaluation_id :: evaluation_id
  req_attempt_id :: attempt_id
  req_attempt_number :: u32
  req_problem_version :: problem_version_ref
  req_submission :: submission_ref
  req_runtime :: runtime_ref
  req_plan :: evaluation_plan
  req_policy :: resource_policy
  req_required_capabilities :: "capability list"

text \<open>\<open>u64::from(u32::MAX)\<close>.\<close>

definition U32_MAX :: u64 where "U32_MAX = 4294967295"

text \<open>\<open>EvaluationRequestParts\<close> has the fields of the request, unchecked.\<close>

type_synonym evaluation_request_parts = evaluation_request

definition EvaluationRequest_new ::
  "evaluation_request_parts \<Rightarrow> (evaluation_request, domain_error) result" where
  "EvaluationRequest_new parts =
     and_then (require_range ''attempt_number'' (ucast (req_attempt_number parts)) 1
                 U32_MAX) (\<lambda>_.
       if length (req_required_capabilities parts) > MAX_CAPABILITIES
       then Err (TooManyItems ''required_capabilities'' MAX_CAPABILITIES
                   (length (req_required_capabilities parts)))
       else if \<not> all_fresh {} (req_required_capabilities parts)
       then Err (DuplicateItem ''required_capabilities'')
       else Ok parts)"

definition EvaluationRequest_with_next_attempt ::
  "evaluation_request \<Rightarrow> attempt_id \<Rightarrow> idempotency_key \<Rightarrow>
     (evaluation_request, domain_error) result" where
  "EvaluationRequest_with_next_attempt self next_attempt_id next_idempotency_key =
     and_then (ok_or (checked_add (req_attempt_number self) 1)
         (OutOfRange ''attempt_number'' 1 U32_MAX (ucast (req_attempt_number self))))
       (\<lambda>attempt_number.
         EvaluationRequest_new (self
           \<lparr>req_idempotency_key := next_idempotency_key,
            req_attempt_id := next_attempt_id,
            req_attempt_number := attempt_number\<rparr>))"

definition evaluation_request_ok :: "evaluation_request \<Rightarrow> bool" where
  "evaluation_request_ok r \<longleftrightarrow>
     id_ok (request_id_str (req_request_id r)) \<and>
     opaque_ok MAX_IDEMPOTENCY_KEY_LENGTH (idempotency_key_str (req_idempotency_key r)) \<and>
     id_ok (evaluation_id_str (req_evaluation_id r)) \<and>
     id_ok (attempt_id_str (req_attempt_id r)) \<and>
     req_attempt_number r \<noteq> 0 \<and>
     problem_version_ref_ok (req_problem_version r) \<and>
     submission_ref_ok (req_submission r) \<and>
     runtime_ref_ok (req_runtime r) \<and>
     evaluation_plan_ok (req_plan r) \<and>
     resource_policy_ok (req_policy r) \<and>
     length (req_required_capabilities r) \<le> MAX_CAPABILITIES \<and>
     distinct (req_required_capabilities r) \<and>
     list_all (\<lambda>c. lower_token_ok MAX_CAPABILITY_LENGTH (capability_str c))
       (req_required_capabilities r)"

lemma attempt_number_range_iff:
  "require_range f (ucast (n :: u32)) 1 U32_MAX = Ok u \<longleftrightarrow> n \<noteq> 0"
proof -
  have "(ucast n :: u64) \<le> U32_MAX"
    using unat_u32_lt [of n] by (simp add: word_le_nat_alt U32_MAX_def)
  moreover have "1 \<le> (ucast n :: u64) \<longleftrightarrow> n \<noteq> 0"
    by (auto simp: word_le_nat_alt word_unat_eq_iff)
  ultimately show ?thesis by simp
qed

lemma u32_increment_wraps: "n + 1 = 0 \<longleftrightarrow> n = 4294967295" for n :: u32
proof
  assume "n + 1 = 0"
  then have "n = - 1"
    by (metis add.commute add_eq_0_iff)
  then show "n = 4294967295" by simp
qed simp

lemma checked_add_u32_one:
  "checked_add n 1 = Some m \<longleftrightarrow> n \<noteq> 4294967295 \<and> m = n + 1" for n m :: u32
proof -
  have "unat n + 1 < 4294967296 \<longleftrightarrow> n \<noteq> 4294967295"
    using unat_u32_lt [of n] by (auto simp: word_unat_eq_iff)
  then show ?thesis by (simp add: checked_add_Some_iff)
qed

lemma EvaluationRequest_new_Ok_iff:
  "EvaluationRequest_new parts = Ok r \<longleftrightarrow>
     r = parts \<and> req_attempt_number parts \<noteq> 0 \<and>
     length (req_required_capabilities parts) \<le> MAX_CAPABILITIES \<and>
     distinct (req_required_capabilities parts)"
  by (auto simp: EvaluationRequest_new_def and_then_Ok_iff attempt_number_range_iff all_fresh_iff
      simp del: require_range_Ok_iff)

lemma EvaluationRequest_new_Ok [res_simps]:
  "evaluation_request_ok r \<Longrightarrow> EvaluationRequest_new r = Ok r"
  by (simp add: EvaluationRequest_new_Ok_iff evaluation_request_ok_def)

lemma with_next_attempt_Ok_iff:
  assumes "evaluation_request_ok r"
  shows "EvaluationRequest_with_next_attempt r a k = Ok r' \<longleftrightarrow>
     req_attempt_number r \<noteq> 4294967295 \<and>
     r' = r\<lparr>req_idempotency_key := k, req_attempt_id := a,
            req_attempt_number := req_attempt_number r + 1\<rparr>"
  using assms u32_increment_wraps [of "req_attempt_number r"]
  by (auto simp: EvaluationRequest_with_next_attempt_def and_then_Ok_iff checked_add_u32_one
      EvaluationRequest_new_Ok_iff evaluation_request_ok_def)

lemma with_next_attempt_ok:
  assumes "evaluation_request_ok r" and "id_ok (attempt_id_str a)"
    and "opaque_ok MAX_IDEMPOTENCY_KEY_LENGTH (idempotency_key_str k)"
    and "EvaluationRequest_with_next_attempt r a k = Ok r'"
  shows "evaluation_request_ok r'"
proof -
  have "req_attempt_number r + 1 \<noteq> 0"
    using assms(4) unfolding with_next_attempt_Ok_iff [OF assms(1)]
    by (simp add: u32_increment_wraps)
  then show ?thesis
    using assms unfolding with_next_attempt_Ok_iff [OF assms(1)]
    by (auto simp: evaluation_request_ok_def)
qed

section \<open>Resource usage\<close>

record resource_usage =
  use_cpu_time_ms :: u64
  use_wall_time_ms :: u64
  use_memory_peak_bytes :: u64
  use_output_bytes :: u64

text \<open>The derived \<open>Default\<close>.\<close>

definition ResourceUsage_default :: resource_usage where
  "ResourceUsage_default =
     \<lparr>use_cpu_time_ms = 0, use_wall_time_ms = 0, use_memory_peak_bytes = 0, use_output_bytes = 0\<rparr>"

definition ResourceUsage_new ::
  "u64 \<Rightarrow> u64 \<Rightarrow> u64 \<Rightarrow> u64 \<Rightarrow> (resource_usage, domain_error) result" where
  "ResourceUsage_new cpu_time_ms wall_time_ms memory_peak_bytes output_bytes =
     and_then (require_range ''usage.cpu_time_ms'' cpu_time_ms 0 MAX_CPU_TIME_MS) (\<lambda>_.
     and_then (require_range ''usage.wall_time_ms'' wall_time_ms 0 MAX_WALL_TIME_MS) (\<lambda>_.
     and_then (require_range ''usage.memory_peak_bytes'' memory_peak_bytes 0
                 MAX_MEMORY_BYTES) (\<lambda>_.
     and_then (require_range ''usage.output_bytes'' output_bytes 0 MAX_OUTPUT_BYTES) (\<lambda>_.
       Ok \<lparr>use_cpu_time_ms = cpu_time_ms, use_wall_time_ms = wall_time_ms,
           use_memory_peak_bytes = memory_peak_bytes, use_output_bytes = output_bytes\<rparr>))))"

definition U64_MAX :: u64 where "U64_MAX = 18446744073709551615"

definition ResourceUsage_checked_add ::
  "resource_usage \<Rightarrow> resource_usage \<Rightarrow> (resource_usage, domain_error) result" where
  "ResourceUsage_checked_add self other =
     and_then (ok_or (checked_add (use_cpu_time_ms self) (use_cpu_time_ms other))
                 (OutOfRange ''usage.cpu_time_ms'' 0 MAX_CPU_TIME_MS U64_MAX))
       (\<lambda>cpu_time_ms.
     and_then (ok_or (checked_add (use_wall_time_ms self) (use_wall_time_ms other))
                 (OutOfRange ''usage.wall_time_ms'' 0 MAX_WALL_TIME_MS U64_MAX))
       (\<lambda>wall_time_ms.
       let memory_peak_bytes = max (use_memory_peak_bytes self) (use_memory_peak_bytes other) in
     and_then (ok_or (checked_add (use_output_bytes self) (use_output_bytes other))
                 (OutOfRange ''usage.output_bytes'' 0 MAX_OUTPUT_BYTES U64_MAX))
       (\<lambda>output_bytes.
         ResourceUsage_new cpu_time_ms wall_time_ms memory_peak_bytes output_bytes)))"

definition resource_usage_ok :: "resource_usage \<Rightarrow> bool" where
  "resource_usage_ok u \<longleftrightarrow>
     use_cpu_time_ms u \<le> MAX_CPU_TIME_MS \<and> use_wall_time_ms u \<le> MAX_WALL_TIME_MS \<and>
     use_memory_peak_bytes u \<le> MAX_MEMORY_BYTES \<and> use_output_bytes u \<le> MAX_OUTPUT_BYTES"

lemma ResourceUsage_new_Ok_iff:
  "ResourceUsage_new c w m out = Ok u \<longleftrightarrow>
     u = \<lparr>use_cpu_time_ms = c, use_wall_time_ms = w, use_memory_peak_bytes = m,
          use_output_bytes = out\<rparr> \<and> resource_usage_ok u"
  by (auto simp: ResourceUsage_new_def and_then_Ok_iff resource_usage_ok_def)

lemma ResourceUsage_default_ok [simp]: "resource_usage_ok ResourceUsage_default"
  by (simp add: resource_usage_ok_def ResourceUsage_default_def)

lemma ResourceUsage_new_ok: "ResourceUsage_new c w m out = Ok u \<Longrightarrow> resource_usage_ok u"
  by (auto simp: ResourceUsage_new_Ok_iff)

text \<open>Two bounded counters cannot overflow a \<open>u64\<close>, so the sum is a sum of numbers.\<close>

lemma bounded_sum_no_overflow:
  "a \<le> m \<Longrightarrow> b \<le> m \<Longrightarrow> unat m < 2 ^ 63 \<Longrightarrow>
     checked_add a b = Some (a + b) \<and> unat (a + b) = unat a + unat b" for a b m :: u64
  by (auto simp: checked_add_Some_iff word_le_nat_alt intro!: unat_add_small)

lemma ResourceUsage_checked_add_Ok_iff:
  assumes "resource_usage_ok u" and "resource_usage_ok v"
  shows "ResourceUsage_checked_add u v = Ok w \<longleftrightarrow>
     w = \<lparr>use_cpu_time_ms = use_cpu_time_ms u + use_cpu_time_ms v,
          use_wall_time_ms = use_wall_time_ms u + use_wall_time_ms v,
          use_memory_peak_bytes = max (use_memory_peak_bytes u) (use_memory_peak_bytes v),
          use_output_bytes = use_output_bytes u + use_output_bytes v\<rparr> \<and> resource_usage_ok w"
proof -
  have c: "checked_add (use_cpu_time_ms u) (use_cpu_time_ms v) =
      Some (use_cpu_time_ms u + use_cpu_time_ms v)"
    and w: "checked_add (use_wall_time_ms u) (use_wall_time_ms v) =
      Some (use_wall_time_ms u + use_wall_time_ms v)"
    and b: "checked_add (use_output_bytes u) (use_output_bytes v) =
      Some (use_output_bytes u + use_output_bytes v)"
    using assms bounded_sum_no_overflow
    by (auto simp: resource_usage_ok_def evaluation_bounds)
  show ?thesis
    by (simp add: ResourceUsage_checked_add_def c w b ResourceUsage_new_Ok_iff)
qed

lemma ResourceUsage_checked_add_ok:
  "ResourceUsage_checked_add u v = Ok w \<Longrightarrow> resource_usage_ok w"
  by (auto simp: ResourceUsage_checked_add_def and_then_Ok_iff Let_def ResourceUsage_new_ok)

lemma checked_add_default:
  "resource_usage_ok u \<Longrightarrow> ResourceUsage_checked_add u ResourceUsage_default = Ok u"
  by (simp add: ResourceUsage_checked_add_Ok_iff) (simp add: ResourceUsage_default_def)

section \<open>Diagnostics, evidence and stage reports\<close>

record diagnostic =
  diag_code :: diagnostic_code
  diag_message :: str
  diag_truncated :: bool

definition Diagnostic_new ::
  "diagnostic_code \<Rightarrow> str \<Rightarrow> bool \<Rightarrow> (diagnostic, domain_error) result" where
  "Diagnostic_new code message truncated =
     (if char_count message > MAX_DIAGNOSTIC_MESSAGE_LENGTH
      then Err (TooLong ''diagnostic.message'' MAX_DIAGNOSTIC_MESSAGE_LENGTH (char_count message))
      else Ok \<lparr>diag_code = code, diag_message = message, diag_truncated = truncated\<rparr>)"

definition diagnostic_ok :: "diagnostic \<Rightarrow> bool" where
  "diagnostic_ok d \<longleftrightarrow>
     diagnostic_code_ok (diagnostic_code_str (diag_code d)) \<and>
     char_count (diag_message d) \<le> MAX_DIAGNOSTIC_MESSAGE_LENGTH"

record evidence_ref =
  evd_evidence_id :: evidence_id
  evd_kind :: evidence_kind
  evd_artifact :: "artifact_ref option"

definition evidence_ref_ok :: "evidence_ref \<Rightarrow> bool" where
  "evidence_ref_ok e \<longleftrightarrow>
     id_ok (evidence_id_str (evd_evidence_id e)) \<and>
     lower_token_ok MAX_EVIDENCE_KIND_LENGTH (evidence_kind_str (evd_kind e)) \<and>
     (case evd_artifact e of None \<Rightarrow> True | Some a \<Rightarrow> artifact_ref_ok a)"

datatype stage_status =
    StageStatus_Succeeded
  | StageStatus_Failed
  | StageStatus_Cancelled
  | StageStatus_Skipped

fun StageStatus_as_str :: "stage_status \<Rightarrow> str" where
  "StageStatus_as_str StageStatus_Succeeded = ''succeeded''"
| "StageStatus_as_str StageStatus_Failed = ''failed''"
| "StageStatus_as_str StageStatus_Cancelled = ''cancelled''"
| "StageStatus_as_str StageStatus_Skipped = ''skipped''"

record stage_report =
  rep_stage :: stage_kind
  rep_status :: stage_status
  rep_usage :: resource_usage
  rep_diagnostics :: "diagnostic list"
  rep_evidence :: "evidence_ref list"

definition enforce_collection_limit :: "str \<Rightarrow> nat \<Rightarrow> nat \<Rightarrow> (unit, domain_error) result" where
  "enforce_collection_limit field actual maximum =
     (if actual > maximum then Err (TooManyItems field maximum actual) else Ok ())"

lemma enforce_collection_limit_Ok_iff [simp]:
  "enforce_collection_limit f a m = Ok u \<longleftrightarrow> a \<le> m"
  by (simp add: enforce_collection_limit_def)

lemma enforce_collection_limit_Err_iff:
  "enforce_collection_limit f a m = Err e \<longleftrightarrow> m < a \<and> e = TooManyItems f m a"
  by (auto simp: enforce_collection_limit_def)

definition StageReport_new ::
  "stage_kind \<Rightarrow> stage_status \<Rightarrow> resource_usage \<Rightarrow> diagnostic list \<Rightarrow> evidence_ref list \<Rightarrow>
     (stage_report, domain_error) result" where
  "StageReport_new stage status usage diagnostics evidence =
     and_then (enforce_collection_limit ''stage.diagnostics'' (length diagnostics)
                 MAX_STAGE_DIAGNOSTICS) (\<lambda>_.
     and_then (enforce_collection_limit ''stage.evidence'' (length evidence)
                 MAX_STAGE_EVIDENCE) (\<lambda>_.
       Ok \<lparr>rep_stage = stage, rep_status = status, rep_usage = usage,
           rep_diagnostics = diagnostics, rep_evidence = evidence\<rparr>))"

definition stage_report_ok :: "stage_report \<Rightarrow> bool" where
  "stage_report_ok r \<longleftrightarrow>
     resource_usage_ok (rep_usage r) \<and>
     length (rep_diagnostics r) \<le> MAX_STAGE_DIAGNOSTICS \<and>
     length (rep_evidence r) \<le> MAX_STAGE_EVIDENCE \<and>
     list_all diagnostic_ok (rep_diagnostics r) \<and> list_all evidence_ref_ok (rep_evidence r)"

lemma StageReport_new_Ok_iff:
  "StageReport_new st ss u ds es = Ok r \<longleftrightarrow>
     length ds \<le> MAX_STAGE_DIAGNOSTICS \<and> length es \<le> MAX_STAGE_EVIDENCE \<and>
     r = \<lparr>rep_stage = st, rep_status = ss, rep_usage = u, rep_diagnostics = ds, rep_evidence = es\<rparr>"
  by (auto simp: StageReport_new_def and_then_Ok_iff)

section \<open>Statuses, verdicts, scores, provenance\<close>

datatype evaluation_status =
    EvaluationStatus_Completed
  | EvaluationStatus_Failed
  | EvaluationStatus_Cancelled

fun EvaluationStatus_as_str :: "evaluation_status \<Rightarrow> str" where
  "EvaluationStatus_as_str EvaluationStatus_Completed = ''completed''"
| "EvaluationStatus_as_str EvaluationStatus_Failed = ''failed''"
| "EvaluationStatus_as_str EvaluationStatus_Cancelled = ''cancelled''"

datatype verdict =
    Verdict_Accepted
  | Verdict_WrongAnswer
  | Verdict_CompileError
  | Verdict_RuntimeError
  | Verdict_TimeLimitExceeded
  | Verdict_MemoryLimitExceeded
  | Verdict_OutputLimitExceeded
  | Verdict_SystemError
  | Verdict_Cancelled

fun Verdict_as_str :: "verdict \<Rightarrow> str" where
  "Verdict_as_str Verdict_Accepted = ''accepted''"
| "Verdict_as_str Verdict_WrongAnswer = ''wrong_answer''"
| "Verdict_as_str Verdict_CompileError = ''compile_error''"
| "Verdict_as_str Verdict_RuntimeError = ''runtime_error''"
| "Verdict_as_str Verdict_TimeLimitExceeded = ''time_limit_exceeded''"
| "Verdict_as_str Verdict_MemoryLimitExceeded = ''memory_limit_exceeded''"
| "Verdict_as_str Verdict_OutputLimitExceeded = ''output_limit_exceeded''"
| "Verdict_as_str Verdict_SystemError = ''system_error''"
| "Verdict_as_str Verdict_Cancelled = ''cancelled''"

record score =
  sco_earned :: u32
  sco_possible :: u32

definition Score_new :: "u32 \<Rightarrow> u32 \<Rightarrow> (score, domain_error) result" where
  "Score_new earned possible =
     (if possible = 0 \<or> earned > possible then Err InvalidScore
      else Ok \<lparr>sco_earned = earned, sco_possible = possible\<rparr>)"

definition Score_zero :: "u32 \<Rightarrow> score option" where
  "Score_zero possible =
     (if possible = 0 then None else Some \<lparr>sco_earned = 0, sco_possible = possible\<rparr>)"

definition score_ok :: "score \<Rightarrow> bool" where
  "score_ok s \<longleftrightarrow> sco_possible s \<noteq> 0 \<and> sco_earned s \<le> sco_possible s"

lemma Score_new_Ok_iff:
  "Score_new e p = Ok s \<longleftrightarrow> s = \<lparr>sco_earned = e, sco_possible = p\<rparr> \<and> score_ok s"
  by (auto simp: Score_new_def score_ok_def)

datatype executor_kind = ExecutorKind_DevelopmentMock | ExecutorKind_Firecracker

fun ExecutorKind_as_str :: "executor_kind \<Rightarrow> str" where
  "ExecutorKind_as_str ExecutorKind_DevelopmentMock = ''development_mock''"
| "ExecutorKind_as_str ExecutorKind_Firecracker = ''firecracker''"

record execution_provenance =
  prov_executor_kind :: executor_kind
  prov_production_eligible :: bool
  prov_runtime_digest :: content_digest
  prov_node_id :: "node_id option"

definition ExecutionProvenance_new ::
  "executor_kind \<Rightarrow> bool \<Rightarrow> content_digest \<Rightarrow> node_id option \<Rightarrow>
     (execution_provenance, domain_error) result" where
  "ExecutionProvenance_new executor_kind production_eligible runtime_digest node_id =
     (if executor_kind = ExecutorKind_DevelopmentMock \<and> production_eligible
      then Err (InvalidProvenance ''development mock results cannot be production eligible'')
      else if production_eligible \<and> node_id = None
      then Err (InvalidProvenance ''production-eligible results require a node identity'')
      else Ok \<lparr>prov_executor_kind = executor_kind,
               prov_production_eligible = production_eligible,
               prov_runtime_digest = runtime_digest, prov_node_id = node_id\<rparr>)"

definition ExecutionProvenance_development_mock :: "content_digest \<Rightarrow> execution_provenance" where
  "ExecutionProvenance_development_mock runtime_digest =
     \<lparr>prov_executor_kind = ExecutorKind_DevelopmentMock, prov_production_eligible = False,
      prov_runtime_digest = runtime_digest, prov_node_id = None\<rparr>"

definition execution_provenance_ok :: "execution_provenance \<Rightarrow> bool" where
  "execution_provenance_ok p \<longleftrightarrow>
     (prov_production_eligible p \<longrightarrow>
        prov_executor_kind p = ExecutorKind_Firecracker \<and> prov_node_id p \<noteq> None) \<and>
     digest_ok (content_digest_str (prov_runtime_digest p)) \<and>
     (case prov_node_id p of None \<Rightarrow> True | Some n \<Rightarrow> id_ok (node_id_str n))"

lemma executor_kind_neq_mock: "k \<noteq> ExecutorKind_DevelopmentMock \<longleftrightarrow> k = ExecutorKind_Firecracker"
  by (cases k) auto

lemma ExecutionProvenance_new_Ok_iff:
  "ExecutionProvenance_new k e d n = Ok p \<longleftrightarrow>
     (e \<longrightarrow> k = ExecutorKind_Firecracker \<and> n \<noteq> None) \<and>
     p = \<lparr>prov_executor_kind = k, prov_production_eligible = e, prov_runtime_digest = d,
          prov_node_id = n\<rparr>"
  by (auto simp: ExecutionProvenance_new_def executor_kind_neq_mock)

end
