(* ===== verification/Domain_Result.thy ===== *)
theory Domain_Result
  imports Domain_Evaluation
begin

text \<open>
  The result half of \<open>crates/openoj-domain/src/evaluation.rs\<close>: identities, results and the
  validation of their terminal semantics.  \<open>terminal_shape\<close> states which combinations of
  status, verdict, score and stage statuses a result may have; the validator of the source is
  proved to accept exactly those.
\<close>

section \<open>Identity\<close>

record evaluation_identity =
  idn_request_id :: request_id
  idn_evaluation_id :: evaluation_id
  idn_attempt_id :: attempt_id
  idn_problem_version_id :: problem_version_id
  idn_submission_id :: submission_id
  idn_runtime_id :: runtime_id
  idn_runtime_digest :: content_digest

definition EvaluationIdentity_from_request :: "evaluation_request \<Rightarrow> evaluation_identity" where
  "EvaluationIdentity_from_request request =
     \<lparr>idn_request_id = req_request_id request,
      idn_evaluation_id = req_evaluation_id request,
      idn_attempt_id = req_attempt_id request,
      idn_problem_version_id = pv_problem_version_id (req_problem_version request),
      idn_submission_id = sub_submission_id (req_submission request),
      idn_runtime_id = rt_runtime_id (req_runtime request),
      idn_runtime_digest = rt_digest (req_runtime request)\<rparr>"

definition evaluation_identity_ok :: "evaluation_identity \<Rightarrow> bool" where
  "evaluation_identity_ok i \<longleftrightarrow>
     id_ok (request_id_str (idn_request_id i)) \<and>
     id_ok (evaluation_id_str (idn_evaluation_id i)) \<and>
     id_ok (attempt_id_str (idn_attempt_id i)) \<and>
     id_ok (problem_version_id_str (idn_problem_version_id i)) \<and>
     id_ok (submission_id_str (idn_submission_id i)) \<and>
     id_ok (runtime_id_str (idn_runtime_id i)) \<and>
     digest_ok (content_digest_str (idn_runtime_digest i))"

lemma EvaluationIdentity_from_request_ok:
  "evaluation_request_ok r \<Longrightarrow> evaluation_identity_ok (EvaluationIdentity_from_request r)"
  by (simp add: evaluation_request_ok_def evaluation_identity_ok_def
      EvaluationIdentity_from_request_def problem_version_ref_ok_def submission_ref_ok_def
      runtime_ref_ok_def)

section \<open>Validation of terminal semantics\<close>

definition validate_terminal_stage_pattern ::
  "stage_report list \<Rightarrow> stage_status \<Rightarrow> (unit, domain_error) result" where
  "validate_terminal_stage_pattern stages terminal_status =
     (case position (\<lambda>stage. rep_status stage = terminal_status) stages of
        None \<Rightarrow> Err (InvalidResult
          ''terminal result does not contain its terminal stage status'')
      | Some terminal_index \<Rightarrow>
          if list_ex (\<lambda>stage. rep_status stage \<noteq> StageStatus_Succeeded) (take terminal_index stages)
             \<or> list_ex (\<lambda>stage. rep_status stage \<noteq> StageStatus_Skipped)
                 (drop (terminal_index + 1) stages)
          then Err (InvalidResult
            ''terminal stage requires succeeded predecessors and skipped successors'')
          else Ok ())"

definition validate_rejected_stage ::
  "stage_report list \<Rightarrow> stage_kind \<Rightarrow> (unit, domain_error) result" where
  "validate_rejected_stage stages rejected_stage =
     (case position (\<lambda>stage. rep_stage stage = rejected_stage) stages of
        None \<Rightarrow> Err (InvalidResult ''the verdict does not map to a canonical stage'')
      | Some rejected_index \<Rightarrow>
          if rep_status (stages ! rejected_index) \<noteq> StageStatus_Failed
             \<or> list_ex (\<lambda>stage. rep_status stage \<noteq> StageStatus_Succeeded) (take rejected_index stages)
             \<or> list_ex (\<lambda>stage. rep_status stage \<noteq> StageStatus_Skipped)
                 (drop (rejected_index + 1) stages)
          then Err (InvalidResult
            ''rejected results require succeeded predecessors and skipped successors'')
          else Ok ())"

definition validate_terminal_semantics ::
  "evaluation_status \<Rightarrow> verdict \<Rightarrow> score \<Rightarrow> stage_report list \<Rightarrow> (unit, domain_error) result" where
  "validate_terminal_semantics status verdict score stages =
     (let stage_statuses = map rep_status stages;
          run_rejected = (\<lambda>_ :: unit.
            and_then (validate_rejected_stage stages StageKind_Run) (\<lambda>_.
              ensure (sco_earned score = 0)
                (InvalidResult ''run-rejected results require a zero score'')))
      in case status of
        EvaluationStatus_Completed \<Rightarrow>
          (if verdict = Verdict_Cancelled \<or> verdict = Verdict_SystemError
           then Err (InvalidResult
             ''completed results cannot use cancelled or system-error verdicts'')
           else case verdict of
               Verdict_Accepted \<Rightarrow> 
                 ensure (\<not> list_ex (\<lambda>s. s \<noteq> StageStatus_Succeeded) stage_statuses)
                   (InvalidResult
                     ''accepted and wrong-answer results require all stages to succeed'')
             | Verdict_WrongAnswer \<Rightarrow> 
                 ensure (\<not> list_ex (\<lambda>s. s \<noteq> StageStatus_Succeeded) stage_statuses)
                   (InvalidResult
                     ''accepted and wrong-answer results require all stages to succeed'')
             | Verdict_CompileError \<Rightarrow>
                 and_then (validate_rejected_stage stages StageKind_Build) (\<lambda>_.
                   ensure (sco_earned score = 0)
                     (InvalidResult ''compile-error results require a zero score''))
             | Verdict_RuntimeError \<Rightarrow> run_rejected ()
             | Verdict_TimeLimitExceeded \<Rightarrow> run_rejected ()
             | Verdict_MemoryLimitExceeded \<Rightarrow> run_rejected ()
             | Verdict_OutputLimitExceeded \<Rightarrow> run_rejected ()
             | Verdict_SystemError \<Rightarrow> Err (InvalidResult
                 ''completed results use an invalid terminal verdict'')
             | Verdict_Cancelled \<Rightarrow> Err (InvalidResult
                 ''completed results use an invalid terminal verdict''))
      | EvaluationStatus_Failed \<Rightarrow>
          (if verdict \<noteq> Verdict_SystemError \<or> sco_earned score \<noteq> 0
           then Err (InvalidResult ''failed results require system_error and a zero score'')
           else validate_terminal_stage_pattern stages StageStatus_Failed)
      | EvaluationStatus_Cancelled \<Rightarrow>
          (if verdict \<noteq> Verdict_Cancelled \<or> sco_earned score \<noteq> 0
           then Err (InvalidResult ''cancelled results require cancelled verdict and a zero score'')
           else validate_terminal_stage_pattern stages StageStatus_Cancelled))"

text \<open>
  The declarative form: a run of succeeded stages, one stage with the terminal status, and
  skipped stages after it.
\<close>

definition terminal_pattern :: "stage_status list \<Rightarrow> nat \<Rightarrow> stage_status \<Rightarrow> bool" where
  "terminal_pattern ss i t \<longleftrightarrow>
     i < length ss \<and>
     ss = replicate i StageStatus_Succeeded @ [t] @
          replicate (length ss - i - 1) StageStatus_Skipped"

definition run_rejections :: "verdict set" where
  "run_rejections =
     {Verdict_RuntimeError, Verdict_TimeLimitExceeded, Verdict_MemoryLimitExceeded,
      Verdict_OutputLimitExceeded}"

definition terminal_shape :: "evaluation_status \<Rightarrow> verdict \<Rightarrow> score \<Rightarrow> stage_status list \<Rightarrow> bool" where
  "terminal_shape status verdict score ss \<longleftrightarrow>
     (case status of
        EvaluationStatus_Completed \<Rightarrow>
          verdict \<in> {Verdict_Accepted, Verdict_WrongAnswer} \<and>
            list_all (\<lambda>s. s = StageStatus_Succeeded) ss
        \<or> verdict = Verdict_CompileError \<and> sco_earned score = 0 \<and>
            terminal_pattern ss 1 StageStatus_Failed
        \<or> verdict \<in> run_rejections \<and> sco_earned score = 0 \<and>
            terminal_pattern ss 2 StageStatus_Failed
      | EvaluationStatus_Failed \<Rightarrow>
          verdict = Verdict_SystemError \<and> sco_earned score = 0 \<and>
            (\<exists>i. terminal_pattern ss i StageStatus_Failed)
      | EvaluationStatus_Cancelled \<Rightarrow>
          verdict = Verdict_Cancelled \<and> sco_earned score = 0 \<and>
            (\<exists>i. terminal_pattern ss i StageStatus_Cancelled))"

lemma list_all_replicate_iff:
  "list_all (\<lambda>x. x = a) xs \<longleftrightarrow> xs = replicate (length xs) a"
  by (induction xs) auto

lemma terminal_pattern_iff:
  "terminal_pattern ss i t \<longleftrightarrow>
     i < length ss \<and> ss ! i = t \<and>
     list_all (\<lambda>s. s = StageStatus_Succeeded) (take i ss) \<and>
     list_all (\<lambda>s. s = StageStatus_Skipped) (drop (i + 1) ss)"
proof
  assume p: "terminal_pattern ss i t"
  then have ss: "ss = replicate i StageStatus_Succeeded @ [t] @
      replicate (length ss - i - 1) StageStatus_Skipped" and i: "i < length ss"
    by (auto simp: terminal_pattern_def)
  have "ss ! i = t"
    by (subst ss) (simp add: nth_append)
  moreover have "take i ss = replicate i StageStatus_Succeeded"
    by (subst ss) simp
  moreover have "drop (i + 1) ss = replicate (length ss - i - 1) StageStatus_Skipped"
    by (subst ss) simp
  ultimately show "i < length ss \<and> ss ! i = t \<and>
     list_all (\<lambda>s. s = StageStatus_Succeeded) (take i ss) \<and>
     list_all (\<lambda>s. s = StageStatus_Skipped) (drop (i + 1) ss)"
    using i by (auto simp: list_all_iff)
next
  assume "i < length ss \<and> ss ! i = t \<and>
     list_all (\<lambda>s. s = StageStatus_Succeeded) (take i ss) \<and>
     list_all (\<lambda>s. s = StageStatus_Skipped) (drop (i + 1) ss)"
  then have i: "i < length ss" and t: "ss ! i = t"
    and pre: "take i ss = replicate i StageStatus_Succeeded"
    and post: "drop (i + 1) ss = replicate (length ss - i - 1) StageStatus_Skipped"
    by (auto simp: list_all_replicate_iff)
  have "ss = take i ss @ [ss ! i] @ drop (i + 1) ss"
    using i by (simp add: id_take_nth_drop [symmetric])
  then show "terminal_pattern ss i t"
    using i t pre post by (simp add: terminal_pattern_def)
qed

lemma list_ex_status_iff:
  "list_ex (\<lambda>r. rep_status r \<noteq> s) rs \<longleftrightarrow> \<not> list_all (\<lambda>x. x = s) (map rep_status rs)"
  by (induction rs) auto

text \<open>The first stage with the terminal status is the only one in the pattern.\<close>

lemma validate_terminal_stage_pattern_Ok_iff:
  assumes "t \<noteq> StageStatus_Succeeded" and "t \<noteq> StageStatus_Skipped"
  shows "validate_terminal_stage_pattern rs t = Ok u \<longleftrightarrow>
     (\<exists>i. terminal_pattern (map rep_status rs) i t)"
proof (cases "position (\<lambda>r. rep_status r = t) rs")
  case None
  then have none: "\<forall>r \<in> set rs. rep_status r \<noteq> t"
    by (simp add: position_None_iff)
  have "\<not> terminal_pattern (map rep_status rs) i t" for i
    using none by (auto simp: terminal_pattern_iff)
  then show ?thesis
    using None by (simp add: validate_terminal_stage_pattern_def)
next
  case (Some k)
  note k = position_SomeD [OF Some]
  have uniq: "terminal_pattern (map rep_status rs) i t \<Longrightarrow> i = k" for i
  proof -
    assume p: "terminal_pattern (map rep_status rs) i t"
    have "\<not> k < i"
      using p k assms(1) by (auto simp: terminal_pattern_iff list_all_iff in_set_conv_nth)
    moreover have "\<not> i < k"
    proof
      assume "i < k"
      then have "rs ! i \<in> set (take k rs)"
        using k by (auto simp: in_set_conv_nth intro!: exI [of _ i])
      moreover have "rep_status (rs ! i) = t"
        using p by (auto simp: terminal_pattern_iff)
      ultimately show False using k by blast
    qed
    ultimately show "i = k" by simp
  qed
  have "validate_terminal_stage_pattern rs t = Ok u \<longleftrightarrow>
      terminal_pattern (map rep_status rs) k t"
    using Some k by (auto simp: validate_terminal_stage_pattern_def terminal_pattern_iff
        list_ex_status_iff take_map drop_map)
  then show ?thesis using uniq by blast
qed

lemma validate_rejected_stage_Ok_iff:
  assumes "position (\<lambda>r. rep_stage r = k) rs = Some i"
  shows "validate_rejected_stage rs k = Ok u \<longleftrightarrow>
     terminal_pattern (map rep_status rs) i StageStatus_Failed"
  using position_SomeD [OF assms] assms
  by (auto simp: validate_rejected_stage_def terminal_pattern_iff list_ex_status_iff
      take_map drop_map)

lemma canonical_positions:
  assumes "map rep_stage rs = ALGORITHM_BATCH_STAGES"
  shows "position (\<lambda>r. rep_stage r = StageKind_Build) rs = Some 1"
    and "position (\<lambda>r. rep_stage r = StageKind_Run) rs = Some 2"
  using assms by (auto simp: ALGORITHM_BATCH_STAGES_def map_eq_Cons_conv)

theorem validate_terminal_semantics_Ok_iff:
  assumes "map rep_stage rs = ALGORITHM_BATCH_STAGES"
  shows "validate_terminal_semantics st v sc rs = Ok u \<longleftrightarrow>
     terminal_shape st v sc (map rep_status rs)"
proof -
  note rej = validate_rejected_stage_Ok_iff [OF canonical_positions(1) [OF assms]]
    validate_rejected_stage_Ok_iff [OF canonical_positions(2) [OF assms]]
  note pat = validate_terminal_stage_pattern_Ok_iff [of StageStatus_Failed]
    validate_terminal_stage_pattern_Ok_iff [of StageStatus_Cancelled]
  show ?thesis
  proof (cases st)
    case EvaluationStatus_Completed
    then show ?thesis
      by (cases v) (auto simp: validate_terminal_semantics_def terminal_shape_def Let_def
          run_rejections_def and_then_Ok_iff rej list_ex_iff list_all_iff)
  next
    case EvaluationStatus_Failed
    then show ?thesis
      by (auto simp: validate_terminal_semantics_def terminal_shape_def Let_def pat)
  next
    case EvaluationStatus_Cancelled
    then show ?thesis
      by (auto simp: validate_terminal_semantics_def terminal_shape_def Let_def pat)
  qed
qed

section \<open>Results\<close>

record evaluation_result =
  res_identity :: evaluation_identity
  res_status :: evaluation_status
  res_verdict :: verdict
  res_score :: score
  res_stages :: "stage_report list"
  res_usage :: resource_usage
  res_diagnostics :: "diagnostic list"
  res_evidence :: "evidence_ref list"
  res_provenance :: execution_provenance

text \<open>\<open>EvaluationResultParts\<close> has the fields of the result, unchecked.\<close>

type_synonym evaluation_result_parts = evaluation_result

definition EvaluationResult_new ::
  "evaluation_result_parts \<Rightarrow> (evaluation_result, domain_error) result" where
  "EvaluationResult_new parts =
     (if length (res_stages parts) > MAX_STAGES \<or> res_stages parts = []
      then Err (InvalidResult ''stage reports must be non-empty and bounded'')
      else if map rep_stage (res_stages parts) \<noteq> ALGORITHM_BATCH_STAGES
      then Err (InvalidResult
        ''algorithm batch results must preserve the canonical stage order'')
      else and_then (enforce_collection_limit ''result.diagnostics''
                       (length (res_diagnostics parts)) MAX_RESULT_DIAGNOSTICS) (\<lambda>_.
           and_then (enforce_collection_limit ''result.evidence''
                       (length (res_evidence parts)) MAX_RESULT_EVIDENCE) (\<lambda>_.
           if prov_runtime_digest (res_provenance parts) \<noteq> idn_runtime_digest (res_identity parts)
           then Err (InvalidProvenance
             ''result provenance must match the requested runtime digest'')
           else and_then (validate_terminal_semantics (res_status parts) (res_verdict parts)
                            (res_score parts) (res_stages parts)) (\<lambda>_. Ok parts))))"

definition evaluation_result_ok :: "evaluation_result \<Rightarrow> bool" where
  "evaluation_result_ok r \<longleftrightarrow>
     evaluation_identity_ok (res_identity r) \<and>
     score_ok (res_score r) \<and>
     map rep_stage (res_stages r) = ALGORITHM_BATCH_STAGES \<and>
     list_all stage_report_ok (res_stages r) \<and>
     resource_usage_ok (res_usage r) \<and>
     length (res_diagnostics r) \<le> MAX_RESULT_DIAGNOSTICS \<and>
     length (res_evidence r) \<le> MAX_RESULT_EVIDENCE \<and>
     list_all diagnostic_ok (res_diagnostics r) \<and>
     list_all evidence_ref_ok (res_evidence r) \<and>
     execution_provenance_ok (res_provenance r) \<and>
     prov_runtime_digest (res_provenance r) = idn_runtime_digest (res_identity r) \<and>
     terminal_shape (res_status r) (res_verdict r) (res_score r) (map rep_status (res_stages r))"

lemma EvaluationResult_new_Ok_iff:
  "EvaluationResult_new p = Ok r \<longleftrightarrow>
     r = p \<and> map rep_stage (res_stages p) = ALGORITHM_BATCH_STAGES \<and>
     length (res_diagnostics p) \<le> MAX_RESULT_DIAGNOSTICS \<and>
     length (res_evidence p) \<le> MAX_RESULT_EVIDENCE \<and>
     prov_runtime_digest (res_provenance p) = idn_runtime_digest (res_identity p) \<and>
     terminal_shape (res_status p) (res_verdict p) (res_score p) (map rep_status (res_stages p))"
proof (cases "map rep_stage (res_stages p) = ALGORITHM_BATCH_STAGES")
  case True
  then have "length (map rep_stage (res_stages p)) = length ALGORITHM_BATCH_STAGES"
    by simp
  then have "length (res_stages p) = 5"
    by (simp add: ALGORITHM_BATCH_STAGES_def)
  moreover from this have "res_stages p \<noteq> []" by auto
  ultimately show ?thesis using True
    using validate_terminal_semantics_Ok_iff [OF True]
    by (auto simp: EvaluationResult_new_def and_then_Ok_iff MAX_STAGES_def)
next
  case False
  then show ?thesis by (auto simp: EvaluationResult_new_def)
qed

lemma EvaluationResult_new_Ok [res_simps]:
  "evaluation_result_ok r \<Longrightarrow> EvaluationResult_new r = Ok r"
  by (simp add: EvaluationResult_new_Ok_iff evaluation_result_ok_def)

lemma evaluation_result_ok_length: "evaluation_result_ok r \<Longrightarrow> length (res_stages r) = 5"
proof -
  assume "evaluation_result_ok r"
  then have "length (map rep_stage (res_stages r)) = length ALGORITHM_BATCH_STAGES"
    by (simp add: evaluation_result_ok_def)
  then show ?thesis by (simp add: ALGORITHM_BATCH_STAGES_def)
qed

end
