(* ===== verification/Control_Policy.thy ===== *)
theory Control_Policy
  imports Domain_Result
begin

text \<open>
  \<open>crates/openoj-application/src/control.rs\<close>: the lease policy, the deployment allowlist of judge
  nodes, and the commands and answers of the evaluation store.
\<close>

section \<open>Lease policy\<close>

datatype node_policy_error =
    InvalidRenewSchedule
  | DuplicateNode
  | InvalidCapabilities
  | IdentityDenied
  | CapabilityDenied

record lease_policy =
  lp_lease_duration :: lease_duration
  lp_renew_after :: lease_duration

definition LeasePolicy_new ::
  "lease_duration \<Rightarrow> lease_duration \<Rightarrow> (lease_policy, node_policy_error) result" where
  "LeasePolicy_new lease_duration renew_after =
     (if lease_duration_value renew_after > lease_duration_value lease_duration div 2
      then Err InvalidRenewSchedule
      else Ok \<lparr>lp_lease_duration = lease_duration, lp_renew_after = renew_after\<rparr>)"

definition lease_policy_ok :: "lease_policy \<Rightarrow> bool" where
  "lease_policy_ok p \<longleftrightarrow>
     lease_duration_ok (lp_lease_duration p) \<and> lease_duration_ok (lp_renew_after p) \<and>
     lease_duration_value (lp_renew_after p) \<le> lease_duration_value (lp_lease_duration p) div 2"

lemma LeasePolicy_new_Ok_iff:
  "LeasePolicy_new d r = Ok p \<longleftrightarrow>
     p = \<lparr>lp_lease_duration = d, lp_renew_after = r\<rparr> \<and>
     lease_duration_value r \<le> lease_duration_value d div 2"
  by (auto simp: LeasePolicy_new_def not_less)

section \<open>Node policy\<close>

text \<open>A \<open>BTreeMap\<close> of \<open>BTreeSet\<close>s is a map to sets.\<close>

record node_policy =
  np_allowed :: "node_id \<rightharpoonup> capability set"

definition MAX_POLICY_CAPABILITIES :: nat where "MAX_POLICY_CAPABILITIES = 64"

text \<open>The loop of \<open>NodePolicy::new\<close>; \<open>insert\<close> reports a key that was there.\<close>

fun NodePolicy_insert_all ::
  "(node_id \<times> capability list) list \<Rightarrow> (node_id \<rightharpoonup> capability set) \<Rightarrow>
     (node_id \<rightharpoonup> capability set, node_policy_error) result" where
  "NodePolicy_insert_all [] allowed = Ok allowed"
| "NodePolicy_insert_all ((node_id, capabilities) # nodes) allowed =
     (let unique = set capabilities in
      if unique = {} \<or> card unique > MAX_POLICY_CAPABILITIES \<or> card unique \<noteq> length capabilities
      then Err InvalidCapabilities
      else if allowed node_id \<noteq> None then Err DuplicateNode
      else NodePolicy_insert_all nodes (allowed(node_id \<mapsto> unique)))"

definition NodePolicy_new ::
  "(node_id \<times> capability list) list \<Rightarrow> (node_policy, node_policy_error) result" where
  "NodePolicy_new nodes =
     map_ok (\<lambda>allowed. \<lparr>np_allowed = allowed\<rparr>) (NodePolicy_insert_all nodes Map.empty)"

definition NodePolicy_authorize ::
  "node_policy \<Rightarrow> node_id \<Rightarrow> capability list \<Rightarrow> (unit, node_policy_error) result" where
  "NodePolicy_authorize self node_id declared =
     and_then (ok_or (np_allowed self node_id) IdentityDenied) (\<lambda>allowed.
       if declared = [] then Err CapabilityDenied
       else if card (set declared) \<noteq> length declared \<or> \<not> set declared \<subseteq> allowed
       then Err CapabilityDenied
       else Ok ())"

definition NodePolicy_authorize_identity ::
  "node_policy \<Rightarrow> node_id \<Rightarrow> (unit, node_policy_error) result" where
  "NodePolicy_authorize_identity self node_id =
     (if np_allowed self node_id \<noteq> None then Ok () else Err IdentityDenied)"

text \<open>The allowlist a configuration describes.\<close>

definition node_config_ok :: "(node_id \<times> capability list) list \<Rightarrow> bool" where
  "node_config_ok nodes \<longleftrightarrow>
     distinct (map fst nodes) \<and>
     list_all (\<lambda>(_, cs). cs \<noteq> [] \<and> distinct cs \<and> length cs \<le> MAX_POLICY_CAPABILITIES) nodes"

definition configured :: "(node_id \<times> capability list) list \<Rightarrow> node_id \<rightharpoonup> capability set" where
  "configured nodes n = map_option set (map_of nodes n)"

lemma capabilities_guard:
  "set cs = {} \<or> card (set cs) > m \<or> card (set cs) \<noteq> length cs \<longleftrightarrow>
     \<not> (cs \<noteq> [] \<and> distinct cs \<and> length cs \<le> m)"
  by (auto simp: card_distinct distinct_card)

lemma NodePolicy_insert_all_Ok_iff:
  "NodePolicy_insert_all nodes allowed = Ok allowed' \<longleftrightarrow>
     node_config_ok nodes \<and> fst ` set nodes \<inter> dom allowed = {} \<and>
     allowed' = (\<lambda>n. case configured nodes n of None \<Rightarrow> allowed n | Some cs \<Rightarrow> Some cs)"
proof (induction nodes arbitrary: allowed)
  case Nil
  then show ?case by (auto simp: node_config_ok_def configured_def)
next
  case (Cons node nodes)
  obtain n cs where node: "node = (n, cs)" by force
  have rest: "(\<lambda>k. case configured nodes k of None \<Rightarrow> (allowed(n \<mapsto> set cs)) k | Some cs \<Rightarrow> Some cs) =
      (\<lambda>k. case configured ((n, cs) # nodes) k of None \<Rightarrow> allowed k | Some cs \<Rightarrow> Some cs)"
    if "n \<notin> fst ` set nodes"
  proof
    fix k
    have "map_of nodes n = None" using that by (simp add: map_of_eq_None_iff)
    then show "(case configured nodes k of None \<Rightarrow> (allowed(n \<mapsto> set cs)) k | Some cs \<Rightarrow> Some cs) =
        (case configured ((n, cs) # nodes) k of None \<Rightarrow> allowed k | Some cs \<Rightarrow> Some cs)"
      by (auto simp: configured_def split: option.splits)
  qed
  have guard: "NodePolicy_insert_all (node # nodes) allowed = Ok allowed' \<longleftrightarrow>
      cs \<noteq> [] \<and> distinct cs \<and> length cs \<le> MAX_POLICY_CAPABILITIES \<and> allowed n = None \<and>
      NodePolicy_insert_all nodes (allowed(n \<mapsto> set cs)) = Ok allowed'"
    using capabilities_guard [of cs MAX_POLICY_CAPABILITIES] by (auto simp: node Let_def)
  show ?case
    unfolding guard Cons.IH using rest
    by (auto simp: node node_config_ok_def)
qed

lemma NodePolicy_new_Ok_iff:
  "NodePolicy_new nodes = Ok p \<longleftrightarrow> node_config_ok nodes \<and> p = \<lparr>np_allowed = configured nodes\<rparr>"
proof -
  have "(\<lambda>n. case configured nodes n of None \<Rightarrow> Map.empty n | Some cs \<Rightarrow> Some cs) = configured nodes"
    by (auto split: option.splits)
  then show ?thesis
    by (auto simp: NodePolicy_new_def map_ok_Ok_iff NodePolicy_insert_all_Ok_iff)
qed

lemma NodePolicy_authorize_Ok_iff:
  "NodePolicy_authorize p n declared = Ok u \<longleftrightarrow>
     (\<exists>allowed. np_allowed p n = Some allowed \<and> declared \<noteq> [] \<and> distinct declared \<and>
        set declared \<subseteq> allowed)"
  by (auto simp: NodePolicy_authorize_def and_then_Ok_iff card_distinct distinct_card)

section \<open>Store interface\<close>

datatype store_error =
    InvalidTime
  | IdempotencyConflict
  | IdentityConflict
  | ImmutableReferenceConflict
  | NotFound
  | NoTaskAvailable
  | LeaseConflict
  | StaleLease
  | StoreError_InvalidTransition
  | TerminalConflict
  | IncompatibleSchema
  | Unavailable
  | CorruptData

record judge_claim =
  jc_node_id :: node_id
  jc_declared_capabilities :: "capability list"
  jc_operation_id :: claim_operation_id
  jc_lease_token :: lease_token
  jc_now :: unix_millis
  jc_lease_policy :: lease_policy

record judge_renew =
  jr_node_id :: node_id
  jr_evaluation_id :: evaluation_id
  jr_attempt_id :: attempt_id
  jr_lease_token :: lease_token
  jr_now :: unix_millis
  jr_lease_policy :: lease_policy

datatype judge_renew_directive = Directive_Continue unix_millis | Directive_Cancel

record judge_submit_result =
  js_node_id :: node_id
  js_operation_id :: result_operation_id
  js_lease_token :: lease_token
  js_result :: evaluation_result
  js_now :: unix_millis

record create_evaluation =
  ce_request :: evaluation_request
  ce_created_at :: unix_millis

record claim_task =
  ct_node_id :: node_id
  ct_lease_token :: lease_token
  ct_now :: unix_millis
  ct_lease_duration :: lease_duration

record retry_expired =
  rx_request :: evaluation_request
  rx_now :: unix_millis

record submit_result =
  sr_idempotency_key :: idempotency_key
  sr_lease_token :: lease_token
  sr_result :: evaluation_result
  sr_now :: unix_millis

record cancel_evaluation =
  cx_idempotency_key :: idempotency_key
  cx_evaluation_id :: evaluation_id
  cx_result :: evaluation_result
  cx_now :: unix_millis

record evaluation_snapshot =
  snap_evaluation_id :: evaluation_id
  snap_state :: evaluation_state
  snap_current_attempt_id :: attempt_id
  snap_attempt_number :: u32
  snap_attempt_state :: attempt_state
  snap_terminal_result :: bool

record task_lease =
  tl_request :: evaluation_request
  tl_node_id :: node_id
  tl_lease_token :: lease_token
  tl_expires_at :: unix_millis

end
