(* ===== verification/Sql_Session.thy ===== *)
theory Sql_Session
  imports Control_Policy
begin

text \<open>
  How \<open>crates/openoj-storage\<close> talks to its database: every statement and every commit is a round
  trip that may fail, a transaction that is not committed leaves the database as it was, and a
  commit whose acknowledgement is lost has happened although the caller sees an error.  The
  fates of the round trips are an input of the session, and every theorem holds for all of
  them.  Transactions are the atomic steps: the code locks the rows it decides on with
  \<open>FOR UPDATE\<close>.
\<close>

datatype link = Fine | Down | AckLost

record 'db session =
  ses_db :: 'db
  ses_link :: "link list"

type_synonym ('a, 'db) sql = "'db session \<Rightarrow> ('a, store_error) result \<times> 'db session"

text \<open>The codes of a failed statement that the storage code tells apart.\<close>

datatype db_error = UniqueViolation | OtherViolation | ConnectionLost

fun next_link :: "'db session \<Rightarrow> link" where
  "next_link s = (case ses_link s of [] \<Rightarrow> Fine | l # ls \<Rightarrow> l)"

definition tick :: "'db session \<Rightarrow> 'db session" where
  "tick s = s\<lparr>ses_link := tl (ses_link s)\<rparr>"

definition sql_return :: "'a \<Rightarrow> ('a, 'db) sql" where
  "sql_return a s = (Ok a, s)"

definition sql_lift :: "('a, store_error) result \<Rightarrow> ('a, 'db) sql" where
  "sql_lift r s = (r, s)"

definition sql_fail :: "store_error \<Rightarrow> ('a, 'db) sql" where
  "sql_fail e s = (Err e, s)"

definition sql_then :: "('a, 'db) sql \<Rightarrow> ('a \<Rightarrow> ('b, 'db) sql) \<Rightarrow> ('b, 'db) sql" where
  "sql_then m f s = (case m s of (Ok a, s') \<Rightarrow> f a s' | (Err e, s') \<Rightarrow> (Err e, s'))"

text \<open>A query, and a statement that changes the database or is refused by it.\<close>

definition fetch :: "('db \<Rightarrow> 'a) \<Rightarrow> ('a, 'db) sql" where
  "fetch query s =
     (if next_link s = Fine then (Ok (query (ses_db s)), tick s) else (Err Unavailable, tick s))"

definition execute ::
  "(db_error \<Rightarrow> store_error) \<Rightarrow> ('db \<Rightarrow> ('db, db_error) result) \<Rightarrow> (unit, 'db) sql" where
  "execute map_error statement s =
     (if next_link s = Fine
      then case statement (ses_db s) of
             Ok db \<Rightarrow> (Ok (), (tick s)\<lparr>ses_db := db\<rparr>)
           | Err e \<Rightarrow> (Err (map_error e), tick s)
      else (Err (map_error ConnectionLost), tick s))"

definition unavailable :: "db_error \<Rightarrow> store_error" where
  "unavailable e = Unavailable"

text \<open>
  \<open>pool.begin()\<close>, the statements, and \<open>commit()\<close>, which checks the deferred constraints; an error
  drops the transaction.
\<close>

definition transaction :: "('db \<Rightarrow> bool) \<Rightarrow> ('a, 'db) sql \<Rightarrow> ('a, 'db) sql" where
  "transaction deferred body s =
     (if next_link s \<noteq> Fine then (Err Unavailable, tick s)
      else case body (tick s) of
        (Err e, s') \<Rightarrow> (Err e, s'\<lparr>ses_db := ses_db s\<rparr>)
      | (Ok a, s') \<Rightarrow>
          if next_link s' = Down \<or> \<not> deferred (ses_db s')
          then (Err Unavailable, (tick s')\<lparr>ses_db := ses_db s\<rparr>)
          else if next_link s' = AckLost then (Err Unavailable, tick s')
          else (Ok a, tick s'))"

section \<open>What a run can do\<close>

text \<open>Some fates of the round trips let the program return a value and leave this database.\<close>

definition yields :: "('a, 'db) sql \<Rightarrow> 'db \<Rightarrow> 'a \<Rightarrow> 'db \<Rightarrow> bool" where
  "yields m db a db' \<longleftrightarrow>
     (\<exists>ls ls'. m \<lparr>ses_db = db, ses_link = ls\<rparr> = (Ok a, \<lparr>ses_db = db', ses_link = ls'\<rparr>))"

lemma yieldsI: "m s = (Ok a, s') \<Longrightarrow> yields m (ses_db s) a (ses_db s')"
  unfolding yields_def by (cases s; cases s') auto

lemma session_collapse: "\<lparr>ses_db = ses_db s, ses_link = ses_link s\<rparr> = s"
  by (cases s) simp

lemma yields_return [simp]: "yields (sql_return a) db b db' \<longleftrightarrow> b = a \<and> db' = db"
  by (auto simp: yields_def sql_return_def)

lemma yields_lift [simp]: "yields (sql_lift r) db b db' \<longleftrightarrow> r = Ok b \<and> db' = db"
  by (auto simp: yields_def sql_lift_def)

lemma yields_fail [simp]: "\<not> yields (sql_fail e) db b db'"
  by (auto simp: yields_def sql_fail_def)

lemma yields_fetch: "yields (fetch q) db a db' \<Longrightarrow> a = q db \<and> db' = db"
  by (auto simp: yields_def fetch_def tick_def split: if_splits)

lemma yields_execute: "yields (execute h st) db u db' \<Longrightarrow> st db = Ok db'"
  by (auto simp: yields_def execute_def tick_def split: if_splits result.splits)

lemma yields_then:
  "yields (sql_then m f) db b db' \<Longrightarrow> \<exists>a db1. yields m db a db1 \<and> yields (f a) db1 b db'"
proof -
  assume "yields (sql_then m f) db b db'"
  then obtain ls ls' where run: "sql_then m f \<lparr>ses_db = db, ses_link = ls\<rparr> =
      (Ok b, \<lparr>ses_db = db', ses_link = ls'\<rparr>)"
    by (auto simp: yields_def)
  then obtain a s1 where m: "m \<lparr>ses_db = db, ses_link = ls\<rparr> = (Ok a, s1)"
    and f: "f a s1 = (Ok b, \<lparr>ses_db = db', ses_link = ls'\<rparr>)"
    by (auto simp: sql_then_def split: prod.splits result.splits)
  have "yields m db a (ses_db s1)"
    using yieldsI [of m "\<lparr>ses_db = db, ses_link = ls\<rparr>" a s1] m by simp
  moreover have "yields (f a) (ses_db s1) b db'"
    using yieldsI [of "f a" s1 b "\<lparr>ses_db = db', ses_link = ls'\<rparr>"] f by simp
  ultimately show ?thesis by blast
qed

lemma yields_thenE:
  assumes "yields (sql_then m f) db b db'"
  obtains a db1 where "yields m db a db1" and "yields (f a) db1 b db'"
  using yields_then [OF assms] by blast

lemma yields_fetchE:
  assumes "yields (sql_then (fetch q) f) db b db'"
  obtains "yields (f (q db)) db b db'"
  using yields_then [OF assms] yields_fetch by metis

lemma yields_executeE:
  assumes "yields (sql_then (execute h st) f) db b db'"
  obtains db1 where "st db = Ok db1" and "yields (f ()) db1 b db'"
  using yields_then [OF assms] yields_execute by (metis (full_types) old.unit.exhaust)

lemma yields_liftE:
  assumes "yields (sql_then (sql_lift r) f) db b db'"
  obtains a where "r = Ok a" and "yields (f a) db b db'"
  using yields_then [OF assms] by auto

text \<open>A transaction leaves the database alone or commits what its body did.\<close>

lemma transaction_cases:
  assumes "transaction deferred body s = (r, s')"
  obtains (rollback) e where "r = Err e" and "ses_db s' = ses_db s"
  | (committed) a where "yields body (ses_db s) a (ses_db s')" and "deferred (ses_db s')"
      and "r = Ok a \<or> r = Err Unavailable"
proof (cases "next_link s = Fine")
  case False
  then show ?thesis using assms rollback by (auto simp: transaction_def tick_def)
next
  case True
  obtain r1 s1 where body: "body (tick s) = (r1, s1)" by force
  have tick: "ses_db (tick s) = ses_db s" by (simp add: tick_def)
  show ?thesis
  proof (cases r1)
    case (Err e)
    then show ?thesis using assms True body rollback by (auto simp: transaction_def)
  next
    case (Ok a)
    then have y: "yields body (ses_db s) a (ses_db s1)"
      using yieldsI [of body "tick s" a s1] body tick by simp
    show ?thesis
    proof (cases "next_link s1 = Down \<or> \<not> deferred (ses_db s1)")
      case True
      then show ?thesis
        using assms \<open>next_link s = Fine\<close> body Ok rollback by (auto simp: transaction_def)
    next
      case False
      then have "ses_db s' = ses_db s1" and "r = Ok a \<or> r = Err Unavailable"
        using assms \<open>next_link s = Fine\<close> body Ok
        by (auto simp: transaction_def tick_def split: if_splits)
      then show ?thesis using committed y False by simp
    qed
  qed
qed

lemma yields_transaction:
  "yields (transaction deferred body) db a db' \<Longrightarrow> yields body db a db' \<and> deferred db'"
  unfolding yields_def [of "transaction deferred body"]
  by (elim exE, erule transaction_cases) auto

section \<open>Runs without failures\<close>

abbreviation calm :: "'db \<Rightarrow> 'db session" where
  "calm db \<equiv> \<lparr>ses_db = db, ses_link = []\<rparr>"

named_theorems calm_simps "the session operations when no round trip fails"

lemma calm_return [calm_simps]: "sql_return a s = (Ok a, s)"
  by (simp add: sql_return_def)

lemma calm_lift [calm_simps]: "sql_lift r s = (r, s)"
  by (simp add: sql_lift_def)

lemma calm_fail [calm_simps]: "sql_fail e s = (Err e, s)"
  by (simp add: sql_fail_def)

lemma calm_fetch [calm_simps]: "fetch q (calm db) = (Ok (q db), calm db)"
  by (simp add: fetch_def tick_def)

lemma calm_execute [calm_simps]:
  "execute h st (calm db) =
     (case st db of Ok db' \<Rightarrow> (Ok (), calm db') | Err e \<Rightarrow> (Err (h e), calm db))"
  by (simp add: execute_def tick_def split: result.split)

lemma calm_then [calm_simps]:
  "sql_then m f s = (case m s of (Ok a, s') \<Rightarrow> f a s' | (Err e, s') \<Rightarrow> (Err e, s'))"
  by (simp add: sql_then_def)

lemma calm_transaction:
  "body (calm db) = (Ok a, calm db') \<Longrightarrow> deferred db' \<Longrightarrow>
     transaction deferred body (calm db) = (Ok a, calm db')"
  by (simp add: transaction_def tick_def)

lemma calm_transaction_Err:
  "body (calm db) = (Err e, calm db') \<Longrightarrow>
     transaction deferred body (calm db) = (Err e, calm db)"
  by (simp add: transaction_def tick_def)

end
