(* ===== verification/Protocol_Json.thy ===== *)
theory Protocol_Json
  imports Domain_Result
begin

text \<open>
  The parts of \<open>crates/openoj-protocol/src/lib.rs\<close> that both message kinds share: JSON documents
  with the accessors, the conversions of the values that requests and results have in common,
  and the bounded, schema-checked wire encoding.  A \<open>serde_json::Value\<close> object is a finite map.
  The generated wire types, \<open>serde_json\<close> and the \<open>jsonschema\<close> validator are not part of the
  repository: \<open>wire_lib\<close> holds them as functions, and \<open>wire_lib_ok\<close> states what the code relies on.
\<close>

section \<open>Documents\<close>

datatype json_number = PosInt u64 | NegInt u64 | Float u64

datatype json =
    JNull
  | JBool bool
  | JNumber json_number
  | JString str
  | JArray "json list"
  | JObject "(str, json) fmap"

text \<open>The \<open>json!\<close> literals.\<close>

definition json_object :: "(str \<times> json) list \<Rightarrow> json" where
  "json_object kvs = JObject (fmap_of_list kvs)"

definition json_u64 :: "u64 \<Rightarrow> json" where
  "json_u64 n = JNumber (PosInt n)"

datatype protocol_error =
    MessageTooLarge nat nat
  | MalformedDocument
  | SchemaUnavailable
  | SchemaViolation
  | SemanticViolation
  | ProtocolError_Domain domain_error
  | EncodingFailed

definition as_object :: "json \<Rightarrow> ((str, json) fmap, protocol_error) result" where
  "as_object value = (case value of JObject m \<Rightarrow> Ok m | _ \<Rightarrow> Err SchemaViolation)"

definition as_array :: "json \<Rightarrow> (json list, protocol_error) result" where
  "as_array value = (case value of JArray xs \<Rightarrow> Ok xs | _ \<Rightarrow> Err SchemaViolation)"

definition as_str :: "json \<Rightarrow> (str, protocol_error) result" where
  "as_str value = (case value of JString s \<Rightarrow> Ok s | _ \<Rightarrow> Err SchemaViolation)"

definition json_as_bool :: "json \<Rightarrow> bool option" where
  "json_as_bool value = (case value of JBool b \<Rightarrow> Some b | _ \<Rightarrow> None)"

definition json_as_u64 :: "json \<Rightarrow> u64 option" where
  "json_as_u64 value = (case value of JNumber (PosInt n) \<Rightarrow> Some n | _ \<Rightarrow> None)"

definition field :: "(str, json) fmap \<Rightarrow> str \<Rightarrow> (json, protocol_error) result" where
  "field object name = ok_or (fmlookup object name) SchemaViolation"

definition string_field :: "(str, json) fmap \<Rightarrow> str \<Rightarrow> (str, protocol_error) result" where
  "string_field object name = and_then (field object name) as_str"

definition u64_field :: "(str, json) fmap \<Rightarrow> str \<Rightarrow> (u64, protocol_error) result" where
  "u64_field object name =
     and_then (field object name) (\<lambda>value. ok_or (json_as_u64 value) SchemaViolation)"

text \<open>\<open>u32::try_from\<close> on a \<open>u64\<close>.\<close>

definition u32_try_from :: "u64 \<Rightarrow> (u32, protocol_error) result" where
  "u32_try_from n = (if unat n < 2 ^ 32 then Ok (ucast n) else Err SchemaViolation)"

text \<open>A domain constructor called with the \<open>?\<close> operator.\<close>

definition domain :: "('a, domain_error) result \<Rightarrow> ('a, protocol_error) result" where
  "domain r = map_err ProtocolError_Domain r"

lemma domain_Ok_iff [simp]: "domain r = Ok x \<longleftrightarrow> r = Ok x"
  by (simp add: domain_def)

lemma domain_Ok [res_simps]: "domain (Ok x) = Ok x"
  by (simp add: domain_def)

lemma as_object_obj [res_simps]: "as_object (json_object kvs) = Ok (fmap_of_list kvs)"
  by (simp add: as_object_def json_object_def)

lemma as_object_JObject [res_simps]: "as_object (JObject m) = Ok m"
  by (simp add: as_object_def)

lemma as_array_JArray [res_simps]: "as_array (JArray xs) = Ok xs"
  by (simp add: as_array_def)

lemma as_str_JString [res_simps]: "as_str (JString s) = Ok s"
  by (simp add: as_str_def)

lemma as_bool_JBool [res_simps]: "json_as_bool (JBool b) = Some b"
  by (simp add: json_as_bool_def)

lemma as_u64_json_u64 [res_simps]: "json_as_u64 (json_u64 n) = Some n"
  by (simp add: json_as_u64_def json_u64_def)

lemma field_of_list [res_simps]:
  "field (fmap_of_list kvs) k = ok_or (map_of kvs k) SchemaViolation"
  by (simp add: field_def fmlookup_of_list)

lemma field_fmupd [res_simps]:
  "field (fmupd k v m) k' = (if k = k' then Ok v else field m k')"
  by (simp add: field_def)

lemma string_field_eq [res_simps]:
  "string_field m k = and_then (field m k) as_str"
  by (simp add: string_field_def)

lemma u64_field_eq [res_simps]:
  "u64_field m k = and_then (field m k) (\<lambda>value. ok_or (json_as_u64 value) SchemaViolation)"
  by (simp add: u64_field_def)

lemma u32_try_from_ucast [res_simps]: "u32_try_from (ucast n) = Ok n"
  using unat_u32_lt [of n] by (simp add: u32_try_from_def word_unat_eq_iff unsigned_ucast_eq [where 'a = nat] take_bit_nat_eq_self)

lemma u32_try_from_Ok_iff: "u32_try_from n = Ok k \<longleftrightarrow> n = ucast k"
proof
  assume "u32_try_from n = Ok k"
  then have "unat n < 2 ^ 32" and "k = ucast n"
    by (auto simp: u32_try_from_def split: if_splits)
  then show "n = ucast k"
    by (simp add: word_unat_eq_iff unsigned_ucast_eq take_bit_nat_eq_self)
qed (simp add: u32_try_from_ucast)

section \<open>The wire\<close>

definition SCHEMA_VERSION :: str where "SCHEMA_VERSION = ''openoj.evaluation/v0alpha1''"
definition MAX_EVALUATION_REQUEST_BYTES :: nat where "MAX_EVALUATION_REQUEST_BYTES = 262144"
definition MAX_EVALUATION_RESULT_BYTES :: nat where "MAX_EVALUATION_RESULT_BYTES = 1048576"

text \<open>\<open>serde_json\<close> at one generated type; \<open>None\<close> is an error of the library.\<close>

record 't wire_type =
  from_slice :: "bytes \<Rightarrow> 't option"
  to_vec :: "'t \<Rightarrow> bytes option"
  from_value :: "json \<Rightarrow> 't option"
  to_value :: "'t \<Rightarrow> json option"

text \<open>
  The validator compiled from the embedded schema, \<open>None\<close> when it cannot be built, and the two
  generated message types.
\<close>

record ('q, 'r) wire_lib =
  wl_validator :: "(json \<Rightarrow> bool) option"
  wl_request :: "'q wire_type"
  wl_result :: "'r wire_type"

definition ensure_size :: "nat \<Rightarrow> nat \<Rightarrow> (unit, protocol_error) result" where
  "ensure_size actual maximum =
     (if actual > maximum then Err (MessageTooLarge maximum actual) else Ok ())"

definition schema_validate :: "('q, 'r) wire_lib \<Rightarrow> json \<Rightarrow> (unit, protocol_error) result" where
  "schema_validate lib value =
     and_then (ok_or (wl_validator lib) SchemaUnavailable) (\<lambda>is_valid.
       if is_valid value then Ok () else Err SchemaViolation)"

definition decode_wire ::
  "('q, 'r) wire_lib \<Rightarrow> 't wire_type \<Rightarrow> bytes \<Rightarrow> nat \<Rightarrow> (json, protocol_error) result" where
  "decode_wire lib ty input maximum =
     and_then (ensure_size (length input) maximum) (\<lambda>_.
     and_then (ok_or (from_slice ty input) MalformedDocument) (\<lambda>typed.
     and_then (ok_or (to_value ty typed) EncodingFailed) (\<lambda>value.
     and_then (schema_validate lib value) (\<lambda>_. Ok value))))"

definition encode_wire ::
  "('q, 'r) wire_lib \<Rightarrow> 't wire_type \<Rightarrow> json \<Rightarrow> nat \<Rightarrow> (bytes, protocol_error) result" where
  "encode_wire lib ty value maximum =
     and_then (schema_validate lib value) (\<lambda>_.
     and_then (ok_or (from_value ty value) SchemaViolation) (\<lambda>typed.
     and_then (ok_or (to_vec ty typed) EncodingFailed) (\<lambda>encoded.
     and_then (ensure_size (length encoded) maximum) (\<lambda>_. Ok encoded))))"

text \<open>
  What the code relies on: a generated type reads back the bytes it wrote, and the generated
  types keep every document the schema accepts.
\<close>

definition wire_type_ok :: "(json \<Rightarrow> bool) option \<Rightarrow> 't wire_type \<Rightarrow> bool" where
  "wire_type_ok validator ty \<longleftrightarrow>
     (\<forall>t b. to_vec ty t = Some b \<longrightarrow> from_slice ty b = Some t) \<and>
     (\<forall>p v t. validator = Some p \<longrightarrow> p v \<longrightarrow> from_value ty v = Some t \<longrightarrow> to_value ty t = Some v)"

definition wire_lib_ok :: "('q, 'r) wire_lib \<Rightarrow> bool" where
  "wire_lib_ok lib \<longleftrightarrow>
     wire_type_ok (wl_validator lib) (wl_request lib) \<and>
     wire_type_ok (wl_validator lib) (wl_result lib)"

lemma ensure_size_Ok_iff [simp]: "ensure_size a m = Ok u \<longleftrightarrow> a \<le> m"
  by (simp add: ensure_size_def)

lemma schema_validate_Ok_iff:
  "schema_validate lib v = Ok u \<longleftrightarrow> (\<exists>p. wl_validator lib = Some p \<and> p v)"
  by (auto simp: schema_validate_def and_then_Ok_iff)

lemma encode_wire_bound: "encode_wire lib ty v m = Ok b \<Longrightarrow> length b \<le> m"
  by (auto simp: encode_wire_def and_then_Ok_iff)

lemma encode_wire_valid:
  "encode_wire lib ty v m = Ok b \<Longrightarrow> \<exists>p. wl_validator lib = Some p \<and> p v"
  by (auto simp: encode_wire_def and_then_Ok_iff schema_validate_Ok_iff)

lemma decode_encode_wire:
  assumes "wire_type_ok (wl_validator lib) ty" and "encode_wire lib ty v m = Ok b"
  shows "decode_wire lib ty b m = Ok v"
proof -
  from assms(2) obtain p t where p: "wl_validator lib = Some p" "p v"
    and t: "from_value ty v = Some t" "to_vec ty t = Some b" and len: "length b \<le> m"
    by (auto simp: encode_wire_def and_then_Ok_iff schema_validate_Ok_iff)
  have "from_slice ty b = Some t" and "to_value ty t = Some v"
    using assms(1) p t unfolding wire_type_ok_def by blast+
  then show ?thesis
    using p len by (simp add: decode_wire_def schema_validate_def ensure_size_def)
qed

section \<open>Values of both messages\<close>

definition ArtifactSensitivity_as_str :: "artifact_sensitivity \<Rightarrow> str" where
  "ArtifactSensitivity_as_str s =
     (case s of
        ArtifactSensitivity_Public \<Rightarrow> ''public''
      | ArtifactSensitivity_Private \<Rightarrow> ''private''
      | ArtifactSensitivity_Hidden \<Rightarrow> ''hidden'')"

definition artifact_to_value :: "artifact_ref \<Rightarrow> json" where
  "artifact_to_value artifact = json_object
     [(''artifact_id'', JString (artifact_id_str (art_artifact_id artifact))),
      (''digest'', JString (content_digest_str (art_digest artifact))),
      (''media_type'', JString (media_type_str (art_media_type artifact))),
      (''size_bytes'', json_u64 (art_size_bytes artifact)),
      (''sensitivity'', JString (ArtifactSensitivity_as_str (art_sensitivity artifact)))]"

definition sensitivity_from_str :: "str \<Rightarrow> (artifact_sensitivity, protocol_error) result" where
  "sensitivity_from_str s =
     (if s = ''public'' then Ok ArtifactSensitivity_Public
      else if s = ''private'' then Ok ArtifactSensitivity_Private
      else if s = ''hidden'' then Ok ArtifactSensitivity_Hidden
      else Err SchemaViolation)"

definition artifact_from_value :: "json \<Rightarrow> (artifact_ref, protocol_error) result" where
  "artifact_from_value value =
     and_then (as_object value) (\<lambda>artifact.
     and_then (string_field artifact ''sensitivity'') (\<lambda>s.
     and_then (sensitivity_from_str s) (\<lambda>sensitivity.
     and_then (string_field artifact ''artifact_id'') (\<lambda>s.
     and_then (domain (ArtifactId_parse s)) (\<lambda>artifact_id.
     and_then (string_field artifact ''digest'') (\<lambda>s.
     and_then (domain (ContentDigest_parse s)) (\<lambda>digest.
     and_then (string_field artifact ''media_type'') (\<lambda>s.
     and_then (domain (MediaType_parse s)) (\<lambda>media_type.
     and_then (u64_field artifact ''size_bytes'') (\<lambda>size_bytes.
       domain (ArtifactRef_new artifact_id digest media_type size_bytes sensitivity)))))))))))"

definition stage_kind_from_value :: "json \<Rightarrow> (stage_kind, protocol_error) result" where
  "stage_kind_from_value value =
     and_then (as_str value) (\<lambda>s.
       if s = ''prepare'' then Ok StageKind_Prepare
       else if s = ''build'' then Ok StageKind_Build
       else if s = ''run'' then Ok StageKind_Run
       else if s = ''check'' then Ok StageKind_Check
       else if s = ''aggregate'' then Ok StageKind_Aggregate
       else Err SchemaViolation)"

lemma sensitivity_from_as_str [res_simps]:
  "sensitivity_from_str (ArtifactSensitivity_as_str s) = Ok s"
  by (cases s) (simp_all add: sensitivity_from_str_def ArtifactSensitivity_as_str_def)

lemma stage_kind_from_as_str [res_simps]:
  "stage_kind_from_value (JString (StageKind_as_str k)) = Ok k"
  by (cases k) (simp_all add: stage_kind_from_value_def as_str_def)

end
