(* ===== verification/Protocol_Request.thy ===== *)
theory Protocol_Request
  imports Protocol_Json
begin

text \<open>
  The request half of \<open>crates/openoj-protocol/src/lib.rs\<close>: \<open>request_to_value\<close>,
  \<open>request_from_value\<close> and the bounded encoding and decoding of an \<open>EvaluationRequest\<close>.  What
  decodes is a valid request, and encoding followed by decoding is the identity.
\<close>

definition request_to_value :: "evaluation_request \<Rightarrow> json" where
  "request_to_value request = json_object
     [(''message_type'', JString ''evaluation_request''),
      (''schema_version'', JString SCHEMA_VERSION),
      (''request_id'', JString (request_id_str (req_request_id request))),
      (''idempotency_key'', JString (idempotency_key_str (req_idempotency_key request))),
      (''evaluation_id'', JString (evaluation_id_str (req_evaluation_id request))),
      (''attempt_id'', JString (attempt_id_str (req_attempt_id request))),
      (''attempt_number'', json_u64 (ucast (req_attempt_number request))),
      (''problem_version'', json_object
         [(''problem_id'', JString (problem_id_str (pv_problem_id (req_problem_version request)))),
          (''problem_version_id'', JString (problem_version_id_str
             (pv_problem_version_id (req_problem_version request)))),
          (''digest'', JString (content_digest_str (pv_digest (req_problem_version request))))]),
      (''submission'', json_object
         [(''submission_id'', JString (submission_id_str
             (sub_submission_id (req_submission request)))),
          (''source'', artifact_to_value (sub_source (req_submission request)))]),
      (''runtime'', json_object
         [(''runtime_id'', JString (runtime_id_str (rt_runtime_id (req_runtime request)))),
          (''digest'', JString (content_digest_str (rt_digest (req_runtime request))))]),
      (''plan'', json_object
         [(''profile'', JString (EvaluationProfile_as_str (plan_profile (req_plan request)))),
          (''stages'', JArray (map (\<lambda>stage. JString (StageKind_as_str stage))
             (plan_stages (req_plan request))))]),
      (''policy'', json_object
         [(''cpu_time_ms'', json_u64 (pol_cpu_time_ms (req_policy request))),
          (''wall_time_ms'', json_u64 (pol_wall_time_ms (req_policy request))),
          (''memory_bytes'', json_u64 (pol_memory_bytes (req_policy request))),
          (''output_bytes'', json_u64 (pol_output_bytes (req_policy request))),
          (''process_limit'', json_u64 (ucast (pol_process_limit (req_policy request)))),
          (''network'', JString (NetworkPolicy_as_str (pol_network (req_policy request))))]),
      (''required_capabilities'', JArray
         (map (\<lambda>capability. JString (capability_str capability))
            (req_required_capabilities request)))]"

definition capability_from_value :: "json \<Rightarrow> (capability, protocol_error) result" where
  "capability_from_value value = and_then (as_str value) (\<lambda>s. domain (Capability_parse s))"

text \<open>The three nested constructor calls of \<open>request_from_value\<close>.\<close>

definition problem_version_from_object ::
  "(str, json) fmap \<Rightarrow> (problem_version_ref, protocol_error) result" where
  "problem_version_from_object problem =
     and_then (string_field problem ''problem_id'') (\<lambda>s.
     and_then (domain (ProblemId_parse s)) (\<lambda>problem_id.
     and_then (string_field problem ''problem_version_id'') (\<lambda>s.
     and_then (domain (ProblemVersionId_parse s)) (\<lambda>problem_version_id.
     and_then (string_field problem ''digest'') (\<lambda>s.
     and_then (domain (ContentDigest_parse s)) (\<lambda>digest.
       Ok \<lparr>pv_problem_id = problem_id, pv_problem_version_id = problem_version_id,
           pv_digest = digest\<rparr>))))))"

definition runtime_from_object ::
  "(str, json) fmap \<Rightarrow> (runtime_ref, protocol_error) result" where
  "runtime_from_object runtime =
     and_then (string_field runtime ''runtime_id'') (\<lambda>s.
     and_then (domain (RuntimeId_parse s)) (\<lambda>runtime_id.
     and_then (string_field runtime ''digest'') (\<lambda>s.
     and_then (domain (ContentDigest_parse s)) (\<lambda>digest.
       Ok \<lparr>rt_runtime_id = runtime_id, rt_digest = digest\<rparr>))))"

definition policy_from_object ::
  "(str, json) fmap \<Rightarrow> u32 \<Rightarrow> (resource_policy, protocol_error) result" where
  "policy_from_object policy process_limit =
     and_then (u64_field policy ''cpu_time_ms'') (\<lambda>cpu_time_ms.
     and_then (u64_field policy ''wall_time_ms'') (\<lambda>wall_time_ms.
     and_then (u64_field policy ''memory_bytes'') (\<lambda>memory_bytes.
     and_then (u64_field policy ''output_bytes'') (\<lambda>output_bytes.
       domain (ResourcePolicy_new cpu_time_ms wall_time_ms memory_bytes output_bytes
                 process_limit NetworkPolicy_Denied)))))"

definition request_from_value :: "json \<Rightarrow> (evaluation_request, protocol_error) result" where
  "request_from_value value =
     and_then (as_object value) (\<lambda>object.
     and_then (field object ''problem_version'') (\<lambda>v. and_then (as_object v) (\<lambda>problem.
     and_then (field object ''submission'') (\<lambda>v. and_then (as_object v) (\<lambda>submission.
     and_then (field submission ''source'') (\<lambda>v. and_then (artifact_from_value v) (\<lambda>source.
     and_then (field object ''runtime'') (\<lambda>v. and_then (as_object v) (\<lambda>runtime.
     and_then (field object ''plan'') (\<lambda>v. and_then (as_object v) (\<lambda>plan.
     and_then (field object ''policy'') (\<lambda>v. and_then (as_object v) (\<lambda>policy.
     and_then (field plan ''stages'') (\<lambda>v. and_then (as_array v) (\<lambda>xs.
     and_then (traverse stage_kind_from_value xs) (\<lambda>stages.
     and_then (string_field plan ''profile'') (\<lambda>profile.
     if profile \<noteq> ''algorithm_batch'' then Err SchemaViolation else
     and_then (field object ''required_capabilities'') (\<lambda>v. and_then (as_array v) (\<lambda>xs.
     and_then (traverse capability_from_value xs) (\<lambda>required_capabilities.
     and_then (u64_field object ''attempt_number'') (\<lambda>n.
     and_then (u32_try_from n) (\<lambda>attempt_number.
     and_then (u64_field policy ''process_limit'') (\<lambda>n.
     and_then (u32_try_from n) (\<lambda>process_limit.
     and_then (string_field policy ''network'') (\<lambda>network.
     if network \<noteq> ''denied'' then Err SchemaViolation else
     and_then (string_field object ''request_id'') (\<lambda>s.
     and_then (domain (RequestId_parse s)) (\<lambda>request_id.
     and_then (string_field object ''idempotency_key'') (\<lambda>s.
     and_then (domain (IdempotencyKey_parse s)) (\<lambda>idempotency_key.
     and_then (string_field object ''evaluation_id'') (\<lambda>s.
     and_then (domain (EvaluationId_parse s)) (\<lambda>evaluation_id.
     and_then (string_field object ''attempt_id'') (\<lambda>s.
     and_then (domain (AttemptId_parse s)) (\<lambda>attempt_id.
     and_then (problem_version_from_object problem) (\<lambda>problem_version.
     and_then (string_field submission ''submission_id'') (\<lambda>s.
     and_then (domain (SubmissionId_parse s)) (\<lambda>submission_id.
     and_then (runtime_from_object runtime) (\<lambda>runtime.
     and_then (domain (EvaluationPlan_try_algorithm_batch stages)) (\<lambda>plan.
     and_then (policy_from_object policy process_limit) (\<lambda>policy.
       domain (EvaluationRequest_new
         \<lparr>req_request_id = request_id, req_idempotency_key = idempotency_key,
          req_evaluation_id = evaluation_id, req_attempt_id = attempt_id,
          req_attempt_number = attempt_number, req_problem_version = problem_version,
          req_submission = \<lparr>sub_submission_id = submission_id, sub_source = source\<rparr>,
          req_runtime = runtime, req_plan = plan, req_policy = policy,
          req_required_capabilities = required_capabilities\<rparr>)
     )))))))))))))))))))))))))))))))))))))))"

definition decode_evaluation_request ::
  "('q, 'r) wire_lib \<Rightarrow> bytes \<Rightarrow> (evaluation_request, protocol_error) result" where
  "decode_evaluation_request lib input =
     and_then (decode_wire lib (wl_request lib) input MAX_EVALUATION_REQUEST_BYTES)
       request_from_value"

definition encode_evaluation_request ::
  "('q, 'r) wire_lib \<Rightarrow> evaluation_request \<Rightarrow> (bytes, protocol_error) result" where
  "encode_evaluation_request lib request =
     encode_wire lib (wl_request lib) (request_to_value request) MAX_EVALUATION_REQUEST_BYTES"

section \<open>Round trip\<close>

lemma artifact_round_trip [res_simps]:
  "artifact_ref_ok a \<Longrightarrow> artifact_from_value (artifact_to_value a) = Ok a"
  by (simp add: artifact_from_value_def artifact_to_value_def res_simps artifact_ref_ok_def
      ArtifactId_parse_def domain_def ArtifactRef_new_def not_less)


lemma problem_version_round_trip:
  assumes "problem_version_ref_ok p"
  shows "problem_version_from_object (fmap_of_list
     [(''problem_id'', JString (problem_id_str (pv_problem_id p))),
      (''problem_version_id'', JString (problem_version_id_str (pv_problem_version_id p))),
      (''digest'', JString (content_digest_str (pv_digest p)))]) = Ok p"
  using assms
  by (simp add: problem_version_from_object_def res_simps problem_version_ref_ok_def
      ProblemId_parse_def ProblemVersionId_parse_def)

lemma runtime_round_trip:
  assumes "runtime_ref_ok r"
  shows "runtime_from_object (fmap_of_list
     [(''runtime_id'', JString (runtime_id_str (rt_runtime_id r))),
      (''digest'', JString (content_digest_str (rt_digest r)))]) = Ok r"
  using assms
  by (simp add: runtime_from_object_def res_simps runtime_ref_ok_def RuntimeId_parse_def)

lemma policy_round_trip:
  assumes "resource_policy_ok p"
  shows "policy_from_object (fmap_of_list
     [(''cpu_time_ms'', json_u64 (pol_cpu_time_ms p)),
      (''wall_time_ms'', json_u64 (pol_wall_time_ms p)),
      (''memory_bytes'', json_u64 (pol_memory_bytes p)),
      (''output_bytes'', json_u64 (pol_output_bytes p)),
      (''process_limit'', json_u64 (ucast (pol_process_limit p))),
      (''network'', JString (NetworkPolicy_as_str (pol_network p)))]) (pol_process_limit p) = Ok p"
proof -
  have "pol_network p = NetworkPolicy_Denied" by (cases "pol_network p") simp
  then have "p = \<lparr>pol_cpu_time_ms = pol_cpu_time_ms p, pol_wall_time_ms = pol_wall_time_ms p,
      pol_memory_bytes = pol_memory_bytes p, pol_output_bytes = pol_output_bytes p,
      pol_process_limit = pol_process_limit p, pol_network = NetworkPolicy_Denied\<rparr>"
    by (metis resource_policy.surjective old.unit.exhaust)
  then have "ResourcePolicy_new (pol_cpu_time_ms p) (pol_wall_time_ms p) (pol_memory_bytes p)
      (pol_output_bytes p) (pol_process_limit p) NetworkPolicy_Denied = Ok p"
    using assms unfolding ResourcePolicy_new_Ok_iff by blast
  then show ?thesis
    by (simp add: policy_from_object_def res_simps)
qed

lemma capabilities_round_trip:
  "list_all (\<lambda>c. lower_token_ok MAX_CAPABILITY_LENGTH (capability_str c)) cs \<Longrightarrow>
     traverse capability_from_value (map (\<lambda>c. JString (capability_str c)) cs) = Ok cs"
  by (induction cs) (auto simp: capability_from_value_def res_simps)

lemma stages_round_trip:
  "traverse stage_kind_from_value (map (\<lambda>k. JString (StageKind_as_str k)) ks) = Ok ks"
  by (induction ks) (auto simp: res_simps)

theorem request_value_round_trip:
  assumes "evaluation_request_ok r"
  shows "request_from_value (request_to_value r) = Ok r"
proof -
  have "req_plan r = EvaluationPlan_algorithm_batch"
    using assms by (simp add: evaluation_request_ok_def evaluation_plan_ok_iff)
  then have plan: "EvaluationPlan_try_algorithm_batch (plan_stages (req_plan r)) = Ok (req_plan r)"
    by (simp add: EvaluationPlan_try_algorithm_batch_Ok_iff EvaluationPlan_algorithm_batch_def)
  have profile: "EvaluationProfile_as_str (plan_profile (req_plan r)) = ''algorithm_batch''"
    by (cases "plan_profile (req_plan r)") simp
  have net: "NetworkPolicy_as_str (pol_network (req_policy r)) = ''denied''"
    by (cases "pol_network (req_policy r)") simp
  show ?thesis
    using assms problem_version_round_trip [of "req_problem_version r"]
      runtime_round_trip [of "req_runtime r"] policy_round_trip [of "req_policy r"]
      capabilities_round_trip [of "req_required_capabilities r"]
      stages_round_trip [of "plan_stages (req_plan r)"]
      EvaluationRequest_new_Ok [OF assms]
    by (simp add: request_from_value_def request_to_value_def res_simps
        evaluation_request_ok_def submission_ref_ok_def net plan profile
        RequestId_parse_def EvaluationId_parse_def AttemptId_parse_def SubmissionId_parse_def)
qed


section \<open>What decodes is valid\<close>

lemma artifact_from_value_ok: "artifact_from_value v = Ok a \<Longrightarrow> artifact_ref_ok a"
  by (auto simp: artifact_from_value_def and_then_Ok_iff ArtifactRef_new_Ok_iff artifact_ref_ok_def
      ArtifactId_parse_def parse_opaque_id_Ok_iff ContentDigest_parse_Ok_iff MediaType_parse_Ok_iff)

lemma problem_version_from_object_ok:
  "problem_version_from_object m = Ok p \<Longrightarrow> problem_version_ref_ok p"
  by (auto simp: problem_version_from_object_def and_then_Ok_iff problem_version_ref_ok_def
      ProblemId_parse_def ProblemVersionId_parse_def parse_opaque_id_Ok_iff
      ContentDigest_parse_Ok_iff)

lemma runtime_from_object_ok: "runtime_from_object m = Ok p \<Longrightarrow> runtime_ref_ok p"
  by (auto simp: runtime_from_object_def and_then_Ok_iff runtime_ref_ok_def
      RuntimeId_parse_def parse_opaque_id_Ok_iff ContentDigest_parse_Ok_iff)

lemma policy_from_object_ok: "policy_from_object m l = Ok p \<Longrightarrow> resource_policy_ok p"
  by (auto simp: policy_from_object_def and_then_Ok_iff ResourcePolicy_new_Ok_iff)

lemma capabilities_from_values_ok:
  "traverse capability_from_value vs = Ok cs \<Longrightarrow>
     list_all (\<lambda>c. lower_token_ok MAX_CAPABILITY_LENGTH (capability_str c)) cs"
  by (induction vs arbitrary: cs)
    (auto simp: capability_from_value_def and_then_Ok_iff Capability_parse_Ok_iff)

lemma request_from_value_ok:
  assumes "request_from_value v = Ok r"
  shows "evaluation_request_ok r"
  using assms unfolding request_from_value_def
  by (auto elim!: and_then_OkE split: if_splits
      simp: EvaluationRequest_new_Ok_iff evaluation_request_ok_def submission_ref_ok_def
        EvaluationPlan_try_algorithm_batch_Ok_iff evaluation_plan_ok_iff
        RequestId_parse_def EvaluationId_parse_def AttemptId_parse_def SubmissionId_parse_def
        parse_opaque_id_Ok_iff IdempotencyKey_parse_Ok_iff
      dest!: problem_version_from_object_ok runtime_from_object_ok policy_from_object_ok
        artifact_from_value_ok capabilities_from_values_ok)

lemma decode_evaluation_request_ok:
  "decode_evaluation_request lib b = Ok r \<Longrightarrow> evaluation_request_ok r"
  by (auto simp: decode_evaluation_request_def and_then_Ok_iff dest: request_from_value_ok)

lemma decode_encode_request:
  assumes "wire_lib_ok lib" and "evaluation_request_ok r"
    and "encode_evaluation_request lib r = Ok b"
  shows "decode_evaluation_request lib b = Ok r"
proof -
  have "decode_wire lib (wl_request lib) b MAX_EVALUATION_REQUEST_BYTES = Ok (request_to_value r)"
    using assms by (intro decode_encode_wire) (simp_all add: wire_lib_ok_def
        encode_evaluation_request_def)
  then show ?thesis
    using request_value_round_trip [OF assms(2)] by (simp add: decode_evaluation_request_def)
qed

lemma encode_request_inj:
  "wire_lib_ok lib \<Longrightarrow> evaluation_request_ok r \<Longrightarrow> evaluation_request_ok r' \<Longrightarrow>
     encode_evaluation_request lib r = Ok b \<Longrightarrow> encode_evaluation_request lib r' = Ok b \<Longrightarrow> r = r'"
  by (metis decode_encode_request result.inject(1))

end
