(* ===== verification/Protocol_Result.thy ===== *)
theory Protocol_Result
  imports Protocol_Request
begin

text \<open>
  The result half of \<open>crates/openoj-protocol/src/lib.rs\<close>: conversion to and from documents and
  the cross-field checks of \<open>validate_result_semantics\<close>, which a sender and a receiver run on the
  document.  A result converted and read back is the same result, and the document checks accept
  a valid result exactly when its usage is the aggregate of its stages.
\<close>

section \<open>Conversion to documents\<close>

definition provenance_to_value :: "execution_provenance \<Rightarrow> json" where
  "provenance_to_value provenance =
     (let value = fmap_of_list
        [(''executor_kind'', JString (ExecutorKind_as_str (prov_executor_kind provenance))),
         (''production_eligible'', JBool (prov_production_eligible provenance)),
         (''runtime_digest'', JString (content_digest_str (prov_runtime_digest provenance)))]
      in case prov_node_id provenance of
           Some node_id \<Rightarrow> JObject (fmupd ''node_id'' (JString (node_id_str node_id)) value)
         | None \<Rightarrow> JObject value)"

definition score_to_value :: "score \<Rightarrow> json" where
  "score_to_value score = json_object
     [(''earned'', json_u64 (ucast (sco_earned score))),
      (''possible'', json_u64 (ucast (sco_possible score)))]"

definition usage_to_value :: "resource_usage \<Rightarrow> json" where
  "usage_to_value usage = json_object
     [(''cpu_time_ms'', json_u64 (use_cpu_time_ms usage)),
      (''wall_time_ms'', json_u64 (use_wall_time_ms usage)),
      (''memory_peak_bytes'', json_u64 (use_memory_peak_bytes usage)),
      (''output_bytes'', json_u64 (use_output_bytes usage))]"

definition diagnostic_to_value :: "diagnostic \<Rightarrow> json" where
  "diagnostic_to_value diagnostic = json_object
     [(''code'', JString (diagnostic_code_str (diag_code diagnostic))),
      (''message'', JString (diag_message diagnostic)),
      (''truncated'', JBool (diag_truncated diagnostic))]"

definition evidence_to_value :: "evidence_ref \<Rightarrow> json" where
  "evidence_to_value evidence =
     (let value = fmap_of_list
        [(''evidence_id'', JString (evidence_id_str (evd_evidence_id evidence))),
         (''kind'', JString (evidence_kind_str (evd_kind evidence)))]
      in case evd_artifact evidence of
           Some artifact \<Rightarrow> JObject (fmupd ''artifact'' (artifact_to_value artifact) value)
         | None \<Rightarrow> JObject value)"

definition stage_report_to_value :: "stage_report \<Rightarrow> json" where
  "stage_report_to_value report = json_object
     [(''stage'', JString (StageKind_as_str (rep_stage report))),
      (''status'', JString (StageStatus_as_str (rep_status report))),
      (''usage'', usage_to_value (rep_usage report)),
      (''diagnostics'', JArray (map diagnostic_to_value (rep_diagnostics report))),
      (''evidence'', JArray (map evidence_to_value (rep_evidence report)))]"

definition result_to_value :: "evaluation_result \<Rightarrow> json" where
  "result_to_value result = json_object
     [(''message_type'', JString ''evaluation_result''),
      (''schema_version'', JString SCHEMA_VERSION),
      (''request_id'', JString (request_id_str (idn_request_id (res_identity result)))),
      (''evaluation_id'', JString (evaluation_id_str (idn_evaluation_id (res_identity result)))),
      (''attempt_id'', JString (attempt_id_str (idn_attempt_id (res_identity result)))),
      (''problem_version_id'', JString (problem_version_id_str
         (idn_problem_version_id (res_identity result)))),
      (''submission_id'', JString (submission_id_str (idn_submission_id (res_identity result)))),
      (''runtime_id'', JString (runtime_id_str (idn_runtime_id (res_identity result)))),
      (''status'', JString (EvaluationStatus_as_str (res_status result))),
      (''verdict'', JString (Verdict_as_str (res_verdict result))),
      (''score'', score_to_value (res_score result)),
      (''stages'', JArray (map stage_report_to_value (res_stages result))),
      (''usage'', usage_to_value (res_usage result)),
      (''diagnostics'', JArray (map diagnostic_to_value (res_diagnostics result))),
      (''evidence'', JArray (map evidence_to_value (res_evidence result))),
      (''provenance'', provenance_to_value (res_provenance result))]"

section \<open>Conversion from documents\<close>

definition stage_status_from_value :: "str \<Rightarrow> (stage_status, protocol_error) result" where
  "stage_status_from_value value =
     (if value = ''succeeded'' then Ok StageStatus_Succeeded
      else if value = ''failed'' then Ok StageStatus_Failed
      else if value = ''cancelled'' then Ok StageStatus_Cancelled
      else if value = ''skipped'' then Ok StageStatus_Skipped
      else Err SchemaViolation)"

definition evaluation_status_from_value :: "str \<Rightarrow> (evaluation_status, protocol_error) result" where
  "evaluation_status_from_value value =
     (if value = ''completed'' then Ok EvaluationStatus_Completed
      else if value = ''failed'' then Ok EvaluationStatus_Failed
      else if value = ''cancelled'' then Ok EvaluationStatus_Cancelled
      else Err SchemaViolation)"

definition verdict_from_value :: "str \<Rightarrow> (verdict, protocol_error) result" where
  "verdict_from_value value =
     (if value = ''accepted'' then Ok Verdict_Accepted
      else if value = ''wrong_answer'' then Ok Verdict_WrongAnswer
      else if value = ''compile_error'' then Ok Verdict_CompileError
      else if value = ''runtime_error'' then Ok Verdict_RuntimeError
      else if value = ''time_limit_exceeded'' then Ok Verdict_TimeLimitExceeded
      else if value = ''memory_limit_exceeded'' then Ok Verdict_MemoryLimitExceeded
      else if value = ''output_limit_exceeded'' then Ok Verdict_OutputLimitExceeded
      else if value = ''system_error'' then Ok Verdict_SystemError
      else if value = ''cancelled'' then Ok Verdict_Cancelled
      else Err SchemaViolation)"

definition executor_kind_from_value :: "str \<Rightarrow> (executor_kind, protocol_error) result" where
  "executor_kind_from_value value =
     (if value = ''development_mock'' then Ok ExecutorKind_DevelopmentMock
      else if value = ''firecracker'' then Ok ExecutorKind_Firecracker
      else Err SchemaViolation)"

definition usage_from_value :: "json \<Rightarrow> (resource_usage, protocol_error) result" where
  "usage_from_value value =
     and_then (as_object value) (\<lambda>object.
     and_then (u64_field object ''cpu_time_ms'') (\<lambda>cpu_time_ms.
     and_then (u64_field object ''wall_time_ms'') (\<lambda>wall_time_ms.
     and_then (u64_field object ''memory_peak_bytes'') (\<lambda>memory_peak_bytes.
     and_then (u64_field object ''output_bytes'') (\<lambda>output_bytes.
       domain (ResourceUsage_new cpu_time_ms wall_time_ms memory_peak_bytes output_bytes))))))"

definition diagnostic_from_value :: "json \<Rightarrow> (diagnostic, protocol_error) result" where
  "diagnostic_from_value value =
     and_then (as_object value) (\<lambda>object.
     and_then (field object ''truncated'') (\<lambda>v.
     and_then (ok_or (json_as_bool v) SchemaViolation) (\<lambda>truncated.
     and_then (string_field object ''code'') (\<lambda>s.
     and_then (domain (DiagnosticCode_parse s)) (\<lambda>code.
     and_then (string_field object ''message'') (\<lambda>message.
       domain (Diagnostic_new code message truncated)))))))"

text \<open>\<open>Option::map(f).transpose()\<close>.\<close>

definition transpose_map :: "('a \<Rightarrow> ('b, 'e) result) \<Rightarrow> 'a option \<Rightarrow> ('b option, 'e) result" where
  "transpose_map f m = (case m of None \<Rightarrow> Ok None | Some x \<Rightarrow> map_ok Some (f x))"

definition evidence_from_value :: "json \<Rightarrow> (evidence_ref, protocol_error) result" where
  "evidence_from_value value =
     and_then (as_object value) (\<lambda>object.
     and_then (transpose_map artifact_from_value (fmlookup object ''artifact'')) (\<lambda>artifact.
     and_then (string_field object ''evidence_id'') (\<lambda>s.
     and_then (domain (EvidenceId_parse s)) (\<lambda>evidence_id.
     and_then (string_field object ''kind'') (\<lambda>s.
     and_then (domain (EvidenceKind_parse s)) (\<lambda>kind.
       Ok \<lparr>evd_evidence_id = evidence_id, evd_kind = kind, evd_artifact = artifact\<rparr>))))))"

definition stage_report_from_value :: "json \<Rightarrow> (stage_report, protocol_error) result" where
  "stage_report_from_value value =
     and_then (as_object value) (\<lambda>object.
     and_then (field object ''diagnostics'') (\<lambda>v. and_then (as_array v) (\<lambda>xs.
     and_then (traverse diagnostic_from_value xs) (\<lambda>diagnostics.
     and_then (field object ''evidence'') (\<lambda>v. and_then (as_array v) (\<lambda>xs.
     and_then (traverse evidence_from_value xs) (\<lambda>evidence.
     and_then (field object ''stage'') (\<lambda>v. and_then (stage_kind_from_value v) (\<lambda>stage.
     and_then (string_field object ''status'') (\<lambda>s.
     and_then (stage_status_from_value s) (\<lambda>status.
     and_then (field object ''usage'') (\<lambda>v. and_then (usage_from_value v) (\<lambda>usage.
       domain (StageReport_new stage status usage diagnostics evidence))))))))))))))"

definition node_id_from_value :: "json \<Rightarrow> (node_id, protocol_error) result" where
  "node_id_from_value value = and_then (as_str value) (\<lambda>s. domain (NodeId_parse s))"

definition identity_from_objects ::
  "(str, json) fmap \<Rightarrow> (str, json) fmap \<Rightarrow> (evaluation_identity, protocol_error) result" where
  "identity_from_objects object provenance =
     and_then (string_field object ''request_id'') (\<lambda>s.
     and_then (domain (RequestId_parse s)) (\<lambda>request_id.
     and_then (string_field object ''evaluation_id'') (\<lambda>s.
     and_then (domain (EvaluationId_parse s)) (\<lambda>evaluation_id.
     and_then (string_field object ''attempt_id'') (\<lambda>s.
     and_then (domain (AttemptId_parse s)) (\<lambda>attempt_id.
     and_then (string_field object ''problem_version_id'') (\<lambda>s.
     and_then (domain (ProblemVersionId_parse s)) (\<lambda>problem_version_id.
     and_then (string_field object ''submission_id'') (\<lambda>s.
     and_then (domain (SubmissionId_parse s)) (\<lambda>submission_id.
     and_then (string_field object ''runtime_id'') (\<lambda>s.
     and_then (domain (RuntimeId_parse s)) (\<lambda>runtime_id.
     and_then (string_field provenance ''runtime_digest'') (\<lambda>s.
     and_then (domain (ContentDigest_parse s)) (\<lambda>runtime_digest.
       Ok \<lparr>idn_request_id = request_id, idn_evaluation_id = evaluation_id,
           idn_attempt_id = attempt_id, idn_problem_version_id = problem_version_id,
           idn_submission_id = submission_id, idn_runtime_id = runtime_id,
           idn_runtime_digest = runtime_digest\<rparr>))))))))))))))"

definition score_from_object :: "(str, json) fmap \<Rightarrow> (score, protocol_error) result" where
  "score_from_object score =
     and_then (u64_field score ''earned'') (\<lambda>n. and_then (u32_try_from n) (\<lambda>earned.
     and_then (u64_field score ''possible'') (\<lambda>n. and_then (u32_try_from n) (\<lambda>possible.
       domain (Score_new earned possible)))))"

definition provenance_from_object ::
  "(str, json) fmap \<Rightarrow> bool \<Rightarrow> node_id option \<Rightarrow> (execution_provenance, protocol_error) result"
where
  "provenance_from_object provenance production_eligible node_id =
     and_then (string_field provenance ''executor_kind'') (\<lambda>s.
     and_then (executor_kind_from_value s) (\<lambda>executor_kind.
     and_then (string_field provenance ''runtime_digest'') (\<lambda>s.
     and_then (domain (ContentDigest_parse s)) (\<lambda>runtime_digest.
       domain (ExecutionProvenance_new executor_kind production_eligible runtime_digest node_id)))))"

definition result_from_value :: "json \<Rightarrow> (evaluation_result, protocol_error) result" where
  "result_from_value value =
     and_then (as_object value) (\<lambda>object.
     and_then (field object ''score'') (\<lambda>v. and_then (as_object v) (\<lambda>score.
     and_then (field object ''provenance'') (\<lambda>v. and_then (as_object v) (\<lambda>provenance.
     and_then (identity_from_objects object provenance) (\<lambda>identity.
     and_then (field object ''stages'') (\<lambda>v. and_then (as_array v) (\<lambda>xs.
     and_then (traverse stage_report_from_value xs) (\<lambda>stages.
     and_then (field object ''diagnostics'') (\<lambda>v. and_then (as_array v) (\<lambda>xs.
     and_then (traverse diagnostic_from_value xs) (\<lambda>diagnostics.
     and_then (field object ''evidence'') (\<lambda>v. and_then (as_array v) (\<lambda>xs.
     and_then (traverse evidence_from_value xs) (\<lambda>evidence.
     and_then (field provenance ''production_eligible'') (\<lambda>v.
     and_then (ok_or (json_as_bool v) SchemaViolation) (\<lambda>production_eligible.
     and_then (transpose_map node_id_from_value (fmlookup provenance ''node_id'')) (\<lambda>node_id.
     and_then (string_field object ''status'') (\<lambda>s.
     and_then (evaluation_status_from_value s) (\<lambda>status.
     and_then (string_field object ''verdict'') (\<lambda>s.
     and_then (verdict_from_value s) (\<lambda>verdict.
     and_then (score_from_object score) (\<lambda>score.
     and_then (field object ''usage'') (\<lambda>v. and_then (usage_from_value v) (\<lambda>usage.
     and_then (provenance_from_object provenance production_eligible node_id) (\<lambda>provenance.
       domain (EvaluationResult_new
         \<lparr>res_identity = identity, res_status = status, res_verdict = verdict,
          res_score = score, res_stages = stages, res_usage = usage,
          res_diagnostics = diagnostics, res_evidence = evidence,
          res_provenance = provenance\<rparr>)
     ))))))))))))))))))))))))))"


section \<open>Round trip\<close>

lemma stage_status_from_as_str [res_simps]: "stage_status_from_value (StageStatus_as_str s) = Ok s"
  by (cases s) (simp_all add: stage_status_from_value_def)

lemma evaluation_status_from_as_str [res_simps]:
  "evaluation_status_from_value (EvaluationStatus_as_str s) = Ok s"
  by (cases s) (simp_all add: evaluation_status_from_value_def)

lemma verdict_from_as_str [res_simps]: "verdict_from_value (Verdict_as_str v) = Ok v"
  by (cases v) (simp_all add: verdict_from_value_def)

lemma executor_kind_from_as_str [res_simps]:
  "executor_kind_from_value (ExecutorKind_as_str k) = Ok k"
  by (cases k) (simp_all add: executor_kind_from_value_def)

lemma usage_round_trip [res_simps]:
  "resource_usage_ok u \<Longrightarrow> usage_from_value (usage_to_value u) = Ok u"
  by (simp add: usage_from_value_def usage_to_value_def res_simps ResourceUsage_new_Ok_iff)

lemma diagnostic_round_trip [res_simps]:
  "diagnostic_ok d \<Longrightarrow> diagnostic_from_value (diagnostic_to_value d) = Ok d"
  by (simp add: diagnostic_from_value_def diagnostic_to_value_def res_simps diagnostic_ok_def
      Diagnostic_new_def)

lemma evidence_round_trip [res_simps]:
  "evidence_ref_ok e \<Longrightarrow> evidence_from_value (evidence_to_value e) = Ok e"
  by (cases "evd_artifact e")
    (auto simp: evidence_from_value_def evidence_to_value_def res_simps evidence_ref_ok_def
      EvidenceId_parse_def transpose_map_def map_ok_Ok_iff)

lemma diagnostics_round_trip:
  "list_all diagnostic_ok ds \<Longrightarrow> traverse diagnostic_from_value (map diagnostic_to_value ds) = Ok ds"
  by (induction ds) (auto simp: res_simps)

lemma evidences_round_trip:
  "list_all evidence_ref_ok es \<Longrightarrow> traverse evidence_from_value (map evidence_to_value es) = Ok es"
  by (induction es) (auto simp: res_simps)

lemma stage_report_round_trip:
  "stage_report_ok r \<Longrightarrow> stage_report_from_value (stage_report_to_value r) = Ok r"
  using diagnostics_round_trip [of "rep_diagnostics r"] evidences_round_trip [of "rep_evidence r"]
  by (simp add: stage_report_from_value_def stage_report_to_value_def res_simps stage_report_ok_def
      StageReport_new_def enforce_collection_limit_def)

lemma stage_reports_round_trip:
  "list_all stage_report_ok rs \<Longrightarrow>
     traverse stage_report_from_value (map stage_report_to_value rs) = Ok rs"
  by (induction rs) (auto simp: stage_report_round_trip)

lemma score_round_trip:
  "score_ok s \<Longrightarrow>
     score_from_object (fmap_of_list [(''earned'', json_u64 (ucast (sco_earned s))),
       (''possible'', json_u64 (ucast (sco_possible s)))]) = Ok s"
  by (simp add: score_from_object_def res_simps Score_new_Ok_iff)

lemma provenance_object:
  obtains m where "provenance_to_value p = JObject m"
    and "field m ''executor_kind'' = Ok (JString (ExecutorKind_as_str (prov_executor_kind p)))"
    and "field m ''production_eligible'' = Ok (JBool (prov_production_eligible p))"
    and "field m ''runtime_digest'' = Ok (JString (content_digest_str (prov_runtime_digest p)))"
    and "fmlookup m ''node_id'' = map_option (\<lambda>n. JString (node_id_str n)) (prov_node_id p)"
  by (cases "prov_node_id p") (auto simp: provenance_to_value_def res_simps)

theorem result_value_round_trip:
  assumes ok: "evaluation_result_ok r"
  shows "result_from_value (result_to_value r) = Ok r"
proof -
  obtain m where m: "provenance_to_value (res_provenance r) = JObject m"
    "field m ''executor_kind'' = Ok (JString (ExecutorKind_as_str (prov_executor_kind (res_provenance r))))"
    "field m ''production_eligible'' = Ok (JBool (prov_production_eligible (res_provenance r)))"
    "field m ''runtime_digest'' = Ok (JString (content_digest_str (prov_runtime_digest (res_provenance r))))"
    "fmlookup m ''node_id'' = map_option (\<lambda>n. JString (node_id_str n)) (prov_node_id (res_provenance r))"
    by (rule provenance_object)
  have prov: "execution_provenance_ok (res_provenance r)"
    "prov_runtime_digest (res_provenance r) = idn_runtime_digest (res_identity r)"
    "evaluation_identity_ok (res_identity r)"
    using ok by (simp_all add: evaluation_result_ok_def)
  have node: "transpose_map node_id_from_value (fmlookup m ''node_id'') =
      Ok (prov_node_id (res_provenance r))"
    using prov by (cases "prov_node_id (res_provenance r)")
      (auto simp: m transpose_map_def execution_provenance_ok_def node_id_from_value_def res_simps
        NodeId_parse_def)
  have provenance: "provenance_from_object m (prov_production_eligible (res_provenance r))
      (prov_node_id (res_provenance r)) = Ok (res_provenance r)"
    using prov by (simp add: provenance_from_object_def m res_simps execution_provenance_ok_def
        ExecutionProvenance_new_Ok_iff)
  have identity: "\<And>ob.
      field ob ''request_id'' = Ok (JString (request_id_str (idn_request_id (res_identity r)))) \<Longrightarrow>
      field ob ''evaluation_id'' =
        Ok (JString (evaluation_id_str (idn_evaluation_id (res_identity r)))) \<Longrightarrow>
      field ob ''attempt_id'' = Ok (JString (attempt_id_str (idn_attempt_id (res_identity r)))) \<Longrightarrow>
      field ob ''problem_version_id'' =
        Ok (JString (problem_version_id_str (idn_problem_version_id (res_identity r)))) \<Longrightarrow>
      field ob ''submission_id'' =
        Ok (JString (submission_id_str (idn_submission_id (res_identity r)))) \<Longrightarrow>
      field ob ''runtime_id'' = Ok (JString (runtime_id_str (idn_runtime_id (res_identity r)))) \<Longrightarrow>
      identity_from_objects ob m = Ok (res_identity r)"
    using prov(2,3)
    by (simp add: identity_from_objects_def m res_simps evaluation_identity_ok_def opaque_parse_defs)
  have res: "score_ok (res_score r)"
    "list_all stage_report_ok (res_stages r)" "resource_usage_ok (res_usage r)"
    "list_all diagnostic_ok (res_diagnostics r)" "list_all evidence_ref_ok (res_evidence r)"
    using ok by (simp_all add: evaluation_result_ok_def)
  have parts: "\<lparr>res_identity = res_identity r, res_status = res_status r,
      res_verdict = res_verdict r, res_score = res_score r, res_stages = res_stages r,
      res_usage = res_usage r, res_diagnostics = res_diagnostics r,
      res_evidence = res_evidence r, res_provenance = res_provenance r\<rparr> = r"
    by (cases r) simp
  show ?thesis
    using res provenance EvaluationResult_new_Ok [OF ok] score_round_trip [OF res(1)]
    by (simp add: result_from_value_def result_to_value_def res_simps identity m(1,3) node
        stage_reports_round_trip diagnostics_round_trip evidences_round_trip
        score_to_value_def parts)
qed


section \<open>Cross-field checks\<close>

definition EXPECTED_STAGES :: "str list" where
  "EXPECTED_STAGES = [''prepare'', ''build'', ''run'', ''check'', ''aggregate'']"

definition validate_terminal_pattern ::
  "str list \<Rightarrow> nat \<Rightarrow> str \<Rightarrow> (unit, protocol_error) result" where
  "validate_terminal_pattern statuses terminal_index terminal_status =
     (if (if terminal_index < length statuses then Some (statuses ! terminal_index) else None)
           \<noteq> Some terminal_status
         \<or> list_ex (\<lambda>status. status \<noteq> ''succeeded'') (take terminal_index statuses)
         \<or> list_ex (\<lambda>status. status \<noteq> ''skipped'') (drop (terminal_index + 1) statuses)
      then Err SemanticViolation else Ok ())"

definition validate_any_terminal_pattern ::
  "str list \<Rightarrow> str \<Rightarrow> (unit, protocol_error) result" where
  "validate_any_terminal_pattern statuses terminal_status =
     (case position (\<lambda>status. status = terminal_status) statuses of
        None \<Rightarrow> Err SemanticViolation
      | Some index \<Rightarrow> validate_terminal_pattern statuses index terminal_status)"

fun stage_statuses :: "(json \<times> str) list \<Rightarrow> (str list, protocol_error) result" where
  "stage_statuses [] = Ok []"
| "stage_statuses ((stage, expected) # rest) =
     and_then (as_object stage) (\<lambda>report.
     and_then (string_field report ''stage'') (\<lambda>s.
     if s \<noteq> expected then Err SemanticViolation else
     and_then (string_field report ''status'') (\<lambda>status.
     and_then (stage_statuses rest) (\<lambda>statuses. Ok (status # statuses)))))"

definition run_rejection_names :: "str list" where
  "run_rejection_names =
     [''runtime_error'', ''time_limit_exceeded'', ''memory_limit_exceeded'',
      ''output_limit_exceeded'']"

definition validate_result_stages ::
  "json list \<Rightarrow> str \<Rightarrow> str \<Rightarrow> (unit, protocol_error) result" where
  "validate_result_stages stages status verdict =
     (if length stages \<noteq> length EXPECTED_STAGES then Err SemanticViolation
      else and_then (stage_statuses (zip stages EXPECTED_STAGES)) (\<lambda>statuses.
        if status = ''completed'' \<and> (verdict = ''accepted'' \<or> verdict = ''wrong_answer'')
        then (if list_ex (\<lambda>stage. stage \<noteq> ''succeeded'') statuses
              then Err SemanticViolation else Ok ())
        else if status = ''completed'' \<and> verdict = ''compile_error''
        then validate_terminal_pattern statuses 1 ''failed''
        else if status = ''completed'' \<and> verdict \<in> set run_rejection_names
        then validate_terminal_pattern statuses 2 ''failed''
        else if status = ''failed'' \<and> verdict = ''system_error''
        then validate_any_terminal_pattern statuses ''failed''
        else if status = ''cancelled'' \<and> verdict = ''cancelled''
        then validate_any_terminal_pattern statuses ''cancelled''
        else Err SemanticViolation))"

text \<open>The accumulating loop of \<open>validate_aggregate_usage\<close>: cpu, wall, memory, output.\<close>

fun aggregate_usage ::
  "json list \<Rightarrow> u64 \<times> u64 \<times> u64 \<times> u64 \<Rightarrow> (u64 \<times> u64 \<times> u64 \<times> u64, protocol_error) result" where
  "aggregate_usage [] acc = Ok acc"
| "aggregate_usage (stage # rest) (cpu_time_ms, wall_time_ms, memory_peak_bytes, output_bytes) =
     and_then (as_object stage) (\<lambda>report.
     and_then (field report ''usage'') (\<lambda>v. and_then (as_object v) (\<lambda>usage.
     and_then (u64_field usage ''cpu_time_ms'') (\<lambda>n.
     and_then (ok_or (checked_add cpu_time_ms n) SemanticViolation) (\<lambda>cpu_time_ms.
     and_then (u64_field usage ''wall_time_ms'') (\<lambda>n.
     and_then (ok_or (checked_add wall_time_ms n) SemanticViolation) (\<lambda>wall_time_ms.
     and_then (u64_field usage ''memory_peak_bytes'') (\<lambda>n.
     let memory_peak_bytes = max memory_peak_bytes n in
     and_then (u64_field usage ''output_bytes'') (\<lambda>n.
     and_then (ok_or (checked_add output_bytes n) SemanticViolation) (\<lambda>output_bytes.
       aggregate_usage rest
         (cpu_time_ms, wall_time_ms, memory_peak_bytes, output_bytes)))))))))))"

definition validate_aggregate_usage ::
  "(str, json) fmap \<Rightarrow> json list \<Rightarrow> (unit, protocol_error) result" where
  "validate_aggregate_usage result stages =
     and_then (aggregate_usage stages (0, 0, 0, 0))
       (\<lambda>(cpu_time_ms, wall_time_ms, memory_peak_bytes, output_bytes).
     and_then (field result ''usage'') (\<lambda>v. and_then (as_object v) (\<lambda>aggregate.
     and_then (u64_field aggregate ''cpu_time_ms'') (\<lambda>c.
     if c \<noteq> cpu_time_ms then Err SemanticViolation else
     and_then (u64_field aggregate ''wall_time_ms'') (\<lambda>w.
     if w \<noteq> wall_time_ms then Err SemanticViolation else
     and_then (u64_field aggregate ''memory_peak_bytes'') (\<lambda>m.
     if m \<noteq> memory_peak_bytes then Err SemanticViolation else
     and_then (u64_field aggregate ''output_bytes'') (\<lambda>b.
     if b \<noteq> output_bytes then Err SemanticViolation else Ok ())))))))"

definition validate_status_verdict :: "str \<Rightarrow> str \<Rightarrow> u64 \<Rightarrow> (unit, protocol_error) result" where
  "validate_status_verdict status verdict earned =
     (if status = ''completed'' \<and> (verdict = ''cancelled'' \<or> verdict = ''system_error'')
      then Err SemanticViolation
      else if status = ''failed'' \<and> (verdict \<noteq> ''system_error'' \<or> earned \<noteq> 0)
      then Err SemanticViolation
      else if status = ''cancelled'' \<and> (verdict \<noteq> ''cancelled'' \<or> earned \<noteq> 0)
      then Err SemanticViolation
      else if status \<noteq> ''completed'' \<and> status \<noteq> ''failed'' \<and> status \<noteq> ''cancelled''
      then Err SemanticViolation
      else if status = ''completed'' \<and>
          (verdict = ''compile_error'' \<or> verdict \<in> set run_rejection_names) \<and> earned \<noteq> 0
      then Err SemanticViolation
      else Ok ())"

definition validate_result_semantics :: "json \<Rightarrow> (unit, protocol_error) result" where
  "validate_result_semantics value =
     and_then (as_object value) (\<lambda>result.
     and_then (string_field result ''status'') (\<lambda>status.
     and_then (string_field result ''verdict'') (\<lambda>verdict.
     and_then (field result ''score'') (\<lambda>v. and_then (as_object v) (\<lambda>score.
     and_then (u64_field score ''earned'') (\<lambda>earned.
     and_then (u64_field score ''possible'') (\<lambda>possible.
     and_then (field result ''stages'') (\<lambda>v. and_then (as_array v) (\<lambda>stages.
     and_then (field result ''provenance'') (\<lambda>v. and_then (as_object v) (\<lambda>provenance.
     if earned > possible then Err SemanticViolation else
     and_then (validate_status_verdict status verdict earned) (\<lambda>_.
     and_then (validate_result_stages stages status verdict) (\<lambda>_.
     and_then (validate_aggregate_usage result stages) (\<lambda>_.
     and_then (string_field provenance ''executor_kind'') (\<lambda>executor_kind.
     and_then (field provenance ''production_eligible'') (\<lambda>v.
     and_then (ok_or (json_as_bool v) SemanticViolation) (\<lambda>production_eligible.
     if production_eligible \<and>
         (executor_kind = ''development_mock'' \<or> fmlookup provenance ''node_id'' = None)
     then Err SemanticViolation else Ok ()
     )))))))))))))))))"

section \<open>Encoding and decoding\<close>

definition decode_evaluation_result ::
  "('q, 'r) wire_lib \<Rightarrow> bytes \<Rightarrow> ('r, protocol_error) result" where
  "decode_evaluation_result lib input =
     and_then (ensure_size (length input) MAX_EVALUATION_RESULT_BYTES) (\<lambda>_.
     and_then (ok_or (from_slice (wl_result lib) input) MalformedDocument) (\<lambda>result.
     and_then (ok_or (to_value (wl_result lib) result) EncodingFailed) (\<lambda>value.
     and_then (schema_validate lib value) (\<lambda>_.
     and_then (validate_result_semantics value) (\<lambda>_. Ok result)))))"

definition decode_evaluation_result_domain ::
  "('q, 'r) wire_lib \<Rightarrow> bytes \<Rightarrow> (evaluation_result, protocol_error) result" where
  "decode_evaluation_result_domain lib input =
     and_then (decode_evaluation_result lib input) (\<lambda>result.
     and_then (ok_or (to_value (wl_result lib) result) EncodingFailed) (\<lambda>value.
       result_from_value value))"

definition encode_evaluation_result ::
  "('q, 'r) wire_lib \<Rightarrow> evaluation_result \<Rightarrow> (bytes, protocol_error) result" where
  "encode_evaluation_result lib result =
     (let value = result_to_value result in
      and_then (validate_result_semantics value) (\<lambda>_.
        encode_wire lib (wl_result lib) value MAX_EVALUATION_RESULT_BYTES))"

end
