(* ===== verification/Evaluation_Pipeline.thy ===== *)
theory Evaluation_Pipeline
  imports Domain_Result
begin

text \<open>
  \<open>crates/openoj-application/src/lib.rs\<close>: the function \<open>evaluate\<close>, which walks the canonical
  stage plan through an executor.  The trait \<open>StageExecutor\<close> is a record of functions over an
  executor state, so a model of an executor is a value of it; \<open>typed_executor\<close> holds what its
  Rust type promises of the outcomes and \<open>lawful_executor\<close> adds the conventions the pipeline
  checks at run time.
\<close>

section \<open>Executors\<close>

datatype application_error =
    UnsupportedCapability
  | InvalidExecutorOutput str
  | ApplicationError_Domain domain_error

record decision =
  dec_verdict :: verdict
  dec_score :: score

definition Decision_new :: "verdict \<Rightarrow> score \<Rightarrow> (decision, application_error) result" where
  "Decision_new verdict score =
     (if \<not> (verdict = Verdict_Accepted \<or> verdict = Verdict_WrongAnswer)
      then Err (InvalidExecutorOutput
        ''the check-stage decision must be accepted or wrong_answer'')
      else Ok \<lparr>dec_verdict = verdict, dec_score = score\<rparr>)"

datatype stage_execution =
    StageExecution_Succeeded resource_usage "diagnostic list" "evidence_ref list" "decision option"
  | StageExecution_Rejected verdict resource_usage "diagnostic list" "evidence_ref list"
  | StageExecution_Failed resource_usage "diagnostic list" "evidence_ref list"
  | StageExecution_Cancelled resource_usage "diagnostic list" "evidence_ref list"

record 's stage_executor =
  ex_kind :: "'s \<Rightarrow> executor_kind"
  ex_production_eligible :: "'s \<Rightarrow> bool"
  ex_node_id :: "'s \<Rightarrow> node_id option"
  ex_supports :: "'s \<Rightarrow> capability \<Rightarrow> bool"
  ex_execute :: "'s \<Rightarrow> evaluation_request \<Rightarrow> stage_kind \<Rightarrow> stage_execution \<times> 's"

section \<open>The run\<close>

record terminal =
  ter_status :: evaluation_status
  ter_verdict :: verdict
  ter_score :: score

record evaluation_run =
  run_request :: evaluation_request
  run_reports :: "stage_report list"
  run_usage :: resource_usage
  run_decision :: "decision option"
  run_provenance :: execution_provenance

definition EvaluationRun_new :: "evaluation_request \<Rightarrow> execution_provenance \<Rightarrow> evaluation_run" where
  "EvaluationRun_new request provenance =
     \<lparr>run_request = request, run_reports = [], run_usage = ResourceUsage_default,
      run_decision = None, run_provenance = provenance\<rparr>"

definition validate_decision_location ::
  "stage_kind \<Rightarrow> decision option \<Rightarrow> (unit, application_error) result" where
  "validate_decision_location stage decision =
     (if (stage = StageKind_Check) \<noteq> (decision \<noteq> None)
      then Err (InvalidExecutorOutput
        ''exactly the successful check stage must produce a decision'')
      else Ok ())"

definition rejection_valid :: "stage_kind \<Rightarrow> verdict \<Rightarrow> bool" where
  "rejection_valid stage verdict =
     (case stage of
        StageKind_Build \<Rightarrow> verdict = Verdict_CompileError
      | StageKind_Run \<Rightarrow>
          verdict = Verdict_RuntimeError \<or> verdict = Verdict_TimeLimitExceeded \<or>
          verdict = Verdict_MemoryLimitExceeded \<or> verdict = Verdict_OutputLimitExceeded
      | StageKind_Prepare \<Rightarrow> False
      | StageKind_Check \<Rightarrow> False
      | StageKind_Aggregate \<Rightarrow> False)"

definition validate_rejection :: "stage_kind \<Rightarrow> verdict \<Rightarrow> (unit, application_error) result" where
  "validate_rejection stage verdict =
     (if \<not> rejection_valid stage verdict
      then Err (InvalidExecutorOutput ''stage rejection and verdict are inconsistent'')
      else Ok ())"

definition zero_score :: "(score, application_error) result" where
  "zero_score = map_err ApplicationError_Domain (Score_new 0 1)"

fun append_skipped_stages ::
  "stage_kind list \<Rightarrow> stage_report list \<Rightarrow> (stage_report list, application_error) result" where
  "append_skipped_stages [] reports = Ok reports"
| "append_skipped_stages (stage # rest) reports =
     and_then (map_err ApplicationError_Domain
                 (StageReport_new stage StageStatus_Skipped ResourceUsage_default [] []))
       (\<lambda>report. append_skipped_stages rest (reports @ [report]))"

definition append_skipped_reports ::
  "evaluation_request \<Rightarrow> nat \<Rightarrow> stage_report list \<Rightarrow>
     (stage_report list, application_error) result" where
  "append_skipped_reports request start reports =
     append_skipped_stages (drop start (plan_stages (req_plan request))) reports"

text \<open>The match of \<open>record\<close> on the outcome: its six-tuple of locals, or the error it returns.\<close>

definition classify_outcome ::
  "stage_kind \<Rightarrow> stage_execution \<Rightarrow>
     (stage_status \<times> resource_usage \<times> diagnostic list \<times> evidence_ref list \<times>
        terminal option \<times> decision option, application_error) result" where
  "classify_outcome stage outcome =
     (case outcome of
        StageExecution_Succeeded usage diagnostics evidence decision \<Rightarrow>
          and_then (validate_decision_location stage decision) (\<lambda>_.
            Ok (StageStatus_Succeeded, usage, diagnostics, evidence, None, decision))
      | StageExecution_Rejected verdict usage diagnostics evidence \<Rightarrow>
          and_then (validate_rejection stage verdict) (\<lambda>_.
          and_then zero_score (\<lambda>score.
            Ok (StageStatus_Failed, usage, diagnostics, evidence,
                Some \<lparr>ter_status = EvaluationStatus_Completed, ter_verdict = verdict,
                      ter_score = score\<rparr>, None)))
      | StageExecution_Failed usage diagnostics evidence \<Rightarrow>
          and_then zero_score (\<lambda>score.
            Ok (StageStatus_Failed, usage, diagnostics, evidence,
                Some \<lparr>ter_status = EvaluationStatus_Failed, ter_verdict = Verdict_SystemError,
                      ter_score = score\<rparr>, None))
      | StageExecution_Cancelled usage diagnostics evidence \<Rightarrow>
          and_then zero_score (\<lambda>score.
            Ok (StageStatus_Cancelled, usage, diagnostics, evidence,
                Some \<lparr>ter_status = EvaluationStatus_Cancelled, ter_verdict = Verdict_Cancelled,
                      ter_score = score\<rparr>, None)))"

definition EvaluationRun_record ::
  "evaluation_run \<Rightarrow> nat \<Rightarrow> stage_kind \<Rightarrow> stage_execution \<Rightarrow>
     (terminal option \<times> evaluation_run, application_error) result" where
  "EvaluationRun_record self index stage outcome =
     and_then (classify_outcome stage outcome)
       (\<lambda>(status, usage, diagnostics, evidence, terminal, stage_decision).
     and_then (map_err ApplicationError_Domain (ResourceUsage_checked_add (run_usage self) usage))
       (\<lambda>total.
     and_then (map_err ApplicationError_Domain
                 (StageReport_new stage status usage diagnostics evidence))
       (\<lambda>report.
       let self = self\<lparr>run_usage := total, run_reports := run_reports self @ [report]\<rparr>;
           self = (if stage = StageKind_Check then self\<lparr>run_decision := stage_decision\<rparr> else self)
       in if terminal \<noteq> None
          then map_ok (\<lambda>reports. (terminal, self\<lparr>run_reports := reports\<rparr>))
                 (append_skipped_reports (run_request self) (index + 1) (run_reports self))
          else Ok (terminal, self))))"

definition build_result ::
  "evaluation_request \<Rightarrow> evaluation_status \<Rightarrow> verdict \<Rightarrow> score \<Rightarrow> stage_report list \<Rightarrow>
     resource_usage \<Rightarrow> execution_provenance \<Rightarrow> (evaluation_result, application_error) result" where
  "build_result request status verdict score stages usage provenance =
     map_err ApplicationError_Domain (EvaluationResult_new
       \<lparr>res_identity = EvaluationIdentity_from_request request, res_status = status,
        res_verdict = verdict, res_score = score, res_stages = stages, res_usage = usage,
        res_diagnostics = [], res_evidence = [], res_provenance = provenance\<rparr>)"

definition EvaluationRun_finish ::
  "evaluation_run \<Rightarrow> terminal \<Rightarrow> (evaluation_result, application_error) result" where
  "EvaluationRun_finish self terminal =
     build_result (run_request self) (ter_status terminal) (ter_verdict terminal)
       (ter_score terminal) (run_reports self) (run_usage self) (run_provenance self)"

definition EvaluationRun_finish_success ::
  "evaluation_run \<Rightarrow> (evaluation_result, application_error) result" where
  "EvaluationRun_finish_success self =
     (case run_decision self of
        None \<Rightarrow> Err (InvalidExecutorOutput ''the check stage did not produce a decision'')
      | Some decision \<Rightarrow> EvaluationRun_finish self
          \<lparr>ter_status = EvaluationStatus_Completed, ter_verdict = dec_verdict decision,
           ter_score = dec_score decision\<rparr>)"

text \<open>The loop of \<open>evaluate\<close> over the enumerated stages.\<close>

fun evaluate_stages ::
  "'s stage_executor \<Rightarrow> evaluation_request \<Rightarrow> nat \<Rightarrow> stage_kind list \<Rightarrow> 's \<Rightarrow> evaluation_run \<Rightarrow>
     (evaluation_result, application_error) result \<times> 's" where
  "evaluate_stages ex request index [] s run = (EvaluationRun_finish_success run, s)"
| "evaluate_stages ex request index (stage # rest) s run =
     (let (outcome, s') = ex_execute ex s request stage in
      case EvaluationRun_record run index stage outcome of
        Err e \<Rightarrow> (Err e, s')
      | Ok (Some terminal, run') \<Rightarrow> (EvaluationRun_finish run' terminal, s')
      | Ok (None, run') \<Rightarrow> evaluate_stages ex request (index + 1) rest s' run')"

definition evaluate ::
  "'s stage_executor \<Rightarrow> evaluation_request \<Rightarrow> 's \<Rightarrow>
     (evaluation_result, application_error) result \<times> 's" where
  "evaluate ex request s =
     (if list_ex (\<lambda>capability. \<not> ex_supports ex s capability) (req_required_capabilities request)
      then (Err UnsupportedCapability, s)
      else case ExecutionProvenance_new (ex_kind ex s) (ex_production_eligible ex s)
                  (rt_digest (req_runtime request)) (ex_node_id ex s) of
        Err e \<Rightarrow> (Err (ApplicationError_Domain e), s)
      | Ok provenance \<Rightarrow>
          evaluate_stages ex request 0 (plan_stages (req_plan request)) s
            (EvaluationRun_new request provenance))"

section \<open>Outcomes and steps\<close>

definition decision_ok :: "decision \<Rightarrow> bool" where
  "decision_ok d \<longleftrightarrow>
     (dec_verdict d = Verdict_Accepted \<or> dec_verdict d = Verdict_WrongAnswer) \<and>
     score_ok (dec_score d)"

fun outcome_status :: "stage_execution \<Rightarrow> stage_status" where
  "outcome_status (StageExecution_Succeeded u ds es d) = StageStatus_Succeeded"
| "outcome_status (StageExecution_Rejected v u ds es) = StageStatus_Failed"
| "outcome_status (StageExecution_Failed u ds es) = StageStatus_Failed"
| "outcome_status (StageExecution_Cancelled u ds es) = StageStatus_Cancelled"

fun outcome_usage :: "stage_execution \<Rightarrow> resource_usage" where
  "outcome_usage (StageExecution_Succeeded u ds es d) = u"
| "outcome_usage (StageExecution_Rejected v u ds es) = u"
| "outcome_usage (StageExecution_Failed u ds es) = u"
| "outcome_usage (StageExecution_Cancelled u ds es) = u"

fun outcome_diagnostics :: "stage_execution \<Rightarrow> diagnostic list" where
  "outcome_diagnostics (StageExecution_Succeeded u ds es d) = ds"
| "outcome_diagnostics (StageExecution_Rejected v u ds es) = ds"
| "outcome_diagnostics (StageExecution_Failed u ds es) = ds"
| "outcome_diagnostics (StageExecution_Cancelled u ds es) = ds"

fun outcome_evidence :: "stage_execution \<Rightarrow> evidence_ref list" where
  "outcome_evidence (StageExecution_Succeeded u ds es d) = es"
| "outcome_evidence (StageExecution_Rejected v u ds es) = es"
| "outcome_evidence (StageExecution_Failed u ds es) = es"
| "outcome_evidence (StageExecution_Cancelled u ds es) = es"

fun outcome_decision :: "stage_execution \<Rightarrow> decision option" where
  "outcome_decision (StageExecution_Succeeded u ds es d) = d"
| "outcome_decision _ = None"

fun outcome_terminal :: "stage_execution \<Rightarrow> terminal option" where
  "outcome_terminal (StageExecution_Succeeded u ds es d) = None"
| "outcome_terminal (StageExecution_Rejected v u ds es) =
     Some \<lparr>ter_status = EvaluationStatus_Completed, ter_verdict = v,
           ter_score = \<lparr>sco_earned = 0, sco_possible = 1\<rparr>\<rparr>"
| "outcome_terminal (StageExecution_Failed u ds es) =
     Some \<lparr>ter_status = EvaluationStatus_Failed, ter_verdict = Verdict_SystemError,
           ter_score = \<lparr>sco_earned = 0, sco_possible = 1\<rparr>\<rparr>"
| "outcome_terminal (StageExecution_Cancelled u ds es) =
     Some \<lparr>ter_status = EvaluationStatus_Cancelled, ter_verdict = Verdict_Cancelled,
           ter_score = \<lparr>sco_earned = 0, sco_possible = 1\<rparr>\<rparr>"

text \<open>What the Rust types of an outcome promise, and what the pipeline expects of its shape.\<close>

definition outcome_ok :: "stage_execution \<Rightarrow> bool" where
  "outcome_ok oc \<longleftrightarrow>
     resource_usage_ok (outcome_usage oc) \<and>
     list_all diagnostic_ok (outcome_diagnostics oc) \<and>
     list_all evidence_ref_ok (outcome_evidence oc) \<and>
     (case outcome_decision oc of None \<Rightarrow> True | Some d \<Rightarrow> decision_ok d)"

fun outcome_fits :: "stage_kind \<Rightarrow> stage_execution \<Rightarrow> bool" where
  "outcome_fits st (StageExecution_Succeeded u ds es d) \<longleftrightarrow>
     (st = StageKind_Check \<longleftrightarrow> d \<noteq> None)"
| "outcome_fits st (StageExecution_Rejected v u ds es) \<longleftrightarrow> rejection_valid st v"
| "outcome_fits st (StageExecution_Failed u ds es) \<longleftrightarrow> True"
| "outcome_fits st (StageExecution_Cancelled u ds es) \<longleftrightarrow> True"

definition skipped_report :: "stage_kind \<Rightarrow> stage_report" where
  "skipped_report st = \<lparr>rep_stage = st, rep_status = StageStatus_Skipped,
     rep_usage = ResourceUsage_default, rep_diagnostics = [], rep_evidence = []\<rparr>"

definition outcome_report :: "stage_kind \<Rightarrow> stage_execution \<Rightarrow> stage_report" where
  "outcome_report st oc = \<lparr>rep_stage = st, rep_status = outcome_status oc,
     rep_usage = outcome_usage oc, rep_diagnostics = outcome_diagnostics oc,
     rep_evidence = outcome_evidence oc\<rparr>"

lemma zero_score_eq: "zero_score = Ok \<lparr>sco_earned = 0, sco_possible = 1\<rparr>"
  by (simp add: zero_score_def Score_new_def)

lemma classify_outcome_eq:
  "classify_outcome st oc =
     (if outcome_fits st oc
      then Ok (outcome_status oc, outcome_usage oc, outcome_diagnostics oc, outcome_evidence oc,
               outcome_terminal oc, outcome_decision oc)
      else Err (InvalidExecutorOutput
        (case oc of StageExecution_Succeeded u ds es d \<Rightarrow>
             ''exactly the successful check stage must produce a decision''
         | _ \<Rightarrow> ''stage rejection and verdict are inconsistent'')))"
  by (cases oc) (auto simp: classify_outcome_def validate_decision_location_def
      validate_rejection_def zero_score_eq)

lemma append_skipped_stages_eq:
  "append_skipped_stages sts rs = Ok (rs @ map skipped_report sts)"
  by (induction sts arbitrary: rs) (simp_all add: StageReport_new_def skipped_report_def
      enforce_collection_limit_def)

definition record_step :: "evaluation_run \<Rightarrow> stage_kind \<Rightarrow> stage_execution \<Rightarrow> resource_usage \<Rightarrow> evaluation_run"
where
  "record_step run st oc used =
     run\<lparr>run_usage := used, run_reports := run_reports run @ [outcome_report st oc],
         run_decision := (if st = StageKind_Check then outcome_decision oc else run_decision run)\<rparr>"

lemma EvaluationRun_record_Ok_iff:
  "EvaluationRun_record run i st oc = Ok (t, run') \<longleftrightarrow>
     outcome_fits st oc \<and>
     length (outcome_diagnostics oc) \<le> MAX_STAGE_DIAGNOSTICS \<and>
     length (outcome_evidence oc) \<le> MAX_STAGE_EVIDENCE \<and>
     t = outcome_terminal oc \<and>
     (\<exists>used. ResourceUsage_checked_add (run_usage run) (outcome_usage oc) = Ok used \<and>
        run' = (if t = None then record_step run st oc used
                else record_step run st oc used
                  \<lparr>run_reports := run_reports run @ [outcome_report st oc] @
                     map skipped_report (drop (i + 1) (plan_stages (req_plan (run_request run))))\<rparr>))"
  by (auto simp: EvaluationRun_record_def classify_outcome_eq and_then_Ok_iff StageReport_new_Ok_iff
      append_skipped_reports_def append_skipped_stages_eq Let_def record_step_def
      outcome_report_def)


section \<open>The invariant of the run\<close>

text \<open>Usage adds up over the stages, except the memory peak, which is their maximum.\<close>

fun memory_peak :: "stage_report list \<Rightarrow> u64" where
  "memory_peak [] = 0"
| "memory_peak (r # rs) = max (use_memory_peak_bytes (rep_usage r)) (memory_peak rs)"

definition usage_totals :: "stage_report list \<Rightarrow> resource_usage \<Rightarrow> bool" where
  "usage_totals rs u \<longleftrightarrow>
     unat (use_cpu_time_ms u) = (\<Sum>r\<leftarrow>rs. unat (use_cpu_time_ms (rep_usage r))) \<and>
     unat (use_wall_time_ms u) = (\<Sum>r\<leftarrow>rs. unat (use_wall_time_ms (rep_usage r))) \<and>
     unat (use_output_bytes u) = (\<Sum>r\<leftarrow>rs. unat (use_output_bytes (rep_usage r))) \<and>
     use_memory_peak_bytes u = memory_peak rs"

lemma memory_peak_append:
  "memory_peak (xs @ ys) = max (memory_peak xs) (memory_peak ys)"
  by (induction xs) (simp_all add: max.assoc)

lemma usage_totals_Nil: "usage_totals [] ResourceUsage_default"
  by (simp add: usage_totals_def ResourceUsage_default_def)

lemma usage_totals_snoc:
  assumes "usage_totals rs u" and "resource_usage_ok u" and "resource_usage_ok (rep_usage r)"
    and "ResourceUsage_checked_add u (rep_usage r) = Ok v"
  shows "usage_totals (rs @ [r]) v"
proof -
  let ?w = "rep_usage r"
  have v: "v = \<lparr>use_cpu_time_ms = use_cpu_time_ms u + use_cpu_time_ms ?w,
          use_wall_time_ms = use_wall_time_ms u + use_wall_time_ms ?w,
          use_memory_peak_bytes = max (use_memory_peak_bytes u) (use_memory_peak_bytes ?w),
          use_output_bytes = use_output_bytes u + use_output_bytes ?w\<rparr>"
    using assms(4) ResourceUsage_checked_add_Ok_iff [OF assms(2,3)] by blast
  have "unat (use_cpu_time_ms u + use_cpu_time_ms ?w) =
          unat (use_cpu_time_ms u) + unat (use_cpu_time_ms ?w)"
    and "unat (use_wall_time_ms u + use_wall_time_ms ?w) =
          unat (use_wall_time_ms u) + unat (use_wall_time_ms ?w)"
    and "unat (use_output_bytes u + use_output_bytes ?w) =
          unat (use_output_bytes u) + unat (use_output_bytes ?w)"
    using assms(2,3) bounded_sum_no_overflow
    by (auto simp: resource_usage_ok_def evaluation_bounds)
  then show ?thesis
    using assms(1) by (simp add: v usage_totals_def memory_peak_append)
qed

lemma usage_totals_skipped:
  "usage_totals rs u \<Longrightarrow> usage_totals (rs @ map skipped_report sts) u"
proof (induction sts arbitrary: rs)
  case (Cons st sts)
  have "usage_totals (rs @ [skipped_report st]) u"
    using Cons.prems
    by (simp add: usage_totals_def skipped_report_def ResourceUsage_default_def memory_peak_append)
  then show ?case using Cons.IH [of "rs @ [skipped_report st]"] by simp
qed simp

definition run_inv ::
  "evaluation_request \<Rightarrow> execution_provenance \<Rightarrow> nat \<Rightarrow> evaluation_run \<Rightarrow> bool" where
  "run_inv request provenance i run \<longleftrightarrow>
     i \<le> 5 \<and> run_request run = request \<and> run_provenance run = provenance \<and>
     map rep_stage (run_reports run) = take i ALGORITHM_BATCH_STAGES \<and>
     map rep_status (run_reports run) = replicate i StageStatus_Succeeded \<and>
     list_all stage_report_ok (run_reports run) \<and>
     resource_usage_ok (run_usage run) \<and> usage_totals (run_reports run) (run_usage run) \<and>
     (case run_decision run of None \<Rightarrow> i \<le> 3 | Some d \<Rightarrow> decision_ok d)"

lemma run_inv_new: "run_inv request provenance 0 (EvaluationRun_new request provenance)"
  by (simp add: run_inv_def EvaluationRun_new_def usage_totals_Nil)

lemma outcome_report_ok:
  "outcome_ok oc \<Longrightarrow> length (outcome_diagnostics oc) \<le> MAX_STAGE_DIAGNOSTICS \<Longrightarrow>
     length (outcome_evidence oc) \<le> MAX_STAGE_EVIDENCE \<Longrightarrow>
     stage_report_ok (outcome_report st oc)"
  by (simp add: outcome_ok_def stage_report_ok_def outcome_report_def)

lemma stage_report_ok_skipped [simp]: "stage_report_ok (skipped_report st)"
  by (simp add: stage_report_ok_def skipped_report_def)

lemma length_stages [simp]: "length ALGORITHM_BATCH_STAGES = 5"
  by (simp add: ALGORITHM_BATCH_STAGES_def)

lemma stage_index_cases:
  assumes "i < 5"
  shows "ALGORITHM_BATCH_STAGES ! i = StageKind_Check \<longleftrightarrow> i = 3"
    and "ALGORITHM_BATCH_STAGES ! i = StageKind_Build \<longleftrightarrow> i = 1"
    and "ALGORITHM_BATCH_STAGES ! i = StageKind_Run \<longleftrightarrow> i = 2"
proof -
  have "i = 0 \<or> i = 1 \<or> i = 2 \<or> i = 3 \<or> i = 4" using assms by linarith
  then show "ALGORITHM_BATCH_STAGES ! i = StageKind_Check \<longleftrightarrow> i = 3"
    and "ALGORITHM_BATCH_STAGES ! i = StageKind_Build \<longleftrightarrow> i = 1"
    and "ALGORITHM_BATCH_STAGES ! i = StageKind_Run \<longleftrightarrow> i = 2"
    by (auto simp: ALGORITHM_BATCH_STAGES_def)
qed

lemma outcome_terminal_None_iff:
  "outcome_terminal oc = None \<longleftrightarrow> outcome_status oc = StageStatus_Succeeded"
  by (cases oc) auto

text \<open>A succeeded stage extends the run.\<close>

lemma run_inv_step:
  assumes inv: "run_inv request provenance i run" and i: "i < 5"
    and oc: "outcome_ok oc" "outcome_terminal oc = None"
    and rec: "EvaluationRun_record run i (ALGORITHM_BATCH_STAGES ! i) oc = Ok (None, run')"
  shows "run_inv request provenance (Suc i) run'"
proof -
  let ?st = "ALGORITHM_BATCH_STAGES ! i"
  from rec obtain used where fits: "outcome_fits ?st oc"
    and len: "length (outcome_diagnostics oc) \<le> MAX_STAGE_DIAGNOSTICS"
      "length (outcome_evidence oc) \<le> MAX_STAGE_EVIDENCE"
    and add: "ResourceUsage_checked_add (run_usage run) (outcome_usage oc) = Ok used"
    and run': "run' = record_step run ?st oc used"
    by (auto simp: EvaluationRun_record_Ok_iff)
  have "usage_totals (run_reports run @ [outcome_report ?st oc]) used"
    using inv oc add
    by (intro usage_totals_snoc [of _ "run_usage run"])
      (auto simp: run_inv_def outcome_ok_def outcome_report_def)
  moreover have "case (if i = 3 then outcome_decision oc else run_decision run) of
      None \<Rightarrow> Suc i \<le> 3 | Some d \<Rightarrow> decision_ok d"
    using inv oc fits stage_index_cases(1) [OF i]
    by (cases oc) (auto simp: run_inv_def outcome_ok_def split: option.splits)
  ultimately show ?thesis
    using inv i oc add outcome_report_ok [OF oc(1) len] stage_index_cases(1) [OF i]
      ResourceUsage_checked_add_ok [OF add]
    by (simp add: run' run_inv_def record_step_def outcome_report_def outcome_terminal_None_iff
        take_Suc_conv_app_nth replicate_append_same)
qed


text \<open>A stage that ends the run.\<close>

definition run_result :: "evaluation_run \<Rightarrow> terminal \<Rightarrow> evaluation_result" where
  "run_result run t =
     \<lparr>res_identity = EvaluationIdentity_from_request (run_request run),
      res_status = ter_status t, res_verdict = ter_verdict t, res_score = ter_score t,
      res_stages = run_reports run, res_usage = run_usage run, res_diagnostics = [],
      res_evidence = [], res_provenance = run_provenance run\<rparr>"

lemma EvaluationRun_finish_Ok:
  "evaluation_result_ok (run_result run t) \<Longrightarrow> EvaluationRun_finish run t = Ok (run_result run t)"
  using EvaluationResult_new_Ok [of "run_result run t"]
  by (simp add: EvaluationRun_finish_def build_result_def run_result_def)

definition result_for ::
  "evaluation_request \<Rightarrow> execution_provenance \<Rightarrow> evaluation_result \<Rightarrow> bool" where
  "result_for request provenance r \<longleftrightarrow>
     evaluation_result_ok r \<and>
     res_identity r = EvaluationIdentity_from_request request \<and>
     res_provenance r = provenance \<and> res_diagnostics r = [] \<and> res_evidence r = [] \<and>
     usage_totals (res_stages r) (res_usage r)"

definition provenance_for :: "evaluation_request \<Rightarrow> execution_provenance \<Rightarrow> bool" where
  "provenance_for request provenance \<longleftrightarrow>
     execution_provenance_ok provenance \<and>
     prov_runtime_digest provenance = rt_digest (req_runtime request)"

lemma result_for_run:
  assumes "evaluation_request_ok request" and "provenance_for request provenance"
    and "run_request run = request" and "run_provenance run = provenance"
    and "map rep_stage (run_reports run) = ALGORITHM_BATCH_STAGES"
    and "list_all stage_report_ok (run_reports run)" and "resource_usage_ok (run_usage run)"
    and "usage_totals (run_reports run) (run_usage run)" and "score_ok (ter_score t)"
    and "terminal_shape (ter_status t) (ter_verdict t) (ter_score t) (map rep_status (run_reports run))"
  shows "result_for request provenance (run_result run t)"
proof -
  have "prov_runtime_digest provenance =
      idn_runtime_digest (EvaluationIdentity_from_request request)"
    using assms(2) by (simp add: provenance_for_def EvaluationIdentity_from_request_def)
  then show ?thesis
    using assms EvaluationIdentity_from_request_ok [OF assms(1)]
    by (simp add: result_for_def run_result_def evaluation_result_ok_def provenance_for_def)
qed

lemma terminal_shape_outcome:
  assumes "i < 5" and "outcome_fits (ALGORITHM_BATCH_STAGES ! i) oc"
    and "outcome_terminal oc = Some t"
    and "ss = replicate i StageStatus_Succeeded @ [outcome_status oc] @
           replicate (5 - i - 1) StageStatus_Skipped"
  shows "terminal_shape (ter_status t) (ter_verdict t) (ter_score t) ss \<and> score_ok (ter_score t)"
proof -
  have pat: "terminal_pattern ss i (outcome_status oc)"
    using assms(1,4) by (simp add: terminal_pattern_def)
  show ?thesis
  proof (cases oc)
    case (StageExecution_Rejected v u ds es)
    then have "rejection_valid (ALGORITHM_BATCH_STAGES ! i) v"
      using assms(2) by simp
    then have "i = 1 \<and> v = Verdict_CompileError \<or> i = 2 \<and> v \<in> run_rejections"
      using stage_index_cases [OF assms(1)]
      by (cases "ALGORITHM_BATCH_STAGES ! i") (auto simp: rejection_valid_def run_rejections_def)
    then show ?thesis
      using assms(3) pat StageExecution_Rejected
      by (auto simp: terminal_shape_def score_ok_def)
  qed (use assms(3) pat in \<open>auto simp: terminal_shape_def score_ok_def\<close>)
qed

lemma run_terminal_step:
  assumes "evaluation_request_ok request" and "provenance_for request provenance"
    and inv: "run_inv request provenance i run" and i: "i < 5" and oc: "outcome_ok oc"
    and rec: "EvaluationRun_record run i (ALGORITHM_BATCH_STAGES ! i) oc = Ok (Some t, run')"
  shows "result_for request provenance (run_result run' t)"
    and "run_reports run' = run_reports run @ [outcome_report (ALGORITHM_BATCH_STAGES ! i) oc] @
           map skipped_report (drop (i + 1) ALGORITHM_BATCH_STAGES)"
proof -
  let ?st = "ALGORITHM_BATCH_STAGES ! i"
  have plan: "plan_stages (req_plan request) = ALGORITHM_BATCH_STAGES"
    using assms(1) by (simp add: evaluation_request_ok_def evaluation_plan_ok_def)
  have req: "run_request run = request" using inv by (simp add: run_inv_def)
  from rec obtain used where fits: "outcome_fits ?st oc"
    and len: "length (outcome_diagnostics oc) \<le> MAX_STAGE_DIAGNOSTICS"
      "length (outcome_evidence oc) \<le> MAX_STAGE_EVIDENCE"
    and t: "outcome_terminal oc = Some t"
    and add: "ResourceUsage_checked_add (run_usage run) (outcome_usage oc) = Ok used"
    and run': "run' = record_step run ?st oc used \<lparr>run_reports := run_reports run @
        [outcome_report ?st oc] @ map skipped_report (drop (i + 1) ALGORITHM_BATCH_STAGES)\<rparr>"
    by (auto simp: EvaluationRun_record_Ok_iff req plan)
  show reports: "run_reports run' = run_reports run @ [outcome_report ?st oc] @
      map skipped_report (drop (i + 1) ALGORITHM_BATCH_STAGES)"
    by (simp add: run')
  have "usage_totals (run_reports run @ [outcome_report ?st oc]) used"
    using inv oc add
    by (intro usage_totals_snoc [of _ "run_usage run"])
      (auto simp: run_inv_def outcome_ok_def outcome_report_def)
  then have totals: "usage_totals (run_reports run') used"
    using usage_totals_skipped [of "run_reports run @ [outcome_report ?st oc]" used]
    by (simp add: reports)
  have "ALGORITHM_BATCH_STAGES = take i ALGORITHM_BATCH_STAGES @ [?st] @
      drop (i + 1) ALGORITHM_BATCH_STAGES"
    using i by (simp add: id_take_nth_drop [symmetric])
  then have stages: "map rep_stage (run_reports run') = ALGORITHM_BATCH_STAGES"
    using inv by (simp add: reports run_inv_def outcome_report_def skipped_report_def o_def)
  have statuses: "map rep_status (run_reports run') = replicate i StageStatus_Succeeded @
      [outcome_status oc] @ replicate (5 - i - 1) StageStatus_Skipped"
    using inv i by (simp add: reports run_inv_def outcome_report_def skipped_report_def o_def
        map_replicate_const)
  have all_ok: "list_all stage_report_ok (run_reports run')"
    using inv outcome_report_ok [OF oc len] by (auto simp: reports run_inv_def list_all_iff)
  show "result_for request provenance (run_result run' t)"
    using terminal_shape_outcome [OF i fits t statuses] inv totals stages all_ok
      ResourceUsage_checked_add_ok [OF add]
    by (intro result_for_run [OF assms(1,2)]) (auto simp: run' record_step_def run_inv_def)
qed

lemma run_success:
  assumes "evaluation_request_ok request" and "provenance_for request provenance"
    and inv: "run_inv request provenance 5 run"
  obtains r where "EvaluationRun_finish_success run = Ok r" and "result_for request provenance r"
    and "res_stages r = run_reports run"
proof -
  obtain d where d: "run_decision run = Some d" "decision_ok d"
    using inv by (auto simp: run_inv_def split: option.splits)
  let ?t = "\<lparr>ter_status = EvaluationStatus_Completed, ter_verdict = dec_verdict d,
             ter_score = dec_score d\<rparr>"
  have "terminal_shape (ter_status ?t) (ter_verdict ?t) (ter_score ?t) (map rep_status (run_reports run))"
    using inv d by (auto simp: run_inv_def terminal_shape_def decision_ok_def list_all_iff)
  then have res: "result_for request provenance (run_result run ?t)"
    using inv d
    by (intro result_for_run [OF assms(1,2)]) (auto simp: run_inv_def decision_ok_def)
  then have "EvaluationRun_finish_success run = Ok (run_result run ?t)"
    using d by (simp add: EvaluationRun_finish_success_def EvaluationRun_finish_Ok result_for_def)
  then show ?thesis using res that by (simp add: run_result_def)
qed

text \<open>The errors that recording a stage can return.\<close>

definition stage_error :: "application_error \<Rightarrow> bool" where
  "stage_error e \<longleftrightarrow>
     e \<in> {InvalidExecutorOutput ''exactly the successful check stage must produce a decision'',
          InvalidExecutorOutput ''stage rejection and verdict are inconsistent''} \<or>
     (\<exists>f lo hi a. e = ApplicationError_Domain (OutOfRange f lo hi a)) \<or>
     (\<exists>f m a. e = ApplicationError_Domain (TooManyItems f m a))"

lemma ResourceUsage_checked_add_Err:
  "ResourceUsage_checked_add u v = Err e \<Longrightarrow> \<exists>f lo hi a. e = OutOfRange f lo hi a"
  by (auto simp: ResourceUsage_checked_add_def ResourceUsage_new_def and_then_Err_iff Let_def
      require_range_Err_iff)

lemma StageReport_new_Err:
  "StageReport_new st ss u ds es = Err e \<Longrightarrow> \<exists>f m a. e = TooManyItems f m a"
  by (auto simp: StageReport_new_def and_then_Err_iff enforce_collection_limit_Err_iff)

lemma EvaluationRun_record_Err:
  "EvaluationRun_record run i st oc = Err e \<Longrightarrow> stage_error e"
  by (auto simp: EvaluationRun_record_def classify_outcome_eq and_then_Err_iff map_err_Err_iff
      append_skipped_reports_def append_skipped_stages_eq Let_def stage_error_def
      split: if_splits stage_execution.splits
      dest!: ResourceUsage_checked_add_Err StageReport_new_Err)


section \<open>The loop\<close>

text \<open>
  An executor that also records the stages it is asked to run; the recorded run is the plain
  one with a log.
\<close>

definition logged :: "'s stage_executor \<Rightarrow> ('s \<times> stage_kind list) stage_executor" where
  "logged ex =
     \<lparr>ex_kind = (\<lambda>(s, l). ex_kind ex s),
      ex_production_eligible = (\<lambda>(s, l). ex_production_eligible ex s),
      ex_node_id = (\<lambda>(s, l). ex_node_id ex s),
      ex_supports = (\<lambda>(s, l). ex_supports ex s),
      ex_execute = (\<lambda>(s, l) request stage.
        let (outcome, s') = ex_execute ex s request stage in (outcome, (s', l @ [stage])))\<rparr>"

lemma logged_simps [simp]:
  "ex_kind (logged ex) (s, l) = ex_kind ex s"
  "ex_production_eligible (logged ex) (s, l) = ex_production_eligible ex s"
  "ex_node_id (logged ex) (s, l) = ex_node_id ex s"
  "ex_supports (logged ex) (s, l) = ex_supports ex s"
  "ex_execute (logged ex) (s, l) request st =
     (fst (ex_execute ex s request st), (snd (ex_execute ex s request st), l @ [st]))"
  by (simp_all add: logged_def split: prod.split)

lemma evaluate_stages_logged:
  "evaluate_stages ex request i sts s run = (r, s') \<Longrightarrow>
     \<exists>l'. evaluate_stages (logged ex) request i sts (s, l) run = (r, (s', l'))"
proof (induction sts arbitrary: i s l run)
  case (Cons st sts)
  obtain oc s1 where ex: "ex_execute ex s request st = (oc, s1)" by force
  show ?case
  proof (cases "EvaluationRun_record run i st oc")
    case (Ok a)
    then obtain t run' where a: "a = (t, run')" by force
    then show ?thesis
      using Cons ex Ok by (cases t) auto
  next
    case (Err e)
    then show ?thesis using Cons.prems ex by simp
  qed
qed simp

lemma evaluate_logged:
  "evaluate ex request s = (r, s') \<Longrightarrow> \<exists>l'. evaluate (logged ex) request (s, l) = (r, (s', l'))"
  by (auto simp: evaluate_def evaluate_stages_logged split: if_splits result.splits)

definition executed_stages :: "evaluation_result \<Rightarrow> stage_kind list" where
  "executed_stages r =
     map rep_stage (filter (\<lambda>rep. rep_status rep \<noteq> StageStatus_Skipped) (res_stages r))"

lemma filter_not_skipped:
  "run_inv request provenance i run \<Longrightarrow>
     filter (\<lambda>rep. rep_status rep \<noteq> StageStatus_Skipped) (run_reports run) = run_reports run"
proof -
  assume "run_inv request provenance i run"
  then have "map rep_status (run_reports run) = replicate i StageStatus_Succeeded"
    by (simp add: run_inv_def)
  then have "\<forall>rep \<in> set (run_reports run). rep_status rep = StageStatus_Succeeded"
    by (metis image_eqI in_set_replicate list.set_map)
  then show ?thesis by (auto intro!: filter_True)
qed

lemma filter_skipped:
  "filter (\<lambda>rep. rep_status rep \<noteq> StageStatus_Skipped) (map skipped_report sts) = []"
  by (induction sts) (auto simp: skipped_report_def)

lemma executed_stages_success:
  "run_inv request provenance 5 run \<Longrightarrow> res_stages r = run_reports run \<Longrightarrow>
     executed_stages r = ALGORITHM_BATCH_STAGES"
  using filter_not_skipped [of request provenance 5 run]
  by (simp add: executed_stages_def run_inv_def)

lemma executed_stages_terminal:
  assumes "run_inv request provenance i run" and "i < 5"
    and "res_stages r = run_reports run @ [outcome_report (ALGORITHM_BATCH_STAGES ! i) oc] @
           map skipped_report sts"
  shows "executed_stages r = take (Suc i) ALGORITHM_BATCH_STAGES"
proof -
  have "outcome_status oc \<noteq> StageStatus_Skipped" by (cases oc) auto
  then show ?thesis
    using assms filter_not_skipped [OF assms(1)]
    by (simp add: executed_stages_def filter_skipped run_inv_def outcome_report_def
        take_Suc_conv_app_nth)
qed

locale typed_executor =
  fixes ex :: "'s stage_executor" and inv :: "'s \<Rightarrow> bool"
  assumes outcome_typed:
      "inv s \<Longrightarrow> evaluation_request_ok request \<Longrightarrow> outcome_ok (fst (ex_execute ex s request st))"
    and inv_execute:
      "inv s \<Longrightarrow> evaluation_request_ok request \<Longrightarrow> inv (snd (ex_execute ex s request st))"
    and node_typed: "inv s \<Longrightarrow> ex_node_id ex s = Some n \<Longrightarrow> id_ok (node_id_str n)"
begin

lemma evaluate_stages_sound:
  assumes "evaluation_request_ok request" and "provenance_for request provenance"
    and "inv s" and "run_inv request provenance i run"
    and "evaluate_stages (logged ex) request i (drop i ALGORITHM_BATCH_STAGES)
           (s, take i ALGORITHM_BATCH_STAGES) run = (res, (s', l'))"
  shows "inv s' \<and> (case res of
      Ok r \<Rightarrow> result_for request provenance r \<and> l' = executed_stages r
    | Err e \<Rightarrow> stage_error e)"
  using assms(3-)
proof (induction "5 - i" arbitrary: i s run)
  case 0
  then have i: "i = 5" by (simp add: run_inv_def)
  from i 0 have "run_inv request provenance 5 run" by simp
  from run_success [OF assms(1,2) this] obtain r where r:
    "EvaluationRun_finish_success run = Ok r" "result_for request provenance r"
    "res_stages r = run_reports run" .
  moreover have "res = Ok r" "s' = s" "l' = ALGORITHM_BATCH_STAGES"
    using 0 i r(1) by auto
  ultimately show ?case
    using 0 i executed_stages_success [of request provenance run r] by simp
next
  case (Suc d)
  let ?st = "ALGORITHM_BATCH_STAGES ! i"
  have i: "i < 5" using Suc.hyps(2) by simp
  obtain oc s1 where ex: "ex_execute ex s request ?st = (oc, s1)" by force
  have oc: "outcome_ok oc" and s1: "inv s1"
    using outcome_typed [OF Suc.prems(1) assms(1), of ?st]
      inv_execute [OF Suc.prems(1) assms(1), of ?st] by (simp_all add: ex)
  have drop: "drop i ALGORITHM_BATCH_STAGES = ?st # drop (Suc i) ALGORITHM_BATCH_STAGES"
    using i by (simp add: Cons_nth_drop_Suc)
  have take: "take i ALGORITHM_BATCH_STAGES @ [?st] = take (Suc i) ALGORITHM_BATCH_STAGES"
    using i by (simp add: take_Suc_conv_app_nth)
  show ?case
  proof (cases "EvaluationRun_record run i ?st oc")
    case (Err e)
    then show ?thesis
      using Suc.prems s1 by (auto simp: drop ex dest: EvaluationRun_record_Err)
  next
    case (Ok a)
    then obtain t run' where a: "a = (t, run')" by force
    show ?thesis
    proof (cases t)
      case None
      then have rec: "EvaluationRun_record run i ?st oc = Ok (None, run')" using Ok a by simp
      then have "outcome_terminal oc = None" by (simp add: EvaluationRun_record_Ok_iff)
      note next_run = run_inv_step [OF Suc.prems(2) i oc this rec]
      have d: "d = 5 - Suc i" using Suc.hyps(2) by simp
      have "evaluate_stages (logged ex) request (Suc i)
          (drop (Suc i) ALGORITHM_BATCH_STAGES) (s1, take (Suc i) ALGORITHM_BATCH_STAGES) run' =
          (res, s', l')"
        using Suc.prems(3) rec by (simp add: drop ex take)
      from Suc.hyps(1) [OF d s1 next_run this] show ?thesis .
    next
      case (Some t')
      then have rec: "EvaluationRun_record run i ?st oc = Ok (Some t', run')" using Ok a by simp
      note step = run_terminal_step [OF assms(1,2) Suc.prems(2) i oc rec]
      have "evaluation_result_ok (run_result run' t')"
        using step(1) by (simp add: result_for_def)
      then have fin: "res = Ok (run_result run' t')" "s' = s1" "l' = take (Suc i) ALGORITHM_BATCH_STAGES"
        using Suc.prems(3) rec by (auto simp: drop ex take EvaluationRun_finish_Ok)
      then show ?thesis
        using step fin s1 executed_stages_terminal [OF Suc.prems(2) i, of "run_result run' t'" oc]
        by (simp add: run_result_def)
    qed
  qed
qed


lemma evaluate_logged_sound:
  assumes "evaluation_request_ok request" and "inv s"
    and "evaluate (logged ex) request (s, []) = (res, (s', l'))"
  shows "inv s' \<and> (case res of
      Ok r \<Rightarrow> l' = executed_stages r \<and>
        (\<exists>provenance. ExecutionProvenance_new (ex_kind ex s) (ex_production_eligible ex s)
             (rt_digest (req_runtime request)) (ex_node_id ex s) = Ok provenance \<and>
           result_for request provenance r)
    | Err e \<Rightarrow> e = UnsupportedCapability \<or>
        (\<exists>m. e = ApplicationError_Domain (InvalidProvenance m)) \<or> stage_error e)"
proof (cases "list_ex (\<lambda>c. \<not> ex_supports ex s c) (req_required_capabilities request)")
  case True
  then show ?thesis using assms by (auto simp: evaluate_def)
next
  case False
  have plan: "plan_stages (req_plan request) = ALGORITHM_BATCH_STAGES"
    using assms(1) by (simp add: evaluation_request_ok_def evaluation_plan_ok_def)
  show ?thesis
  proof (cases "ExecutionProvenance_new (ex_kind ex s) (ex_production_eligible ex s)
      (rt_digest (req_runtime request)) (ex_node_id ex s)")
    case (Ok provenance)
    have prov: "provenance_for request provenance"
      using Ok assms(1) node_typed [OF assms(2)]
      by (auto simp: provenance_for_def execution_provenance_ok_def ExecutionProvenance_new_Ok_iff
          evaluation_request_ok_def runtime_ref_ok_def split: option.splits)
    have "evaluate_stages (logged ex) request 0 (drop 0 ALGORITHM_BATCH_STAGES)
        (s, take 0 ALGORITHM_BATCH_STAGES) (EvaluationRun_new request provenance) = (res, (s', l'))"
      using assms(3) False Ok by (simp add: evaluate_def plan)
    from evaluate_stages_sound [OF assms(1) prov assms(2) run_inv_new this]
    show ?thesis using Ok by (auto split: result.splits)
  next
    case (Err e)
    then have "\<exists>m. e = InvalidProvenance m"
      by (auto simp: ExecutionProvenance_new_def split: if_splits)
    then show ?thesis using assms False Err by (auto simp: evaluate_def)
  qed
qed

lemma evaluate_sound:
  assumes "evaluation_request_ok request" and "inv s" and "evaluate ex request s = (res, s')"
  shows "inv s' \<and> (case res of
      Ok r \<Rightarrow> \<exists>provenance. ExecutionProvenance_new (ex_kind ex s) (ex_production_eligible ex s)
             (rt_digest (req_runtime request)) (ex_node_id ex s) = Ok provenance \<and>
           result_for request provenance r
    | Err e \<Rightarrow> e = UnsupportedCapability \<or>
        (\<exists>m. e = ApplicationError_Domain (InvalidProvenance m)) \<or> stage_error e)"
proof -
  from evaluate_logged [OF assms(3), of "[]"]
  obtain l' where "evaluate (logged ex) request (s, []) = (res, (s', l'))" ..
  from evaluate_logged_sound [OF assms(1,2) this] show ?thesis
    by (auto split: result.splits)
qed

end

text \<open>
  An executor that keeps the conventions of the pipeline: decisions come from the check stage
  only, rejections fit their stage, provenance is constructible, and lists stay within the
  report's bounds.  Only unsupported capabilities and an aggregate usage out of range remain.
\<close>

locale lawful_executor = typed_executor +
  assumes outcome_shape:
      "inv s \<Longrightarrow> evaluation_request_ok request \<Longrightarrow> outcome_fits st (fst (ex_execute ex s request st))"
    and outcome_bounds:
      "inv s \<Longrightarrow> evaluation_request_ok request \<Longrightarrow>
         length (outcome_diagnostics (fst (ex_execute ex s request st))) \<le> MAX_STAGE_DIAGNOSTICS \<and>
         length (outcome_evidence (fst (ex_execute ex s request st))) \<le> MAX_STAGE_EVIDENCE"
    and provenance_law:
      "inv s \<Longrightarrow> ex_production_eligible ex s \<Longrightarrow>
         ex_kind ex s = ExecutorKind_Firecracker \<and> ex_node_id ex s \<noteq> None"
begin

lemma record_Err_usage:
  assumes "inv s" and "evaluation_request_ok request"
    and "EvaluationRun_record run i st (fst (ex_execute ex s request st)) = Err e"
  shows "\<exists>f lo hi a. e = ApplicationError_Domain (OutOfRange f lo hi a)"
  using assms(3) outcome_shape [OF assms(1,2), of st] outcome_bounds [OF assms(1,2), of st]
  by (auto simp: EvaluationRun_record_def classify_outcome_eq and_then_Err_iff map_err_Err_iff
      append_skipped_reports_def append_skipped_stages_eq Let_def StageReport_new_def
      enforce_collection_limit_def
      split: if_splits dest!: ResourceUsage_checked_add_Err)

lemma evaluate_stages_error:
  assumes "evaluation_request_ok request" and "provenance_for request provenance"
    and "inv s" and "run_inv request provenance i run"
    and "evaluate_stages ex request i (drop i ALGORITHM_BATCH_STAGES) s run = (Err e, s')"
  shows "\<exists>f lo hi a. e = ApplicationError_Domain (OutOfRange f lo hi a)"
  using assms(3-)
proof (induction "5 - i" arbitrary: i s run)
  case 0
  then have "i = 5" by (simp add: run_inv_def)
  moreover from this 0 obtain r where "EvaluationRun_finish_success run = Ok r"
    using run_success [OF assms(1,2)] by metis
  ultimately show ?case using 0 by simp
next
  case (Suc d)
  let ?st = "ALGORITHM_BATCH_STAGES ! i"
  have i: "i < 5" using Suc.hyps(2) by simp
  obtain oc s1 where ex: "ex_execute ex s request ?st = (oc, s1)" by force
  have oc: "outcome_ok oc" and s1: "inv s1"
    using outcome_typed [OF Suc.prems(1) assms(1), of ?st]
      inv_execute [OF Suc.prems(1) assms(1), of ?st] by (simp_all add: ex)
  have drop: "drop i ALGORITHM_BATCH_STAGES = ?st # drop (Suc i) ALGORITHM_BATCH_STAGES"
    using i by (simp add: Cons_nth_drop_Suc)
  show ?case
  proof (cases "EvaluationRun_record run i ?st oc")
    case (Err e')
    then show ?thesis
      using record_Err_usage [OF Suc.prems(1) assms(1), of run i ?st e'] Suc.prems(3)
      by (simp add: ex drop)
  next
    case (Ok a)
    then obtain t run' where a: "a = (t, run')" by force
    show ?thesis
    proof (cases t)
      case None
      then have rec: "EvaluationRun_record run i ?st oc = Ok (None, run')" using Ok a by simp
      then have "outcome_terminal oc = None" by (simp add: EvaluationRun_record_Ok_iff)
      note next_run = run_inv_step [OF Suc.prems(2) i oc this rec]
      have d: "d = 5 - Suc i" using Suc.hyps(2) by simp
      have "evaluate_stages ex request (Suc i) (drop (Suc i) ALGORITHM_BATCH_STAGES) s1 run' =
          (Err e, s')"
        using Suc.prems(3) rec by (simp add: drop ex)
      from Suc.hyps(1) [OF d s1 next_run this] show ?thesis .
    next
      case (Some t')
      then have rec: "EvaluationRun_record run i ?st oc = Ok (Some t', run')" using Ok a by simp
      have "evaluation_result_ok (run_result run' t')"
        using run_terminal_step(1) [OF assms(1,2) Suc.prems(2) i oc rec] by (simp add: result_for_def)
      then show ?thesis
        using Suc.prems(3) rec by (simp add: drop ex EvaluationRun_finish_Ok)
    qed
  qed
qed

lemma evaluate_error:
  assumes "evaluation_request_ok request" and "inv s" and "evaluate ex request s = (Err e, s')"
  shows "e = UnsupportedCapability \<or>
     (\<exists>f lo hi a. e = ApplicationError_Domain (OutOfRange f lo hi a))"
proof (cases "list_ex (\<lambda>c. \<not> ex_supports ex s c) (req_required_capabilities request)")
  case True
  then show ?thesis using assms by (simp add: evaluate_def)
next
  case False
  let ?p = "ExecutionProvenance_new (ex_kind ex s) (ex_production_eligible ex s)
      (rt_digest (req_runtime request)) (ex_node_id ex s)"
  obtain provenance where p: "?p = Ok provenance"
    using provenance_law [OF assms(2)] by (auto simp: ExecutionProvenance_new_Ok_iff)
  have plan: "plan_stages (req_plan request) = ALGORITHM_BATCH_STAGES"
    using assms(1) by (simp add: evaluation_request_ok_def evaluation_plan_ok_def)
  have "provenance_for request provenance"
    using p assms(1) node_typed [OF assms(2)]
    by (auto simp: provenance_for_def execution_provenance_ok_def ExecutionProvenance_new_Ok_iff
        evaluation_request_ok_def runtime_ref_ok_def split: option.splits)
  from evaluate_stages_error [OF assms(1) this assms(2) run_inv_new, of e s']
  show ?thesis using assms(3) False p by (simp add: evaluate_def plan)
qed

end

end
