(* ===== verification/Protocol_Semantics.thy ===== *)
theory Protocol_Semantics
  imports Protocol_Result Evaluation_Pipeline
begin

text \<open>
  The document checks of \<open>crates/openoj-protocol/src/lib.rs\<close> against the domain constructors: on
  the document of a result whose parts are valid, \<open>validate_result_semantics\<close> accepts exactly the
  terminal shapes of the domain with the aggregate usage of the stages.
\<close>

lemma StageStatus_as_str_inj: "StageStatus_as_str a = StageStatus_as_str b \<longleftrightarrow> a = b"
  by (cases a; cases b) simp_all

lemma StageStatus_as_str_eq [simp]:
  "StageStatus_as_str s = ''succeeded'' \<longleftrightarrow> s = StageStatus_Succeeded"
  "StageStatus_as_str s = ''failed'' \<longleftrightarrow> s = StageStatus_Failed"
  "StageStatus_as_str s = ''cancelled'' \<longleftrightarrow> s = StageStatus_Cancelled"
  "StageStatus_as_str s = ''skipped'' \<longleftrightarrow> s = StageStatus_Skipped"
  by (cases s; simp)+

lemma EvaluationStatus_as_str_eq [simp]:
  "EvaluationStatus_as_str s = ''completed'' \<longleftrightarrow> s = EvaluationStatus_Completed"
  "EvaluationStatus_as_str s = ''failed'' \<longleftrightarrow> s = EvaluationStatus_Failed"
  "EvaluationStatus_as_str s = ''cancelled'' \<longleftrightarrow> s = EvaluationStatus_Cancelled"
  by (cases s; simp)+

lemma EXPECTED_STAGES_eq: "EXPECTED_STAGES = map StageKind_as_str ALGORITHM_BATCH_STAGES"
  by (simp add: EXPECTED_STAGES_def ALGORITHM_BATCH_STAGES_def)

lemma stage_statuses_reports:
  "stage_statuses (zip (map stage_report_to_value rs) (map (\<lambda>r. StageKind_as_str (rep_stage r)) rs)) =
     Ok (map (\<lambda>r. StageStatus_as_str (rep_status r)) rs)"
  by (induction rs) (simp_all add: stage_report_to_value_def res_simps)

lemma stage_statuses_canonical:
  assumes "map rep_stage rs = ALGORITHM_BATCH_STAGES"
  shows "stage_statuses (zip (map stage_report_to_value rs) EXPECTED_STAGES) =
     Ok (map (\<lambda>r. StageStatus_as_str (rep_status r)) rs)"
proof -
  have "EXPECTED_STAGES = map (\<lambda>r. StageKind_as_str (rep_stage r)) rs"
    using assms by (simp add: EXPECTED_STAGES_eq flip: assms)
  then show ?thesis using stage_statuses_reports [of rs] by simp
qed

lemma list_ex_status_name:
  "list_ex (\<lambda>s. s \<noteq> StageStatus_as_str t) (map StageStatus_as_str ss) \<longleftrightarrow>
     \<not> list_all (\<lambda>s. s = t) ss"
  by (induction ss) (auto simp: StageStatus_as_str_inj)

lemma validate_terminal_pattern_Ok_iff:
  "validate_terminal_pattern (map StageStatus_as_str ss) i (StageStatus_as_str t) = Ok u \<longleftrightarrow>
     terminal_pattern ss i t"
  using list_ex_status_name [of StageStatus_Succeeded "take i ss"]
    list_ex_status_name [of StageStatus_Skipped "drop (Suc i) ss"]
  by (auto simp: validate_terminal_pattern_def terminal_pattern_iff take_map drop_map
      StageStatus_as_str_inj)

lemma position_map: "position P (map f xs) = position (\<lambda>x. P (f x)) xs"
  by (induction xs) auto

lemma validate_any_terminal_pattern_Ok_iff:
  fixes rs :: "stage_report list"
  assumes "t \<noteq> StageStatus_Succeeded" and "t \<noteq> StageStatus_Skipped"
  shows "validate_any_terminal_pattern (map StageStatus_as_str (map rep_status rs))
           (StageStatus_as_str t) = Ok u \<longleftrightarrow> (\<exists>i. terminal_pattern (map rep_status rs) i t)"
proof -
  have "validate_any_terminal_pattern (map StageStatus_as_str (map rep_status rs))
           (StageStatus_as_str t) = Ok u \<longleftrightarrow> validate_terminal_stage_pattern rs t = Ok u"
  proof (cases "position (\<lambda>r. rep_status r = t) rs")
    case None
    then show ?thesis
      by (simp add: validate_any_terminal_pattern_def validate_terminal_stage_pattern_def
          position_map StageStatus_as_str_inj)
  next
    case (Some i)
    have "validate_terminal_stage_pattern rs t = Ok u \<longleftrightarrow> terminal_pattern (map rep_status rs) i t"
      using position_SomeD [OF Some] Some
      by (auto simp: validate_terminal_stage_pattern_def terminal_pattern_iff list_ex_status_iff
          take_map drop_map)
    then show ?thesis
      using Some validate_terminal_pattern_Ok_iff [of "map rep_status rs" i t u]
      by (simp add: validate_any_terminal_pattern_def position_map StageStatus_as_str_inj)
  qed
  then show ?thesis by (simp add: validate_terminal_stage_pattern_Ok_iff [OF assms])
qed

lemma all_succeeded_name:
  "list_ex (\<lambda>s. s \<noteq> ''succeeded'') (map StageStatus_as_str ss) \<longleftrightarrow>
     \<not> list_all (\<lambda>s. s = StageStatus_Succeeded) ss"
  using list_ex_status_name [of StageStatus_Succeeded ss] by simp

text \<open>The two checks on names accept exactly the terminal shapes.\<close>

lemma status_and_stages_Ok_iff:
  assumes stages: "map rep_stage rs = ALGORITHM_BATCH_STAGES"
  shows "validate_status_verdict (EvaluationStatus_as_str st) (Verdict_as_str v)
           (ucast (sco_earned sc)) = Ok () \<and>
         validate_result_stages (map stage_report_to_value rs) (EvaluationStatus_as_str st)
           (Verdict_as_str v) = Ok () \<longleftrightarrow>
     terminal_shape st v sc (map rep_status rs)"
proof -
  have zero: "(ucast (sco_earned sc) :: u64) = 0 \<longleftrightarrow> sco_earned sc = 0"
    by (simp add: word_unat_eq_iff)
  have len: "length rs = 5" using stages length_stages by (metis length_map)
  have [simp]: "map (\<lambda>r. StageStatus_as_str (rep_status r)) rs =
      map StageStatus_as_str (map rep_status rs)" by simp
  note any = validate_any_terminal_pattern_Ok_iff [of StageStatus_Failed rs]
    validate_any_terminal_pattern_Ok_iff [of StageStatus_Cancelled rs]
  note pat = validate_terminal_pattern_Ok_iff [of "map rep_status rs" _ StageStatus_Failed]
  note run = stage_statuses_canonical [OF stages]
  have len5: "length EXPECTED_STAGES = 5" by (simp add: EXPECTED_STAGES_def)
  show ?thesis
  proof (cases st)
    case EvaluationStatus_Completed
    then show ?thesis
      using pat all_succeeded_name [of "map rep_status rs"]
      by (cases v) (auto simp: validate_status_verdict_def validate_result_stages_def len len5 run
          run_rejection_names_def terminal_shape_def run_rejections_def zero)
  next
    case EvaluationStatus_Failed
    then show ?thesis
      using any by (cases v) (auto simp: validate_status_verdict_def validate_result_stages_def
          len len5 run run_rejection_names_def terminal_shape_def zero)
  next
    case EvaluationStatus_Cancelled
    then show ?thesis
      using any by (cases v) (auto simp: validate_status_verdict_def validate_result_stages_def
          len len5 run run_rejection_names_def terminal_shape_def zero)
  qed
qed


section \<open>Aggregate usage\<close>

lemma checked_add_sum_iff:
  "(\<exists>a'. checked_add a x = Some a' \<and> unat c = unat a' + n) \<longleftrightarrow> unat c = unat a + (unat x + n)"
  for a x c :: u64
  using unat_u64_lt [of c] by (auto simp: checked_add_Some_iff unat_add_small)

lemma aggregate_step:
  "aggregate_usage (stage_report_to_value r # vs) (c, w, m, b) = Ok res \<longleftrightarrow>
     (\<exists>c1 w1 b1. checked_add c (use_cpu_time_ms (rep_usage r)) = Some c1 \<and>
        checked_add w (use_wall_time_ms (rep_usage r)) = Some w1 \<and>
        checked_add b (use_output_bytes (rep_usage r)) = Some b1 \<and>
        aggregate_usage vs (c1, w1, max m (use_memory_peak_bytes (rep_usage r)), b1) = Ok res)"
  by (auto simp: stage_report_to_value_def usage_to_value_def res_simps and_then_Ok_iff Let_def)

lemma aggregate_usage_Ok_iff:
  "aggregate_usage (map stage_report_to_value rs) (c, w, m, b) = Ok (c', w', m', b') \<longleftrightarrow>
     unat c' = unat c + (\<Sum>r\<leftarrow>rs. unat (use_cpu_time_ms (rep_usage r))) \<and>
     unat w' = unat w + (\<Sum>r\<leftarrow>rs. unat (use_wall_time_ms (rep_usage r))) \<and>
     unat b' = unat b + (\<Sum>r\<leftarrow>rs. unat (use_output_bytes (rep_usage r))) \<and>
     m' = max m (memory_peak rs)"
proof (induction rs arbitrary: c w m b)
  case Nil
  then show ?case by (auto simp: word_unat_eq_iff)
next
  case (Cons r rs)
  note sums = checked_add_sum_iff [of c "use_cpu_time_ms (rep_usage r)" c', symmetric]
    checked_add_sum_iff [of w "use_wall_time_ms (rep_usage r)" w', symmetric]
    checked_add_sum_iff [of b "use_output_bytes (rep_usage r)" b', symmetric]
  show ?case
    unfolding list.map(2) aggregate_step Cons.IH sum_list.Cons sums memory_peak.simps max.assoc
    by blast
qed

lemma validate_aggregate_usage_Ok_iff:
  assumes "field result ''usage'' = Ok (usage_to_value u)"
  shows "validate_aggregate_usage result (map stage_report_to_value rs) = Ok () \<longleftrightarrow>
     usage_totals rs u"
proof -
  have "validate_aggregate_usage result (map stage_report_to_value rs) = Ok () \<longleftrightarrow>
      aggregate_usage (map stage_report_to_value rs) (0, 0, 0, 0) =
        Ok (use_cpu_time_ms u, use_wall_time_ms u, use_memory_peak_bytes u, use_output_bytes u)"
    by (auto simp: validate_aggregate_usage_def assms usage_to_value_def res_simps and_then_Ok_iff
        split: if_splits)
  then show ?thesis
    by (auto simp: aggregate_usage_Ok_iff usage_totals_def)
qed

section \<open>The whole document\<close>

lemma executor_kind_name [simp]:
  "ExecutorKind_as_str k = ''development_mock'' \<longleftrightarrow> k = ExecutorKind_DevelopmentMock"
  by (cases k) simp_all

text \<open>The parts of a result that are valid on their own, before any cross-field check.\<close>

definition result_parts_ok :: "evaluation_result \<Rightarrow> bool" where
  "result_parts_ok r \<longleftrightarrow>
     score_ok (res_score r) \<and> map rep_stage (res_stages r) = ALGORITHM_BATCH_STAGES \<and>
     execution_provenance_ok (res_provenance r)"

lemma validate_result_semantics_iff:
  assumes "result_parts_ok r"
  shows "validate_result_semantics (result_to_value r) = Ok () \<longleftrightarrow>
     terminal_shape (res_status r) (res_verdict r) (res_score r) (map rep_status (res_stages r)) \<and>
     usage_totals (res_stages r) (res_usage r)"
proof -
  obtain m where m: "provenance_to_value (res_provenance r) = JObject m"
    "field m ''executor_kind'' = Ok (JString (ExecutorKind_as_str (prov_executor_kind (res_provenance r))))"
    "field m ''production_eligible'' = Ok (JBool (prov_production_eligible (res_provenance r)))"
    "fmlookup m ''node_id'' = map_option (\<lambda>n. JString (node_id_str n)) (prov_node_id (res_provenance r))"
    by (rule provenance_object)
  have prov: "\<not> (prov_production_eligible (res_provenance r) \<and>
      (ExecutorKind_as_str (prov_executor_kind (res_provenance r)) = ''development_mock'' \<or>
       fmlookup m ''node_id'' = None))"
    using assms by (auto simp: result_parts_ok_def execution_provenance_ok_def m(4))
  have score: "\<not> (ucast (sco_possible (res_score r)) :: u64) < ucast (sco_earned (res_score r))"
    using assms by (simp add: result_parts_ok_def score_ok_def word_less_nat_alt word_le_nat_alt)
  note agg = validate_aggregate_usage_Ok_iff [of _ "res_usage r" "res_stages r"]
  note names = status_and_stages_Ok_iff [of "res_stages r" "res_status r" "res_verdict r"
      "res_score r"]
  show ?thesis
    using assms score prov names
    by (simp add: validate_result_semantics_def result_to_value_def score_to_value_def m(1-3)
        res_simps and_then_Ok_iff agg result_parts_ok_def) auto
qed

lemma evaluation_result_ok_parts: "evaluation_result_ok r \<Longrightarrow> result_parts_ok r"
  by (simp add: evaluation_result_ok_def result_parts_ok_def)

lemma validate_result_semantics_ok:
  "evaluation_result_ok r \<Longrightarrow>
     validate_result_semantics (result_to_value r) = Ok () \<longleftrightarrow>
     usage_totals (res_stages r) (res_usage r)"
  by (simp add: validate_result_semantics_iff evaluation_result_ok_parts)
    (simp add: evaluation_result_ok_def)

lemma encode_result_totals:
  "evaluation_result_ok r \<Longrightarrow> encode_evaluation_result lib r = Ok b \<Longrightarrow>
     usage_totals (res_stages r) (res_usage r)"
  using validate_result_semantics_ok [of r]
  by (auto simp: encode_evaluation_result_def Let_def and_then_Ok_iff)

lemma encode_result_bound:
  "encode_evaluation_result lib r = Ok b \<Longrightarrow> length b \<le> MAX_EVALUATION_RESULT_BYTES"
  by (auto simp: encode_evaluation_result_def Let_def and_then_Ok_iff dest: encode_wire_bound)

lemma decode_encode_result:
  assumes lib: "wire_lib_ok lib" and ok: "evaluation_result_ok r"
    and enc: "encode_evaluation_result lib r = Ok b"
  shows "decode_evaluation_result_domain lib b = Ok r"
proof -
  from enc have sem: "validate_result_semantics (result_to_value r) = Ok ()"
    and wire: "encode_wire lib (wl_result lib) (result_to_value r) MAX_EVALUATION_RESULT_BYTES = Ok b"
    by (auto simp: encode_evaluation_result_def Let_def and_then_Ok_iff)
  have "decode_wire lib (wl_result lib) b MAX_EVALUATION_RESULT_BYTES = Ok (result_to_value r)"
    using lib wire by (intro decode_encode_wire) (simp_all add: wire_lib_ok_def)
  then obtain t where "from_slice (wl_result lib) b = Some t"
    "to_value (wl_result lib) t = Some (result_to_value r)"
    "length b \<le> MAX_EVALUATION_RESULT_BYTES" "schema_validate lib (result_to_value r) = Ok ()"
    by (auto simp: decode_wire_def and_then_Ok_iff)
  then have "decode_evaluation_result lib b = Ok t"
    using sem by (simp add: decode_evaluation_result_def ensure_size_def)
  then show ?thesis
    using \<open>to_value (wl_result lib) t = Some (result_to_value r)\<close> result_value_round_trip [OF ok]
    by (simp add: decode_evaluation_result_domain_def)
qed

section \<open>What decodes is valid\<close>

lemma usage_from_value_ok: "usage_from_value v = Ok u \<Longrightarrow> resource_usage_ok u"
  by (auto simp: usage_from_value_def and_then_Ok_iff dest: ResourceUsage_new_ok)

lemma diagnostic_from_value_ok: "diagnostic_from_value v = Ok d \<Longrightarrow> diagnostic_ok d"
  by (auto simp: diagnostic_from_value_def and_then_Ok_iff diagnostic_ok_def Diagnostic_new_def
      DiagnosticCode_parse_Ok_iff split: if_splits)

lemma evidence_from_value_ok: "evidence_from_value v = Ok e \<Longrightarrow> evidence_ref_ok e"
  using artifact_from_value_ok
  by (auto simp: evidence_from_value_def and_then_Ok_iff evidence_ref_ok_def EvidenceId_parse_def
      parse_opaque_id_Ok_iff EvidenceKind_parse_Ok_iff transpose_map_def map_ok_Ok_iff
      split: option.splits)

lemma traverse_all_ok:
  assumes "\<And>x y. f x = Ok y \<Longrightarrow> P y" and "traverse f xs = Ok ys"
  shows "list_all P ys"
  unfolding list_all_iff using assms(1) traverse_Ok_set [OF assms(2)] by blast

lemma stage_report_from_value_ok:
  "stage_report_from_value v = Ok r \<Longrightarrow> stage_report_ok r"
  by (auto simp: stage_report_from_value_def and_then_Ok_iff StageReport_new_Ok_iff
      stage_report_ok_def dest: usage_from_value_ok
      intro: traverse_all_ok [OF diagnostic_from_value_ok] traverse_all_ok [OF evidence_from_value_ok])

lemma identity_from_objects_ok:
  "identity_from_objects ob m = Ok i \<Longrightarrow> evaluation_identity_ok i"
  by (auto simp: identity_from_objects_def and_then_Ok_iff evaluation_identity_ok_def
      opaque_parse_defs parse_opaque_id_Ok_iff ContentDigest_parse_Ok_iff)

lemma node_id_from_value_ok: "node_id_from_value v = Ok n \<Longrightarrow> id_ok (node_id_str n)"
  by (auto simp: node_id_from_value_def and_then_Ok_iff opaque_parse_defs parse_opaque_id_Ok_iff)

lemma provenance_from_object_ok:
  assumes "provenance_from_object m e n = Ok p"
    and "transpose_map node_id_from_value v = Ok n"
  shows "execution_provenance_ok p"
  using assms
  by (auto simp: provenance_from_object_def and_then_Ok_iff ExecutionProvenance_new_Ok_iff
      execution_provenance_ok_def ContentDigest_parse_Ok_iff transpose_map_def map_ok_Ok_iff
      split: option.splits dest: node_id_from_value_ok)

lemma result_from_value_ok:
  assumes "result_from_value v = Ok r"
  shows "evaluation_result_ok r"
  using assms unfolding result_from_value_def
  by (elim and_then_OkE)
    (auto simp: EvaluationResult_new_Ok_iff evaluation_result_ok_def score_from_object_def
      and_then_Ok_iff Score_new_Ok_iff
      dest: identity_from_objects_ok usage_from_value_ok provenance_from_object_ok
      intro: traverse_all_ok [OF diagnostic_from_value_ok] traverse_all_ok [OF evidence_from_value_ok]
        traverse_all_ok [OF stage_report_from_value_ok])

lemma decode_result_domain_ok:
  "decode_evaluation_result_domain lib b = Ok r \<Longrightarrow> evaluation_result_ok r"
  by (auto simp: decode_evaluation_result_domain_def and_then_Ok_iff dest: result_from_value_ok)

end
