(* ===== verification/Storage_Schema.thy ===== *)
theory Storage_Schema
  imports Sql_Session Protocol_Semantics
begin

text \<open>
  The tables of \<open>crates/openoj-storage/migrations\<close> as the storage code reads and writes them: a
  table is the list of its rows, a \<open>bigint\<close> is an integer, a nullable column an option.  The
  constraints of the migrations decide whether a statement succeeds: a row constraint or a
  foreign key fails with another code than a unique index.  Text is compared with the collation
  of the database, which is a parameter.
\<close>

section \<open>Rows\<close>

record artifact_row =
  ar_artifact_id :: str
  ar_digest :: str
  ar_media_type :: str
  ar_size_bytes :: int
  ar_sensitivity :: str

record problem_version_row =
  pr_problem_version_id :: str
  pr_problem_id :: str
  pr_digest :: str

record submission_row =
  su_submission_id :: str
  su_source_artifact_id :: str

record runtime_row =
  rr_runtime_id :: str
  rr_digest :: str

record evaluation_row =
  ev_evaluation_id :: str
  ev_request_id :: str
  ev_creation_idempotency_key :: str
  ev_problem_version_id :: str
  ev_submission_id :: str
  ev_runtime_id :: str
  ev_initial_request :: bytes
  ev_state :: str
  ev_current_attempt_id :: str
  ev_terminal_result :: "bytes option"
  ev_result_idempotency_key :: "str option"
  ev_created_at_ms :: int
  ev_updated_at_ms :: int

record attempt_row =
  at_attempt_id :: str
  at_evaluation_id :: str
  at_request_id :: str
  at_attempt_number :: int
  at_attempt_idempotency_key :: str
  at_request_payload :: bytes
  at_state :: str
  at_node_id :: "str option"
  at_lease_token :: "str option"
  at_lease_expires_at_ms :: "int option"
  at_claim_operation_id :: "str option"
  at_created_at_ms :: int
  at_updated_at_ms :: int

record task_row =
  ta_attempt_id :: str
  ta_state :: str
  ta_required_capabilities :: "str list"
  ta_created_at_ms :: int
  ta_updated_at_ms :: int

record tables =
  db_artifacts :: "artifact_row list"
  db_problem_versions :: "problem_version_row list"
  db_submissions :: "submission_row list"
  db_runtimes :: "runtime_row list"
  db_evaluations :: "evaluation_row list"
  db_attempts :: "attempt_row list"
  db_tasks :: "task_row list"

definition empty_tables :: tables where
  "empty_tables = \<lparr>db_artifacts = [], db_problem_versions = [], db_submissions = [],
     db_runtimes = [], db_evaluations = [], db_attempts = [], db_tasks = []\<rparr>"

text \<open>The libraries and the collation the storage code runs with.\<close>

record ('q, 'r) pg_env =
  pg_wire :: "('q, 'r) wire_lib"
  pg_text_less :: "str \<Rightarrow> str \<Rightarrow> bool"

section \<open>Row constraints\<close>

definition MAX_TIME_MS :: int where "MAX_TIME_MS = 253402300799999"

definition time_bound :: "int \<Rightarrow> int \<Rightarrow> bool" where
  "time_bound created updated \<longleftrightarrow>
     0 \<le> created \<and> created \<le> MAX_TIME_MS \<and> created \<le> updated \<and> updated \<le> MAX_TIME_MS"

text \<open>A \<open>varchar(64)\<close> with the identifier pattern.\<close>

definition pg_id :: "str \<Rightarrow> bool" where
  "pg_id s = opaque_ok 64 s"

fun pg_null_or :: "('a \<Rightarrow> bool) \<Rightarrow> 'a option \<Rightarrow> bool" where
  "pg_null_or p None = True"
| "pg_null_or p (Some x) = p x"

definition artifact_check :: "artifact_row \<Rightarrow> bool" where
  "artifact_check r \<longleftrightarrow>
     pg_id (ar_artifact_id r) \<and> digest_ok (ar_digest r) \<and>
     1 \<le> length (ar_media_type r) \<and> length (ar_media_type r) \<le> 129 \<and>
     0 \<le> ar_size_bytes r \<and> ar_size_bytes r \<le> 1099511627776 \<and>
     ar_sensitivity r \<in> {''public'', ''private'', ''hidden''}"

definition problem_version_check :: "problem_version_row \<Rightarrow> bool" where
  "problem_version_check r \<longleftrightarrow>
     pg_id (pr_problem_version_id r) \<and> pg_id (pr_problem_id r) \<and> digest_ok (pr_digest r)"

definition submission_check :: "submission_row \<Rightarrow> bool" where
  "submission_check r \<longleftrightarrow> pg_id (su_submission_id r) \<and> length (su_source_artifact_id r) \<le> 64"

definition runtime_check :: "runtime_row \<Rightarrow> bool" where
  "runtime_check r \<longleftrightarrow> pg_id (rr_runtime_id r) \<and> digest_ok (rr_digest r)"

definition evaluation_check :: "evaluation_row \<Rightarrow> bool" where
  "evaluation_check r \<longleftrightarrow>
     pg_id (ev_evaluation_id r) \<and> pg_id (ev_request_id r) \<and> pg_id (ev_current_attempt_id r) \<and>
     opaque_ok 128 (ev_creation_idempotency_key r) \<and>
     pg_null_or (opaque_ok 128) (ev_result_idempotency_key r) \<and>
     1 \<le> length (ev_initial_request r) \<and> length (ev_initial_request r) \<le> 262144 \<and>
     ev_state r \<in> {''queued'', ''leased'', ''completed'', ''failed'', ''cancelled''} \<and>
     (ev_terminal_result r = None) = (ev_result_idempotency_key r = None) \<and>
     pg_null_or (\<lambda>b. 1 \<le> length b \<and> length b \<le> 1048576) (ev_terminal_result r) \<and>
     time_bound (ev_created_at_ms r) (ev_updated_at_ms r)"

definition attempt_check :: "attempt_row \<Rightarrow> bool" where
  "attempt_check r \<longleftrightarrow>
     pg_id (at_attempt_id r) \<and> pg_id (at_request_id r) \<and>
     opaque_ok 128 (at_attempt_idempotency_key r) \<and>
     pg_null_or pg_id (at_node_id r) \<and> pg_null_or pg_id (at_lease_token r) \<and>
     pg_null_or pg_id (at_claim_operation_id r) \<and>
     1 \<le> at_attempt_number r \<and> at_attempt_number r \<le> 4294967295 \<and>
     1 \<le> length (at_request_payload r) \<and> length (at_request_payload r) \<le> 262144 \<and>
     at_state r \<in> {''queued'', ''leased'', ''completed'', ''failed'', ''cancelled'', ''expired''} \<and>
     (at_node_id r = None) = (at_lease_token r = None) \<and>
     (at_lease_token r = None) = (at_lease_expires_at_ms r = None) \<and>
     pg_null_or (\<lambda>t. 0 \<le> t \<and> t \<le> MAX_TIME_MS) (at_lease_expires_at_ms r) \<and>
     time_bound (at_created_at_ms r) (at_updated_at_ms r)"

text \<open>\<open>openoj_valid_required_capabilities\<close>: segments between single dots and hyphens.\<close>

fun capability_segments :: "str \<Rightarrow> str list" where
  "capability_segments [] = [[]]"
| "capability_segments (c # cs) =
     (if c = CHR ''.'' \<or> c = CHR ''-'' then [] # capability_segments cs
      else case capability_segments cs of [] \<Rightarrow> [[c]] | s # ss \<Rightarrow> (c # s) # ss)"

definition pg_capability_ok :: "str \<Rightarrow> bool" where
  "pg_capability_ok s \<longleftrightarrow>
     list_all (\<lambda>seg. seg \<noteq> [] \<and> list_all is_lower_alnum seg) (capability_segments s) \<and>
     length s \<le> 64"

fun pg_capabilities_loop :: "(str \<Rightarrow> str \<Rightarrow> bool) \<Rightarrow> str option \<Rightarrow> str list \<Rightarrow> bool" where
  "pg_capabilities_loop lt previous [] = True"
| "pg_capabilities_loop lt previous (capability # rest) =
     (if \<not> pg_capability_ok capability \<or>
         (case previous of None \<Rightarrow> False | Some p \<Rightarrow> \<not> lt p capability)
      then False
      else pg_capabilities_loop lt (Some capability) rest)"

definition valid_required_capabilities :: "(str \<Rightarrow> str \<Rightarrow> bool) \<Rightarrow> str list \<Rightarrow> bool" where
  "valid_required_capabilities lt capabilities =
     (if \<not> (1 \<le> length capabilities \<and> length capabilities \<le> 64) then False
      else pg_capabilities_loop lt None capabilities)"

definition task_check :: "(str \<Rightarrow> str \<Rightarrow> bool) \<Rightarrow> task_row \<Rightarrow> bool" where
  "task_check lt r \<longleftrightarrow>
     ta_state r \<in> {''ready'', ''leased'', ''completed'', ''cancelled'', ''expired''} \<and>
     time_bound (ta_created_at_ms r) (ta_updated_at_ms r) \<and>
     valid_required_capabilities lt (ta_required_capabilities r)"

section \<open>Unique indexes and foreign keys\<close>

text \<open>The values of a unique column that are not null.\<close>

fun non_null :: "'a option list \<Rightarrow> 'a list" where
  "non_null [] = []"
| "non_null (None # xs) = non_null xs"
| "non_null (Some x # xs) = x # non_null xs"

definition evaluations_unique :: "evaluation_row list \<Rightarrow> bool" where
  "evaluations_unique t \<longleftrightarrow>
     distinct (map ev_evaluation_id t) \<and> distinct (map ev_creation_idempotency_key t) \<and>
     distinct (non_null (map ev_result_idempotency_key t))"

text \<open>The partial index on \<open>(node_id, claim_operation_id)\<close>.\<close>

definition claim_key :: "attempt_row \<Rightarrow> (str \<times> str) option" where
  "claim_key r = (case (at_node_id r, at_claim_operation_id r) of
     (Some n, Some c) \<Rightarrow> Some (n, c) | _ \<Rightarrow> None)"

definition attempts_unique :: "attempt_row list \<Rightarrow> bool" where
  "attempts_unique t \<longleftrightarrow>
     distinct (map at_attempt_id t) \<and> distinct (map at_attempt_idempotency_key t) \<and>
     distinct (map (\<lambda>r. (at_evaluation_id r, at_attempt_number r)) t) \<and>
     distinct (non_null (map claim_key t))"

definition tasks_unique :: "task_row list \<Rightarrow> bool" where
  "tasks_unique t \<longleftrightarrow> distinct (map ta_attempt_id t)"

text \<open>The rows a statement leaves: row constraints first, then the indexes.\<close>

definition checked_rows ::
  "('r \<Rightarrow> bool) \<Rightarrow> ('r list \<Rightarrow> bool) \<Rightarrow> 'r list \<Rightarrow> ('r list, db_error) result" where
  "checked_rows check unique t =
     (if \<not> list_all check t then Err OtherViolation
      else if \<not> unique t then Err UniqueViolation
      else Ok t)"

text \<open>\<open>INSERT ... ON CONFLICT (key) DO NOTHING\<close>.\<close>

definition insert_or_ignore ::
  "('r \<Rightarrow> str) \<Rightarrow> ('r \<Rightarrow> bool) \<Rightarrow> 'r \<Rightarrow> 'r list \<Rightarrow> ('r list, db_error) result" where
  "insert_or_ignore key check r t =
     (if \<not> check r then Err OtherViolation
      else if sel key (key r) t \<noteq> None then Ok t
      else Ok (t @ [r]))"

section \<open>Statements\<close>

definition insert_artifact_row :: "artifact_row \<Rightarrow> tables \<Rightarrow> (tables, db_error) result" where
  "insert_artifact_row r db =
     map_ok (\<lambda>t. db\<lparr>db_artifacts := t\<rparr>)
       (insert_or_ignore ar_artifact_id artifact_check r (db_artifacts db))"

definition insert_problem_version_row ::
  "problem_version_row \<Rightarrow> tables \<Rightarrow> (tables, db_error) result" where
  "insert_problem_version_row r db =
     map_ok (\<lambda>t. db\<lparr>db_problem_versions := t\<rparr>)
       (insert_or_ignore pr_problem_version_id problem_version_check r (db_problem_versions db))"

definition insert_submission_row :: "submission_row \<Rightarrow> tables \<Rightarrow> (tables, db_error) result" where
  "insert_submission_row r db =
     and_then (insert_or_ignore su_submission_id submission_check r (db_submissions db)) (\<lambda>t.
       if su_source_artifact_id r \<notin> ar_artifact_id ` set (db_artifacts db) then Err OtherViolation
       else Ok (db\<lparr>db_submissions := t\<rparr>))"

definition insert_runtime_row :: "runtime_row \<Rightarrow> tables \<Rightarrow> (tables, db_error) result" where
  "insert_runtime_row r db =
     map_ok (\<lambda>t. db\<lparr>db_runtimes := t\<rparr>)
       (insert_or_ignore rr_runtime_id runtime_check r (db_runtimes db))"

definition insert_evaluation_row :: "evaluation_row \<Rightarrow> tables \<Rightarrow> (tables, db_error) result" where
  "insert_evaluation_row r db =
     and_then (checked_rows evaluation_check evaluations_unique (db_evaluations db @ [r])) (\<lambda>t.
       if ev_problem_version_id r \<in> pr_problem_version_id ` set (db_problem_versions db) \<and>
          ev_submission_id r \<in> su_submission_id ` set (db_submissions db) \<and>
          ev_runtime_id r \<in> rr_runtime_id ` set (db_runtimes db)
       then Ok (db\<lparr>db_evaluations := t\<rparr>) else Err OtherViolation)"

definition insert_attempt_row :: "attempt_row \<Rightarrow> tables \<Rightarrow> (tables, db_error) result" where
  "insert_attempt_row r db =
     and_then (checked_rows attempt_check attempts_unique (db_attempts db @ [r])) (\<lambda>t.
       if at_evaluation_id r \<in> ev_evaluation_id ` set (db_evaluations db)
       then Ok (db\<lparr>db_attempts := t\<rparr>) else Err OtherViolation)"

definition insert_task_row ::
  "(str \<Rightarrow> str \<Rightarrow> bool) \<Rightarrow> task_row \<Rightarrow> tables \<Rightarrow> (tables, db_error) result" where
  "insert_task_row lt r db =
     and_then (checked_rows (task_check lt) tasks_unique (db_tasks db @ [r])) (\<lambda>t.
       if ta_attempt_id r \<in> at_attempt_id ` set (db_attempts db)
       then Ok (db\<lparr>db_tasks := t\<rparr>) else Err OtherViolation)"

definition update_evaluation ::
  "str \<Rightarrow> (evaluation_row \<Rightarrow> evaluation_row) \<Rightarrow> tables \<Rightarrow> (tables, db_error) result" where
  "update_evaluation k f db =
     map_ok (\<lambda>t. db\<lparr>db_evaluations := t\<rparr>)
       (checked_rows evaluation_check evaluations_unique
          (upd ev_evaluation_id k f (db_evaluations db)))"

definition update_attempt ::
  "str \<Rightarrow> (attempt_row \<Rightarrow> attempt_row) \<Rightarrow> tables \<Rightarrow> (tables, db_error) result" where
  "update_attempt k f db =
     map_ok (\<lambda>t. db\<lparr>db_attempts := t\<rparr>)
       (checked_rows attempt_check attempts_unique (upd at_attempt_id k f (db_attempts db)))"

definition update_task ::
  "(str \<Rightarrow> str \<Rightarrow> bool) \<Rightarrow> str \<Rightarrow> (task_row \<Rightarrow> task_row) \<Rightarrow> tables \<Rightarrow> (tables, db_error) result"
where
  "update_task lt k f db =
     map_ok (\<lambda>t. db\<lparr>db_tasks := t\<rparr>)
       (checked_rows (task_check lt) tasks_unique (upd ta_attempt_id k f (db_tasks db)))"

text \<open>\<open>evaluations_current_attempt_fk\<close>, deferred to the commit.\<close>

definition current_attempt_fk :: "tables \<Rightarrow> bool" where
  "current_attempt_fk db \<longleftrightarrow>
     list_all (\<lambda>e. ev_current_attempt_id e \<in> at_attempt_id ` set (db_attempts db))
       (db_evaluations db)"

lemma checked_rows_Ok_iff:
  "checked_rows check unique t = Ok t' \<longleftrightarrow> list_all check t \<and> unique t \<and> t' = t"
  by (auto simp: checked_rows_def)

lemma insert_or_ignore_Ok_iff:
  "insert_or_ignore key check r t = Ok t' \<longleftrightarrow>
     check r \<and> t' = (if sel key (key r) t \<noteq> None then t else t @ [r])"
  by (auto simp: insert_or_ignore_def)

lemmas statement_defs = insert_artifact_row_def insert_problem_version_row_def
  insert_submission_row_def insert_runtime_row_def insert_evaluation_row_def
  insert_attempt_row_def insert_task_row_def update_evaluation_def update_attempt_def
  update_task_def

section \<open>The current attempt of an evaluation\<close>

text \<open>The join of \<open>evaluations\<close> with its current row of \<open>evaluation_attempts\<close>.\<close>

definition evaluation_with_attempt :: "str \<Rightarrow> tables \<Rightarrow> (evaluation_row \<times> attempt_row) option" where
  "evaluation_with_attempt k db =
     (case sel ev_evaluation_id k (db_evaluations db) of
        None \<Rightarrow> None
      | Some e \<Rightarrow> map_option (\<lambda>a. (e, a))
          (sel at_attempt_id (ev_current_attempt_id e) (db_attempts db)))"

lemma evaluation_with_attempt_Some_iff:
  "evaluation_with_attempt k db = Some (e, a) \<longleftrightarrow>
     sel ev_evaluation_id k (db_evaluations db) = Some e \<and>
     sel at_attempt_id (ev_current_attempt_id e) (db_attempts db) = Some a"
  by (auto simp: evaluation_with_attempt_def split: option.splits)

text \<open>A column that must not be null for the value the code reads.\<close>

definition column :: "'a option \<Rightarrow> ('a, store_error) result" where
  "column v = ok_or v CorruptData"

text \<open>\<open>i64::try_from\<close> on a \<open>u64\<close>.\<close>

definition i64_try_from :: "u64 \<Rightarrow> int option" where
  "i64_try_from n = (if unat n < 2 ^ 63 then Some (uint n) else None)"

lemma i64_try_from_bounded: "n \<le> MAX_UNIX_MILLIS \<Longrightarrow> i64_try_from n = Some (uint n)"
  by (simp add: i64_try_from_def MAX_UNIX_MILLIS_def word_le_nat_alt)

lemma i64_try_from_millis:
  "unix_millis_ok t \<Longrightarrow> i64_try_from (unix_millis_value t) = Some (millis t)"
  by (simp add: unix_millis_ok_def i64_try_from_bounded millis_def)

end
