(* ===== verification/Storage_Create.thy ===== *)
theory Storage_Create
  imports Storage_Schema
begin

text \<open>
  \<open>crates/openoj-storage/src/model.rs\<close>, \<open>read.rs\<close> and \<open>create.rs\<close>: reading the snapshot of an
  evaluation, registering the immutable references of a request, and creating an evaluation
  with its first attempt and task, or replaying the creation.
\<close>

section \<open>Snapshots\<close>

definition evaluation_state_from_str :: "str \<Rightarrow> (evaluation_state, store_error) result" where
  "evaluation_state_from_str value =
     (if value = ''queued'' then Ok EvaluationState_Queued
      else if value = ''leased'' then Ok EvaluationState_Leased
      else if value = ''completed'' then Ok EvaluationState_Completed
      else if value = ''failed'' then Ok EvaluationState_Failed
      else if value = ''cancelled'' then Ok EvaluationState_Cancelled
      else Err CorruptData)"

definition attempt_state_from_str :: "str \<Rightarrow> (attempt_state, store_error) result" where
  "attempt_state_from_str value =
     (if value = ''queued'' then Ok AttemptState_Queued
      else if value = ''leased'' then Ok AttemptState_Leased
      else if value = ''completed'' then Ok AttemptState_Completed
      else if value = ''failed'' then Ok AttemptState_Failed
      else if value = ''cancelled'' then Ok AttemptState_Cancelled
      else if value = ''expired'' then Ok AttemptState_Expired
      else Err CorruptData)"

text \<open>\<open>u32::try_from\<close> on an \<open>i64\<close>.\<close>

definition u32_try_from_i64 :: "int \<Rightarrow> u32 option" where
  "u32_try_from_i64 n = (if 0 \<le> n \<and> n < 2 ^ 32 then Some (word_of_int n) else None)"

definition corrupt :: "('a, 'e) result \<Rightarrow> ('a, store_error) result" where
  "corrupt r = map_err (\<lambda>_. CorruptData) r"

definition snapshot ::
  "str \<Rightarrow> str \<Rightarrow> str \<Rightarrow> int \<Rightarrow> str \<Rightarrow> bool \<Rightarrow> (evaluation_snapshot, store_error) result" where
  "snapshot evaluation_id evaluation_state attempt_id attempt_number attempt_state terminal_result =
     and_then (corrupt (EvaluationId_parse evaluation_id)) (\<lambda>evaluation_id.
     and_then (evaluation_state_from_str evaluation_state) (\<lambda>state.
     and_then (corrupt (AttemptId_parse attempt_id)) (\<lambda>current_attempt_id.
     and_then (ok_or (u32_try_from_i64 attempt_number) CorruptData) (\<lambda>attempt_number.
     and_then (attempt_state_from_str attempt_state) (\<lambda>attempt_state.
       Ok \<lparr>snap_evaluation_id = evaluation_id, snap_state = state,
           snap_current_attempt_id = current_attempt_id, snap_attempt_number = attempt_number,
           snap_attempt_state = attempt_state, snap_terminal_result = terminal_result\<rparr>)))))"

text \<open>\<open>request.evaluation_id() != ... || request.attempt_id() != ... || attempt_number\<close>.\<close>

definition request_matches :: "evaluation_request \<Rightarrow> str \<Rightarrow> str \<Rightarrow> int \<Rightarrow> bool" where
  "request_matches request evaluation_id attempt_id attempt_number \<longleftrightarrow>
     evaluation_id_str (req_evaluation_id request) = evaluation_id \<and>
     attempt_id_str (req_attempt_id request) = attempt_id \<and>
     uint (req_attempt_number request) = attempt_number"

definition snapshot_of ::
  "('q, 'r) wire_lib \<Rightarrow> evaluation_row \<Rightarrow> attempt_row \<Rightarrow> (evaluation_snapshot, store_error) result"
where
  "snapshot_of lib e a =
     and_then (corrupt (decode_evaluation_request lib (at_request_payload a))) (\<lambda>request.
       if \<not> request_matches request (ev_evaluation_id e) (at_attempt_id a) (at_attempt_number a)
       then Err CorruptData
       else snapshot (ev_evaluation_id e) (ev_state e) (at_attempt_id a) (at_attempt_number a)
              (at_state a) (ev_terminal_result e \<noteq> None))"

definition evaluation_status ::
  "('q, 'r) pg_env \<Rightarrow> evaluation_id \<Rightarrow> (evaluation_snapshot, tables) sql" where
  "evaluation_status env evaluation_id =
     sql_then (fetch (evaluation_with_attempt (evaluation_id_str evaluation_id))) (\<lambda>row.
     case row of
       None \<Rightarrow> sql_fail NotFound
     | Some (e, a) \<Rightarrow> sql_lift (snapshot_of (pg_wire env) e a))"

section \<open>Creation\<close>

fun map_insert_error :: "db_error \<Rightarrow> store_error" where
  "map_insert_error UniqueViolation = IdentityConflict"
| "map_insert_error _ = Unavailable"

definition register_artifact :: "evaluation_request \<Rightarrow> (unit, tables) sql" where
  "register_artifact request =
     (let source = sub_source (req_submission request);
          artifact_id = artifact_id_str (art_artifact_id source);
          digest = content_digest_str (art_digest source);
          media_type = media_type_str (art_media_type source);
          sensitivity = ArtifactSensitivity_as_str (art_sensitivity source)
      in sql_then (sql_lift (ok_or (i64_try_from (art_size_bytes source)) CorruptData)) (\<lambda>size.
         sql_then (execute unavailable (insert_artifact_row
           \<lparr>ar_artifact_id = artifact_id, ar_digest = digest, ar_media_type = media_type,
            ar_size_bytes = size, ar_sensitivity = sensitivity\<rparr>)) (\<lambda>_.
         sql_then (fetch (\<lambda>db. sel ar_artifact_id artifact_id (db_artifacts db))) (\<lambda>row.
         case row of
           None \<Rightarrow> sql_fail Unavailable
         | Some stored \<Rightarrow>
             if (ar_digest stored, ar_media_type stored, ar_size_bytes stored, ar_sensitivity stored)
                \<noteq> (digest, media_type, size, sensitivity)
             then sql_fail ImmutableReferenceConflict
             else sql_return ()))))"

definition register_problem_version :: "evaluation_request \<Rightarrow> (unit, tables) sql" where
  "register_problem_version request =
     (let reference = req_problem_version request;
          problem_version_id = problem_version_id_str (pv_problem_version_id reference);
          problem_id = problem_id_str (pv_problem_id reference);
          digest = content_digest_str (pv_digest reference)
      in sql_then (execute unavailable (insert_problem_version_row
           \<lparr>pr_problem_version_id = problem_version_id, pr_problem_id = problem_id,
            pr_digest = digest\<rparr>)) (\<lambda>_.
         sql_then (fetch (\<lambda>db. sel pr_problem_version_id problem_version_id
           (db_problem_versions db))) (\<lambda>row.
         case row of
           None \<Rightarrow> sql_fail Unavailable
         | Some stored \<Rightarrow>
             if (pr_problem_id stored, pr_digest stored) \<noteq> (problem_id, digest)
             then sql_fail ImmutableReferenceConflict
             else sql_return ())))"

definition register_submission :: "evaluation_request \<Rightarrow> (unit, tables) sql" where
  "register_submission request =
     (let reference = req_submission request;
          submission_id = submission_id_str (sub_submission_id reference);
          artifact_id = artifact_id_str (art_artifact_id (sub_source reference))
      in sql_then (execute unavailable (insert_submission_row
           \<lparr>su_submission_id = submission_id, su_source_artifact_id = artifact_id\<rparr>)) (\<lambda>_.
         sql_then (fetch (\<lambda>db. sel su_submission_id submission_id (db_submissions db))) (\<lambda>row.
         case row of
           None \<Rightarrow> sql_fail Unavailable
         | Some stored \<Rightarrow>
             if su_source_artifact_id stored \<noteq> artifact_id
             then sql_fail ImmutableReferenceConflict
             else sql_return ())))"

definition register_runtime :: "evaluation_request \<Rightarrow> (unit, tables) sql" where
  "register_runtime request =
     (let reference = req_runtime request;
          runtime_id = runtime_id_str (rt_runtime_id reference);
          digest = content_digest_str (rt_digest reference)
      in sql_then (execute unavailable (insert_runtime_row
           \<lparr>rr_runtime_id = runtime_id, rr_digest = digest\<rparr>)) (\<lambda>_.
         sql_then (fetch (\<lambda>db. sel rr_runtime_id runtime_id (db_runtimes db))) (\<lambda>row.
         case row of
           None \<Rightarrow> sql_fail Unavailable
         | Some stored \<Rightarrow>
             if rr_digest stored \<noteq> digest then sql_fail ImmutableReferenceConflict
             else sql_return ())))"

definition new_evaluation_row :: "evaluation_request \<Rightarrow> bytes \<Rightarrow> int \<Rightarrow> evaluation_row" where
  "new_evaluation_row request payload created_at =
     \<lparr>ev_evaluation_id = evaluation_id_str (req_evaluation_id request),
      ev_request_id = request_id_str (req_request_id request),
      ev_creation_idempotency_key = idempotency_key_str (req_idempotency_key request),
      ev_problem_version_id =
        problem_version_id_str (pv_problem_version_id (req_problem_version request)),
      ev_submission_id = submission_id_str (sub_submission_id (req_submission request)),
      ev_runtime_id = runtime_id_str (rt_runtime_id (req_runtime request)),
      ev_initial_request = payload, ev_state = ''queued'',
      ev_current_attempt_id = attempt_id_str (req_attempt_id request),
      ev_terminal_result = None, ev_result_idempotency_key = None,
      ev_created_at_ms = created_at, ev_updated_at_ms = created_at\<rparr>"

definition new_attempt_row ::
  "evaluation_request \<Rightarrow> bytes \<Rightarrow> int \<Rightarrow> int \<Rightarrow> attempt_row" where
  "new_attempt_row request payload attempt_number created_at =
     \<lparr>at_attempt_id = attempt_id_str (req_attempt_id request),
      at_evaluation_id = evaluation_id_str (req_evaluation_id request),
      at_request_id = request_id_str (req_request_id request),
      at_attempt_number = attempt_number,
      at_attempt_idempotency_key = idempotency_key_str (req_idempotency_key request),
      at_request_payload = payload, at_state = ''queued'', at_node_id = None,
      at_lease_token = None, at_lease_expires_at_ms = None, at_claim_operation_id = None,
      at_created_at_ms = created_at, at_updated_at_ms = created_at\<rparr>"

definition new_task_row :: "evaluation_request \<Rightarrow> int \<Rightarrow> task_row" where
  "new_task_row request created_at =
     \<lparr>ta_attempt_id = attempt_id_str (req_attempt_id request), ta_state = ''ready'',
      ta_required_capabilities = map capability_str (req_required_capabilities request),
      ta_created_at_ms = created_at, ta_updated_at_ms = created_at\<rparr>"

definition insert_evaluation :: "evaluation_request \<Rightarrow> bytes \<Rightarrow> int \<Rightarrow> (unit, tables) sql" where
  "insert_evaluation request payload created_at =
     execute map_insert_error (insert_evaluation_row (new_evaluation_row request payload created_at))"

definition insert_attempt :: "evaluation_request \<Rightarrow> bytes \<Rightarrow> int \<Rightarrow> int \<Rightarrow> (unit, tables) sql" where
  "insert_attempt request payload attempt_number created_at =
     execute map_insert_error
       (insert_attempt_row (new_attempt_row request payload attempt_number created_at))"

definition insert_task ::
  "('q, 'r) pg_env \<Rightarrow> evaluation_request \<Rightarrow> int \<Rightarrow> (unit, tables) sql" where
  "insert_task env request created_at =
     execute map_insert_error (insert_task_row (pg_text_less env) (new_task_row request created_at))"

text \<open>
  The transaction of \<open>create_evaluation\<close>: \<open>Some\<close> identifier when the idempotency key was used
  before with the same request.
\<close>

definition create_transaction ::
  "('q, 'r) pg_env \<Rightarrow> create_evaluation \<Rightarrow> bytes \<Rightarrow> (str option, tables) sql" where
  "create_transaction env command payload =
     (let request = ce_request command;
          key = idempotency_key_str (req_idempotency_key request)
      in sql_then (fetch (\<lambda>db. sel ev_creation_idempotency_key key (db_evaluations db))) (\<lambda>row.
         case row of
           Some stored \<Rightarrow>
             if ev_initial_request stored \<noteq> payload then sql_fail IdempotencyConflict
             else sql_return (Some (ev_evaluation_id stored))
         | None \<Rightarrow>
             sql_then (register_artifact request) (\<lambda>_.
             sql_then (register_problem_version request) (\<lambda>_.
             sql_then (register_submission request) (\<lambda>_.
             sql_then (register_runtime request) (\<lambda>_.
             sql_then (sql_lift (ok_or (i64_try_from (unix_millis_value (ce_created_at command)))
                         InvalidTime)) (\<lambda>created_at.
             sql_then (insert_evaluation request payload created_at) (\<lambda>_.
             sql_then (insert_attempt request payload (uint (req_attempt_number request))
                         created_at) (\<lambda>_.
             sql_then (insert_task env request created_at) (\<lambda>_.
               sql_return None))))))))))"

definition create_evaluation ::
  "('q, 'r) pg_env \<Rightarrow> create_evaluation \<Rightarrow> (evaluation_snapshot, tables) sql" where
  "create_evaluation env command =
     sql_then (sql_lift (corrupt (encode_evaluation_request (pg_wire env) (ce_request command))))
       (\<lambda>payload.
     sql_then (transaction current_attempt_fk (create_transaction env command payload)) (\<lambda>replayed.
     case replayed of
       Some evaluation_id \<Rightarrow>
         sql_then (sql_lift (corrupt (EvaluationId_parse evaluation_id))) (\<lambda>evaluation_id.
           evaluation_status env evaluation_id)
     | None \<Rightarrow> evaluation_status env (req_evaluation_id (ce_request command))))"

end
