(* ===== verification/Storage_Lease.thy ===== *)
theory Storage_Lease
  imports Storage_Create
begin

text \<open>
  \<open>crates/openoj-storage/src/lease.rs\<close>: claiming the oldest ready task, replaying a claim,
  renewing a lease, and replacing an expired attempt by the next one.  Rows that another
  session has locked are skipped by a claim, so the set of them is an argument of it; the random
  bytes of a recovery are its input.
\<close>

section \<open>Claims\<close>

text \<open>The first row of an ordered query.\<close>

fun first_row :: "('a \<Rightarrow> 'a \<Rightarrow> bool) \<Rightarrow> 'a list \<Rightarrow> 'a option" where
  "first_row before [] = None"
| "first_row before (x # xs) =
     (case first_row before xs of
        None \<Rightarrow> Some x
      | Some y \<Rightarrow> Some (if before y x then y else x))"

text \<open>\<open>ORDER BY time, text\<close>.\<close>

definition before_row :: "(str \<Rightarrow> str \<Rightarrow> bool) \<Rightarrow> int \<times> str \<Rightarrow> int \<times> str \<Rightarrow> bool" where
  "before_row lt p q \<longleftrightarrow> fst p < fst q \<or> (fst p = fst q \<and> lt (snd p) (snd q))"

text \<open>The join of tasks with their attempt and the evaluation that has it as current attempt.\<close>

definition task_join :: "tables \<Rightarrow> (task_row \<times> attempt_row \<times> evaluation_row) list" where
  "task_join db =
     concat (map (\<lambda>t. concat (map (\<lambda>a. concat (map (\<lambda>e.
       if at_attempt_id a = ta_attempt_id t \<and> ev_current_attempt_id e = at_attempt_id a
       then [(t, a, e)] else [])
       (db_evaluations db))) (db_attempts db))) (db_tasks db))"

definition claimable ::
  "str set \<Rightarrow> str list option \<Rightarrow> task_row \<times> attempt_row \<times> evaluation_row \<Rightarrow> bool" where
  "claimable locked capabilities row =
     (case row of (t, a, e) \<Rightarrow>
        ta_state t = ''ready'' \<and> at_state a = ''queued'' \<and> ev_state e = ''queued'' \<and>
        (case capabilities of
           None \<Rightarrow> True
         | Some cs \<Rightarrow> set (ta_required_capabilities t) \<subseteq> set cs) \<and>
        ta_attempt_id t \<notin> locked)"

definition select_task ::
  "(str \<Rightarrow> str \<Rightarrow> bool) \<Rightarrow> str set \<Rightarrow> str list option \<Rightarrow> tables \<Rightarrow>
     (task_row \<times> attempt_row \<times> evaluation_row) option" where
  "select_task lt locked capabilities db =
     first_row (\<lambda>(t, _) (t', _). before_row lt (ta_created_at_ms t, ta_attempt_id t)
                                  (ta_created_at_ms t', ta_attempt_id t'))
       (filter (claimable locked capabilities) (task_join db))"

definition lease_attempt ::
  "str \<Rightarrow> str \<Rightarrow> int \<Rightarrow> str option \<Rightarrow> int \<Rightarrow> attempt_row \<Rightarrow> attempt_row" where
  "lease_attempt node_id lease_token expiry operation_id now a =
     a\<lparr>at_state := ''leased'', at_node_id := Some node_id, at_lease_token := Some lease_token,
       at_lease_expires_at_ms := Some expiry, at_claim_operation_id := operation_id,
       at_updated_at_ms := now\<rparr>"

definition claim_transaction ::
  "('q, 'r) pg_env \<Rightarrow> str set \<Rightarrow> claim_task \<Rightarrow> str option \<Rightarrow> str list option \<Rightarrow> int \<Rightarrow> int \<Rightarrow>
     (evaluation_request, tables) sql" where
  "claim_transaction env locked command operation_id capabilities now expiry =
     sql_then (fetch (select_task (pg_text_less env) locked capabilities)) (\<lambda>row.
     case row of
       None \<Rightarrow> sql_fail NoTaskAvailable
     | Some (t, a, e) \<Rightarrow>
         let attempt_id = ta_attempt_id t; evaluation_id = at_evaluation_id a in
         sql_then (sql_lift (corrupt (decode_evaluation_request (pg_wire env)
                                        (at_request_payload a)))) (\<lambda>request.
         if \<not> request_matches request evaluation_id attempt_id (at_attempt_number a)
         then sql_fail CorruptData
         else
           sql_then (execute unavailable (update_attempt attempt_id
             (lease_attempt (node_id_str (ct_node_id command))
                (lease_token_str (ct_lease_token command)) expiry operation_id now))) (\<lambda>_.
           sql_then (execute unavailable (update_evaluation evaluation_id
             (\<lambda>e. e\<lparr>ev_state := ''leased'', ev_updated_at_ms := now\<rparr>))) (\<lambda>_.
           sql_then (execute unavailable (update_task (pg_text_less env) attempt_id
             (\<lambda>t. t\<lparr>ta_state := ''leased'', ta_updated_at_ms := now\<rparr>))) (\<lambda>_.
             sql_return request)))))"

definition claim_task_with_capabilities ::
  "('q, 'r) pg_env \<Rightarrow> str set \<Rightarrow> claim_task \<Rightarrow> str option \<Rightarrow> str list option \<Rightarrow>
     (task_lease, tables) sql" where
  "claim_task_with_capabilities env locked command operation_id capabilities =
     sql_then (sql_lift (map_err (\<lambda>_. InvalidTime)
       (UnixMillis_checked_add (ct_now command) (ct_lease_duration command)))) (\<lambda>expires_at.
     sql_then (sql_lift (ok_or (i64_try_from (unix_millis_value (ct_now command))) InvalidTime)) (\<lambda>now.
     sql_then (sql_lift (ok_or (i64_try_from (unix_millis_value expires_at)) InvalidTime)) (\<lambda>expiry.
     sql_then (transaction current_attempt_fk
       (claim_transaction env locked command operation_id capabilities now expiry)) (\<lambda>request.
       sql_return \<lparr>tl_request = request, tl_node_id = ct_node_id command,
         tl_lease_token = ct_lease_token command, tl_expires_at = expires_at\<rparr>))))"

definition claim_task ::
  "('q, 'r) pg_env \<Rightarrow> str set \<Rightarrow> claim_task \<Rightarrow> (task_lease, tables) sql" where
  "claim_task env locked command = claim_task_with_capabilities env locked command None None"

text \<open>The query of \<open>claim_replay\<close>: an attempt with the operation identifier.\<close>

definition select_claim :: "str \<Rightarrow> tables \<Rightarrow> attempt_row option" where
  "select_claim operation_id db =
     sel at_claim_operation_id (Some operation_id) (db_attempts db)"

definition UnixMillis_of_i64 :: "int \<Rightarrow> unix_millis option" where
  "UnixMillis_of_i64 n =
     (if 0 \<le> n \<and> n < 2 ^ 63
      then (case UnixMillis_new (word_of_int n) of Ok t \<Rightarrow> Some t | Err _ \<Rightarrow> None)
      else None)"

definition replayed_lease ::
  "('q, 'r) wire_lib \<Rightarrow> judge_claim \<Rightarrow> attempt_row \<Rightarrow> (task_lease, store_error) result" where
  "replayed_lease lib command a =
     and_then (column (at_node_id a)) (\<lambda>node_id.
     if node_id \<noteq> node_id_str (jc_node_id command) then Err IdempotencyConflict
     else if at_state a \<noteq> ''leased'' then Err LeaseConflict
     else
       and_then (column (at_lease_token a)) (\<lambda>lease_token.
       and_then (column (at_lease_expires_at_ms a)) (\<lambda>expires_at.
       and_then (corrupt (decode_evaluation_request lib (at_request_payload a))) (\<lambda>request.
       and_then (corrupt (LeaseToken_parse lease_token)) (\<lambda>lease_token.
       and_then (ok_or (UnixMillis_of_i64 expires_at) CorruptData) (\<lambda>expires_at.
         Ok \<lparr>tl_request = request, tl_node_id = jc_node_id command,
             tl_lease_token = lease_token, tl_expires_at = expires_at\<rparr>))))))"

definition claim_replay ::
  "('q, 'r) pg_env \<Rightarrow> judge_claim \<Rightarrow> (task_lease option, tables) sql" where
  "claim_replay env command =
     sql_then (fetch (select_claim (claim_operation_id_str (jc_operation_id command)))) (\<lambda>row.
     case row of
       None \<Rightarrow> sql_return None
     | Some a \<Rightarrow> sql_lift (map_ok Some (replayed_lease (pg_wire env) command a)))"

definition judge_claim_task ::
  "('q, 'r) pg_env \<Rightarrow> str set \<Rightarrow> judge_claim \<Rightarrow> (task_lease, tables) sql" where
  "judge_claim_task env locked command =
     sql_then (claim_replay env command) (\<lambda>replayed.
     case replayed of
       Some lease \<Rightarrow> sql_return lease
     | None \<Rightarrow> claim_task_with_capabilities env locked
         \<lparr>ct_node_id = jc_node_id command, ct_lease_token = jc_lease_token command,
          ct_now = jc_now command,
          ct_lease_duration = lp_lease_duration (jc_lease_policy command)\<rparr>
         (Some (claim_operation_id_str (jc_operation_id command)))
         (Some (map capability_str (jc_declared_capabilities command))))"

section \<open>Renewal\<close>

text \<open>\<open>None\<close> tells the node to cancel.\<close>

definition renew_transaction ::
  "judge_renew \<Rightarrow> int \<Rightarrow> int \<Rightarrow> (unit option, tables) sql" where
  "renew_transaction command now expiry =
     sql_then (fetch (evaluation_with_attempt (evaluation_id_str (jr_evaluation_id command)))) (\<lambda>row.
     case row of
       None \<Rightarrow> sql_fail NotFound
     | Some (e, a) \<Rightarrow>
         if ev_state e = ''cancelled'' \<or> at_state a = ''cancelled'' then sql_return None
         else
           sql_then (sql_lift (column (at_node_id a))) (\<lambda>node_id.
           sql_then (sql_lift (column (at_lease_token a))) (\<lambda>lease_token.
           if ev_state e \<noteq> ''leased'' \<or> at_state a \<noteq> ''leased'' \<or>
              ev_current_attempt_id e \<noteq> attempt_id_str (jr_attempt_id command) \<or>
              node_id \<noteq> node_id_str (jr_node_id command) \<or>
              lease_token \<noteq> lease_token_str (jr_lease_token command)
           then sql_fail StaleLease
           else
             sql_then (execute unavailable (update_attempt (attempt_id_str (jr_attempt_id command))
               (\<lambda>a. a\<lparr>at_lease_expires_at_ms := Some expiry, at_updated_at_ms := now\<rparr>))) (\<lambda>_.
               sql_return (Some ())))))"

definition judge_renew_lease :: "judge_renew \<Rightarrow> (judge_renew_directive, tables) sql" where
  "judge_renew_lease command =
     sql_then (sql_lift (map_err (\<lambda>_. InvalidTime)
       (UnixMillis_checked_add (jr_now command) (lp_lease_duration (jr_lease_policy command)))))
       (\<lambda>expires_at.
     sql_then (sql_lift (ok_or (i64_try_from (unix_millis_value (jr_now command))) InvalidTime)) (\<lambda>now.
     sql_then (sql_lift (ok_or (i64_try_from (unix_millis_value expires_at)) InvalidTime)) (\<lambda>expiry.
     sql_then (transaction current_attempt_fk (renew_transaction command now expiry)) (\<lambda>renewed.
     case renewed of
       None \<Rightarrow> sql_return Directive_Cancel
     | Some _ \<Rightarrow> sql_return (Directive_Continue expires_at)))))"

section \<open>Retry\<close>

definition same_evaluation_semantics :: "evaluation_request \<Rightarrow> evaluation_request \<Rightarrow> bool" where
  "same_evaluation_semantics current retry \<longleftrightarrow>
     req_evaluation_id current = req_evaluation_id retry \<and>
     req_problem_version current = req_problem_version retry \<and>
     req_submission current = req_submission retry \<and>
     req_runtime current = req_runtime retry \<and>
     req_plan current = req_plan retry \<and>
     req_policy current = req_policy retry \<and>
     req_required_capabilities current = req_required_capabilities retry"

fun map_retry_insert_error :: "db_error \<Rightarrow> store_error" where
  "map_retry_insert_error UniqueViolation = IdentityConflict"
| "map_retry_insert_error _ = Unavailable"

definition replace_attempt ::
  "('q, 'r) pg_env \<Rightarrow> str \<Rightarrow> evaluation_request \<Rightarrow> bytes \<Rightarrow> int \<Rightarrow> (unit, tables) sql" where
  "replace_attempt env current_attempt_id request payload now =
     sql_then (execute unavailable (update_attempt current_attempt_id
       (\<lambda>a. a\<lparr>at_state := ''expired'', at_updated_at_ms := now\<rparr>))) (\<lambda>_.
     sql_then (execute unavailable (update_task (pg_text_less env) current_attempt_id
       (\<lambda>t. t\<lparr>ta_state := ''expired'', ta_updated_at_ms := now\<rparr>))) (\<lambda>_.
     sql_then (execute unavailable (update_evaluation (evaluation_id_str (req_evaluation_id request))
       (\<lambda>e. e\<lparr>ev_state := ''queued'',
              ev_current_attempt_id := attempt_id_str (req_attempt_id request),
              ev_updated_at_ms := now\<rparr>))) (\<lambda>_.
     sql_then (execute map_retry_insert_error (insert_attempt_row
       (new_attempt_row request payload (uint (req_attempt_number request)) now))) (\<lambda>_.
       insert_task env request now))))"

definition retry_transaction ::
  "('q, 'r) pg_env \<Rightarrow> evaluation_request \<Rightarrow> bytes \<Rightarrow> int \<Rightarrow> (str option, tables) sql" where
  "retry_transaction env request payload now =
     sql_then (fetch (\<lambda>db. sel at_attempt_idempotency_key
       (idempotency_key_str (req_idempotency_key request)) (db_attempts db))) (\<lambda>row.
     case row of
       Some stored \<Rightarrow>
         if at_request_payload stored \<noteq> payload then sql_fail IdempotencyConflict
         else sql_return (Some (at_evaluation_id stored))
     | None \<Rightarrow>
     sql_then (fetch (evaluation_with_attempt (evaluation_id_str (req_evaluation_id request)))) (\<lambda>row.
     case row of
       None \<Rightarrow> sql_fail NotFound
     | Some (e, a) \<Rightarrow>
         if ev_state e \<noteq> ''leased'' \<or> at_state a \<noteq> ''leased''
         then sql_fail StoreError_InvalidTransition
         else
           sql_then (sql_lift (column (at_lease_expires_at_ms a))) (\<lambda>lease_expires_at.
           if lease_expires_at \<ge> now then sql_fail LeaseConflict
           else if uint (req_attempt_number request) \<noteq> at_attempt_number a + 1
           then sql_fail StoreError_InvalidTransition
           else
             sql_then (sql_lift (corrupt (decode_evaluation_request (pg_wire env)
                                            (at_request_payload a)))) (\<lambda>current_request.
             if \<not> same_evaluation_semantics current_request request then sql_fail IdentityConflict
             else
               sql_then (replace_attempt env (ev_current_attempt_id e) request payload now) (\<lambda>_.
                 sql_return None)))))"

definition retry_expired ::
  "('q, 'r) pg_env \<Rightarrow> retry_expired \<Rightarrow> (evaluation_snapshot, tables) sql" where
  "retry_expired env command =
     sql_then (sql_lift (ok_or (i64_try_from (unix_millis_value (rx_now command))) InvalidTime)) (\<lambda>now.
     sql_then (sql_lift (corrupt (encode_evaluation_request (pg_wire env) (rx_request command))))
       (\<lambda>payload.
     sql_then (transaction current_attempt_fk
       (retry_transaction env (rx_request command) payload now)) (\<lambda>replayed.
     case replayed of
       Some evaluation_id \<Rightarrow>
         sql_then (sql_lift (corrupt (EvaluationId_parse evaluation_id))) (\<lambda>evaluation_id.
           evaluation_status env evaluation_id)
     | None \<Rightarrow> evaluation_status env (req_evaluation_id (rx_request command)))))"

section \<open>Recovery\<close>

definition hex_digit :: "nat \<Rightarrow> char" where
  "hex_digit n = (if n < 10 then char_of (48 + n) else char_of (87 + n))"

fun hex_encode :: "u8 list \<Rightarrow> str" where
  "hex_encode [] = []"
| "hex_encode (b # bs) = hex_digit (unat b div 16) # hex_digit (unat b mod 16) # hex_encode bs"

text \<open>The outcome of \<open>getrandom::fill\<close> on a buffer of 24 bytes.\<close>

type_synonym draw = "u8 list option"

definition next_attempt_id :: "draw \<Rightarrow> (attempt_id, store_error) result" where
  "next_attempt_id draw =
     and_then (ok_or draw Unavailable) (\<lambda>bs.
       corrupt (AttemptId_parse (''attempt_'' @ hex_encode bs)))"

definition next_idempotency_key :: "draw \<Rightarrow> (idempotency_key, store_error) result" where
  "next_idempotency_key draw =
     and_then (ok_or draw Unavailable) (\<lambda>bs.
       corrupt (IdempotencyKey_parse (''idem_retry_'' @ hex_encode bs)))"

definition attempt_join :: "tables \<Rightarrow> (evaluation_row \<times> attempt_row) list" where
  "attempt_join db =
     concat (map (\<lambda>e. concat (map (\<lambda>a.
       if at_attempt_id a = ev_current_attempt_id e then [(e, a)] else [])
       (db_attempts db))) (db_evaluations db))"

definition expired_lease :: "int \<Rightarrow> evaluation_row \<times> attempt_row \<Rightarrow> bool" where
  "expired_lease now row =
     (case row of (e, a) \<Rightarrow>
        ev_state e = ''leased'' \<and> at_state a = ''leased'' \<and>
        (case at_lease_expires_at_ms a of None \<Rightarrow> False | Some t \<Rightarrow> t < now))"

definition select_expired ::
  "(str \<Rightarrow> str \<Rightarrow> bool) \<Rightarrow> int \<Rightarrow> tables \<Rightarrow> (evaluation_row \<times> attempt_row) option" where
  "select_expired lt now db =
     first_row (\<lambda>(_, a) (_, a').
         before_row lt (the (at_lease_expires_at_ms a), at_attempt_id a)
                       (the (at_lease_expires_at_ms a'), at_attempt_id a'))
       (filter (expired_lease now) (attempt_join db))"

text \<open>Errors that mean the scanned row is no longer recoverable.\<close>

definition skipped_error :: "store_error \<Rightarrow> bool" where
  "skipped_error e \<longleftrightarrow>
     e = LeaseConflict \<or> e = StoreError_InvalidTransition \<or> e = IdentityConflict \<or> e = NotFound"

text \<open>\<open>saturating_add(1)\<close> on a \<open>u32\<close>.\<close>

definition saturating_succ :: "u32 \<Rightarrow> u32" where
  "saturating_succ n = (if n = 4294967295 then n else n + 1)"

text \<open>The request of the next attempt, from a scanned row and the random bytes.\<close>

definition next_request ::
  "('q, 'r) wire_lib \<Rightarrow> attempt_row \<Rightarrow> draw \<Rightarrow> draw \<Rightarrow> (evaluation_request, store_error) result" where
  "next_request lib a attempt_draw key_draw =
     and_then (corrupt (decode_evaluation_request lib (at_request_payload a))) (\<lambda>current.
     and_then (next_attempt_id attempt_draw) (\<lambda>attempt_id.
     and_then (next_idempotency_key key_draw) (\<lambda>idempotency_key.
       corrupt (EvaluationRequest_with_next_attempt current attempt_id idempotency_key))))"

text \<open>
  The loop of \<open>recover_expired\<close>; \<open>None\<close> when it has not finished within the given draws, two
  for each round.
\<close>

fun recover_loop ::
  "('q, 'r) pg_env \<Rightarrow> unix_millis \<Rightarrow> int \<Rightarrow> (draw \<times> draw) list \<Rightarrow> u32 \<Rightarrow> tables session \<Rightarrow>
     (u32, store_error) result option \<times> tables session" where
  "recover_loop env now now_ms [] recovered s =
     (case fetch (select_expired (pg_text_less env) now_ms) s of
        (Err e, s') \<Rightarrow> (Some (Err e), s')
      | (Ok None, s') \<Rightarrow> (Some (Ok recovered), s')
      | (Ok (Some _), s') \<Rightarrow> (None, s'))"
| "recover_loop env now now_ms ((attempt_draw, key_draw) # draws) recovered s =
     (case fetch (select_expired (pg_text_less env) now_ms) s of
        (Err e, s') \<Rightarrow> (Some (Err e), s')
      | (Ok None, s') \<Rightarrow> (Some (Ok recovered), s')
      | (Ok (Some (e, a)), s') \<Rightarrow>
          (case next_request (pg_wire env) a attempt_draw key_draw of
             Err e \<Rightarrow> (Some (Err e), s')
           | Ok next \<Rightarrow>
               (case retry_expired env \<lparr>rx_request = next, rx_now = now\<rparr> s' of
                  (Ok _, s'') \<Rightarrow>
                    recover_loop env now now_ms draws (saturating_succ recovered) s''
                | (Err e, s'') \<Rightarrow>
                    if skipped_error e then recover_loop env now now_ms draws recovered s''
                    else (Some (Err e), s''))))"

definition recover_expired ::
  "('q, 'r) pg_env \<Rightarrow> unix_millis \<Rightarrow> (draw \<times> draw) list \<Rightarrow> tables session \<Rightarrow>
     (u32, store_error) result option \<times> tables session" where
  "recover_expired env now draws s =
     (case i64_try_from (unix_millis_value now) of
        None \<Rightarrow> (Some (Err InvalidTime), s)
      | Some now_ms \<Rightarrow> recover_loop env now now_ms draws 0 s)"

end
