(* ===== verification/Storage_Terminal.thy ===== *)
theory Storage_Terminal
  imports Storage_Lease
begin

text \<open>
  \<open>crates/openoj-storage/src/terminal.rs\<close>: submitting a result under a lease, cancelling an
  evaluation, and the write that makes either terminal.  The first terminal result wins; the
  same key with the same payload is a replay.
\<close>

fun map_terminal_error :: "db_error \<Rightarrow> store_error" where
  "map_terminal_error UniqueViolation = IdempotencyConflict"
| "map_terminal_error _ = Unavailable"

record terminal_write =
  tw_evaluation_id :: str
  tw_attempt_id :: str
  tw_state :: str
  tw_task_state :: str
  tw_payload :: bytes
  tw_idempotency_key :: str
  tw_now :: int

definition write_terminal :: "('q, 'r) pg_env \<Rightarrow> terminal_write \<Rightarrow> (unit, tables) sql" where
  "write_terminal env w =
     sql_then (execute map_terminal_error (update_evaluation (tw_evaluation_id w)
       (\<lambda>e. e\<lparr>ev_state := tw_state w, ev_terminal_result := Some (tw_payload w),
              ev_result_idempotency_key := Some (tw_idempotency_key w),
              ev_updated_at_ms := tw_now w\<rparr>))) (\<lambda>_.
     sql_then (execute unavailable (update_attempt (tw_attempt_id w)
       (\<lambda>a. a\<lparr>at_state := tw_state w, at_updated_at_ms := tw_now w\<rparr>))) (\<lambda>_.
       execute unavailable (update_task (pg_text_less env) (tw_attempt_id w)
         (\<lambda>t. t\<lparr>ta_state := tw_task_state w, ta_updated_at_ms := tw_now w\<rparr>))))"

text \<open>
  The part that \<open>submit_result\<close> and \<open>cancel_evaluation\<close> share: \<open>Some\<close> answer when the evaluation
  is already terminal.
\<close>

definition stored_terminal ::
  "evaluation_row \<Rightarrow> str \<Rightarrow> bytes \<Rightarrow> (unit, store_error) result option" where
  "stored_terminal e idempotency_key payload =
     (case ev_terminal_result e of
        None \<Rightarrow> None
      | Some stored_result \<Rightarrow>
          if ev_result_idempotency_key e = Some idempotency_key
          then Some (if stored_result \<noteq> payload then Err IdempotencyConflict else Ok ())
          else Some (Err TerminalConflict))"

definition submit_transaction ::
  "('q, 'r) pg_env \<Rightarrow> submit_result \<Rightarrow> bytes \<Rightarrow> int \<Rightarrow> (unit, tables) sql" where
  "submit_transaction env command payload now =
     (let identity = res_identity (sr_result command);
          evaluation_id = evaluation_id_str (idn_evaluation_id identity);
          attempt_id = attempt_id_str (idn_attempt_id identity);
          key = idempotency_key_str (sr_idempotency_key command)
      in sql_then (fetch (evaluation_with_attempt evaluation_id)) (\<lambda>row.
         case row of
           None \<Rightarrow> sql_fail NotFound
         | Some (e, a) \<Rightarrow>
         (case stored_terminal e key payload of
            Some replay \<Rightarrow> sql_lift replay
          | None \<Rightarrow>
              if ev_state e \<noteq> ''leased'' \<or> at_state a \<noteq> ''leased'' \<or>
                 ev_current_attempt_id e \<noteq> attempt_id
              then sql_fail StaleLease
              else
                sql_then (sql_lift (column (at_lease_token a))) (\<lambda>stored_lease_token.
                if stored_lease_token \<noteq> lease_token_str (sr_lease_token command)
                then sql_fail StaleLease
                else
                  sql_then (sql_lift (column (at_lease_expires_at_ms a))) (\<lambda>lease_expires_at.
                  if lease_expires_at < now then sql_fail StaleLease
                  else
                    sql_then (sql_lift (corrupt (decode_evaluation_request (pg_wire env)
                                                   (at_request_payload a)))) (\<lambda>request.
                    if EvaluationIdentity_from_request request \<noteq> identity
                    then sql_fail IdentityConflict
                    else
                      let status = res_status (sr_result command) in
                      write_terminal env
                        \<lparr>tw_evaluation_id = evaluation_id, tw_attempt_id = attempt_id,
                         tw_state = EvaluationStatus_as_str status,
                         tw_task_state = (if status = EvaluationStatus_Cancelled
                           then ''cancelled'' else ''completed''),
                         tw_payload = payload, tw_idempotency_key = key, tw_now = now\<rparr>))))))"

definition submit_result ::
  "('q, 'r) pg_env \<Rightarrow> submit_result \<Rightarrow> (evaluation_snapshot, tables) sql" where
  "submit_result env command =
     sql_then (sql_lift (corrupt (encode_evaluation_result (pg_wire env) (sr_result command))))
       (\<lambda>payload.
     sql_then (sql_lift (ok_or (i64_try_from (unix_millis_value (sr_now command))) InvalidTime)) (\<lambda>now.
     sql_then (transaction current_attempt_fk (submit_transaction env command payload now)) (\<lambda>_.
       evaluation_status env (idn_evaluation_id (res_identity (sr_result command))))))"

text \<open>
  The owner query of \<open>judge_submit_result\<close> decodes the column as a text that is not null, so a
  null owner is a failed query.
\<close>

definition judge_submit_result ::
  "('q, 'r) pg_env \<Rightarrow> judge_submit_result \<Rightarrow> (evaluation_snapshot, tables) sql" where
  "judge_submit_result env command =
     (if prov_node_id (res_provenance (js_result command)) \<noteq> Some (js_node_id command)
      then sql_fail IdentityConflict
      else
        sql_then (fetch (evaluation_with_attempt (evaluation_id_str
          (idn_evaluation_id (res_identity (js_result command)))))) (\<lambda>row.
        sql_then (sql_lift (case row of
            None \<Rightarrow> Ok None
          | Some (e, a) \<Rightarrow> map_ok Some (ok_or (at_node_id a) Unavailable))) (\<lambda>owner.
        if owner \<noteq> Some (node_id_str (js_node_id command)) then sql_fail StaleLease
        else
          sql_then (sql_lift (corrupt (IdempotencyKey_parse
            (result_operation_id_str (js_operation_id command))))) (\<lambda>idempotency_key.
            submit_result env
              \<lparr>sr_idempotency_key = idempotency_key, sr_lease_token = js_lease_token command,
               sr_result = js_result command, sr_now = js_now command\<rparr>))))"

definition cancel_transaction ::
  "('q, 'r) pg_env \<Rightarrow> cancel_evaluation \<Rightarrow> bytes \<Rightarrow> int \<Rightarrow> (unit, tables) sql" where
  "cancel_transaction env command payload now =
     (let evaluation_id = evaluation_id_str (cx_evaluation_id command);
          key = idempotency_key_str (cx_idempotency_key command)
      in sql_then (fetch (evaluation_with_attempt evaluation_id)) (\<lambda>row.
         case row of
           None \<Rightarrow> sql_fail NotFound
         | Some (e, a) \<Rightarrow>
         (case stored_terminal e key payload of
            Some replay \<Rightarrow> sql_lift replay
          | None \<Rightarrow>
              if \<not> (ev_state e = ''queued'' \<or> ev_state e = ''leased'') \<or>
                 \<not> (at_state a = ''queued'' \<or> at_state a = ''leased'')
              then sql_fail StoreError_InvalidTransition
              else if ev_current_attempt_id e \<noteq>
                attempt_id_str (idn_attempt_id (res_identity (cx_result command)))
              then sql_fail IdentityConflict
              else
                sql_then (sql_lift (corrupt (decode_evaluation_request (pg_wire env)
                                               (at_request_payload a)))) (\<lambda>request.
                if EvaluationIdentity_from_request request \<noteq> res_identity (cx_result command)
                then sql_fail IdentityConflict
                else
                  write_terminal env
                    \<lparr>tw_evaluation_id = evaluation_id,
                     tw_attempt_id = ev_current_attempt_id e, tw_state = ''cancelled'',
                     tw_task_state = ''cancelled'', tw_payload = payload,
                     tw_idempotency_key = key, tw_now = now\<rparr>))))"

definition cancel_evaluation ::
  "('q, 'r) pg_env \<Rightarrow> cancel_evaluation \<Rightarrow> (evaluation_snapshot, tables) sql" where
  "cancel_evaluation env command =
     (if res_status (cx_result command) \<noteq> EvaluationStatus_Cancelled \<or>
         idn_evaluation_id (res_identity (cx_result command)) \<noteq> cx_evaluation_id command
      then sql_fail IdentityConflict
      else
        sql_then (sql_lift (corrupt (encode_evaluation_result (pg_wire env) (cx_result command))))
          (\<lambda>payload.
        sql_then (sql_lift (ok_or (i64_try_from (unix_millis_value (cx_now command))) InvalidTime)) (\<lambda>now.
        sql_then (transaction current_attempt_fk (cancel_transaction env command payload now)) (\<lambda>_.
          evaluation_status env (cx_evaluation_id command)))))"

end
