(* ===== verification/Storage_Effects.thy ===== *)
theory Storage_Effects
  imports Storage_Terminal
begin

text \<open>
  What each transaction of the store does to the tables when it goes through: the conditions it
  found and the rows it changed, for every fate of its round trips.  \<open>integrity\<close> is what the
  database itself enforces.
\<close>

section \<open>Rows by key\<close>

definition evaluation_of :: "tables \<Rightarrow> str \<Rightarrow> evaluation_row option" where
  "evaluation_of db k = sel ev_evaluation_id k (db_evaluations db)"

definition attempt_of :: "tables \<Rightarrow> str \<Rightarrow> attempt_row option" where
  "attempt_of db k = sel at_attempt_id k (db_attempts db)"

definition task_of :: "tables \<Rightarrow> str \<Rightarrow> task_row option" where
  "task_of db k = sel ta_attempt_id k (db_tasks db)"

lemma row_keys:
  "evaluation_of db k = Some e \<Longrightarrow> ev_evaluation_id e = k"
  "attempt_of db k = Some a \<Longrightarrow> at_attempt_id a = k"
  "task_of db k = Some t \<Longrightarrow> ta_attempt_id t = k"
  by (auto simp: evaluation_of_def attempt_of_def task_of_def dest: sel_SomeD)

lemma row_members:
  "evaluation_of db k = Some e \<Longrightarrow> e \<in> set (db_evaluations db)"
  "attempt_of db k = Some a \<Longrightarrow> a \<in> set (db_attempts db)"
  "task_of db k = Some t \<Longrightarrow> t \<in> set (db_tasks db)"
  by (auto simp: evaluation_of_def attempt_of_def task_of_def dest: sel_SomeD)

lemma evaluation_with_attempt_iff:
  "evaluation_with_attempt k db = Some (e, a) \<longleftrightarrow>
     evaluation_of db k = Some e \<and> attempt_of db (ev_current_attempt_id e) = Some a"
  by (simp add: evaluation_with_attempt_Some_iff evaluation_of_def attempt_of_def)

definition integrity :: "(str \<Rightarrow> str \<Rightarrow> bool) \<Rightarrow> tables \<Rightarrow> bool" where
  "integrity lt db \<longleftrightarrow>
     list_all evaluation_check (db_evaluations db) \<and> evaluations_unique (db_evaluations db) \<and>
     list_all attempt_check (db_attempts db) \<and> attempts_unique (db_attempts db) \<and>
     list_all (task_check lt) (db_tasks db) \<and> tasks_unique (db_tasks db)"

lemma integrity_distinct:
  assumes "integrity lt db"
  shows "distinct (map ev_evaluation_id (db_evaluations db))"
    and "distinct (map at_attempt_id (db_attempts db))"
    and "distinct (map ta_attempt_id (db_tasks db))"
  using assms by (simp_all add: integrity_def evaluations_unique_def attempts_unique_def
      tasks_unique_def)

lemma integrity_row:
  assumes "integrity lt db"
  shows "e \<in> set (db_evaluations db) \<Longrightarrow> evaluation_of db (ev_evaluation_id e) = Some e"
    and "a \<in> set (db_attempts db) \<Longrightarrow> attempt_of db (at_attempt_id a) = Some a"
    and "t \<in> set (db_tasks db) \<Longrightarrow> task_of db (ta_attempt_id t) = Some t"
  using integrity_distinct [OF assms]
  by (simp_all add: evaluation_of_def attempt_of_def task_of_def sel_distinct)

lemma integrity_checks:
  assumes "integrity lt db"
  shows "evaluation_of db k = Some e \<Longrightarrow> evaluation_check e"
    and "attempt_of db k = Some a \<Longrightarrow> attempt_check a"
    and "task_of db k = Some t \<Longrightarrow> task_check lt t"
  using assms by (auto simp: integrity_def list_all_iff dest!: row_members)

section \<open>Statements by key\<close>

lemma update_evaluation_effect:
  assumes "update_evaluation k f db = Ok db'" and "integrity lt db"
    and "\<And>r. ev_evaluation_id (f r) = ev_evaluation_id r"
  shows "integrity lt db'"
    and "evaluation_of db' j = (if j = k then map_option f (evaluation_of db j) else evaluation_of db j)"
    and "attempt_of db' = attempt_of db" and "task_of db' = task_of db"
  using assms
  by (auto simp: update_evaluation_def map_ok_Ok_iff checked_rows_Ok_iff integrity_def
      evaluation_of_def attempt_of_def task_of_def sel_upd fun_eq_iff)

lemma update_attempt_effect:
  assumes "update_attempt k f db = Ok db'" and "integrity lt db"
    and "\<And>r. at_attempt_id (f r) = at_attempt_id r"
  shows "integrity lt db'"
    and "attempt_of db' j = (if j = k then map_option f (attempt_of db j) else attempt_of db j)"
    and "evaluation_of db' = evaluation_of db" and "task_of db' = task_of db"
  using assms
  by (auto simp: update_attempt_def map_ok_Ok_iff checked_rows_Ok_iff integrity_def
      evaluation_of_def attempt_of_def task_of_def sel_upd fun_eq_iff)

lemma update_task_effect:
  assumes "update_task lt k f db = Ok db'" and "integrity lt db"
    and "\<And>r. ta_attempt_id (f r) = ta_attempt_id r"
  shows "integrity lt db'"
    and "task_of db' j = (if j = k then map_option f (task_of db j) else task_of db j)"
    and "evaluation_of db' = evaluation_of db" and "attempt_of db' = attempt_of db"
  using assms
  by (auto simp: update_task_def map_ok_Ok_iff checked_rows_Ok_iff integrity_def
      evaluation_of_def attempt_of_def task_of_def sel_upd fun_eq_iff)

lemma sel_append_fresh:
  "distinct (map key (t @ [r])) \<Longrightarrow>
     sel key k (t @ [r]) = (if k = key r then Some r else sel key k t)"
proof -
  assume "distinct (map key (t @ [r]))"
  then have "sel key (key r) t = None" by (auto simp: sel_None_iff)
  then show ?thesis
    by (cases "sel key k t") (auto simp: sel_append sel_Cons)
qed

lemma insert_evaluation_effect:
  assumes "insert_evaluation_row r db = Ok db'" and "integrity lt db"
  shows "integrity lt db'" and "evaluation_of db (ev_evaluation_id r) = None"
    and "evaluation_of db' j = (if j = ev_evaluation_id r then Some r else evaluation_of db j)"
    and "attempt_of db' = attempt_of db" and "task_of db' = task_of db"
proof -
  have t: "list_all evaluation_check (db_evaluations db @ [r])"
    "evaluations_unique (db_evaluations db @ [r])"
    and db': "db' = db\<lparr>db_evaluations := db_evaluations db @ [r]\<rparr>"
    using assms(1) by (auto simp: insert_evaluation_row_def and_then_Ok_iff checked_rows_Ok_iff
        split: if_splits)
  have d: "distinct (map ev_evaluation_id (db_evaluations db @ [r]))"
    using t(2) by (simp add: evaluations_unique_def)
  show "integrity lt db'" using assms(2) t by (simp add: db' integrity_def)
  show "evaluation_of db (ev_evaluation_id r) = None"
    using d by (auto simp: evaluation_of_def sel_None_iff)
  show "evaluation_of db' j = (if j = ev_evaluation_id r then Some r else evaluation_of db j)"
    using sel_append_fresh [OF d] by (simp add: db' evaluation_of_def)
  show "attempt_of db' = attempt_of db" and "task_of db' = task_of db"
    by (simp_all add: db' attempt_of_def task_of_def fun_eq_iff)
qed

lemma insert_attempt_effect:
  assumes "insert_attempt_row r db = Ok db'" and "integrity lt db"
  shows "integrity lt db'" and "attempt_of db (at_attempt_id r) = None"
    and "attempt_of db' j = (if j = at_attempt_id r then Some r else attempt_of db j)"
    and "evaluation_of db' = evaluation_of db" and "task_of db' = task_of db"
proof -
  have t: "list_all attempt_check (db_attempts db @ [r])" "attempts_unique (db_attempts db @ [r])"
    and db': "db' = db\<lparr>db_attempts := db_attempts db @ [r]\<rparr>"
    using assms(1) by (auto simp: insert_attempt_row_def and_then_Ok_iff checked_rows_Ok_iff
        split: if_splits)
  have d: "distinct (map at_attempt_id (db_attempts db @ [r]))"
    using t(2) by (simp add: attempts_unique_def)
  show "integrity lt db'" using assms(2) t by (simp add: db' integrity_def)
  show "attempt_of db (at_attempt_id r) = None"
    using d by (auto simp: attempt_of_def sel_None_iff)
  show "attempt_of db' j = (if j = at_attempt_id r then Some r else attempt_of db j)"
    using sel_append_fresh [OF d] by (simp add: db' attempt_of_def)
  show "evaluation_of db' = evaluation_of db" and "task_of db' = task_of db"
    by (simp_all add: db' evaluation_of_def task_of_def fun_eq_iff)
qed

lemma insert_task_effect:
  assumes "insert_task_row lt r db = Ok db'" and "integrity lt db"
  shows "integrity lt db'" and "task_of db (ta_attempt_id r) = None"
    and "task_of db' j = (if j = ta_attempt_id r then Some r else task_of db j)"
    and "evaluation_of db' = evaluation_of db" and "attempt_of db' = attempt_of db"
proof -
  have t: "list_all (task_check lt) (db_tasks db @ [r])" "tasks_unique (db_tasks db @ [r])"
    and db': "db' = db\<lparr>db_tasks := db_tasks db @ [r]\<rparr>"
    using assms(1) by (auto simp: insert_task_row_def and_then_Ok_iff checked_rows_Ok_iff
        split: if_splits)
  have d: "distinct (map ta_attempt_id (db_tasks db @ [r]))"
    using t(2) by (simp add: tasks_unique_def)
  show "integrity lt db'" using assms(2) t by (simp add: db' integrity_def)
  show "task_of db (ta_attempt_id r) = None"
    using d by (auto simp: task_of_def sel_None_iff)
  show "task_of db' j = (if j = ta_attempt_id r then Some r else task_of db j)"
    using sel_append_fresh [OF d] by (simp add: db' task_of_def)
  show "evaluation_of db' = evaluation_of db" and "attempt_of db' = attempt_of db"
    by (simp_all add: db' evaluation_of_def attempt_of_def fun_eq_iff)
qed

text \<open>The tables that the lifecycle is about, left alone by the registrations.\<close>

definition same_lifecycle :: "tables \<Rightarrow> tables \<Rightarrow> bool" where
  "same_lifecycle db db' \<longleftrightarrow>
     db_evaluations db' = db_evaluations db \<and> db_attempts db' = db_attempts db \<and>
     db_tasks db' = db_tasks db"

lemma same_lifecycle_refl [simp]: "same_lifecycle db db"
  by (simp add: same_lifecycle_def)

lemma same_lifecycle_trans:
  "same_lifecycle a b \<Longrightarrow> same_lifecycle b c \<Longrightarrow> same_lifecycle a c"
  by (simp add: same_lifecycle_def)

lemma same_lifecycle_rows:
  "same_lifecycle db db' \<Longrightarrow>
     evaluation_of db' = evaluation_of db \<and> attempt_of db' = attempt_of db \<and>
     task_of db' = task_of db \<and> (integrity lt db' \<longleftrightarrow> integrity lt db)"
  by (simp add: same_lifecycle_def evaluation_of_def attempt_of_def task_of_def integrity_def
      fun_eq_iff)

lemma register_same_lifecycle:
  "yields (register_artifact request) db u db' \<Longrightarrow> same_lifecycle db db'"
  "yields (register_problem_version request) db u db' \<Longrightarrow> same_lifecycle db db'"
  "yields (register_submission request) db u db' \<Longrightarrow> same_lifecycle db db'"
  "yields (register_runtime request) db u db' \<Longrightarrow> same_lifecycle db db'"
  by (auto simp: register_artifact_def register_problem_version_def register_submission_def
      register_runtime_def Let_def same_lifecycle_def insert_artifact_row_def
      insert_problem_version_row_def insert_submission_row_def insert_runtime_row_def
      map_ok_Ok_iff and_then_Ok_iff split: option.splits if_splits
      elim!: yields_liftE yields_executeE yields_fetchE)


section \<open>Transactions\<close>

text \<open>The changes of one evaluation, its attempt and its task, keyed by their identifiers.\<close>

definition row_changes ::
  "tables \<Rightarrow> str \<Rightarrow> (evaluation_row \<Rightarrow> evaluation_row) \<Rightarrow> str \<Rightarrow> (attempt_row \<Rightarrow> attempt_row) \<Rightarrow>
     (task_row \<Rightarrow> task_row) \<Rightarrow> tables \<Rightarrow> bool" where
  "row_changes db evaluation_id fe attempt_id fa ft db' \<longleftrightarrow>
     (\<forall>j. evaluation_of db' j =
        (if j = evaluation_id then map_option fe (evaluation_of db j) else evaluation_of db j)) \<and>
     (\<forall>j. attempt_of db' j =
        (if j = attempt_id then map_option fa (attempt_of db j) else attempt_of db j)) \<and>
     (\<forall>j. task_of db' j =
        (if j = attempt_id then map_option ft (task_of db j) else task_of db j))"

lemma row_changesD:
  assumes "row_changes db ek fe ak fa ft db'"
  shows "evaluation_of db' j = (if j = ek then map_option fe (evaluation_of db j) else evaluation_of db j)"
    and "attempt_of db' j = (if j = ak then map_option fa (attempt_of db j) else attempt_of db j)"
    and "task_of db' j = (if j = ak then map_option ft (task_of db j) else task_of db j)"
  using assms by (simp_all add: row_changes_def)

lemma write_terminal_effect:
  assumes run: "yields (write_terminal env w) db u db'" and int: "integrity (pg_text_less env) db"
  shows "integrity (pg_text_less env) db' \<and>
    row_changes db (tw_evaluation_id w)
      (\<lambda>e. e\<lparr>ev_state := tw_state w, ev_terminal_result := Some (tw_payload w),
             ev_result_idempotency_key := Some (tw_idempotency_key w), ev_updated_at_ms := tw_now w\<rparr>)
      (tw_attempt_id w) (\<lambda>a. a\<lparr>at_state := tw_state w, at_updated_at_ms := tw_now w\<rparr>)
      (\<lambda>t. t\<lparr>ta_state := tw_task_state w, ta_updated_at_ms := tw_now w\<rparr>) db'"
proof -
  from run obtain db1 db2 where 1: "update_evaluation (tw_evaluation_id w)
       (\<lambda>e. e\<lparr>ev_state := tw_state w, ev_terminal_result := Some (tw_payload w),
          ev_result_idempotency_key := Some (tw_idempotency_key w),
          ev_updated_at_ms := tw_now w\<rparr>) db = Ok db1"
    and 2: "update_attempt (tw_attempt_id w)
       (\<lambda>a. a\<lparr>at_state := tw_state w, at_updated_at_ms := tw_now w\<rparr>) db1 = Ok db2"
    and 3: "update_task (pg_text_less env) (tw_attempt_id w)
       (\<lambda>t. t\<lparr>ta_state := tw_task_state w, ta_updated_at_ms := tw_now w\<rparr>) db2 = Ok db'"
    unfolding write_terminal_def by (blast elim: yields_executeE dest: yields_execute)
  note e1 = update_evaluation_effect [OF 1 int]
  note e2 = update_attempt_effect [OF 2 e1(1)]
  note e3 = update_task_effect [OF 3 e2(1)]
  show ?thesis
    using e1 e2 e3 by (simp add: row_changes_def)
qed

definition leased_evaluation :: "int \<Rightarrow> evaluation_row \<Rightarrow> evaluation_row" where
  "leased_evaluation now e = e\<lparr>ev_state := ''leased'', ev_updated_at_ms := now\<rparr>"

definition leased_task :: "int \<Rightarrow> task_row \<Rightarrow> task_row" where
  "leased_task now t = t\<lparr>ta_state := ''leased'', ta_updated_at_ms := now\<rparr>"

lemma claim_effect:
  assumes "yields (claim_transaction env locked command operation_id capabilities now expiry) db request db'"
    and int: "integrity (pg_text_less env) db"
  obtains t a e where "select_task (pg_text_less env) locked capabilities db = Some (t, a, e)"
    and "decode_evaluation_request (pg_wire env) (at_request_payload a) = Ok request"
    and "request_matches request (at_evaluation_id a) (ta_attempt_id t) (at_attempt_number a)"
    and "integrity (pg_text_less env) db'"
    and "row_changes db (at_evaluation_id a) (leased_evaluation now) (ta_attempt_id t)
           (lease_attempt (node_id_str (ct_node_id command))
              (lease_token_str (ct_lease_token command)) expiry operation_id now)
           (leased_task now) db'"
proof -
  let ?la = "lease_attempt (node_id_str (ct_node_id command))
     (lease_token_str (ct_lease_token command)) expiry operation_id now"
  from assms(1) obtain t a e db1 db2 where
    sel: "select_task (pg_text_less env) locked capabilities db = Some (t, a, e)"
    and dec: "decode_evaluation_request (pg_wire env) (at_request_payload a) = Ok request"
    and mat: "request_matches request (at_evaluation_id a) (ta_attempt_id t) (at_attempt_number a)"
    and 1: "update_attempt (ta_attempt_id t) ?la db = Ok db1"
    and 2: "update_evaluation (at_evaluation_id a) (leased_evaluation now) db1 = Ok db2"
    and 3: "update_task (pg_text_less env) (ta_attempt_id t) (leased_task now) db2 = Ok db'"
    unfolding claim_transaction_def leased_evaluation_def leased_task_def
    by (auto simp: corrupt_def Let_def split: option.splits if_splits
        elim!: yields_fetchE yields_liftE yields_executeE)
  have la: "at_attempt_id (?la r) = at_attempt_id r" for r by (simp add: lease_attempt_def)
  note e1 = update_attempt_effect [OF 1 int la]
  note e2 = update_evaluation_effect [OF 2 e1(1)]
  note e3 = update_task_effect [OF 3]
  have "integrity (pg_text_less env) db' \<and> row_changes db (at_evaluation_id a) (leased_evaluation now)
      (ta_attempt_id t) ?la (leased_task now) db'"
    using e1 e2 e3 by (simp add: row_changes_def leased_evaluation_def leased_task_def)
  then show ?thesis using that sel dec mat by blast
qed

definition renewed_attempt :: "int \<Rightarrow> int \<Rightarrow> attempt_row \<Rightarrow> attempt_row" where
  "renewed_attempt now expiry a =
     a\<lparr>at_lease_expires_at_ms := Some expiry, at_updated_at_ms := now\<rparr>"

lemma renew_effect:
  assumes "yields (renew_transaction command now expiry) db res db'" and int: "integrity lt db"
  obtains e a where "evaluation_of db (evaluation_id_str (jr_evaluation_id command)) = Some e"
    and "attempt_of db (ev_current_attempt_id e) = Some a"
    and "res = None \<and> (ev_state e = ''cancelled'' \<or> at_state a = ''cancelled'') \<and> db' = db \<or>
       res = Some () \<and> ev_state e = ''leased'' \<and> at_state a = ''leased'' \<and>
       ev_current_attempt_id e = attempt_id_str (jr_attempt_id command) \<and>
       at_node_id a = Some (node_id_str (jr_node_id command)) \<and>
       at_lease_token a = Some (lease_token_str (jr_lease_token command)) \<and>
       integrity lt db' \<and>
       row_changes db (ev_evaluation_id e) id (ev_current_attempt_id e) (renewed_attempt now expiry) id db'"
proof -
  from assms(1) obtain e a where rows:
    "evaluation_with_attempt (evaluation_id_str (jr_evaluation_id command)) db = Some (e, a)"
    and res: "res = None \<and> (ev_state e = ''cancelled'' \<or> at_state a = ''cancelled'') \<and> db' = db \<or>
       res = Some () \<and> ev_state e = ''leased'' \<and> at_state a = ''leased'' \<and>
       ev_current_attempt_id e = attempt_id_str (jr_attempt_id command) \<and>
       at_node_id a = Some (node_id_str (jr_node_id command)) \<and>
       at_lease_token a = Some (lease_token_str (jr_lease_token command)) \<and>
       update_attempt (attempt_id_str (jr_attempt_id command)) (renewed_attempt now expiry) db = Ok db'"
    unfolding renew_transaction_def renewed_attempt_def
    by (auto simp: column_def split: option.splits if_splits
        elim!: yields_fetchE yields_liftE yields_executeE)
  have k: "at_attempt_id (renewed_attempt now expiry r) = at_attempt_id r" for r
    by (simp add: renewed_attempt_def)
  show ?thesis
    using rows res update_attempt_effect [OF _ int k]
    by (intro that [of e a]) (auto simp: evaluation_with_attempt_iff row_changes_def option.map_id)
qed


definition terminal_evaluation ::
  "str \<Rightarrow> bytes \<Rightarrow> str \<Rightarrow> int \<Rightarrow> evaluation_row \<Rightarrow> evaluation_row" where
  "terminal_evaluation state payload key now e =
     e\<lparr>ev_state := state, ev_terminal_result := Some payload,
       ev_result_idempotency_key := Some key, ev_updated_at_ms := now\<rparr>"

definition terminal_attempt :: "str \<Rightarrow> int \<Rightarrow> attempt_row \<Rightarrow> attempt_row" where
  "terminal_attempt state now a = a\<lparr>at_state := state, at_updated_at_ms := now\<rparr>"

definition terminal_task :: "str \<Rightarrow> int \<Rightarrow> task_row \<Rightarrow> task_row" where
  "terminal_task state now t = t\<lparr>ta_state := state, ta_updated_at_ms := now\<rparr>"

text \<open>An evaluation and its current attempt become terminal.\<close>

definition becomes_terminal ::
  "tables \<Rightarrow> evaluation_row \<Rightarrow> str \<Rightarrow> str \<Rightarrow> bytes \<Rightarrow> str \<Rightarrow> int \<Rightarrow> tables \<Rightarrow> bool" where
  "becomes_terminal db e state task_state payload key now db' \<longleftrightarrow>
     row_changes db (ev_evaluation_id e) (terminal_evaluation state payload key now)
       (ev_current_attempt_id e) (terminal_attempt state now) (terminal_task task_state now) db'"

lemma stored_terminal_None_iff: "stored_terminal e k p = None \<longleftrightarrow> ev_terminal_result e = None"
  by (simp add: stored_terminal_def split: option.splits)

lemma stored_terminal_Ok_iff:
  "stored_terminal e k p = Some (Ok u) \<longleftrightarrow>
     ev_terminal_result e = Some p \<and> ev_result_idempotency_key e = Some k"
  by (auto simp: stored_terminal_def split: option.splits if_splits)

text \<open>The condition under which a result is accepted: a current, matching, unexpired lease.\<close>

definition holds_lease :: "evaluation_row \<Rightarrow> attempt_row \<Rightarrow> str \<Rightarrow> str \<Rightarrow> int \<Rightarrow> bool" where
  "holds_lease e a attempt_id lease_token now \<longleftrightarrow>
     ev_state e = ''leased'' \<and> at_state a = ''leased'' \<and> ev_current_attempt_id e = attempt_id \<and>
     at_lease_token a = Some lease_token \<and>
     (\<exists>t. at_lease_expires_at_ms a = Some t \<and> now \<le> t)"

lemma submit_effect:
  assumes run: "yields (submit_transaction env command payload now) db u db'"
    and int: "integrity (pg_text_less env) db"
  obtains e a where "evaluation_of db (evaluation_id_str
        (idn_evaluation_id (res_identity (sr_result command)))) = Some e"
    and "attempt_of db (ev_current_attempt_id e) = Some a"
    and "db' = db \<and> ev_terminal_result e = Some payload \<and>
           ev_result_idempotency_key e = Some (idempotency_key_str (sr_idempotency_key command)) \<or>
         ev_terminal_result e = None \<and>
         holds_lease e a (attempt_id_str (idn_attempt_id (res_identity (sr_result command))))
           (lease_token_str (sr_lease_token command)) now \<and>
         (\<exists>request. decode_evaluation_request (pg_wire env) (at_request_payload a) = Ok request \<and>
            EvaluationIdentity_from_request request = res_identity (sr_result command)) \<and>
         integrity (pg_text_less env) db' \<and>
         becomes_terminal db e (EvaluationStatus_as_str (res_status (sr_result command)))
           (if res_status (sr_result command) = EvaluationStatus_Cancelled
            then ''cancelled'' else ''completed'')
           payload (idempotency_key_str (sr_idempotency_key command)) now db'"
proof -
  let ?ek = "evaluation_id_str (idn_evaluation_id (res_identity (sr_result command)))"
  let ?ak = "attempt_id_str (idn_attempt_id (res_identity (sr_result command)))"
  let ?w = "\<lparr>tw_evaluation_id = ?ek, tw_attempt_id = ?ak,
     tw_state = EvaluationStatus_as_str (res_status (sr_result command)),
     tw_task_state = (if res_status (sr_result command) = EvaluationStatus_Cancelled
        then ''cancelled'' else ''completed''),
     tw_payload = payload, tw_idempotency_key = idempotency_key_str (sr_idempotency_key command),
     tw_now = now\<rparr>"
  from run obtain e a where rows: "evaluation_with_attempt ?ek db = Some (e, a)"
    and cases: "stored_terminal e (idempotency_key_str (sr_idempotency_key command)) payload = Some (Ok u) \<and>
        db' = db \<or>
      ev_terminal_result e = None \<and>
      holds_lease e a ?ak (lease_token_str (sr_lease_token command)) now \<and>
      (\<exists>request. decode_evaluation_request (pg_wire env) (at_request_payload a) = Ok request \<and>
         EvaluationIdentity_from_request request = res_identity (sr_result command)) \<and>
      yields (write_terminal env ?w) db u db'"
    unfolding submit_transaction_def Let_def
    by (auto simp: column_def corrupt_def holds_lease_def stored_terminal_None_iff not_less
        split: option.splits if_splits elim!: yields_fetchE yields_liftE)
  have ek: "ev_evaluation_id e = ?ek"
    using rows by (auto simp: evaluation_with_attempt_iff row_keys)
  have written: "yields (write_terminal env ?w) db u db' \<Longrightarrow> ev_current_attempt_id e = ?ak \<Longrightarrow>
      integrity (pg_text_less env) db' \<and>
      becomes_terminal db e (tw_state ?w) (tw_task_state ?w) payload (tw_idempotency_key ?w) now db'"
    using write_terminal_effect [OF _ int, of ?w u db']
    by (simp add: becomes_terminal_def terminal_evaluation_def [abs_def]
        terminal_attempt_def [abs_def] terminal_task_def [abs_def] ek)
  show ?thesis
    using rows cases written
    by (intro that [of e a])
      (auto simp: evaluation_with_attempt_iff stored_terminal_Ok_iff holds_lease_def)
qed

lemma cancel_effect:
  assumes run: "yields (cancel_transaction env command payload now) db u db'"
    and int: "integrity (pg_text_less env) db"
  obtains e a where "evaluation_of db (evaluation_id_str (cx_evaluation_id command)) = Some e"
    and "attempt_of db (ev_current_attempt_id e) = Some a"
    and "db' = db \<and> ev_terminal_result e = Some payload \<and>
           ev_result_idempotency_key e = Some (idempotency_key_str (cx_idempotency_key command)) \<or>
         ev_terminal_result e = None \<and>
         ev_state e \<in> {''queued'', ''leased''} \<and> at_state a \<in> {''queued'', ''leased''} \<and>
         ev_current_attempt_id e = attempt_id_str (idn_attempt_id (res_identity (cx_result command))) \<and>
         (\<exists>request. decode_evaluation_request (pg_wire env) (at_request_payload a) = Ok request \<and>
            EvaluationIdentity_from_request request = res_identity (cx_result command)) \<and>
         integrity (pg_text_less env) db' \<and>
         becomes_terminal db e ''cancelled'' ''cancelled'' payload
           (idempotency_key_str (cx_idempotency_key command)) now db'"
proof -
  let ?ek = "evaluation_id_str (cx_evaluation_id command)"
  from run obtain e a where rows: "evaluation_with_attempt ?ek db = Some (e, a)"
    and cases: "stored_terminal e (idempotency_key_str (cx_idempotency_key command)) payload = Some (Ok u) \<and>
        db' = db \<or>
      ev_terminal_result e = None \<and>
      ev_state e \<in> {''queued'', ''leased''} \<and> at_state a \<in> {''queued'', ''leased''} \<and>
      ev_current_attempt_id e = attempt_id_str (idn_attempt_id (res_identity (cx_result command))) \<and>
      (\<exists>request. decode_evaluation_request (pg_wire env) (at_request_payload a) = Ok request \<and>
         EvaluationIdentity_from_request request = res_identity (cx_result command)) \<and>
      yields (write_terminal env
        \<lparr>tw_evaluation_id = ?ek, tw_attempt_id = ev_current_attempt_id e, tw_state = ''cancelled'',
         tw_task_state = ''cancelled'', tw_payload = payload,
         tw_idempotency_key = idempotency_key_str (cx_idempotency_key command), tw_now = now\<rparr>)
        db u db'"
    unfolding cancel_transaction_def Let_def
    by (auto simp: corrupt_def stored_terminal_None_iff
        split: option.splits if_splits elim!: yields_fetchE yields_liftE)
  have ek: "ev_evaluation_id e = ?ek"
    using rows by (auto simp: evaluation_with_attempt_iff row_keys)
  show ?thesis
    using rows cases write_terminal_effect [OF _ int]
    by (intro that [of e a])
      (auto simp: evaluation_with_attempt_iff stored_terminal_Ok_iff becomes_terminal_def
        terminal_evaluation_def [abs_def] terminal_attempt_def [abs_def] terminal_task_def [abs_def]
        ek dest!: write_terminal_effect [OF _ int])
qed


text \<open>An expired attempt is replaced: its evaluation is queued again under the new attempt.\<close>

definition requeued_evaluation :: "str \<Rightarrow> int \<Rightarrow> evaluation_row \<Rightarrow> evaluation_row" where
  "requeued_evaluation attempt_id now e =
     e\<lparr>ev_state := ''queued'', ev_current_attempt_id := attempt_id, ev_updated_at_ms := now\<rparr>"

definition attempt_replaced ::
  "tables \<Rightarrow> evaluation_row \<Rightarrow> evaluation_request \<Rightarrow> bytes \<Rightarrow> int \<Rightarrow> tables \<Rightarrow> bool" where
  "attempt_replaced db e request payload now db' \<longleftrightarrow>
     (let new = attempt_id_str (req_attempt_id request); old = ev_current_attempt_id e in
      attempt_of db new = None \<and> task_of db new = None \<and>
      (\<forall>j. evaluation_of db' j = (if j = ev_evaluation_id e
         then map_option (requeued_evaluation new now) (evaluation_of db j)
         else evaluation_of db j)) \<and>
      (\<forall>j. attempt_of db' j = (if j = new
         then Some (new_attempt_row request payload (uint (req_attempt_number request)) now)
         else if j = old then map_option (terminal_attempt ''expired'' now) (attempt_of db j)
         else attempt_of db j)) \<and>
      (\<forall>j. task_of db' j = (if j = new then Some (new_task_row request now)
         else if j = old then map_option (terminal_task ''expired'' now) (task_of db j)
         else task_of db j)))"

lemma replace_attempt_effect:
  assumes run: "yields (replace_attempt env (ev_current_attempt_id e) request payload now) db u db'"
    and int: "integrity (pg_text_less env) db"
    and ek: "ev_evaluation_id e = evaluation_id_str (req_evaluation_id request)"
  shows "integrity (pg_text_less env) db' \<and> attempt_replaced db e request payload now db'"
proof -
  let ?new = "attempt_id_str (req_attempt_id request)"
  from run obtain db1 db2 db3 db4 where
    1: "update_attempt (ev_current_attempt_id e) (terminal_attempt ''expired'' now) db = Ok db1"
    and 2: "update_task (pg_text_less env) (ev_current_attempt_id e)
       (terminal_task ''expired'' now) db1 = Ok db2"
    and 3: "update_evaluation (ev_evaluation_id e) (requeued_evaluation ?new now) db2 = Ok db3"
    and 4: "insert_attempt_row (new_attempt_row request payload
       (uint (req_attempt_number request)) now) db3 = Ok db4"
    and 5: "insert_task_row (pg_text_less env) (new_task_row request now) db4 = Ok db'"
    unfolding replace_attempt_def insert_task_def ek terminal_attempt_def [abs_def]
      terminal_task_def [abs_def] requeued_evaluation_def [abs_def]
    by (blast elim: yields_executeE dest: yields_execute)
  note defs = terminal_attempt_def terminal_task_def requeued_evaluation_def new_attempt_row_def
    new_task_row_def
  have e1: "integrity (pg_text_less env) db1"
    "\<And>j. attempt_of db1 j = (if j = ev_current_attempt_id e
        then map_option (terminal_attempt ''expired'' now) (attempt_of db j) else attempt_of db j)"
    "evaluation_of db1 = evaluation_of db" "task_of db1 = task_of db"
    using update_attempt_effect [OF 1 int] by (simp_all add: defs)
  have e2: "integrity (pg_text_less env) db2"
    "\<And>j. task_of db2 j = (if j = ev_current_attempt_id e
        then map_option (terminal_task ''expired'' now) (task_of db1 j) else task_of db1 j)"
    "evaluation_of db2 = evaluation_of db1" "attempt_of db2 = attempt_of db1"
    using update_task_effect [OF 2 e1(1)] by (simp_all add: defs)
  have e3: "integrity (pg_text_less env) db3"
    "\<And>j. evaluation_of db3 j = (if j = ev_evaluation_id e
        then map_option (requeued_evaluation ?new now) (evaluation_of db2 j) else evaluation_of db2 j)"
    "attempt_of db3 = attempt_of db2" "task_of db3 = task_of db2"
    using update_evaluation_effect [OF 3 e2(1)] by (simp_all add: defs)
  note e4 = insert_attempt_effect [OF 4 e3(1)]
  note e5 = insert_task_effect [OF 5 e4(1)]
  have "attempt_of db ?new = None"
    using e4(2) by (auto simp: e3 e2 e1 new_attempt_row_def split: if_splits)
  moreover have "task_of db ?new = None"
    using e5(2) by (auto simp: e4(5) e3 e2 e1 new_task_row_def split: if_splits)
  ultimately show ?thesis
    using e4(3-5) e5(1,3-5)
    by (simp add: attempt_replaced_def Let_def e1 e2 e3) (simp add: new_attempt_row_def new_task_row_def)
qed

lemma retry_effect:
  assumes run: "yields (retry_transaction env request payload now) db res db'"
    and int: "integrity (pg_text_less env) db"
  obtains (replayed) stored where "stored \<in> set (db_attempts db)"
      and "at_attempt_idempotency_key stored = idempotency_key_str (req_idempotency_key request)"
      and "at_request_payload stored = payload"
      and "res = Some (at_evaluation_id stored)" and "db' = db"
  | (replaced) e a expires_at current where "res = None"
      and "evaluation_of db (evaluation_id_str (req_evaluation_id request)) = Some e"
      and "attempt_of db (ev_current_attempt_id e) = Some a"
      and "ev_state e = ''leased''" and "at_state a = ''leased''"
      and "at_lease_expires_at_ms a = Some expires_at" and "expires_at < now"
      and "uint (req_attempt_number request) = at_attempt_number a + 1"
      and "decode_evaluation_request (pg_wire env) (at_request_payload a) = Ok current"
      and "same_evaluation_semantics current request"
      and "integrity (pg_text_less env) db'" and "attempt_replaced db e request payload now db'"
proof -
  let ?key = "idempotency_key_str (req_idempotency_key request)"
  show ?thesis
  proof (cases "sel at_attempt_idempotency_key ?key (db_attempts db)")
    case (Some stored)
    then have "res = Some (at_evaluation_id stored)" "db' = db" "at_request_payload stored = payload"
      using run unfolding retry_transaction_def
      by (auto split: if_splits elim!: yields_fetchE)
    then show ?thesis using replayed Some by (auto dest: sel_SomeD)
  next
    case None
    from run None obtain e a expires_at current where
      rows: "evaluation_with_attempt (evaluation_id_str (req_evaluation_id request)) db = Some (e, a)"
      and states: "ev_state e = ''leased''" "at_state a = ''leased''"
      and expired: "at_lease_expires_at_ms a = Some expires_at" "expires_at < now"
      and number: "uint (req_attempt_number request) = at_attempt_number a + 1"
      and current: "decode_evaluation_request (pg_wire env) (at_request_payload a) = Ok current"
        "same_evaluation_semantics current request"
      and rep: "yields (replace_attempt env (ev_current_attempt_id e) request payload now) db () db'"
      and res: "res = None"
      unfolding retry_transaction_def
      by (auto simp: column_def corrupt_def not_le split: option.splits if_splits
          elim!: yields_liftE yields_thenE dest!: yields_fetch)
    have "ev_evaluation_id e = evaluation_id_str (req_evaluation_id request)"
      using rows by (auto simp: evaluation_with_attempt_iff row_keys)
    from replace_attempt_effect [OF rep int this] show ?thesis
      using replaced rows states expired number current res
      by (simp add: evaluation_with_attempt_iff)
  qed
qed


text \<open>A new evaluation with its first attempt and task.\<close>

definition evaluation_created ::
  "tables \<Rightarrow> evaluation_request \<Rightarrow> bytes \<Rightarrow> int \<Rightarrow> tables \<Rightarrow> bool" where
  "evaluation_created db request payload created_at db' \<longleftrightarrow>
     (let ek = evaluation_id_str (req_evaluation_id request);
          ak = attempt_id_str (req_attempt_id request) in
      evaluation_of db ek = None \<and> attempt_of db ak = None \<and> task_of db ak = None \<and>
      (\<forall>j. evaluation_of db' j = (if j = ek
         then Some (new_evaluation_row request payload created_at) else evaluation_of db j)) \<and>
      (\<forall>j. attempt_of db' j = (if j = ak
         then Some (new_attempt_row request payload (uint (req_attempt_number request)) created_at)
         else attempt_of db j)) \<and>
      (\<forall>j. task_of db' j = (if j = ak
         then Some (new_task_row request created_at) else task_of db j)))"

lemma create_effect:
  assumes run: "yields (create_transaction env command payload) db res db'"
    and int: "integrity (pg_text_less env) db"
  obtains (replayed) stored where "stored \<in> set (db_evaluations db)"
      and "ev_creation_idempotency_key stored =
             idempotency_key_str (req_idempotency_key (ce_request command))"
      and "ev_initial_request stored = payload"
      and "res = Some (ev_evaluation_id stored)" and "db' = db"
  | (created) created_at where "res = None"
      and "i64_try_from (unix_millis_value (ce_created_at command)) = Some created_at"
      and "integrity (pg_text_less env) db'"
      and "evaluation_created db (ce_request command) payload created_at db'"
proof -
  let ?r = "ce_request command"
  let ?key = "idempotency_key_str (req_idempotency_key ?r)"
  show ?thesis
  proof (cases "sel ev_creation_idempotency_key ?key (db_evaluations db)")
    case (Some stored)
    then have "res = Some (ev_evaluation_id stored)" "db' = db" "ev_initial_request stored = payload"
      using run unfolding create_transaction_def Let_def
      by (auto split: if_splits elim!: yields_fetchE)
    then show ?thesis using replayed Some by (auto dest: sel_SomeD)
  next
    case None
    from run None obtain db1 db2 db3 db4 db5 db6 created_at where
      reg: "yields (register_artifact ?r) db () db1" "yields (register_problem_version ?r) db1 () db2"
        "yields (register_submission ?r) db2 () db3" "yields (register_runtime ?r) db3 () db4"
      and time: "i64_try_from (unix_millis_value (ce_created_at command)) = Some created_at"
      and 1: "insert_evaluation_row (new_evaluation_row ?r payload created_at) db4 = Ok db5"
      and 2: "insert_attempt_row (new_attempt_row ?r payload (uint (req_attempt_number ?r))
         created_at) db5 = Ok db6"
      and 3: "insert_task_row (pg_text_less env) (new_task_row ?r created_at) db6 = Ok db'"
      and res: "res = None"
      unfolding create_transaction_def Let_def insert_evaluation_def insert_attempt_def insert_task_def
      by (auto split: option.splits if_splits
          elim!: yields_liftE yields_thenE dest!: yields_fetch yields_execute)
    have "same_lifecycle db db4"
      using register_same_lifecycle reg by (meson same_lifecycle_trans)
    note same = same_lifecycle_rows [OF this, of "pg_text_less env"]
    have int4: "integrity (pg_text_less env) db4" using same int by simp
    note e1 = insert_evaluation_effect [OF 1 int4]
    note e2 = insert_attempt_effect [OF 2 e1(1)]
    note e3 = insert_task_effect [OF 3 e2(1)]
    have keys: "ev_evaluation_id (new_evaluation_row ?r payload created_at) =
        evaluation_id_str (req_evaluation_id ?r)"
      "at_attempt_id (new_attempt_row ?r payload (uint (req_attempt_number ?r)) created_at) =
        attempt_id_str (req_attempt_id ?r)"
      "ta_attempt_id (new_task_row ?r created_at) = attempt_id_str (req_attempt_id ?r)"
      by (simp_all add: new_evaluation_row_def new_attempt_row_def new_task_row_def)
    have "evaluation_created db ?r payload created_at db'"
      using same e1 e2 e3 by (simp add: evaluation_created_def Let_def keys)
    then show ?thesis using created res time e3(1) by blast
  qed
qed

end
