(* ===== verification/Storage_Invariant.thy ===== *)
theory Storage_Invariant
  imports Storage_Effects
begin

text \<open>
  The invariant of the stored lifecycle and its preservation by every transaction: the current
  attempt of an evaluation mirrors its state, all other attempts are expired and older, each
  attempt has its task, every payload decodes to the request of its row, and a terminal result
  is a valid result of the current attempt.
\<close>

section \<open>The invariant\<close>

fun task_state_of :: "str \<Rightarrow> str" where
  "task_state_of s =
     (if s = ''queued'' then ''ready''
      else if s = ''leased'' then ''leased''
      else if s = ''completed'' \<or> s = ''failed'' then ''completed''
      else if s = ''cancelled'' then ''cancelled''
      else ''expired'')"

definition result_inv ::
  "('q, 'r) pg_env \<Rightarrow> evaluation_request \<Rightarrow> evaluation_row \<Rightarrow> bool" where
  "result_inv env req e \<longleftrightarrow>
     (case ev_terminal_result e of
        None \<Rightarrow> ev_state e = ''queued'' \<or> ev_state e = ''leased''
      | Some b \<Rightarrow> \<exists>r. decode_evaluation_result_domain (pg_wire env) b = Ok r \<and>
          evaluation_result_ok r \<and> ev_state e = EvaluationStatus_as_str (res_status r) \<and>
          res_identity r = EvaluationIdentity_from_request req)"

definition evaluation_row_inv :: "('q, 'r) pg_env \<Rightarrow> tables \<Rightarrow> str \<Rightarrow> evaluation_row \<Rightarrow> bool" where
  "evaluation_row_inv env db k e \<longleftrightarrow>
     (\<exists>a req. attempt_of db (ev_current_attempt_id e) = Some a \<and> at_evaluation_id a = k \<and>
        at_state a = ev_state e \<and> decode_evaluation_request (pg_wire env) (at_request_payload a) = Ok req \<and>
        result_inv env req e)"

definition attempt_row_inv :: "('q, 'r) pg_env \<Rightarrow> tables \<Rightarrow> str \<Rightarrow> attempt_row \<Rightarrow> bool" where
  "attempt_row_inv env db k a \<longleftrightarrow>
     (\<exists>e t req initial. evaluation_of db (at_evaluation_id a) = Some e \<and> task_of db k = Some t \<and>
        decode_evaluation_request (pg_wire env) (at_request_payload a) = Ok req \<and>
        request_matches req (at_evaluation_id a) k (at_attempt_number a) \<and>
        decode_evaluation_request (pg_wire env) (ev_initial_request e) = Ok initial \<and>
        same_evaluation_semantics initial req \<and>
        ta_state t = task_state_of (at_state a) \<and>
        ta_required_capabilities t = map capability_str (req_required_capabilities req) \<and>
        (at_state a = ''queued'' \<longrightarrow> at_node_id a = None) \<and>
        (at_state a = ''leased'' \<longrightarrow> at_node_id a \<noteq> None) \<and>
        (if ev_current_attempt_id e = k then at_state a \<noteq> ''expired''
         else at_state a = ''expired'' \<and>
           (\<exists>c. attempt_of db (ev_current_attempt_id e) = Some c \<and>
                at_attempt_number a < at_attempt_number c)))"

definition store_inv :: "('q, 'r) pg_env \<Rightarrow> tables \<Rightarrow> bool" where
  "store_inv env db \<longleftrightarrow>
     integrity (pg_text_less env) db \<and>
     (\<forall>k e. evaluation_of db k = Some e \<longrightarrow> evaluation_row_inv env db k e) \<and>
     (\<forall>k a. attempt_of db k = Some a \<longrightarrow> attempt_row_inv env db k a)"

lemma store_inv_empty: "store_inv env empty_tables"
  by (simp add: store_inv_def empty_tables_def integrity_def evaluation_of_def attempt_of_def
      evaluations_unique_def attempts_unique_def tasks_unique_def)

lemma same_evaluation_semantics_refl [simp]: "same_evaluation_semantics r r"
  by (simp add: same_evaluation_semantics_def)

lemma same_evaluation_semantics_trans:
  "same_evaluation_semantics a b \<Longrightarrow> same_evaluation_semantics b c \<Longrightarrow> same_evaluation_semantics a c"
  by (simp add: same_evaluation_semantics_def)

lemma EvaluationStatus_as_str_live [simp]:
  "EvaluationStatus_as_str s \<noteq> ''queued''" "EvaluationStatus_as_str s \<noteq> ''leased''"
  "EvaluationStatus_as_str s \<noteq> ''expired''"
  by (cases s; simp)+

lemmas EvaluationStatus_as_str_live_sym [simp] = EvaluationStatus_as_str_live [symmetric]

lemma result_inv_state:
  "result_inv env req e \<Longrightarrow>
     ev_terminal_result e = None \<longleftrightarrow> ev_state e = ''queued'' \<or> ev_state e = ''leased''"
  by (auto simp: result_inv_def split: option.splits)

text \<open>The rows of an evaluation and its current attempt, as the invariant relates them.\<close>

lemma current_rows:
  assumes inv: "store_inv env db" and e: "evaluation_of db k = Some e"
  obtains a req t where "attempt_of db (ev_current_attempt_id e) = Some a"
    and "at_evaluation_id a = k" and "at_state a = ev_state e" and "ev_evaluation_id e = k"
    and "decode_evaluation_request (pg_wire env) (at_request_payload a) = Ok req"
    and "request_matches req k (ev_current_attempt_id e) (at_attempt_number a)"
    and "result_inv env req e"
    and "task_of db (ev_current_attempt_id e) = Some t"
    and "ta_state t = task_state_of (at_state a)" and "at_state a \<noteq> ''expired''"
    and "ta_required_capabilities t = map capability_str (req_required_capabilities req)"
proof -
  obtain a req where a: "attempt_of db (ev_current_attempt_id e) = Some a" "at_evaluation_id a = k"
      "at_state a = ev_state e"
      "decode_evaluation_request (pg_wire env) (at_request_payload a) = Ok req" "result_inv env req e"
    using inv e unfolding store_inv_def evaluation_row_inv_def by blast
  moreover have "attempt_row_inv env db (ev_current_attempt_id e) a"
    using inv a(1) unfolding store_inv_def by blast
  then obtain t where "task_of db (ev_current_attempt_id e) = Some t"
    "request_matches req k (ev_current_attempt_id e) (at_attempt_number a)"
    "ta_state t = task_state_of (at_state a)" "at_state a \<noteq> ''expired''"
    "ta_required_capabilities t = map capability_str (req_required_capabilities req)"
    using a e unfolding attempt_row_inv_def by auto
  ultimately show ?thesis using that row_keys(1) [OF e] by blast
qed

section \<open>Changing one evaluation\<close>

text \<open>A row that is not changed keeps its invariant.\<close>

lemma attempt_row_inv_frame:
  assumes old: "attempt_row_inv env db j b"
    and ev: "\<And>e0. evaluation_of db (at_evaluation_id b) = Some e0 \<Longrightarrow>
       \<exists>e'. evaluation_of db' (at_evaluation_id b) = Some e' \<and>
            ev_current_attempt_id e' = ev_current_attempt_id e0 \<and>
            ev_initial_request e' = ev_initial_request e0"
    and at: "\<And>i c. attempt_of db i = Some c \<Longrightarrow>
       \<exists>c'. attempt_of db' i = Some c' \<and> at_attempt_number c' = at_attempt_number c"
    and ta: "task_of db' j = task_of db j"
  shows "attempt_row_inv env db' j b"
proof -
  from old obtain e0 t req initial where o: "evaluation_of db (at_evaluation_id b) = Some e0"
    "task_of db j = Some t" "decode_evaluation_request (pg_wire env) (at_request_payload b) = Ok req"
    "request_matches req (at_evaluation_id b) j (at_attempt_number b)"
    "decode_evaluation_request (pg_wire env) (ev_initial_request e0) = Ok initial"
    "same_evaluation_semantics initial req" "ta_state t = task_state_of (at_state b)"
    "ta_required_capabilities t = map capability_str (req_required_capabilities req)"
    "at_state b = ''queued'' \<longrightarrow> at_node_id b = None" "at_state b = ''leased'' \<longrightarrow> at_node_id b \<noteq> None"
    and c: "if ev_current_attempt_id e0 = j then at_state b \<noteq> ''expired''
       else at_state b = ''expired'' \<and> (\<exists>c. attempt_of db (ev_current_attempt_id e0) = Some c \<and>
         at_attempt_number b < at_attempt_number c)"
    unfolding attempt_row_inv_def by blast
  obtain e' where e': "evaluation_of db' (at_evaluation_id b) = Some e'"
    "ev_current_attempt_id e' = ev_current_attempt_id e0"
    "ev_initial_request e' = ev_initial_request e0"
    using ev [OF o(1)] by blast
  have c': "if ev_current_attempt_id e' = j then at_state b \<noteq> ''expired''
     else at_state b = ''expired'' \<and> (\<exists>c. attempt_of db' (ev_current_attempt_id e') = Some c \<and>
       at_attempt_number b < at_attempt_number c)"
    using c at e'(2) by (metis (full_types))
  show ?thesis
    unfolding attempt_row_inv_def
    by (rule exI [of _ e'], rule exI [of _ t], rule exI [of _ req], rule exI [of _ initial])
      (use o e' ta c' in simp)
qed

lemma store_inv_row_changes:
  assumes inv: "store_inv env db" and int: "integrity (pg_text_less env) db'"
    and e: "evaluation_of db k = Some e" and a: "attempt_of db (ev_current_attempt_id e) = Some a"
    and ch: "row_changes db k fe (ev_current_attempt_id e) fa ft db'"
    and fe: "ev_current_attempt_id (fe e) = ev_current_attempt_id e"
      "ev_initial_request (fe e) = ev_initial_request e"
    and fa: "at_evaluation_id (fa a) = at_evaluation_id a"
      "at_request_payload (fa a) = at_request_payload a" "at_attempt_number (fa a) = at_attempt_number a"
    and ft: "\<And>t. ta_required_capabilities (ft t) = ta_required_capabilities t"
    and state: "at_state (fa a) = ev_state (fe e)" "at_state (fa a) \<noteq> ''expired''"
    and task: "\<And>t. ta_state t = task_state_of (at_state a) \<Longrightarrow>
       ta_state (ft t) = task_state_of (at_state (fa a))"
    and node: "at_state (fa a) = ''queued'' \<Longrightarrow> at_node_id (fa a) = None"
      "at_state (fa a) = ''leased'' \<Longrightarrow> at_node_id (fa a) \<noteq> None"
    and res: "\<And>req. decode_evaluation_request (pg_wire env) (at_request_payload a) = Ok req \<Longrightarrow>
       result_inv env req e \<Longrightarrow> result_inv env req (fe e)"
  shows "store_inv env db'"
proof -
  let ?ak = "ev_current_attempt_id e"
  note ch = row_changesD [OF ch]
  obtain req t where cur: "at_evaluation_id a = k"
    "decode_evaluation_request (pg_wire env) (at_request_payload a) = Ok req"
    "result_inv env req e" "task_of db ?ak = Some t" "ta_state t = task_state_of (at_state a)"
    by (rule current_rows [OF inv e]) (use a in auto)
  have evs: "evaluation_row_inv env db' j e'" if e': "evaluation_of db' j = Some e'" for j e'
  proof (cases "j = k")
    case True
    then show ?thesis
      using e' e a cur res [OF cur(2,3)] fe fa state
      by (auto simp: ch evaluation_row_inv_def)
  next
    case False
    then have old: "evaluation_of db j = Some e'" using e' by (simp add: ch)
    then obtain b reqb where b: "attempt_of db (ev_current_attempt_id e') = Some b"
      "at_evaluation_id b = j" "at_state b = ev_state e'"
      "decode_evaluation_request (pg_wire env) (at_request_payload b) = Ok reqb"
      "result_inv env reqb e'"
      using inv unfolding store_inv_def evaluation_row_inv_def by blast
    then have "ev_current_attempt_id e' \<noteq> ?ak" using False a cur by auto
    then show ?thesis using b by (auto simp: ch evaluation_row_inv_def)
  qed
  have ats: "attempt_row_inv env db' j b'" if b': "attempt_of db' j = Some b'" for j b'
  proof (cases "j = ?ak")
    case True
    then have "b' = fa a" using b' a by (simp add: ch)
    moreover have "attempt_row_inv env db ?ak a"
      using inv a unfolding store_inv_def by blast
    ultimately show ?thesis
      using True e cur fe fa ft state task [OF cur(5)] node
      unfolding attempt_row_inv_def by (auto simp: ch)
  next
    case False
    then have "attempt_of db j = Some b'" using b' by (simp add: ch)
    then have old: "attempt_row_inv env db j b'" using inv unfolding store_inv_def by blast
    have "\<exists>e'. evaluation_of db' (at_evaluation_id b') = Some e' \<and>
        ev_current_attempt_id e' = ev_current_attempt_id e0 \<and>
        ev_initial_request e' = ev_initial_request e0"
      if "evaluation_of db (at_evaluation_id b') = Some e0" for e0
      using that e fe by (auto simp: ch)
    moreover have "\<exists>c'. attempt_of db' i = Some c' \<and> at_attempt_number c' = at_attempt_number c"
      if "attempt_of db i = Some c" for i c
      using that a fa by (auto simp: ch)
    moreover have "task_of db' j = task_of db j" using False by (simp add: ch)
    ultimately show ?thesis by (rule attempt_row_inv_frame [OF old])
  qed
  show ?thesis using int evs ats by (simp add: store_inv_def)
qed


section \<open>Adding an evaluation\<close>

lemma request_matches_self:
  "request_matches r (evaluation_id_str (req_evaluation_id r)) (attempt_id_str (req_attempt_id r))
     (uint (req_attempt_number r))"
  by (simp add: request_matches_def)

lemma store_inv_created:
  assumes inv: "store_inv env db" and int: "integrity (pg_text_less env) db'"
    and cr: "evaluation_created db request payload created_at db'"
    and dec: "decode_evaluation_request (pg_wire env) payload = Ok request"
  shows "store_inv env db'"
proof -
  let ?ek = "evaluation_id_str (req_evaluation_id request)"
  let ?ak = "attempt_id_str (req_attempt_id request)"
  let ?a = "new_attempt_row request payload (uint (req_attempt_number request)) created_at"
  have fresh: "evaluation_of db ?ek = None" "attempt_of db ?ak = None" "task_of db ?ak = None"
    and ev: "\<And>j. evaluation_of db' j = (if j = ?ek
         then Some (new_evaluation_row request payload created_at) else evaluation_of db j)"
    and at: "\<And>j. attempt_of db' j = (if j = ?ak then Some ?a else attempt_of db j)"
    and ta: "\<And>j. task_of db' j = (if j = ?ak then Some (new_task_row request created_at)
         else task_of db j)"
    using cr by (simp_all add: evaluation_created_def Let_def)
  have evs: "evaluation_row_inv env db' j e'" if e': "evaluation_of db' j = Some e'" for j e'
  proof (cases "j = ?ek")
    case True
    then show ?thesis
      using e' dec by (auto simp: ev at evaluation_row_inv_def new_evaluation_row_def
          new_attempt_row_def result_inv_def)
  next
    case False
    then have "evaluation_row_inv env db j e'"
      using e' inv unfolding store_inv_def by (simp add: ev)
    then show ?thesis
      using fresh(2) unfolding evaluation_row_inv_def by (auto simp: at)
  qed
  have ats: "attempt_row_inv env db' j b'" if b': "attempt_of db' j = Some b'" for j b'
  proof (cases "j = ?ak")
    case True
    then show ?thesis
      using b' dec by (auto simp: ev at ta attempt_row_inv_def new_evaluation_row_def
          new_attempt_row_def new_task_row_def request_matches_self)
  next
    case False
    then have old: "attempt_row_inv env db j b'"
      using b' inv unfolding store_inv_def by (simp add: at)
    show ?thesis
      by (rule attempt_row_inv_frame [OF old])
        (use fresh False in \<open>auto simp: ev at ta\<close>)
  qed
  show ?thesis using int evs ats by (simp add: store_inv_def)
qed

section \<open>Replacing an attempt\<close>

lemma store_inv_replaced:
  assumes inv: "store_inv env db" and int: "integrity (pg_text_less env) db'"
    and e: "evaluation_of db (evaluation_id_str (req_evaluation_id request)) = Some e"
    and a: "attempt_of db (ev_current_attempt_id e) = Some a" and leased: "ev_state e = ''leased''"
    and number: "uint (req_attempt_number request) = at_attempt_number a + 1"
    and cur: "decode_evaluation_request (pg_wire env) (at_request_payload a) = Ok current"
    and sem: "same_evaluation_semantics current request"
    and dec: "decode_evaluation_request (pg_wire env) payload = Ok request"
    and rep: "attempt_replaced db e request payload now db'"
  shows "store_inv env db'"
proof -
  let ?ek = "evaluation_id_str (req_evaluation_id request)"
  let ?new = "attempt_id_str (req_attempt_id request)"
  let ?a = "new_attempt_row request payload (uint (req_attempt_number request)) now"
  have ek: "ev_evaluation_id e = ?ek" using row_keys(1) [OF e] .
  have fresh: "attempt_of db ?new = None" "task_of db ?new = None"
    and ev: "\<And>j. evaluation_of db' j = (if j = ?ek
         then map_option (requeued_evaluation ?new now) (evaluation_of db j)
         else evaluation_of db j)"
    and at: "\<And>j. attempt_of db' j = (if j = ?new then Some ?a
         else if j = ev_current_attempt_id e then map_option (terminal_attempt ''expired'' now) (attempt_of db j)
         else attempt_of db j)"
    and ta: "\<And>j. task_of db' j = (if j = ?new then Some (new_task_row request now)
         else if j = ev_current_attempt_id e then map_option (terminal_task ''expired'' now) (task_of db j)
         else task_of db j)"
    using rep by (simp_all add: attempt_replaced_def Let_def ek)
  have new: "?new \<noteq> ev_current_attempt_id e" using a fresh by auto
  obtain t where c: "at_evaluation_id a = ?ek" "task_of db (ev_current_attempt_id e) = Some t"
    "result_inv env current e"
    by (rule current_rows [OF inv e]) (use a cur in auto)
  have none: "ev_terminal_result e = None"
    using leased result_inv_state [OF c(3)] by simp
  have old_a: "attempt_row_inv env db (ev_current_attempt_id e) a"
    using inv a unfolding store_inv_def by blast
  have initial: "\<exists>initial. decode_evaluation_request (pg_wire env) (ev_initial_request e) = Ok initial \<and>
      same_evaluation_semantics initial current"
    using old_a e c(1) cur unfolding attempt_row_inv_def by auto
  have evs: "evaluation_row_inv env db' j e'" if e': "evaluation_of db' j = Some e'" for j e'
  proof (cases "j = ?ek")
    case True
    then have "e' = requeued_evaluation ?new now e" using e' e by (simp add: ev)
    then show ?thesis
      using True dec none by (simp add: at evaluation_row_inv_def requeued_evaluation_def
          new_attempt_row_def result_inv_def)
  next
    case False
    then have "evaluation_of db j = Some e'" using e' by (simp add: ev)
    then obtain b reqb where b: "attempt_of db (ev_current_attempt_id e') = Some b"
      "at_evaluation_id b = j" "at_state b = ev_state e'"
      "decode_evaluation_request (pg_wire env) (at_request_payload b) = Ok reqb"
      "result_inv env reqb e'"
      using inv unfolding store_inv_def evaluation_row_inv_def by blast
    then have "ev_current_attempt_id e' \<noteq> ev_current_attempt_id e" "ev_current_attempt_id e' \<noteq> ?new"
      using False a c fresh by auto
    then show ?thesis using b by (simp add: at evaluation_row_inv_def)
  qed
  have ats: "attempt_row_inv env db' j b'" if b': "attempt_of db' j = Some b'" for j b'
  proof -
    consider (new) "j = ?new" | (old) "j = ev_current_attempt_id e"
      | (sibling) "j \<noteq> ?new" "j \<noteq> ev_current_attempt_id e" "at_evaluation_id b' = ?ek"
      | (other) "j \<noteq> ?new" "j \<noteq> ev_current_attempt_id e" "at_evaluation_id b' \<noteq> ?ek"
      by blast
    then show ?thesis
    proof cases
      case new
      then have "b' = ?a" using b' by (simp add: at)
      then show ?thesis
        using new e initial sem dec request_matches_self [of request]
        by (auto simp: attempt_row_inv_def ev ta requeued_evaluation_def new_attempt_row_def
            new_task_row_def intro: same_evaluation_semantics_trans)
    next
      case old
      then have "b' = terminal_attempt ''expired'' now a" using b' a new by (simp add: at)
      then show ?thesis
        using old old_a e c new number
        by (auto simp: attempt_row_inv_def ev ta at requeued_evaluation_def terminal_attempt_def
            terminal_task_def new_attempt_row_def)
    next
      case sibling
      then have b: "attempt_of db j = Some b'" using b' by (simp add: at)
      then have "attempt_row_inv env db j b'" using inv unfolding store_inv_def by blast
      then show ?thesis
        using sibling e a number
        by (auto simp: attempt_row_inv_def ev ta at requeued_evaluation_def new_attempt_row_def)
    next
      case other
      then have b: "attempt_of db j = Some b'" using b' by (simp add: at)
      then have old: "attempt_row_inv env db j b'" using inv unfolding store_inv_def by blast
      show ?thesis
        by (rule attempt_row_inv_frame [OF old])
          (use other fresh in \<open>auto simp: ev at ta terminal_attempt_def\<close>)
    qed
  qed
  show ?thesis using int evs ats by (simp add: store_inv_def)
qed


section \<open>Selecting a task\<close>

definition strict_linear :: "('a \<Rightarrow> 'a \<Rightarrow> bool) \<Rightarrow> bool" where
  "strict_linear lt \<longleftrightarrow>
     (\<forall>x. \<not> lt x x) \<and> (\<forall>x y z. lt x y \<longrightarrow> lt y z \<longrightarrow> lt x z) \<and> (\<forall>x y. x \<noteq> y \<longrightarrow> lt x y \<or> lt y x)"

lemma first_row_Some_set: "first_row b xs = Some x \<Longrightarrow> x \<in> set xs"
  by (induction xs arbitrary: x) (auto split: option.splits if_splits)

lemma first_row_None_iff: "first_row b xs = None \<longleftrightarrow> xs = []"
  by (cases xs) (auto split: option.splits)

lemma first_row_least:
  assumes irrefl: "\<And>x. \<not> b x x" and asym: "\<And>x y. b x y \<Longrightarrow> \<not> b y x"
    and neg: "\<And>x y z. \<not> b x y \<Longrightarrow> \<not> b y z \<Longrightarrow> \<not> b x z"
  shows "first_row b xs = Some x \<Longrightarrow> y \<in> set xs \<Longrightarrow> \<not> b y x"
proof (induction xs arbitrary: x y)
  case (Cons z zs)
  show ?case
  proof (cases "first_row b zs")
    case None
    then show ?thesis using Cons.prems irrefl by (auto simp: first_row_None_iff)
  next
    case (Some w)
    then have least: "\<And>v. v \<in> set zs \<Longrightarrow> \<not> b v w" using Cons.IH by blast
    show ?thesis
    proof (cases "b w z")
      case True
      then show ?thesis using Cons.prems Some least asym by auto
    next
      case False
      then have "x = z" using Cons.prems(1) Some by simp
      then show ?thesis using Cons.prems(2) irrefl neg [OF least False] by auto
    qed
  qed
qed simp

lemma before_row_order:
  assumes "strict_linear lt"
  shows "\<not> before_row lt p p" and "before_row lt p q \<Longrightarrow> \<not> before_row lt q p"
    and "\<not> before_row lt p q \<Longrightarrow> \<not> before_row lt q r \<Longrightarrow> \<not> before_row lt p r"
proof -
  have o: "\<And>x. \<not> lt x x" "\<And>x y z. lt x y \<Longrightarrow> lt y z \<Longrightarrow> lt x z" "\<And>x y. x \<noteq> y \<Longrightarrow> lt x y \<or> lt y x"
    using assms unfolding strict_linear_def by blast+
  show "\<not> before_row lt p p" using o(1) by (simp add: before_row_def)
  show "before_row lt p q \<Longrightarrow> \<not> before_row lt q p"
    using o(1) [of "snd p"] o(2) [of "snd p" "snd q" "snd p"] by (auto simp: before_row_def)
  have not_lt: "\<not> lt x y \<longleftrightarrow> x = y \<or> lt y x" for x y
    using o(1) [of x] o(2) [of x y x] o(3) [of x y] by auto
  have not_before: "\<not> before_row lt p q \<longleftrightarrow> fst q < fst p \<or>
      fst p = fst q \<and> (snd p = snd q \<or> lt (snd q) (snd p))" for p q
    using not_lt by (auto simp: before_row_def)
  show "\<not> before_row lt p q \<Longrightarrow> \<not> before_row lt q r \<Longrightarrow> \<not> before_row lt p r"
    unfolding not_before using o(2) [of "snd r" "snd q" "snd p"] by auto
qed

lemma task_join_iff:
  "(t, a, e) \<in> set (task_join db) \<longleftrightarrow>
     t \<in> set (db_tasks db) \<and> a \<in> set (db_attempts db) \<and> e \<in> set (db_evaluations db) \<and>
     at_attempt_id a = ta_attempt_id t \<and> ev_current_attempt_id e = at_attempt_id a"
  by (auto simp: task_join_def split: if_splits)

lemma select_task_SomeD:
  assumes "select_task lt locked capabilities db = Some (t, a, e)"
  shows "(t, a, e) \<in> set (task_join db)" and "claimable locked capabilities (t, a, e)"
  using first_row_Some_set [OF assms [unfolded select_task_def]] by simp_all

text \<open>The selected rows by key.\<close>

lemma selected_rows:
  assumes inv: "store_inv env db"
    and s: "select_task lt locked capabilities db = Some (t, a, e)"
  shows "evaluation_of db (at_evaluation_id a) = Some e"
    and "attempt_of db (ta_attempt_id t) = Some a" and "task_of db (ta_attempt_id t) = Some t"
    and "ev_current_attempt_id e = ta_attempt_id t"
    and "at_state a = ''queued''" and "ev_state e = ''queued''" and "ta_state t = ''ready''"
proof -
  have int: "integrity (pg_text_less env) db" using inv by (simp add: store_inv_def)
  have j: "t \<in> set (db_tasks db)" "a \<in> set (db_attempts db)" "e \<in> set (db_evaluations db)"
    "at_attempt_id a = ta_attempt_id t" "ev_current_attempt_id e = ta_attempt_id t"
    using select_task_SomeD(1) [OF s] by (simp_all add: task_join_iff)
  note rows = integrity_row [OF int]
  have ev: "evaluation_of db (ev_evaluation_id e) = Some e" using rows j by simp
  show at: "attempt_of db (ta_attempt_id t) = Some a" using rows(2) [OF j(2)] j by simp
  show "task_of db (ta_attempt_id t) = Some t" using rows j by simp
  show "ev_current_attempt_id e = ta_attempt_id t" using j by simp
  obtain a' where "attempt_of db (ev_current_attempt_id e) = Some a'"
    "at_evaluation_id a' = ev_evaluation_id e"
    by (rule current_rows [OF inv ev])
  then have "at_evaluation_id a = ev_evaluation_id e" using at j(5) by simp
  then show "evaluation_of db (at_evaluation_id a) = Some e" using ev by simp
  show "at_state a = ''queued''" "ev_state e = ''queued''" "ta_state t = ''ready''"
    using select_task_SomeD(2) [OF s] by (simp_all add: claimable_def)
qed

section \<open>Preservation\<close>

lemma store_inv_integrity: "store_inv env db \<Longrightarrow> integrity (pg_text_less env) db"
  by (simp add: store_inv_def)

lemma claim_preserves:
  assumes inv: "store_inv env db"
    and run: "yields (claim_transaction env locked command operation_id capabilities now expiry) db request db'"
  shows "store_inv env db'"
proof -
  from claim_effect [OF run store_inv_integrity [OF inv]] obtain t a e where
    s: "select_task (pg_text_less env) locked capabilities db = Some (t, a, e)"
    and int: "integrity (pg_text_less env) db'"
    and ch: "row_changes db (at_evaluation_id a) (leased_evaluation now) (ta_attempt_id t)
       (lease_attempt (node_id_str (ct_node_id command)) (lease_token_str (ct_lease_token command))
          expiry operation_id now) (leased_task now) db'" .
  note rows = selected_rows [OF inv s]
  show ?thesis
    by (rule store_inv_row_changes [OF inv int rows(1), of a "leased_evaluation now"
          "lease_attempt (node_id_str (ct_node_id command)) (lease_token_str (ct_lease_token command))
             expiry operation_id now" "leased_task now"])
      (use rows ch in \<open>auto simp: leased_evaluation_def lease_attempt_def leased_task_def
        result_inv_def split: option.splits\<close>)
qed

lemma renew_preserves:
  assumes inv: "store_inv env db" and run: "yields (renew_transaction command now expiry) db res db'"
  shows "store_inv env db'"
proof -
  obtain e a where
    e: "evaluation_of db (evaluation_id_str (jr_evaluation_id command)) = Some e"
    and a: "attempt_of db (ev_current_attempt_id e) = Some a"
    and res: "db' = db \<or> ev_state e = ''leased'' \<and> at_state a = ''leased'' \<and> at_node_id a \<noteq> None \<and>
       integrity (pg_text_less env) db' \<and> row_changes db (ev_evaluation_id e) id
         (ev_current_attempt_id e) (renewed_attempt now expiry) id db'"
    by (rule renew_effect [OF run store_inv_integrity [OF inv]]) auto
  show ?thesis
  proof (cases "db' = db")
    case False
    note ek = row_keys(1) [OF e]
    show ?thesis
      by (rule store_inv_row_changes [OF inv _ e a, of db' id "renewed_attempt now expiry" id])
        (use False res ek in \<open>auto simp: renewed_attempt_def\<close>)
  qed (simp add: inv)
qed


lemma terminal_preserves:
  assumes inv: "store_inv env db" and int: "integrity (pg_text_less env) db'"
    and e: "evaluation_of db k = Some e" and a: "attempt_of db (ev_current_attempt_id e) = Some a"
    and req: "decode_evaluation_request (pg_wire env) (at_request_payload a) = Ok req"
      "EvaluationIdentity_from_request req = res_identity r"
    and r: "evaluation_result_ok r" "decode_evaluation_result_domain (pg_wire env) payload = Ok r"
    and ch: "becomes_terminal db e (EvaluationStatus_as_str (res_status r)) task_state payload key now db'"
    and task: "task_state = task_state_of (EvaluationStatus_as_str (res_status r))"
  shows "store_inv env db'"
proof -
  have "row_changes db k (terminal_evaluation (EvaluationStatus_as_str (res_status r)) payload key now)
      (ev_current_attempt_id e) (terminal_attempt (EvaluationStatus_as_str (res_status r)) now)
      (terminal_task task_state now) db'"
    using ch row_keys(1) [OF e] by (simp add: becomes_terminal_def)
  from store_inv_row_changes [OF inv int e a this] show ?thesis
    using req r by (simp add: terminal_evaluation_def terminal_attempt_def terminal_task_def task
        result_inv_def del: task_state_of.simps)
qed

lemma task_state_of_status:
  "task_state_of (EvaluationStatus_as_str st) =
     (if st = EvaluationStatus_Cancelled then ''cancelled'' else ''completed'')"
  by (cases st) simp_all

lemma submit_preserves:
  assumes lib: "wire_lib_ok (pg_wire env)" and ok: "evaluation_result_ok (sr_result command)"
    and enc: "encode_evaluation_result (pg_wire env) (sr_result command) = Ok payload"
    and inv: "store_inv env db" and run: "yields (submit_transaction env command payload now) db u db'"
  shows "store_inv env db'"
proof -
  let ?r = "sr_result command"
  have dec: "decode_evaluation_result_domain (pg_wire env) payload = Ok ?r"
    by (rule decode_encode_result [OF lib ok enc])
  obtain e a where e: "evaluation_of db (evaluation_id_str (idn_evaluation_id (res_identity ?r))) = Some e"
    and a: "attempt_of db (ev_current_attempt_id e) = Some a"
    and res: "db' = db \<or> (\<exists>req. decode_evaluation_request (pg_wire env) (at_request_payload a) = Ok req \<and>
        EvaluationIdentity_from_request req = res_identity ?r) \<and>
      integrity (pg_text_less env) db' \<and>
      becomes_terminal db e (EvaluationStatus_as_str (res_status ?r))
        (task_state_of (EvaluationStatus_as_str (res_status ?r))) payload
        (idempotency_key_str (sr_idempotency_key command)) now db'"
    unfolding task_state_of_status
    by (rule submit_effect [OF run store_inv_integrity [OF inv]]) blast
  show ?thesis
    using res inv terminal_preserves [OF inv _ e a _ _ ok dec _ refl] by blast
qed

lemma cancel_preserves:
  assumes lib: "wire_lib_ok (pg_wire env)" and ok: "evaluation_result_ok (cx_result command)"
    and status: "res_status (cx_result command) = EvaluationStatus_Cancelled"
    and enc: "encode_evaluation_result (pg_wire env) (cx_result command) = Ok payload"
    and inv: "store_inv env db" and run: "yields (cancel_transaction env command payload now) db u db'"
  shows "store_inv env db'"
proof -
  let ?r = "cx_result command"
  have dec: "decode_evaluation_result_domain (pg_wire env) payload = Ok ?r"
    by (rule decode_encode_result [OF lib ok enc])
  have names: "''cancelled'' = EvaluationStatus_as_str (res_status ?r)"
    "''cancelled'' = task_state_of (EvaluationStatus_as_str (res_status ?r))"
    using status by simp_all
  obtain e a where e: "evaluation_of db (evaluation_id_str (cx_evaluation_id command)) = Some e"
    and a: "attempt_of db (ev_current_attempt_id e) = Some a"
    and res: "db' = db \<or> (\<exists>req. decode_evaluation_request (pg_wire env) (at_request_payload a) = Ok req \<and>
        EvaluationIdentity_from_request req = res_identity ?r) \<and>
      integrity (pg_text_less env) db' \<and>
      becomes_terminal db e ''cancelled'' ''cancelled'' payload
        (idempotency_key_str (cx_idempotency_key command)) now db'"
    by (rule cancel_effect [OF run store_inv_integrity [OF inv]]) blast
  show ?thesis
    using res inv terminal_preserves [OF inv _ e a _ _ ok dec _ names(2)] names(1) by metis
qed

lemma create_preserves:
  assumes lib: "wire_lib_ok (pg_wire env)" and ok: "evaluation_request_ok (ce_request command)"
    and enc: "encode_evaluation_request (pg_wire env) (ce_request command) = Ok payload"
    and inv: "store_inv env db" and run: "yields (create_transaction env command payload) db res db'"
  shows "store_inv env db'"
  using create_effect [OF run store_inv_integrity [OF inv]]
    store_inv_created [OF inv] decode_encode_request [OF lib ok enc] inv by metis

lemma retry_preserves:
  assumes lib: "wire_lib_ok (pg_wire env)" and ok: "evaluation_request_ok request"
    and enc: "encode_evaluation_request (pg_wire env) request = Ok payload"
    and inv: "store_inv env db" and run: "yields (retry_transaction env request payload now) db res db'"
  shows "store_inv env db'"
proof (rule retry_effect [OF run store_inv_integrity [OF inv]])
  fix e a expires_at current
  assume r: "evaluation_of db (evaluation_id_str (req_evaluation_id request)) = Some e"
    "attempt_of db (ev_current_attempt_id e) = Some a" "ev_state e = ''leased''"
    "uint (req_attempt_number request) = at_attempt_number a + 1"
    "decode_evaluation_request (pg_wire env) (at_request_payload a) = Ok current"
    "same_evaluation_semantics current request" "integrity (pg_text_less env) db'"
    "attempt_replaced db e request payload now db'"
  show "store_inv env db'"
    by (rule store_inv_replaced [OF inv r(7,1,2,3,4,5,6) decode_encode_request [OF lib ok enc] r(8)])
qed (use inv in simp)

section \<open>Reachable stores\<close>

text \<open>
  One committed transaction, whoever asked for it and whatever the caller was told.  The commands
  hold values of the domain types.
\<close>

inductive store_step :: "('q, 'r) pg_env \<Rightarrow> tables \<Rightarrow> tables \<Rightarrow> bool" for env where
  step_create: "evaluation_request_ok (ce_request command) \<Longrightarrow>
     encode_evaluation_request (pg_wire env) (ce_request command) = Ok payload \<Longrightarrow>
     yields (create_transaction env command payload) db res db' \<Longrightarrow> current_attempt_fk db' \<Longrightarrow>
     store_step env db db'"
| step_claim:
    "yields (claim_transaction env locked command operation_id capabilities now expiry) db request db' \<Longrightarrow>
     current_attempt_fk db' \<Longrightarrow> store_step env db db'"
| step_renew:
    "yields (renew_transaction command now expiry) db res db' \<Longrightarrow> current_attempt_fk db' \<Longrightarrow>
     store_step env db db'"
| step_retry: "evaluation_request_ok request \<Longrightarrow>
     encode_evaluation_request (pg_wire env) request = Ok payload \<Longrightarrow>
     yields (retry_transaction env request payload now) db res db' \<Longrightarrow> current_attempt_fk db' \<Longrightarrow>
     store_step env db db'"
| step_submit: "evaluation_result_ok (sr_result command) \<Longrightarrow>
     encode_evaluation_result (pg_wire env) (sr_result command) = Ok payload \<Longrightarrow>
     yields (submit_transaction env command payload now) db u db' \<Longrightarrow> current_attempt_fk db' \<Longrightarrow>
     store_step env db db'"
| step_cancel: "evaluation_result_ok (cx_result command) \<Longrightarrow>
     res_status (cx_result command) = EvaluationStatus_Cancelled \<Longrightarrow>
     encode_evaluation_result (pg_wire env) (cx_result command) = Ok payload \<Longrightarrow>
     yields (cancel_transaction env command payload now) db u db' \<Longrightarrow> current_attempt_fk db' \<Longrightarrow>
     store_step env db db'"

inductive store_reachable :: "('q, 'r) pg_env \<Rightarrow> tables \<Rightarrow> bool" for env where
  reach_empty: "store_reachable env empty_tables"
| reach_step: "store_reachable env db \<Longrightarrow> store_step env db db' \<Longrightarrow> store_reachable env db'"

lemma store_step_preserves:
  "store_step env db db' \<Longrightarrow> wire_lib_ok (pg_wire env) \<Longrightarrow> store_inv env db \<Longrightarrow> store_inv env db'"
  by (induction rule: store_step.induct)
    (blast intro: create_preserves claim_preserves renew_preserves retry_preserves submit_preserves
      cancel_preserves)+

lemma store_reachable_inv:
  "store_reachable env db \<Longrightarrow> wire_lib_ok (pg_wire env) \<Longrightarrow> store_inv env db"
  by (induction rule: store_reachable.induct) (auto intro: store_inv_empty store_step_preserves)

end
