(* ===== verification/Storage_Lifecycle.thy ===== *)
theory Storage_Lifecycle
  imports Storage_Invariant
begin

text \<open>
  The committed transactions as steps of the domain lifecycles: what a step can do to a stored
  evaluation and its attempts, why a terminal result is final, and how the public operations
  are sequences of such steps under every fate of their round trips.
\<close>

section \<open>Steps\<close>

lemma store_step_cases:
  assumes step: "store_step env db db'" and inv: "store_inv env db"
  obtains (unchanged) "db' = db"
  | (created) request payload created_at where "evaluation_created db request payload created_at db'"
  | (claimed) e a node token expiry operation now where
      "evaluation_of db (at_evaluation_id a) = Some e"
      "attempt_of db (ev_current_attempt_id e) = Some a"
      "ev_state e = ''queued''" "at_state a = ''queued''"
      "row_changes db (ev_evaluation_id e) (leased_evaluation now) (ev_current_attempt_id e)
         (lease_attempt node token expiry operation now) (leased_task now) db'"
  | (renewed) e a now expiry where
      "evaluation_of db (ev_evaluation_id e) = Some e"
      "attempt_of db (ev_current_attempt_id e) = Some a"
      "ev_state e = ''leased''" "at_state a = ''leased''"
      "row_changes db (ev_evaluation_id e) id (ev_current_attempt_id e) (renewed_attempt now expiry) id db'"
  | (replaced) e a request payload now expires_at where
      "evaluation_of db (ev_evaluation_id e) = Some e"
      "attempt_of db (ev_current_attempt_id e) = Some a"
      "ev_state e = ''leased''" "at_state a = ''leased''"
      "at_lease_expires_at_ms a = Some expires_at" "expires_at < now"
      "uint (req_attempt_number request) = at_attempt_number a + 1"
      "attempt_replaced db e request payload now db'"
  | (finished) e a st task_state payload key now where
      "evaluation_of db (ev_evaluation_id e) = Some e"
      "attempt_of db (ev_current_attempt_id e) = Some a"
      "ev_terminal_result e = None" "at_state a = ev_state e"
      "ev_state e = ''leased'' \<or> ev_state e = ''queued'' \<and> st = EvaluationStatus_Cancelled"
      "becomes_terminal db e (EvaluationStatus_as_str st) task_state payload key now db'"
  using step
proof (cases rule: store_step.cases)
  case (step_create command payload res)
  show ?thesis
    by (rule create_effect [OF step_create(3) store_inv_integrity [OF inv]])
      (auto intro: unchanged created)
next
  case (step_claim locked command operation_id capabilities now expiry request)
  obtain t a e where s: "select_task (pg_text_less env) locked capabilities db = Some (t, a, e)"
    and ch: "row_changes db (at_evaluation_id a) (leased_evaluation now) (ta_attempt_id t)
      (lease_attempt (node_id_str (ct_node_id command)) (lease_token_str (ct_lease_token command))
        expiry operation_id now) (leased_task now) db'"
    by (rule claim_effect [OF step_claim(1) store_inv_integrity [OF inv]])
  note rows = selected_rows [OF inv s]
  show ?thesis
    by (rule claimed [OF rows(1)])
      (use rows ch row_keys(1) [OF rows(1)] in simp_all)
next
  case (step_renew command now expiry res)
  obtain e a where "evaluation_of db (evaluation_id_str (jr_evaluation_id command)) = Some e"
    "attempt_of db (ev_current_attempt_id e) = Some a"
    "db' = db \<or> ev_state e = ''leased'' \<and> at_state a = ''leased'' \<and>
       row_changes db (ev_evaluation_id e) id (ev_current_attempt_id e) (renewed_attempt now expiry) id db'"
    by (rule renew_effect [OF step_renew(1) store_inv_integrity [OF inv]]) auto
  then show ?thesis using unchanged renewed row_keys(1) by metis
next
  case (step_retry request payload now res)
  show ?thesis
    by (rule retry_effect [OF step_retry(3) store_inv_integrity [OF inv]])
      (use unchanged replaced row_keys(1) in metis)+
next
  case (step_submit command payload now u)
  obtain e a where e: "evaluation_of db (evaluation_id_str
        (idn_evaluation_id (res_identity (sr_result command)))) = Some e"
    and a: "attempt_of db (ev_current_attempt_id e) = Some a"
    and c: "db' = db \<or> ev_terminal_result e = None \<and> ev_state e = ''leased'' \<and> at_state a = ev_state e \<and>
       becomes_terminal db e (EvaluationStatus_as_str (res_status (sr_result command)))
         (if res_status (sr_result command) = EvaluationStatus_Cancelled then ''cancelled'' else ''completed'')
         payload (idempotency_key_str (sr_idempotency_key command)) now db'"
    by (rule submit_effect [OF step_submit(3) store_inv_integrity [OF inv]])
      (auto simp: holds_lease_def)
  then show ?thesis using unchanged finished row_keys(1) [OF e] by metis
next
  case (step_cancel command payload now u)
  obtain e a where e: "evaluation_of db (evaluation_id_str (cx_evaluation_id command)) = Some e"
    and a: "attempt_of db (ev_current_attempt_id e) = Some a"
    and c: "db' = db \<or> ev_terminal_result e = None \<and>
       (ev_state e = ''queued'' \<or> ev_state e = ''leased'') \<and>
       becomes_terminal db e (EvaluationStatus_as_str EvaluationStatus_Cancelled) ''cancelled''
         payload (idempotency_key_str (cx_idempotency_key command)) now db'"
    by (rule cancel_effect [OF step_cancel(4) store_inv_integrity [OF inv]]) auto
  have "at_state a = ev_state e"
    using current_rows [OF inv e] a by auto
  then show ?thesis using e a c unchanged finished row_keys(1) [OF e] by metis
qed

text \<open>Evaluations stay, and a step moves one along the transitions of the domain lifecycle.\<close>

definition evaluation_moves :: "str \<Rightarrow> str \<Rightarrow> bool" where
  "evaluation_moves s s' \<longleftrightarrow>
     s' = s \<or> (\<exists>st st'. s = EvaluationState_as_str st \<and> s' = EvaluationState_as_str st' \<and>
       is_ok (EvaluationState_transition_to st st'))"

definition attempt_moves :: "str \<Rightarrow> str \<Rightarrow> bool" where
  "attempt_moves s s' \<longleftrightarrow>
     s' = s \<or> (\<exists>st st'. s = AttemptState_as_str st \<and> s' = AttemptState_as_str st' \<and>
       is_ok (AttemptState_transition_to st st'))"

lemma evaluation_moves_intros:
  "evaluation_moves s s" "evaluation_moves ''queued'' ''leased''" "evaluation_moves ''leased'' ''queued''"
  "evaluation_moves ''leased'' (EvaluationStatus_as_str st)" "evaluation_moves ''queued'' ''cancelled''"
proof -
  have m: "is_ok (EvaluationState_transition_to a b) \<Longrightarrow>
      evaluation_moves (EvaluationState_as_str a) (EvaluationState_as_str b)" for a b
    by (auto simp: evaluation_moves_def)
  show "evaluation_moves s s" by (simp add: evaluation_moves_def)
  show "evaluation_moves ''queued'' ''leased''" "evaluation_moves ''leased'' ''queued''"
    "evaluation_moves ''queued'' ''cancelled''"
    using m [of EvaluationState_Queued EvaluationState_Leased]
      m [of EvaluationState_Leased EvaluationState_Queued]
      m [of EvaluationState_Queued EvaluationState_Cancelled]
    by (simp_all add: EvaluationState_transition_to_def)
  show "evaluation_moves ''leased'' (EvaluationStatus_as_str st)"
    using m [of EvaluationState_Leased EvaluationState_Completed]
      m [of EvaluationState_Leased EvaluationState_Failed]
      m [of EvaluationState_Leased EvaluationState_Cancelled]
    by (cases st) (simp_all add: EvaluationState_transition_to_def)
qed

lemma attempt_moves_intros:
  "attempt_moves s s" "attempt_moves ''queued'' ''leased''" "attempt_moves ''leased'' ''expired''"
  "attempt_moves ''leased'' (EvaluationStatus_as_str st)" "attempt_moves ''queued'' ''cancelled''"
proof -
  have m: "is_ok (AttemptState_transition_to a b) \<Longrightarrow>
      attempt_moves (AttemptState_as_str a) (AttemptState_as_str b)" for a b
    by (auto simp: attempt_moves_def)
  show "attempt_moves s s" by (simp add: attempt_moves_def)
  show "attempt_moves ''queued'' ''leased''" "attempt_moves ''leased'' ''expired''"
    "attempt_moves ''queued'' ''cancelled''"
    using m [of AttemptState_Queued AttemptState_Leased] m [of AttemptState_Leased AttemptState_Expired]
      m [of AttemptState_Queued AttemptState_Cancelled]
    by (simp_all add: AttemptState_transition_to_def)
  show "attempt_moves ''leased'' (EvaluationStatus_as_str st)"
    using m [of AttemptState_Leased AttemptState_Completed] m [of AttemptState_Leased AttemptState_Failed]
      m [of AttemptState_Leased AttemptState_Cancelled]
    by (cases st) (simp_all add: AttemptState_transition_to_def)
qed


text \<open>What a step keeps of an evaluation row and of an attempt row.\<close>

definition evaluation_continues :: "evaluation_row \<Rightarrow> evaluation_row \<Rightarrow> bool" where
  "evaluation_continues e e' \<longleftrightarrow>
     evaluation_moves (ev_state e) (ev_state e') \<and>
     ev_initial_request e' = ev_initial_request e \<and>
     ev_creation_idempotency_key e' = ev_creation_idempotency_key e \<and>
     (ev_terminal_result e \<noteq> None \<longrightarrow> e' = e)"

definition attempt_continues :: "attempt_row \<Rightarrow> attempt_row \<Rightarrow> bool" where
  "attempt_continues a a' \<longleftrightarrow>
     attempt_moves (at_state a) (at_state a') \<and>
     at_evaluation_id a' = at_evaluation_id a \<and> at_request_payload a' = at_request_payload a \<and>
     at_attempt_number a' = at_attempt_number a \<and>
     at_attempt_idempotency_key a' = at_attempt_idempotency_key a"

lemma continues_refl [simp]: "evaluation_continues e e" "attempt_continues a a"
  by (simp_all add: evaluation_continues_def attempt_continues_def evaluation_moves_intros
      attempt_moves_intros)

lemma live_evaluation:
  assumes "store_inv env db" and "evaluation_of db k = Some e"
  shows "ev_terminal_result e = None \<longleftrightarrow> ev_state e = ''queued'' \<or> ev_state e = ''leased''"
  by (rule current_rows [OF assms]) (rule result_inv_state)

lemma evaluation_step:
  assumes step: "store_step env db db'" and inv: "store_inv env db" and e: "evaluation_of db k = Some e"
  shows "\<exists>e'. evaluation_of db' k = Some e' \<and> evaluation_continues e e'"
  using step inv
proof (cases rule: store_step_cases)
  case unchanged
  then show ?thesis using e by simp
next
  case (created request payload created_at)
  then show ?thesis using e by (auto simp: evaluation_created_def Let_def)
next
  case (claimed e1 a node token expiry operation now)
  have "ev_state e1 = ''queued''" "evaluation_of db (ev_evaluation_id e1) = Some e1"
    using claimed(1,3) row_keys(1) [OF claimed(1)] by simp_all
  then show ?thesis
    using row_changesD(1) [OF claimed(5), of k] e live_evaluation [OF inv e]
    by (cases "k = ev_evaluation_id e1")
      (auto simp: evaluation_continues_def leased_evaluation_def evaluation_moves_intros)
next
  case (renewed e1 a now expiry)
  then show ?thesis using e by (auto simp: row_changes_def)
next
  case (replaced e1 a request payload now expires_at)
  then show ?thesis
    using e live_evaluation [OF inv e]
    by (auto simp: attempt_replaced_def Let_def evaluation_continues_def requeued_evaluation_def
        evaluation_moves_intros)
next
  case (finished e1 a st task_state payload key now)
  note ch = finished(6) [unfolded becomes_terminal_def]
  show ?thesis
    using row_changesD(1) [OF ch, of k] e finished(1,3,5)
    by (cases "k = ev_evaluation_id e1")
      (auto simp: evaluation_continues_def terminal_evaluation_def evaluation_moves_intros)
qed

lemma attempt_step:
  assumes step: "store_step env db db'" and inv: "store_inv env db" and a: "attempt_of db k = Some a"
  shows "\<exists>a'. attempt_of db' k = Some a' \<and> attempt_continues a a'"
  using step inv
proof (cases rule: store_step_cases)
  case unchanged
  then show ?thesis using a by simp
next
  case (created request payload created_at)
  then show ?thesis using a by (auto simp: evaluation_created_def Let_def)
next
  case (claimed e1 a1 node token expiry operation now)
  then show ?thesis
    using a by (auto simp: row_changes_def attempt_continues_def lease_attempt_def
        attempt_moves_intros)
next
  case (renewed e1 a1 now expiry)
  then show ?thesis
    using a by (auto simp: row_changes_def attempt_continues_def renewed_attempt_def
        attempt_moves_intros)
next
  case (replaced e1 a1 request payload now expires_at)
  then show ?thesis
    using a by (auto simp: attempt_replaced_def Let_def attempt_continues_def terminal_attempt_def
        attempt_moves_intros)
next
  case (finished e1 a1 st task_state payload key now)
  then show ?thesis
    using a by (auto simp: becomes_terminal_def row_changes_def attempt_continues_def
        terminal_attempt_def attempt_moves_intros)
qed

section \<open>Runs of many steps\<close>

inductive store_steps :: "('q, 'r) pg_env \<Rightarrow> tables \<Rightarrow> tables \<Rightarrow> bool" for env db where
  steps_refl: "store_steps env db db"
| steps_step: "store_steps env db db1 \<Longrightarrow> store_step env db1 db2 \<Longrightarrow> store_steps env db db2"

lemma store_steps_trans:
  "store_steps env b c \<Longrightarrow> store_steps env a b \<Longrightarrow> store_steps env a c"
  by (induction rule: store_steps.induct) (auto intro: steps_step)

lemma store_steps_one: "store_step env a b \<Longrightarrow> store_steps env a b"
  by (rule steps_step [OF steps_refl])

lemma store_steps_inv:
  "store_steps env db db' \<Longrightarrow> wire_lib_ok (pg_wire env) \<Longrightarrow> store_inv env db \<Longrightarrow> store_inv env db'"
  by (induction rule: store_steps.induct) (auto intro: store_step_preserves)

lemma store_steps_reachable:
  "store_steps env db db' \<Longrightarrow> store_reachable env db \<Longrightarrow> store_reachable env db'"
  by (induction rule: store_steps.induct) (auto intro: reach_step)

lemma terminal_result_final:
  assumes "store_steps env db db'" and "wire_lib_ok (pg_wire env)" and "store_inv env db"
    and "evaluation_of db k = Some e" and "ev_terminal_result e \<noteq> None"
  shows "evaluation_of db' k = Some e"
  using assms(1)
proof induction
  case steps_refl
  show ?case using assms(4) .
next
  case (steps_step db1 db2)
  have "store_inv env db1" using steps_step.hyps(1) assms(2,3) by (rule store_steps_inv)
  from evaluation_step [OF steps_step.hyps(2) this steps_step.IH] show ?case
    using assms(5) by (auto simp: evaluation_continues_def)
qed

lemma evaluation_steps:
  assumes "store_steps env db db'" and "wire_lib_ok (pg_wire env)" and "store_inv env db"
    and "evaluation_of db k = Some e"
  obtains e' where "evaluation_of db' k = Some e'"
    and "ev_initial_request e' = ev_initial_request e"
    and "ev_creation_idempotency_key e' = ev_creation_idempotency_key e"
proof -
  have "\<exists>e'. evaluation_of db' k = Some e' \<and> ev_initial_request e' = ev_initial_request e \<and>
      ev_creation_idempotency_key e' = ev_creation_idempotency_key e"
    using assms(1)
  proof induction
    case steps_refl
    then show ?case using assms(4) by blast
  next
    case (steps_step db1 db2)
    have inv: "store_inv env db1" using steps_step.hyps(1) assms(2,3) by (rule store_steps_inv)
    obtain e1 where e1: "evaluation_of db1 k = Some e1"
      "ev_initial_request e1 = ev_initial_request e"
      "ev_creation_idempotency_key e1 = ev_creation_idempotency_key e"
      using steps_step.IH by blast
    from evaluation_step [OF steps_step.hyps(2) inv e1(1)] show ?case
      using e1 by (auto simp: evaluation_continues_def)
  qed
  then show ?thesis using that by blast
qed

end
