(* ===== verification/Storage_Operations.thy ===== *)
theory Storage_Operations
  imports Storage_Lifecycle
begin

text \<open>
  The public operations of \<open>crates/openoj-storage\<close>.  Under every fate of its round trips an
  operation is a sequence of committed transactions, so what the transactions preserve, the
  operations preserve; the answers of the status query and of replays are computed from the
  invariant.
\<close>

section \<open>Operations are sequences of transactions\<close>

definition runs_steps :: "('q, 'r) pg_env \<Rightarrow> ('a, tables) sql \<Rightarrow> bool" where
  "runs_steps env m \<longleftrightarrow> (\<forall>s. store_steps env (ses_db s) (ses_db (snd (m s))))"

named_theorems steps_intros "operations that run committed transactions only"

lemma runs_return [steps_intros]: "runs_steps env (sql_return a)"
  by (simp add: runs_steps_def sql_return_def steps_refl)

lemma runs_lift [steps_intros]: "runs_steps env (sql_lift r)"
  by (simp add: runs_steps_def sql_lift_def steps_refl)

lemma runs_fail [steps_intros]: "runs_steps env (sql_fail e)"
  by (simp add: runs_steps_def sql_fail_def steps_refl)

lemma runs_fetch [steps_intros]: "runs_steps env (fetch q)"
  by (simp add: runs_steps_def fetch_def tick_def steps_refl)

lemma runs_then [steps_intros]:
  assumes m: "runs_steps env m" and f: "\<And>a. runs_steps env (f a)"
  shows "runs_steps env (sql_then m f)"
  unfolding runs_steps_def
proof
  fix s
  have 1: "store_steps env (ses_db s) (ses_db (snd (m s)))"
    using m by (simp add: runs_steps_def)
  show "store_steps env (ses_db s) (ses_db (snd (sql_then m f s)))"
  proof (cases "m s")
    case (Pair r s1)
    show ?thesis
    proof (cases r)
      case (Ok a)
      have "store_steps env (ses_db s1) (ses_db (snd (f a s1)))"
        using f [of a] by (simp add: runs_steps_def)
      then show ?thesis
        using 1 Pair Ok by (auto simp: sql_then_def intro: store_steps_trans)
    next
      case (Err e)
      then show ?thesis using 1 Pair by (simp add: sql_then_def)
    qed
  qed
qed

text \<open>A value the earlier part of the program has checked may be used by the later part.\<close>

lemma runs_lift_then [steps_intros]:
  "(\<And>a. r = Ok a \<Longrightarrow> runs_steps env (f a)) \<Longrightarrow> runs_steps env (sql_then (sql_lift r) f)"
  by (cases r) (auto simp: runs_steps_def sql_then_def sql_lift_def steps_refl)

lemma runs_transaction:
  assumes "\<And>db a db'. yields body db a db' \<Longrightarrow> current_attempt_fk db' \<Longrightarrow> store_step env db db'"
  shows "runs_steps env (transaction current_attempt_fk body)"
  unfolding runs_steps_def
proof
  fix s
  obtain r s' where run: "transaction current_attempt_fk body s = (r, s')" by force
  show "store_steps env (ses_db s) (ses_db (snd (transaction current_attempt_fk body s)))"
    by (rule transaction_cases [OF run])
      (use assms run in \<open>auto intro: store_steps_one steps_refl\<close>)
qed

lemma runs_option [steps_intros]:
  "runs_steps env m \<Longrightarrow> (\<And>x. runs_steps env (f x)) \<Longrightarrow>
     runs_steps env (case v of None \<Rightarrow> m | Some x \<Rightarrow> f x)"
  by (cases v) simp_all

lemma runs_pair [steps_intros]:
  "(\<And>x y. runs_steps env (f x y)) \<Longrightarrow> runs_steps env (case p of (x, y) \<Rightarrow> f x y)"
  by (cases p) simp

lemma runs_if [steps_intros]:
  "(b \<Longrightarrow> runs_steps env m) \<Longrightarrow> (\<not> b \<Longrightarrow> runs_steps env n) \<Longrightarrow>
     runs_steps env (if b then m else n)"
  by simp

lemma runs_status [steps_intros]: "runs_steps env (evaluation_status env k)"
  unfolding evaluation_status_def by (intro steps_intros)

lemma runs_create:
  "evaluation_request_ok (ce_request command) \<Longrightarrow> runs_steps env (create_evaluation env command)"
  unfolding create_evaluation_def corrupt_def
  by (intro steps_intros runs_transaction) (auto intro: step_create)

lemma runs_claim_with:
  "runs_steps env (claim_task_with_capabilities env locked command operation_id capabilities)"
  unfolding claim_task_with_capabilities_def
  by (intro steps_intros runs_transaction) (auto intro: step_claim)

lemma runs_claim: "runs_steps env (claim_task env locked command)"
  by (simp add: claim_task_def runs_claim_with)

lemma runs_judge_claim: "runs_steps env (judge_claim_task env locked command)"
  unfolding judge_claim_task_def claim_replay_def
  by (intro steps_intros runs_claim_with)

lemma runs_renew: "runs_steps env (judge_renew_lease command)"
  unfolding judge_renew_lease_def
  by (intro steps_intros runs_transaction) (auto intro: step_renew)

lemma runs_retry:
  "evaluation_request_ok (rx_request command) \<Longrightarrow> runs_steps env (retry_expired env command)"
  unfolding retry_expired_def corrupt_def
  by (intro steps_intros runs_transaction) (auto intro: step_retry)

lemma runs_submit:
  "evaluation_result_ok (sr_result command) \<Longrightarrow> runs_steps env (submit_result env command)"
  unfolding submit_result_def corrupt_def
  by (intro steps_intros runs_transaction) (auto intro: step_submit)

lemma runs_judge_submit:
  "evaluation_result_ok (js_result command) \<Longrightarrow> runs_steps env (judge_submit_result env command)"
  unfolding judge_submit_result_def
  by (intro steps_intros runs_submit) simp

lemma runs_cancel:
  "evaluation_result_ok (cx_result command) \<Longrightarrow> runs_steps env (cancel_evaluation env command)"
  unfolding cancel_evaluation_def corrupt_def
  by (intro steps_intros runs_transaction) (auto intro: step_cancel)

lemma runs_stepsD: "runs_steps env m \<Longrightarrow> m s = (r, s') \<Longrightarrow> store_steps env (ses_db s) (ses_db s')"
  by (auto simp: runs_steps_def dest: spec [of _ s])


section \<open>Status\<close>

lemma evaluation_state_from_as_str [simp]:
  "evaluation_state_from_str (EvaluationState_as_str s) = Ok s"
  by (cases s) (simp_all add: evaluation_state_from_str_def)

lemma attempt_state_from_as_str [simp]: "attempt_state_from_str (AttemptState_as_str s) = Ok s"
  by (cases s) (simp_all add: attempt_state_from_str_def)

lemma evaluation_state_name:
  assumes "evaluation_check e"
  obtains s where "ev_state e = EvaluationState_as_str s"
proof -
  have "\<exists>s. ev_state e = EvaluationState_as_str s"
    using assms unfolding evaluation_check_def
    by (metis EvaluationState_as_str.simps insertE singletonD)
  then show ?thesis using that by blast
qed

lemma attempt_state_name:
  assumes "attempt_check a"
  obtains s where "at_state a = AttemptState_as_str s"
proof -
  have "\<exists>s. at_state a = AttemptState_as_str s"
    using assms unfolding attempt_check_def
    by (metis AttemptState_as_str.simps insertE singletonD)
  then show ?thesis using that by blast
qed

lemma u32_try_from_i64_uint: "u32_try_from_i64 (uint n) = Some n" for n :: u32
proof -
  have "uint n < 2 ^ 32" using uint_bounded [of n] by simp
  then show ?thesis by (simp add: u32_try_from_i64_def)
qed

text \<open>The snapshot that the rows of an evaluation describe.\<close>

definition snapshot_for ::
  "evaluation_row \<Rightarrow> attempt_row \<Rightarrow> evaluation_snapshot \<Rightarrow> bool" where
  "snapshot_for e a snap \<longleftrightarrow>
     evaluation_id_str (snap_evaluation_id snap) = ev_evaluation_id e \<and>
     EvaluationState_as_str (snap_state snap) = ev_state e \<and>
     attempt_id_str (snap_current_attempt_id snap) = ev_current_attempt_id e \<and>
     uint (snap_attempt_number snap) = at_attempt_number a \<and>
     AttemptState_as_str (snap_attempt_state snap) = at_state a \<and>
     snap_terminal_result snap = (ev_terminal_result e \<noteq> None)"

lemma snapshot_of_ok:
  assumes inv: "store_inv env db" and e: "evaluation_of db k = Some e"
    and a: "attempt_of db (ev_current_attempt_id e) = Some a"
  obtains snap where "snapshot_of (pg_wire env) e a = Ok snap" and "snapshot_for e a snap"
proof -
  note checks = integrity_checks [OF store_inv_integrity [OF inv]]
  have ec: "evaluation_check e" and ac: "attempt_check a" using checks e a by blast+
  obtain es where es: "ev_state e = EvaluationState_as_str es" using ec by (rule evaluation_state_name)
  obtain as where as: "at_state a = AttemptState_as_str as" using ac by (rule attempt_state_name)
  have ek: "ev_evaluation_id e = k" and ak: "at_attempt_id a = ev_current_attempt_id e"
    using row_keys(1) [OF e] row_keys(2) [OF a] .
  obtain req where req: "decode_evaluation_request (pg_wire env) (at_request_payload a) = Ok req"
    "request_matches req k (ev_current_attempt_id e) (at_attempt_number a)"
    by (rule current_rows [OF inv e]) (use a in auto)
  have ids: "EvaluationId_parse k = Ok (EvaluationId k)"
    "AttemptId_parse (at_attempt_id a) = Ok (AttemptId (at_attempt_id a))"
    using ec ac ek by (simp_all add: evaluation_check_def attempt_check_def pg_id_def
        EvaluationId_parse_def AttemptId_parse_def parse_opaque_id_Ok_iff MAX_OPAQUE_ID_LENGTH_def)
  let ?snap = "\<lparr>snap_evaluation_id = EvaluationId k, snap_state = es,
    snap_current_attempt_id = AttemptId (at_attempt_id a),
    snap_attempt_number = req_attempt_number req, snap_attempt_state = as,
    snap_terminal_result = (ev_terminal_result e \<noteq> None)\<rparr>"
  have number: "at_attempt_number a = uint (req_attempt_number req)"
    using req(2) by (simp add: request_matches_def)
  have "snapshot_of (pg_wire env) e a = Ok ?snap"
    using req ids by (simp add: snapshot_of_def corrupt_def ek ak snapshot_def es as number
        u32_try_from_i64_uint)
  moreover have "snapshot_for e a ?snap"
    using ek ak by (simp add: snapshot_for_def es as number)
  ultimately show ?thesis using that by blast
qed

lemma status_calm:
  assumes inv: "store_inv env db" and e: "evaluation_of db (evaluation_id_str k) = Some e"
  obtains a snap where "attempt_of db (ev_current_attempt_id e) = Some a"
    and "evaluation_status env k (calm db) = (Ok snap, calm db)" and "snapshot_for e a snap"
proof -
  obtain a where a: "attempt_of db (ev_current_attempt_id e) = Some a"
    by (rule current_rows [OF inv e])
  obtain snap where snap: "snapshot_of (pg_wire env) e a = Ok snap" "snapshot_for e a snap"
    by (rule snapshot_of_ok [OF inv e a])
  have "evaluation_with_attempt (evaluation_id_str k) db = Some (e, a)"
    using e a by (simp add: evaluation_with_attempt_iff)
  then have "evaluation_status env k (calm db) = (Ok snap, calm db)"
    using snap by (simp add: evaluation_status_def calm_simps)
  then show ?thesis using a snap that by blast
qed


section \<open>Creation\<close>

lemma store_inv_fk:
  assumes inv: "store_inv env db"
  shows "current_attempt_fk db"
  unfolding current_attempt_fk_def list_all_iff
proof
  fix e assume "e \<in> set (db_evaluations db)"
  then have "evaluation_of db (ev_evaluation_id e) = Some e"
    using integrity_row(1) [OF store_inv_integrity [OF inv]] by blast
  then obtain a where a: "attempt_of db (ev_current_attempt_id e) = Some a"
    by (rule current_rows [OF inv])
  then show "ev_current_attempt_id e \<in> at_attempt_id ` set (db_attempts db)"
    using row_keys(2) [OF a] row_members(2) [OF a] by force
qed

lemma creation_row:
  assumes inv: "store_inv env db" and e: "evaluation_of db k = Some e"
  shows "sel ev_creation_idempotency_key (ev_creation_idempotency_key e) (db_evaluations db) = Some e"
  using store_inv_integrity [OF inv] row_members(1) [OF e]
  by (intro sel_distinct) (simp_all add: integrity_def evaluations_unique_def)

lemma create_replay:
  assumes inv: "store_inv env db" and e: "evaluation_of db k = Some e"
    and key: "ev_creation_idempotency_key e =
      idempotency_key_str (req_idempotency_key (ce_request command))"
    and enc: "encode_evaluation_request (pg_wire env) (ce_request command) = Ok (ev_initial_request e)"
  obtains a snap where "attempt_of db (ev_current_attempt_id e) = Some a"
    and "create_evaluation env command (calm db) = (Ok snap, calm db)" and "snapshot_for e a snap"
proof -
  have ek: "ev_evaluation_id e = k" by (rule row_keys(1) [OF e])
  have id: "EvaluationId_parse k = Ok (EvaluationId k)"
    using integrity_checks(1) [OF store_inv_integrity [OF inv] e] ek
    by (simp add: evaluation_check_def pg_id_def EvaluationId_parse_def parse_opaque_id_Ok_iff
        MAX_OPAQUE_ID_LENGTH_def)
  obtain a snap where a: "attempt_of db (ev_current_attempt_id e) = Some a"
    and status: "evaluation_status env (EvaluationId k) (calm db) = (Ok snap, calm db)"
    and snap: "snapshot_for e a snap"
    by (rule status_calm [OF inv, of "EvaluationId k" e]) (use e in auto)
  have "create_transaction env command (ev_initial_request e) (calm db) = (Ok (Some k), calm db)"
    using creation_row [OF inv e] ek
    by (simp add: create_transaction_def Let_def calm_simps key)
  then have "transaction current_attempt_fk (create_transaction env command (ev_initial_request e))
      (calm db) = (Ok (Some k), calm db)"
    by (rule calm_transaction) (rule store_inv_fk [OF inv])
  then have "create_evaluation env command (calm db) = (Ok snap, calm db)"
    by (simp add: create_evaluation_def calm_simps corrupt_def enc id status)
  then show ?thesis using that a snap by blast
qed

lemma status_same_db: "evaluation_status env k s = (r, s') \<Longrightarrow> ses_db s' = ses_db s"
  by (auto simp: evaluation_status_def sql_then_def fetch_def tick_def sql_fail_def sql_lift_def
      split: option.splits if_splits)

text \<open>A run that changed the store has created the evaluation, whatever it answered.\<close>

lemma create_changed:
  assumes run: "create_evaluation env command s = (r, s')"
    and inv: "store_inv env (ses_db s)" and ch: "ses_db s' \<noteq> ses_db s"
  obtains payload e where
    "encode_evaluation_request (pg_wire env) (ce_request command) = Ok payload"
    and "evaluation_of (ses_db s') (evaluation_id_str (req_evaluation_id (ce_request command))) = Some e"
    and "ev_initial_request e = payload"
    and "ev_creation_idempotency_key e =
      idempotency_key_str (req_idempotency_key (ce_request command))"
    and "evaluation_of (ses_db s) (evaluation_id_str (req_evaluation_id (ce_request command))) = None"
    and "ev_state e = ''queued''"
proof -
  let ?r = "ce_request command"
  obtain payload where enc: "encode_evaluation_request (pg_wire env) ?r = Ok payload"
    using run ch by (cases "encode_evaluation_request (pg_wire env) ?r")
      (auto simp: create_evaluation_def corrupt_def calm_simps)
  obtain r1 s1 where tx: "transaction current_attempt_fk (create_transaction env command payload) s = (r1, s1)"
    by force
  have s1: "ses_db s' = ses_db s1"
    using run tx by (auto simp: create_evaluation_def corrupt_def calm_simps enc
        split: result.splits option.splits dest: status_same_db)
  from tx show ?thesis
  proof (cases rule: transaction_cases)
    case (rollback e)
    then show ?thesis using ch s1 by simp
  next
    case (committed a)
    show ?thesis
    proof (rule create_effect [OF committed(1) store_inv_integrity [OF inv]])
      fix created_at
      assume "evaluation_created (ses_db s) ?r payload created_at (ses_db s1)"
      then show ?thesis
        using that [OF enc, of "new_evaluation_row ?r payload created_at"] s1
        by (simp add: evaluation_created_def Let_def new_evaluation_row_def)
    qed (use ch s1 in simp)
  qed
qed


section \<open>Results\<close>

text \<open>Every run of a submission: nothing, a replay, or the end of a leased attempt.\<close>

lemma submit_cases:
  assumes run: "submit_result env command s = (r, s')" and inv: "store_inv env (ses_db s)"
    and now: "unix_millis_ok (sr_now command)"
  obtains (failed) e where "r = Err e" and "ses_db s' = ses_db s"
  | (replayed) payload e where "ses_db s' = ses_db s"
      and "encode_evaluation_result (pg_wire env) (sr_result command) = Ok payload"
      and "evaluation_of (ses_db s) (evaluation_id_str
             (idn_evaluation_id (res_identity (sr_result command)))) = Some e"
      and "ev_terminal_result e = Some payload"
      and "ev_result_idempotency_key e = Some (idempotency_key_str (sr_idempotency_key command))"
  | (accepted) payload e a request where
      "encode_evaluation_result (pg_wire env) (sr_result command) = Ok payload"
      and "evaluation_of (ses_db s) (evaluation_id_str
             (idn_evaluation_id (res_identity (sr_result command)))) = Some e"
      and "attempt_of (ses_db s) (ev_current_attempt_id e) = Some a"
      and "ev_terminal_result e = None"
      and "holds_lease e a (attempt_id_str (idn_attempt_id (res_identity (sr_result command))))
             (lease_token_str (sr_lease_token command)) (millis (sr_now command))"
      and "decode_evaluation_request (pg_wire env) (at_request_payload a) = Ok request"
      and "EvaluationIdentity_from_request request = res_identity (sr_result command)"
      and "becomes_terminal (ses_db s) e (EvaluationStatus_as_str (res_status (sr_result command)))
             (if res_status (sr_result command) = EvaluationStatus_Cancelled
              then ''cancelled'' else ''completed'')
             payload (idempotency_key_str (sr_idempotency_key command)) (millis (sr_now command))
             (ses_db s')"
proof (cases "encode_evaluation_result (pg_wire env) (sr_result command)")
  case (Err e)
  then show ?thesis
    using run failed by (auto simp: submit_result_def corrupt_def calm_simps)
next
  case (Ok payload)
  obtain r1 s1 where tx: "transaction current_attempt_fk
      (submit_transaction env command payload (millis (sr_now command))) s = (r1, s1)"
    by force
  have s1: "ses_db s' = ses_db s1" and r1: "\<And>e. r1 = Err e \<Longrightarrow> r = Err e"
    using run tx by (auto simp: submit_result_def corrupt_def calm_simps Ok
        i64_try_from_millis [OF now] split: result.splits dest: status_same_db)
  from tx show ?thesis
  proof (cases rule: transaction_cases)
    case (rollback e)
    then show ?thesis using failed r1 s1 by simp
  next
    case (committed a)
    show ?thesis
      by (rule submit_effect [OF committed(1) store_inv_integrity [OF inv]])
        (use Ok replayed [unfolded s1] accepted [unfolded s1] in blast)
  qed
qed

text \<open>A terminal evaluation answers a submission without a write.\<close>

lemma submit_terminal:
  assumes inv: "store_inv env db" and now: "unix_millis_ok (sr_now command)"
    and e: "evaluation_of db (evaluation_id_str
      (idn_evaluation_id (res_identity (sr_result command)))) = Some e"
    and b: "ev_terminal_result e = Some b"
    and enc: "encode_evaluation_result (pg_wire env) (sr_result command) = Ok payload"
  shows "submit_result env command (calm db) =
     (if ev_result_idempotency_key e \<noteq> Some (idempotency_key_str (sr_idempotency_key command))
      then (Err TerminalConflict, calm db)
      else if b \<noteq> payload then (Err IdempotencyConflict, calm db)
      else evaluation_status env (idn_evaluation_id (res_identity (sr_result command))) (calm db))"
proof -
  obtain a where a: "attempt_of db (ev_current_attempt_id e) = Some a"
    by (rule current_rows [OF inv e])
  let ?body = "submit_transaction env command payload (millis (sr_now command))"
  let ?key = "idempotency_key_str (sr_idempotency_key command)"
  have row: "evaluation_with_attempt (evaluation_id_str
      (idn_evaluation_id (res_identity (sr_result command)))) db = Some (e, a)"
    using e a by (simp add: evaluation_with_attempt_iff)
  have body: "?body (calm db) =
      (if ev_result_idempotency_key e \<noteq> Some ?key then Err TerminalConflict
       else if b \<noteq> payload then Err IdempotencyConflict else Ok (), calm db)"
    using row b by (simp add: submit_transaction_def Let_def calm_simps stored_terminal_def)
  have "transaction current_attempt_fk ?body (calm db) =
      (if ev_result_idempotency_key e \<noteq> Some ?key then Err TerminalConflict
       else if b \<noteq> payload then Err IdempotencyConflict else Ok (), calm db)"
    using calm_transaction [of ?body db "()" db current_attempt_fk] store_inv_fk [OF inv]
      calm_transaction_Err [of ?body db _ db current_attempt_fk]
    by (auto simp: body)
  then show ?thesis
    by (simp add: submit_result_def corrupt_def enc i64_try_from_millis [OF now] calm_simps)
qed

end
