(* ===== verification/Judge_Worker.thy ===== *)
theory Judge_Worker
  imports Evaluation_Pipeline Control_Policy Protocol_Request
begin

text \<open>
  \<open>crates/openoj-judge-core\<close>: the one-task worker of a judge node and its development executor,
  and \<open>crates/openoj-judge-protocol\<close>: the checks at the transport boundary.  The client traits
  are records of functions over a client state; \<open>control_contract\<close> states what a worker relies
  on when it calls one.
\<close>

section \<open>Transport checks\<close>

definition CLIENT_PROTOCOL_VERSION :: str where
  "CLIENT_PROTOCOL_VERSION = ''openoj.judge.control/v0alpha1''"

definition MAX_DECLARED_CAPABILITIES :: nat where "MAX_DECLARED_CAPABILITIES = 64"

datatype protocol_contract_error =
    UnsupportedVersion
  | ProtocolContractError_InvalidCapabilities
  | ProtocolContractError_MessageTooLarge
  | InvalidCanonicalPayload

definition validate_protocol_version :: "str \<Rightarrow> (unit, protocol_contract_error) result" where
  "validate_protocol_version version =
     (if version = CLIENT_PROTOCOL_VERSION then Ok () else Err UnsupportedVersion)"

definition validate_capabilities ::
  "str list \<Rightarrow> (capability list, protocol_contract_error) result" where
  "validate_capabilities capabilities =
     (if length capabilities > MAX_DECLARED_CAPABILITIES
      then Err ProtocolContractError_InvalidCapabilities
      else and_then (map_err (\<lambda>_. ProtocolContractError_InvalidCapabilities)
                       (traverse Capability_parse capabilities)) (\<lambda>parsed.
        if card (set parsed) \<noteq> length parsed
        then Err ProtocolContractError_InvalidCapabilities
        else Ok parsed))"

definition validate_canonical_request ::
  "('q, 'r) wire_lib \<Rightarrow> bytes \<Rightarrow> (unit, protocol_contract_error) result" where
  "validate_canonical_request lib input =
     (if length input > MAX_EVALUATION_REQUEST_BYTES
      then Err ProtocolContractError_MessageTooLarge
      else map_err (\<lambda>_. InvalidCanonicalPayload)
             (map_ok (\<lambda>_. ()) (decode_evaluation_request lib input)))"

lemma validate_protocol_version_Ok_iff [simp]:
  "validate_protocol_version v = Ok u \<longleftrightarrow> v = CLIENT_PROTOCOL_VERSION"
  by (simp add: validate_protocol_version_def)

lemma traverse_Capability_parse:
  "traverse Capability_parse texts = Ok cs \<longleftrightarrow>
     list_all (lower_token_ok MAX_CAPABILITY_LENGTH) texts \<and> cs = map Capability texts"
  by (induction texts arbitrary: cs) (auto simp: and_then_Ok_iff Capability_parse_Ok_iff)

lemma validate_capabilities_Ok_iff:
  "validate_capabilities texts = Ok cs \<longleftrightarrow>
     length texts \<le> MAX_DECLARED_CAPABILITIES \<and> distinct texts \<and>
     list_all (lower_token_ok MAX_CAPABILITY_LENGTH) texts \<and> cs = map Capability texts"
proof -
  have "card (set (map Capability texts)) = length (map Capability texts) \<longleftrightarrow> distinct texts"
    using card_distinct [of "map Capability texts"] distinct_card [of "map Capability texts"]
    by (auto simp: distinct_map inj_on_def)
  then show ?thesis
    by (auto simp: validate_capabilities_def and_then_Ok_iff traverse_Capability_parse
        simp del: set_map length_map)
qed

section \<open>Clients\<close>

datatype worker_claim = WorkerClaim_Lease task_lease | WorkerClaim_NoTask

datatype worker_outcome = Submitted | NoTask | Cancelled

datatype worker_error =
    WorkerError_Store store_error
  | WorkerError_Application application_error

text \<open>The trait \<open>JudgeControlClient\<close>, and \<open>AsyncJudgeControlClient\<close>, which adds \<open>renew\<close>.\<close>

record 'c judge_control_client =
  cl_claim :: "claim_operation_id \<Rightarrow> 'c \<Rightarrow> (worker_claim, store_error) result \<times> 'c"
  cl_submit :: "task_lease \<Rightarrow> result_operation_id \<Rightarrow> evaluation_result \<Rightarrow> 'c \<Rightarrow>
                  (unit, store_error) result \<times> 'c"

record 'c async_control_client = "'c judge_control_client" +
  cl_renew :: "task_lease \<Rightarrow> 'c \<Rightarrow> (judge_renew_directive, store_error) result \<times> 'c"

text \<open>The trait \<open>JudgeExecutor\<close> over an executor state.\<close>

type_synonym 'x judge_executor =
  "evaluation_request \<Rightarrow> 'x \<Rightarrow> (evaluation_result, application_error) result \<times> 'x"

definition run_once ::
  "('c, 'z) judge_control_client_scheme \<Rightarrow> 'x judge_executor \<Rightarrow> claim_operation_id \<Rightarrow>
     result_operation_id \<Rightarrow> 'c \<Rightarrow> 'x \<Rightarrow> (worker_outcome, worker_error) result \<times> 'c \<times> 'x" where
  "run_once client executor claim_operation_id result_operation_id c x =
     (case cl_claim client claim_operation_id c of
        (Err e, c1) \<Rightarrow> (Err (WorkerError_Store e), c1, x)
      | (Ok WorkerClaim_NoTask, c1) \<Rightarrow> (Ok NoTask, c1, x)
      | (Ok (WorkerClaim_Lease lease), c1) \<Rightarrow>
          (case executor (tl_request lease) x of
             (Err e, x1) \<Rightarrow> (Err (WorkerError_Application e), c1, x1)
           | (Ok result, x1) \<Rightarrow>
               (case cl_submit client lease result_operation_id result c1 of
                  (Err e, c2) \<Rightarrow> (Err (WorkerError_Store e), c2, x1)
                | (Ok _, c2) \<Rightarrow> (Ok Submitted, c2, x1))))"

definition run_once_async ::
  "'c async_control_client \<Rightarrow> 'x judge_executor \<Rightarrow> claim_operation_id \<Rightarrow>
     result_operation_id \<Rightarrow> 'c \<Rightarrow> 'x \<Rightarrow> (worker_outcome, worker_error) result \<times> 'c \<times> 'x" where
  "run_once_async client executor claim_operation_id result_operation_id c x =
     (case cl_claim client claim_operation_id c of
        (Err e, c1) \<Rightarrow> (Err (WorkerError_Store e), c1, x)
      | (Ok WorkerClaim_NoTask, c1) \<Rightarrow> (Ok NoTask, c1, x)
      | (Ok (WorkerClaim_Lease lease), c1) \<Rightarrow>
          (case cl_renew client lease c1 of
             (Err e, c2) \<Rightarrow> (Err (WorkerError_Store e), c2, x)
           | (Ok Directive_Cancel, c2) \<Rightarrow> (Ok Cancelled, c2, x)
           | (Ok (Directive_Continue expires_at), c2) \<Rightarrow>
               (case executor (tl_request lease) x of
                  (Err e, x1) \<Rightarrow> (Err (WorkerError_Application e), c2, x1)
                | (Ok result, x1) \<Rightarrow>
                    (case cl_submit client lease result_operation_id result c2 of
                       (Err e, c3) \<Rightarrow> (Err (WorkerError_Store e), c3, x1)
                     | (Ok _, c3) \<Rightarrow> (Ok Submitted, c3, x1)))))"

text \<open>
  What a worker relies on when it calls a client: every call keeps the invariant \<open>cinv\<close> of the
  control plane and only moves it forward along \<open>after\<close>, a claimed request is a valid request,
  and a submission that is acknowledged has been recorded.
\<close>

locale control_contract =
  fixes client :: "'c async_control_client" and cinv :: "'c \<Rightarrow> bool"
    and after :: "'c \<Rightarrow> 'c \<Rightarrow> bool" and recorded :: "'c \<Rightarrow> evaluation_result \<Rightarrow> bool"
  assumes claim_law: "cinv c \<Longrightarrow> cl_claim client operation c = (claimed, c') \<Longrightarrow>
      cinv c' \<and> after c c' \<and>
      (\<forall>lease. claimed = Ok (WorkerClaim_Lease lease) \<longrightarrow> evaluation_request_ok (tl_request lease))"
    and renew_law: "cinv c \<Longrightarrow> cl_renew client lease c = (renewed, c') \<Longrightarrow> cinv c' \<and> after c c'"
    and submit_law: "cinv c \<Longrightarrow> evaluation_result_ok r \<Longrightarrow>
      cl_submit client lease op r c = (submitted, c') \<Longrightarrow>
      cinv c' \<and> after c c' \<and> (submitted = Ok () \<longrightarrow> recorded c' r)"
    and after_trans: "after a b \<Longrightarrow> after b c \<Longrightarrow> after a c"

text \<open>
  What it relies on when it runs an executor: the executor stays in a sound state, and a result
  belongs to the request.  The pipeline over a typed stage executor is such an executor.
\<close>

locale judge_contract =
  fixes executor :: "'x judge_executor" and inv :: "'x \<Rightarrow> bool"
  assumes executor_law: "evaluation_request_ok request \<Longrightarrow> inv x \<Longrightarrow>
      executor request x = (outcome, x') \<Longrightarrow>
      inv x' \<and> (\<forall>q. outcome = Ok q \<longrightarrow> (\<exists>provenance. result_for request provenance q))"

sublocale typed_executor \<subseteq> judged: judge_contract "evaluate ex" inv
proof unfold_locales
  fix request x outcome x'
  assume "evaluation_request_ok request" and "inv x" and "evaluate ex request x = (outcome, x')"
  from evaluate_sound [OF this]
  show "inv x' \<and> (\<forall>q. outcome = Ok q \<longrightarrow> (\<exists>provenance. result_for request provenance q))"
    by (auto split: result.splits)
qed

text \<open>A worker: a client and an executor, each keeping its contract.\<close>

locale worker = control_contract client cinv after recorded + judge_contract executor inv
  for client :: "'c async_control_client" and cinv after recorded
    and executor :: "'x judge_executor" and inv
begin

lemma run_once_async_sound:
  assumes "cinv c" and "inv x"
    and run: "run_once_async client executor claim_op result_op c x = (r, c', x')"
  shows "cinv c' \<and> inv x' \<and> after c c'"
proof -
  obtain claimed c1 where claim: "cl_claim client claim_op c = (claimed, c1)" by force
  note l1 = claim_law [OF assms(1) claim]
  show ?thesis
  proof (cases "\<exists>lease. claimed = Ok (WorkerClaim_Lease lease)")
    case False
    then show ?thesis
      using run claim l1 assms(2)
      by (auto simp: run_once_async_def split: result.splits worker_claim.splits)
  next
    case True
    then obtain lease where lease: "claimed = Ok (WorkerClaim_Lease lease)" ..
    obtain renewed c2 where renew: "cl_renew client lease c1 = (renewed, c2)" by force
    obtain res x1 where exec: "executor (tl_request lease) x = (res, x1)" by force
    have l2: "cinv c2" "after c c2"
      using renew_law [OF _ renew] l1 after_trans [of c c1 c2] by auto
    have l3: "inv x1" "\<And>q. res = Ok q \<Longrightarrow> evaluation_result_ok q"
      using executor_law [OF _ assms(2) exec] l1 lease by (auto simp: result_for_def)
    show ?thesis
    proof (cases "\<exists>t q. renewed = Ok (Directive_Continue t) \<and> res = Ok q")
      case False
      then show ?thesis
        using run claim lease renew exec l2 l3 assms(2)
        by (auto simp: run_once_async_def split: result.splits judge_renew_directive.splits)
    next
      case True
      then obtain t q where tq: "renewed = Ok (Directive_Continue t)" "res = Ok q" by blast
      obtain submitted c3 where submit: "cl_submit client lease result_op q c2 = (submitted, c3)"
        by force
      have "cinv c3 \<and> after c c3"
        using submit_law [OF l2(1) l3(2) [OF tq(2)] submit] l2(2) after_trans [of c c2 c3] by blast
      then show ?thesis
        using run claim lease renew exec tq submit l3(1)
        by (auto simp: run_once_async_def split: result.splits)
    qed
  qed
qed

text \<open>
  A submission is acknowledged only for a claimed lease that the control plane told to continue,
  and then the recorded result is the evaluation of the claimed request.
\<close>

lemma run_once_async_submitted:
  assumes "cinv c" and "inv x"
    and run: "run_once_async client executor claim_op result_op c x = (Ok Submitted, c', x')"
  obtains lease c1 c2 t q provenance where
    "cl_claim client claim_op c = (Ok (WorkerClaim_Lease lease), c1)"
    and "cl_renew client lease c1 = (Ok (Directive_Continue t), c2)"
    and "executor (tl_request lease) x = (Ok q, x')"
    and "result_for (tl_request lease) provenance q" and "recorded c' q"
proof -
  from run obtain lease c1 c2 t q where claim: "cl_claim client claim_op c = (Ok (WorkerClaim_Lease lease), c1)"
    and renew: "cl_renew client lease c1 = (Ok (Directive_Continue t), c2)"
    and exec: "executor (tl_request lease) x = (Ok q, x')"
    and submit: "cl_submit client lease result_op q c2 = (Ok (), c')"
    by (auto simp: run_once_async_def
        split: result.splits prod.splits worker_claim.splits judge_renew_directive.splits)
  have l1: "cinv c1" "evaluation_request_ok (tl_request lease)"
    using claim_law [OF assms(1) claim] by auto
  obtain provenance where q: "result_for (tl_request lease) provenance q"
    using executor_law [OF l1(2) assms(2) exec] by auto
  have "recorded c' q"
    using submit_law [OF _ _ submit] renew_law [OF l1(1) renew] q by (auto simp: result_for_def)
  with claim renew exec q show ?thesis using that by blast
qed

end

section \<open>The development executor\<close>

record development_mock_executor =
  mock_node_id :: node_id

definition mock_decision :: "decision option" where
  "mock_decision =
     (case Score_new 1 1 of
        Ok score \<Rightarrow> (case Decision_new Verdict_Accepted score of Ok d \<Rightarrow> Some d | Err _ \<Rightarrow> None)
      | Err _ \<Rightarrow> None)"

definition mock_execute ::
  "development_mock_executor \<Rightarrow> evaluation_request \<Rightarrow> stage_kind \<Rightarrow>
     stage_execution \<times> development_mock_executor" where
  "mock_execute self request stage =
     (StageExecution_Succeeded ResourceUsage_default [] []
        (if stage = StageKind_Check then mock_decision else None), self)"

definition development_mock :: "development_mock_executor stage_executor" where
  "development_mock =
     \<lparr>ex_kind = (\<lambda>_. ExecutorKind_DevelopmentMock),
      ex_production_eligible = (\<lambda>_. False),
      ex_node_id = (\<lambda>self. Some (mock_node_id self)),
      ex_supports = (\<lambda>_ capability. capability_str capability = ''algorithm.batch''),
      ex_execute = mock_execute\<rparr>"

definition development_mock_judge :: "development_mock_executor judge_executor" where
  "development_mock_judge = evaluate development_mock"

lemma mock_decision_eq:
  "mock_decision = Some \<lparr>dec_verdict = Verdict_Accepted,
     dec_score = \<lparr>sco_earned = 1, sco_possible = 1\<rparr>\<rparr>"
  by (simp add: mock_decision_def Score_new_def Decision_new_def)

lemma mock_simps [simp]:
  "ex_kind development_mock m = ExecutorKind_DevelopmentMock"
  "ex_production_eligible development_mock m = False"
  "ex_node_id development_mock m = Some (mock_node_id m)"
  "ex_supports development_mock m c \<longleftrightarrow> capability_str c = ''algorithm.batch''"
  "ex_execute development_mock m request st =
     (StageExecution_Succeeded ResourceUsage_default [] []
        (if st = StageKind_Check
         then Some \<lparr>dec_verdict = Verdict_Accepted, dec_score = \<lparr>sco_earned = 1, sco_possible = 1\<rparr>\<rparr>
         else None), m)"
  by (simp_all add: development_mock_def mock_execute_def mock_decision_eq)

definition mock_inv :: "development_mock_executor \<Rightarrow> bool" where
  "mock_inv m \<longleftrightarrow> id_ok (node_id_str (mock_node_id m))"

interpretation mock_typed: typed_executor development_mock mock_inv
  by unfold_locales (auto simp: mock_inv_def outcome_ok_def decision_ok_def score_ok_def)

interpretation mock_lawful: lawful_executor development_mock mock_inv
  by unfold_locales auto

text \<open>The mock never fails a stage: on the capability it knows, everything is accepted.\<close>

lemma evaluate_mock:
  assumes "evaluation_request_ok request" and "mock_inv m"
    and "\<forall>c \<in> set (req_required_capabilities request). capability_str c = ''algorithm.batch''"
  shows "\<exists>r. evaluate development_mock request m = (Ok r, m) \<and>
     res_status r = EvaluationStatus_Completed \<and> res_verdict r = Verdict_Accepted \<and>
     \<not> prov_production_eligible (res_provenance r) \<and> evaluation_result_ok r"
proof -
  obtain res m' where run: "evaluate development_mock request m = (res, m')" by force
  have plan: "plan_stages (req_plan request) =
      [StageKind_Prepare, StageKind_Build, StageKind_Run, StageKind_Check, StageKind_Aggregate]"
    using assms(1)
    by (simp add: evaluation_request_ok_def evaluation_plan_ok_def ALGORITHM_BATCH_STAGES_def)
  have add: "ResourceUsage_checked_add ResourceUsage_default ResourceUsage_default =
      Ok ResourceUsage_default"
    by (simp add: checked_add_default)
  have caps: "\<not> list_ex (\<lambda>c. capability_str c \<noteq> ''algorithm.batch'') (req_required_capabilities request)"
    using assms(3) by (auto simp: list_ex_iff)
  have "\<exists>r. res = Ok r \<and> m' = m \<and> res_status r = EvaluationStatus_Completed \<and>
      res_verdict r = Verdict_Accepted \<and> \<not> prov_production_eligible (res_provenance r)"
    using run caps
    by (auto simp: evaluate_def plan ExecutionProvenance_new_def EvaluationRun_record_def
        classify_outcome_def validate_decision_location_def EvaluationRun_new_def add
        StageReport_new_def enforce_collection_limit_def EvaluationRun_finish_success_def
        EvaluationRun_finish_def build_result_def EvaluationResult_new_def MAX_STAGES_def
        MAX_RESULT_DIAGNOSTICS_def MAX_RESULT_EVIDENCE_def ALGORITHM_BATCH_STAGES_def
        EvaluationIdentity_from_request_def validate_terminal_semantics_def ensure_def)
  moreover from this run have "\<forall>r. res = Ok r \<longrightarrow> evaluation_result_ok r"
    using mock_typed.evaluate_sound [OF assms(1,2)] by (auto simp: result_for_def)
  ultimately show ?thesis using run by auto
qed

end
