(* ===== verification/Control_Service.thy ===== *)
theory Control_Service
  imports Storage_Operations Judge_Worker
begin

text \<open>
  \<open>apps/openoj-control-plane/src/lib.rs\<close>: the Judge Control service in front of the store.  A
  handler validates its message, authorises the node against the deployment policy, calls the
  store, and maps the store's errors to transport statuses.  The messages are those of the
  \<open>.proto\<close> file; the clock and the random source are inputs of each call.
\<close>

section \<open>Messages\<close>

datatype status_code =
    Code_InvalidArgument
  | Code_DeadlineExceeded
  | Code_NotFound
  | Code_AlreadyExists
  | Code_PermissionDenied
  | Code_FailedPrecondition
  | Code_Internal
  | Code_Unavailable
  | Code_Other

datatype status = Status (status_code: status_code) (status_message: str)

record negotiate_request =
  nr_version :: str
  nr_node_id :: str
  nr_capabilities :: "str list"

record negotiate_response =
  ns_accepted_version :: str
  ns_allowed_capabilities :: "str list"
  ns_lease_duration_ms :: u32
  ns_renew_after_ms :: u32
  ns_no_task_backoff_ms :: u32

record claim_request =
  cr_version :: str
  cr_node_id :: str
  cr_claim_operation_id :: str
  cr_capabilities :: "str list"

record leased_task =
  lt_evaluation_id :: str
  lt_attempt_id :: str
  lt_attempt_number :: u32
  lt_lease_token :: str
  lt_lease_expires_at_unix_ms :: u64
  lt_canonical_request :: bytes

datatype claim_response = Outcome_Leased leased_task | Outcome_NoTask u32 | Outcome_Unset

record renew_lease_request =
  rr_version :: str
  rr_node_id :: str
  rr_evaluation_id :: str
  rr_attempt_id :: str
  rr_lease_token :: str

datatype renew_lease_response = ContinueLease u64 u32 | CancelLease | Renew_Unset

record submit_result_request =
  sq_version :: str
  sq_node_id :: str
  sq_evaluation_id :: str
  sq_attempt_id :: str
  sq_lease_token :: str
  sq_result_operation_id :: str
  sq_canonical_result :: bytes

record snapshot_message =
  sm_evaluation_id :: str
  sm_state :: str
  sm_current_attempt_number :: u32

type_synonym submit_result_response = "snapshot_message option"

section \<open>The service\<close>

text \<open>A handler returns a response or a status, over a world it may change.\<close>

type_synonym ('a, 'w) rpc = "'w \<Rightarrow> ('a, status) result \<times> 'w"

definition rpc_lift :: "('a, status) result \<Rightarrow> ('a, 'w) rpc" where
  "rpc_lift r w = (r, w)"

definition rpc_then :: "('a, 'w) rpc \<Rightarrow> ('a \<Rightarrow> ('b, 'w) rpc) \<Rightarrow> ('b, 'w) rpc" where
  "rpc_then m f w = (case m w of (Ok a, w') \<Rightarrow> f a w' | (Err e, w') \<Rightarrow> (Err e, w'))"

text \<open>The answer of a store call as a value; the handler decides what an error means.\<close>

definition rpc_store :: "('a, 'db) sql \<Rightarrow> (('a, store_error) result, 'db session) rpc" where
  "rpc_store m s = (case m s of (r, s') \<Rightarrow> (Ok r, s'))"

definition reject :: "status_code \<Rightarrow> str \<Rightarrow> ('a, 'e) result \<Rightarrow> ('a, status) result" where
  "reject code message r = map_err (\<lambda>_. Status code message) r"

text \<open>
  The store is a handle to the database the handlers run on; the libraries behind it and behind
  the codec are the argument \<open>env\<close>.
\<close>

datatype store_handle = PostgresEvaluationStore

record judge_control_service =
  svc_store :: "store_handle option"
  svc_node_policy :: node_policy
  svc_lease_policy :: lease_policy

text \<open>What one call of the clock and one of the random source return.\<close>

record control_source =
  src_now :: "(unix_millis, status) result"
  src_lease_token :: "(lease_token, status) result"

text \<open>
  \<open>SystemControlSource\<close>: the milliseconds since the epoch when the clock is not before it, and
  the bytes of the random source.
\<close>

definition system_now :: "nat option \<Rightarrow> (unix_millis, status) result" where
  "system_now elapsed =
     and_then (ok_or elapsed (Status Code_Unavailable ''clock_unavailable'')) (\<lambda>millis.
       if millis \<ge> 2 ^ 64 then Err (Status Code_Unavailable ''clock_unavailable'')
       else reject Code_Unavailable ''clock_unavailable'' (UnixMillis_new (of_nat millis)))"

definition system_lease_token :: "draw \<Rightarrow> (lease_token, status) result" where
  "system_lease_token draw =
     and_then (ok_or draw (Status Code_Unavailable ''random_unavailable'')) (\<lambda>bs.
       reject Code_Internal ''lease_token_invalid''
         (LeaseToken_parse (''lease_'' @ hex_encode bs)))"

record node_session =
  ses_node_id :: node_id
  ses_capabilities :: "capability list"

fun map_node_policy_error :: "node_policy_error \<Rightarrow> status" where
  "map_node_policy_error IdentityDenied = Status Code_PermissionDenied ''identity_denied''"
| "map_node_policy_error CapabilityDenied = Status Code_PermissionDenied ''capability_denied''"
| "map_node_policy_error InvalidRenewSchedule = Status Code_Internal ''invalid_configuration''"
| "map_node_policy_error DuplicateNode = Status Code_Internal ''invalid_configuration''"
| "map_node_policy_error InvalidCapabilities = Status Code_Internal ''invalid_configuration''"

fun map_store_error :: "store_error \<Rightarrow> status" where
  "map_store_error NotFound = Status Code_NotFound ''evaluation_not_found''"
| "map_store_error NoTaskAvailable = Status Code_Unavailable ''no_task_available''"
| "map_store_error IdempotencyConflict = Status Code_AlreadyExists ''operation_conflict''"
| "map_store_error TerminalConflict = Status Code_AlreadyExists ''operation_conflict''"
| "map_store_error IdentityConflict = Status Code_FailedPrecondition ''lease_rejected''"
| "map_store_error LeaseConflict = Status Code_FailedPrecondition ''lease_rejected''"
| "map_store_error StaleLease = Status Code_FailedPrecondition ''lease_rejected''"
| "map_store_error InvalidTime = Status Code_FailedPrecondition ''state_rejected''"
| "map_store_error StoreError_InvalidTransition = Status Code_FailedPrecondition ''state_rejected''"
| "map_store_error IncompatibleSchema = Status Code_FailedPrecondition ''state_rejected''"
| "map_store_error CorruptData = Status Code_FailedPrecondition ''state_rejected''"
| "map_store_error Unavailable = Status Code_Unavailable ''storage_unavailable''"
| "map_store_error ImmutableReferenceConflict = Status Code_Internal ''storage_error''"

definition parse_and_authorize_node :: "node_policy \<Rightarrow> str \<Rightarrow> (node_id, status) result" where
  "parse_and_authorize_node node_policy value =
     and_then (reject Code_InvalidArgument ''invalid_message'' (NodeId_parse value)) (\<lambda>node_id.
     and_then (map_err map_node_policy_error (NodePolicy_authorize_identity node_policy node_id)) (\<lambda>_.
       Ok node_id))"

definition negotiate_session ::
  "judge_control_service \<Rightarrow> negotiate_request \<Rightarrow> (node_session, status) result" where
  "negotiate_session self request =
     and_then (reject Code_FailedPrecondition ''unsupported_version''
                 (validate_protocol_version (nr_version request))) (\<lambda>_.
     and_then (reject Code_InvalidArgument ''invalid_message'' (NodeId_parse (nr_node_id request)))
       (\<lambda>node_id.
     and_then (reject Code_InvalidArgument ''capability_denied''
                 (validate_capabilities (nr_capabilities request))) (\<lambda>capabilities.
     and_then (map_err map_node_policy_error
                 (NodePolicy_authorize (svc_node_policy self) node_id capabilities)) (\<lambda>_.
       Ok \<lparr>ses_node_id = node_id, ses_capabilities = capabilities\<rparr>))))"

definition service_store :: "judge_control_service \<Rightarrow> (store_handle, status) result" where
  "service_store self =
     ok_or (svc_store self) (Status Code_Unavailable ''control_plane_unavailable'')"

definition duration_ms :: "lease_duration \<Rightarrow> (u32, status) result" where
  "duration_ms d =
     (if unat (lease_duration_value d) < 2 ^ 32 then Ok (ucast (lease_duration_value d))
      else Err (Status Code_Internal ''invalid_configuration''))"

definition service_negotiate ::
  "judge_control_service \<Rightarrow> negotiate_request \<Rightarrow> (negotiate_response, status) result" where
  "service_negotiate self request =
     and_then (negotiate_session self request) (\<lambda>session.
     and_then (duration_ms (lp_lease_duration (svc_lease_policy self))) (\<lambda>lease_duration_ms.
     and_then (duration_ms (lp_renew_after (svc_lease_policy self))) (\<lambda>renew_after_ms.
       Ok \<lparr>ns_accepted_version = CLIENT_PROTOCOL_VERSION,
           ns_allowed_capabilities = map capability_str (ses_capabilities session),
           ns_lease_duration_ms = lease_duration_ms, ns_renew_after_ms = renew_after_ms,
           ns_no_task_backoff_ms = 500\<rparr>)))"

text \<open>
  The constructors \<open>new\<close> and \<open>with_store\<close>.
\<close>

definition JudgeControlService_new :: "node_policy \<Rightarrow> lease_policy \<Rightarrow> judge_control_service" where
  "JudgeControlService_new node_policy lease_policy =
     \<lparr>svc_store = None, svc_node_policy = node_policy, svc_lease_policy = lease_policy\<rparr>"

definition JudgeControlService_with_store ::
  "judge_control_service \<Rightarrow> store_handle \<Rightarrow> judge_control_service" where
  "JudgeControlService_with_store self store = self\<lparr>svc_store := Some store\<rparr>"

text \<open>\<open>locked\<close> is the set of task rows another session holds while the claim runs.\<close>

definition service_claim ::
  "('q, 'r) pg_env \<Rightarrow> judge_control_service \<Rightarrow> control_source \<Rightarrow> str set \<Rightarrow> claim_request \<Rightarrow>
     (claim_response, tables session) rpc" where
  "service_claim env self source locked request =
     rpc_then (rpc_lift (negotiate_session self
       \<lparr>nr_version = cr_version request, nr_node_id = cr_node_id request,
        nr_capabilities = cr_capabilities request\<rparr>)) (\<lambda>session.
     rpc_then (rpc_lift (reject Code_InvalidArgument ''invalid_message''
       (ClaimOperationId_parse (cr_claim_operation_id request)))) (\<lambda>operation_id.
     rpc_then (rpc_lift (service_store self)) (\<lambda>store.
     rpc_then (rpc_lift (src_lease_token source)) (\<lambda>lease_token.
     rpc_then (rpc_lift (src_now source)) (\<lambda>now.
     rpc_then (rpc_store (judge_claim_task env locked
       \<lparr>jc_node_id = ses_node_id session, jc_declared_capabilities = ses_capabilities session,
        jc_operation_id = operation_id, jc_lease_token = lease_token, jc_now = now,
        jc_lease_policy = svc_lease_policy self\<rparr>)) (\<lambda>claimed.
     case claimed of
       Err error \<Rightarrow>
         if error = NoTaskAvailable then rpc_lift (Ok (Outcome_NoTask 500))
         else rpc_lift (Err (map_store_error error))
     | Ok lease \<Rightarrow>
         rpc_then (rpc_lift (reject Code_Internal ''stored_request_invalid''
           (encode_evaluation_request (pg_wire env) (tl_request lease)))) (\<lambda>canonical_request.
         rpc_lift (Ok (Outcome_Leased
           \<lparr>lt_evaluation_id = evaluation_id_str (req_evaluation_id (tl_request lease)),
            lt_attempt_id = attempt_id_str (req_attempt_id (tl_request lease)),
            lt_attempt_number = req_attempt_number (tl_request lease),
            lt_lease_token = lease_token_str (tl_lease_token lease),
            lt_lease_expires_at_unix_ms = unix_millis_value (tl_expires_at lease),
            lt_canonical_request = canonical_request\<rparr>)))))))))"

definition service_renew_lease ::
  "judge_control_service \<Rightarrow> control_source \<Rightarrow> renew_lease_request \<Rightarrow>
     (renew_lease_response, tables session) rpc" where
  "service_renew_lease self source request =
     rpc_then (rpc_lift (reject Code_FailedPrecondition ''unsupported_version''
       (validate_protocol_version (rr_version request)))) (\<lambda>_.
     rpc_then (rpc_lift (parse_and_authorize_node (svc_node_policy self) (rr_node_id request)))
       (\<lambda>node_id.
     rpc_then (rpc_lift (service_store self)) (\<lambda>store.
     rpc_then (rpc_lift (reject Code_InvalidArgument ''invalid_message''
       (EvaluationId_parse (rr_evaluation_id request)))) (\<lambda>evaluation_id.
     rpc_then (rpc_lift (reject Code_InvalidArgument ''invalid_message''
       (AttemptId_parse (rr_attempt_id request)))) (\<lambda>attempt_id.
     rpc_then (rpc_lift (reject Code_InvalidArgument ''invalid_message''
       (LeaseToken_parse (rr_lease_token request)))) (\<lambda>lease_token.
     rpc_then (rpc_lift (src_now source)) (\<lambda>now.
     rpc_then (rpc_store (judge_renew_lease
       \<lparr>jr_node_id = node_id, jr_evaluation_id = evaluation_id, jr_attempt_id = attempt_id,
        jr_lease_token = lease_token, jr_now = now,
        jr_lease_policy = svc_lease_policy self\<rparr>)) (\<lambda>renewed.
     rpc_then (rpc_lift (map_err map_store_error renewed)) (\<lambda>directive.
     case directive of
       Directive_Continue expires_at \<Rightarrow>
         rpc_then (rpc_lift (duration_ms (lp_renew_after (svc_lease_policy self)))) (\<lambda>renew_after_ms.
         rpc_lift (Ok (ContinueLease (unix_millis_value expires_at) renew_after_ms)))
     | Directive_Cancel \<Rightarrow> rpc_lift (Ok CancelLease))))))))))"

definition service_submit_result ::
  "('q, 'r) pg_env \<Rightarrow> judge_control_service \<Rightarrow> control_source \<Rightarrow> submit_result_request \<Rightarrow>
     (submit_result_response, tables session) rpc" where
  "service_submit_result env self source request =
     rpc_then (rpc_lift (reject Code_FailedPrecondition ''unsupported_version''
       (validate_protocol_version (sq_version request)))) (\<lambda>_.
     rpc_then (rpc_lift (parse_and_authorize_node (svc_node_policy self) (sq_node_id request)))
       (\<lambda>node_id.
     rpc_then (rpc_lift (reject Code_InvalidArgument ''invalid_message''
       (EvaluationId_parse (sq_evaluation_id request)))) (\<lambda>evaluation_id.
     rpc_then (rpc_lift (reject Code_InvalidArgument ''invalid_message''
       (AttemptId_parse (sq_attempt_id request)))) (\<lambda>attempt_id.
     rpc_then (rpc_lift (reject Code_InvalidArgument ''invalid_canonical_result''
       (decode_evaluation_result_domain (pg_wire env) (sq_canonical_result request)))) (\<lambda>result.
     if idn_evaluation_id (res_identity result) \<noteq> evaluation_id \<or>
        idn_attempt_id (res_identity result) \<noteq> attempt_id
     then rpc_lift (Err (Status Code_InvalidArgument ''result_identity_mismatch''))
     else
     rpc_then (rpc_lift (service_store self)) (\<lambda>store.
     rpc_then (rpc_lift (reject Code_InvalidArgument ''invalid_message''
       (ResultOperationId_parse (sq_result_operation_id request)))) (\<lambda>operation_id.
     rpc_then (rpc_lift (reject Code_InvalidArgument ''invalid_message''
       (LeaseToken_parse (sq_lease_token request)))) (\<lambda>lease_token.
     rpc_then (rpc_lift (src_now source)) (\<lambda>now.
     rpc_then (rpc_store (judge_submit_result env
       \<lparr>js_node_id = node_id, js_operation_id = operation_id, js_lease_token = lease_token,
        js_result = result, js_now = now\<rparr>)) (\<lambda>submitted.
     rpc_then (rpc_lift (map_err map_store_error submitted)) (\<lambda>snapshot.
       rpc_lift (Ok (Some
         \<lparr>sm_evaluation_id = evaluation_id_str (snap_evaluation_id snapshot),
          sm_state = EvaluationState_as_str (snap_state snapshot),
          sm_current_attempt_number = snap_attempt_number snapshot\<rparr>)))))))))))))"

section \<open>Handlers run committed transactions\<close>

definition rpc_steps :: "('q, 'r) pg_env \<Rightarrow> ('a, tables session) rpc \<Rightarrow> bool" where
  "rpc_steps env m \<longleftrightarrow> (\<forall>s. store_steps env (ses_db s) (ses_db (snd (m s))))"

named_theorems rpc_intros "handlers that run committed transactions only"

lemma rpc_steps_lift [rpc_intros]: "rpc_steps env (rpc_lift r)"
  by (simp add: rpc_steps_def rpc_lift_def steps_refl)

lemma rpc_steps_store: "runs_steps env m \<Longrightarrow> rpc_steps env (rpc_store m)"
  by (simp add: rpc_steps_def rpc_store_def runs_steps_def split: prod.split)
    (metis snd_conv)

lemma rpc_steps_then [rpc_intros]:
  assumes "rpc_steps env m" and "\<And>a. rpc_steps env (f a)"
  shows "rpc_steps env (rpc_then m f)"
  unfolding rpc_steps_def
proof
  fix s
  obtain r s1 where m: "m s = (r, s1)" by force
  have 1: "store_steps env (ses_db s) (ses_db s1)"
    using assms(1) m by (auto simp: rpc_steps_def dest: spec [of _ s])
  show "store_steps env (ses_db s) (ses_db (snd (rpc_then m f s)))"
  proof (cases r)
    case (Ok a)
    have "store_steps env (ses_db s1) (ses_db (snd (f a s1)))"
      using assms(2) [of a] by (simp add: rpc_steps_def)
    with 1 show ?thesis using m Ok by (auto simp: rpc_then_def intro: store_steps_trans)
  qed (use 1 m in \<open>simp add: rpc_then_def\<close>)
qed

lemma rpc_steps_lift_then [rpc_intros]:
  "(\<And>a. r = Ok a \<Longrightarrow> rpc_steps env (f a)) \<Longrightarrow> rpc_steps env (rpc_then (rpc_lift r) f)"
  by (cases r) (auto simp: rpc_steps_def rpc_then_def rpc_lift_def steps_refl)

lemma rpc_steps_if [rpc_intros]:
  "(b \<Longrightarrow> rpc_steps env m) \<Longrightarrow> (\<not> b \<Longrightarrow> rpc_steps env n) \<Longrightarrow> rpc_steps env (if b then m else n)"
  by simp

lemma rpc_steps_result [rpc_intros]:
  "(\<And>a. rpc_steps env (f a)) \<Longrightarrow> (\<And>e. rpc_steps env (g e)) \<Longrightarrow>
     rpc_steps env (case r of Ok a \<Rightarrow> f a | Err e \<Rightarrow> g e)"
  by (cases r) simp_all

lemma rpc_steps_directive [rpc_intros]:
  "(\<And>t. rpc_steps env (f t)) \<Longrightarrow> rpc_steps env m \<Longrightarrow>
     rpc_steps env (case d of Directive_Continue t \<Rightarrow> f t | Directive_Cancel \<Rightarrow> m)"
  by (cases d) simp_all

lemma rpc_steps_claim: "rpc_steps env (service_claim env self source locked request)"
  unfolding service_claim_def by (intro rpc_intros rpc_steps_store runs_judge_claim)

lemma rpc_steps_renew: "rpc_steps env (service_renew_lease self source request)"
  unfolding service_renew_lease_def by (intro rpc_intros rpc_steps_store runs_renew)

lemma reject_Ok_iff [simp]: "reject code message r = Ok a \<longleftrightarrow> r = Ok a"
  by (simp add: reject_def)

lemma rpc_steps_submit: "rpc_steps env (service_submit_result env self source request)"
  unfolding service_submit_result_def
  by (intro rpc_intros rpc_steps_store runs_judge_submit)
    (auto dest: decode_result_domain_ok)

lemma rpc_stepsD:
  "rpc_steps env m \<Longrightarrow> m s = (r, s') \<Longrightarrow> store_steps env (ses_db s) (ses_db s')"
  by (auto simp: rpc_steps_def dest: spec [of _ s])

end
