(* ===== verification/Node_Client.thy ===== *)
theory Node_Client
  imports Control_Service
begin

text \<open>
  \<open>apps/openoj-judge-node/src/lib.rs\<close>: the client a judge node uses, which turns the messages of
  the Judge Control service back into domain values.  The gRPC channel is a record of functions;
  \<open>service_channel\<close> is the channel that reaches the service of \<open>Control_Service\<close>, where any request
  or response may be lost.  Over it the client keeps the worker's \<open>control_contract\<close>.
\<close>

section \<open>The client\<close>

datatype judge_node_error = InvalidConfiguration | IncompatibleServer | JudgeNodeError_Unavailable

record 'w control_channel =
  ch_negotiate :: "negotiate_request \<Rightarrow> (negotiate_response, 'w) rpc"
  ch_claim :: "claim_request \<Rightarrow> (claim_response, 'w) rpc"
  ch_renew_lease :: "renew_lease_request \<Rightarrow> (renew_lease_response, 'w) rpc"
  ch_submit_result :: "submit_result_request \<Rightarrow> (submit_result_response, 'w) rpc"

record uds_judge_control_client =
  uc_node_id :: node_id
  uc_capabilities :: "capability list"
  uc_lease_duration :: lease_duration
  uc_no_task_backoff_ms :: u32

fun map_status :: "status \<Rightarrow> store_error" where
  "map_status (Status Code_NotFound m) = NotFound"
| "map_status (Status Code_AlreadyExists m) = IdempotencyConflict"
| "map_status (Status Code_FailedPrecondition m) = StaleLease"
| "map_status (Status Code_PermissionDenied m) = StaleLease"
| "map_status (Status Code_Unavailable m) = Unavailable"
| "map_status (Status Code_DeadlineExceeded m) = Unavailable"
| "map_status (Status _ m) = CorruptData"

definition negotiated_ok :: "negotiate_response \<Rightarrow> capability list \<Rightarrow> bool" where
  "negotiated_ok response capabilities \<longleftrightarrow>
     \<not> (ns_accepted_version response \<noteq> CLIENT_PROTOCOL_VERSION \<or>
        length (ns_allowed_capabilities response) \<noteq> length capabilities \<or>
        ns_lease_duration_ms response = 0 \<or> ns_renew_after_ms response = 0 \<or>
        ns_renew_after_ms response > ns_lease_duration_ms response div 2 \<or>
        ns_no_task_backoff_ms response = 0) \<and>
     list_all (\<lambda>capability. list_ex (\<lambda>allowed. allowed = capability_str capability)
       (ns_allowed_capabilities response)) capabilities"

text \<open>\<open>reachable\<close> is whether the endpoint of the socket path accepts the connection.\<close>

definition UdsJudgeControlClient_connect ::
  "'w control_channel \<Rightarrow> bool \<Rightarrow> str \<Rightarrow> node_id \<Rightarrow> capability list \<Rightarrow> 'w \<Rightarrow>
     (uds_judge_control_client, judge_node_error) result \<times> 'w" where
  "UdsJudgeControlClient_connect channel reachable socket_path node_id capabilities w =
     (if \<not> (socket_path \<noteq> [] \<and> hd socket_path = CHR ''/'') \<or> capabilities = []
      then (Err InvalidConfiguration, w)
      else if \<not> reachable then (Err JudgeNodeError_Unavailable, w)
      else case ch_negotiate channel
          \<lparr>nr_version = CLIENT_PROTOCOL_VERSION, nr_node_id = node_id_str node_id,
           nr_capabilities = map capability_str capabilities\<rparr> w of
        (Err _, w') \<Rightarrow> (Err IncompatibleServer, w')
      | (Ok response, w') \<Rightarrow>
          if \<not> negotiated_ok response capabilities then (Err IncompatibleServer, w')
          else (and_then (map_err (\<lambda>_. IncompatibleServer)
                  (LeaseDuration_new (ucast (ns_lease_duration_ms response)))) (\<lambda>lease_duration.
                Ok \<lparr>uc_node_id = node_id, uc_capabilities = capabilities,
                    uc_lease_duration = lease_duration,
                    uc_no_task_backoff_ms = ns_no_task_backoff_ms response\<rparr>), w'))"

text \<open>The checks on a claimed task before it becomes a lease.\<close>

definition lease_of_response ::
  "('q, 'r) wire_lib \<Rightarrow> uds_judge_control_client \<Rightarrow> leased_task \<Rightarrow>
     (worker_claim, store_error) result" where
  "lease_of_response lib self leased =
     and_then (corrupt (decode_evaluation_request lib (lt_canonical_request leased))) (\<lambda>request.
     if evaluation_id_str (req_evaluation_id request) \<noteq> lt_evaluation_id leased \<or>
        attempt_id_str (req_attempt_id request) \<noteq> lt_attempt_id leased \<or>
        req_attempt_number request \<noteq> lt_attempt_number leased
     then Err IdentityConflict
     else
       and_then (corrupt (LeaseToken_parse (lt_lease_token leased))) (\<lambda>lease_token.
       and_then (corrupt (UnixMillis_new (lt_lease_expires_at_unix_ms leased))) (\<lambda>expires_at.
         Ok (WorkerClaim_Lease
           \<lparr>tl_request = request, tl_node_id = uc_node_id self, tl_lease_token = lease_token,
            tl_expires_at = expires_at\<rparr>))))"

definition client_claim ::
  "('q, 'r) wire_lib \<Rightarrow> 'w control_channel \<Rightarrow> uds_judge_control_client \<Rightarrow> claim_operation_id \<Rightarrow>
     'w \<Rightarrow> (worker_claim, store_error) result \<times> 'w" where
  "client_claim lib channel self operation_id w =
     (case ch_claim channel
         \<lparr>cr_version = CLIENT_PROTOCOL_VERSION, cr_node_id = node_id_str (uc_node_id self),
          cr_claim_operation_id = claim_operation_id_str operation_id,
          cr_capabilities = map capability_str (uc_capabilities self)\<rparr> w of
        (Err status, w') \<Rightarrow> (Err (map_status status), w')
      | (Ok (Outcome_NoTask _), w') \<Rightarrow> (Ok WorkerClaim_NoTask, w')
      | (Ok (Outcome_Leased leased), w') \<Rightarrow> (lease_of_response lib self leased, w')
      | (Ok Outcome_Unset, w') \<Rightarrow> (Err CorruptData, w'))"

definition client_renew ::
  "'w control_channel \<Rightarrow> uds_judge_control_client \<Rightarrow> task_lease \<Rightarrow> 'w \<Rightarrow>
     (judge_renew_directive, store_error) result \<times> 'w" where
  "client_renew channel self lease w =
     (case ch_renew_lease channel
         \<lparr>rr_version = CLIENT_PROTOCOL_VERSION, rr_node_id = node_id_str (uc_node_id self),
          rr_evaluation_id = evaluation_id_str (req_evaluation_id (tl_request lease)),
          rr_attempt_id = attempt_id_str (req_attempt_id (tl_request lease)),
          rr_lease_token = lease_token_str (tl_lease_token lease)\<rparr> w of
        (Err status, w') \<Rightarrow> (Err (map_status status), w')
      | (Ok (ContinueLease lease_expires_at renew_after), w') \<Rightarrow>
          (map_ok Directive_Continue (corrupt (UnixMillis_new lease_expires_at)), w')
      | (Ok CancelLease, w') \<Rightarrow> (Ok Directive_Cancel, w')
      | (Ok Renew_Unset, w') \<Rightarrow> (Err CorruptData, w'))"

definition client_submit ::
  "('q, 'r) wire_lib \<Rightarrow> 'w control_channel \<Rightarrow> uds_judge_control_client \<Rightarrow> task_lease \<Rightarrow>
     result_operation_id \<Rightarrow> evaluation_result \<Rightarrow> 'w \<Rightarrow> (unit, store_error) result \<times> 'w" where
  "client_submit lib channel self lease operation_id result w =
     (case corrupt (encode_evaluation_result lib result) of
        Err e \<Rightarrow> (Err e, w)
      | Ok canonical_result \<Rightarrow>
          (case ch_submit_result channel
              \<lparr>sq_version = CLIENT_PROTOCOL_VERSION, sq_node_id = node_id_str (uc_node_id self),
               sq_evaluation_id = evaluation_id_str (req_evaluation_id (tl_request lease)),
               sq_attempt_id = attempt_id_str (req_attempt_id (tl_request lease)),
               sq_lease_token = lease_token_str (tl_lease_token lease),
               sq_result_operation_id = result_operation_id_str operation_id,
               sq_canonical_result = canonical_result\<rparr> w of
             (Err status, w') \<Rightarrow> (Err (map_status status), w')
           | (Ok response, w') \<Rightarrow>
               (and_then (ok_or response CorruptData) (\<lambda>snapshot.
                if sm_evaluation_id snapshot \<noteq>
                     evaluation_id_str (req_evaluation_id (tl_request lease))
                then Err IdentityConflict else Ok ()), w')))"

definition uds_client ::
  "('q, 'r) wire_lib \<Rightarrow> 'w control_channel \<Rightarrow> uds_judge_control_client \<Rightarrow> 'w async_control_client"
where
  "uds_client lib channel self =
     \<lparr>cl_claim = client_claim lib channel self, cl_submit = client_submit lib channel self,
      cl_renew = client_renew channel self\<rparr>"

lemma uds_client_simps [simp]:
  "cl_claim (uds_client lib channel self) = client_claim lib channel self"
  "cl_submit (uds_client lib channel self) = client_submit lib channel self"
  "cl_renew (uds_client lib channel self) = client_renew channel self"
  by (simp_all add: uds_client_def)

section \<open>A channel to the service\<close>

datatype delivery = Delivered | RequestLost | ResponseLost

text \<open>
  The world of the channel: the database session, and for each call to come its fate, what the
  clock and the random source will return, and the tasks other sessions will have locked.  When
  the list is used up the service is gone.
\<close>

record control_world =
  wd_session :: "tables session"
  wd_calls :: "(delivery \<times> control_source \<times> str set) list"

definition call_lost :: status where
  "call_lost = Status Code_Unavailable ''transport error''"

definition deliver ::
  "(control_source \<Rightarrow> str set \<Rightarrow> ('a, tables session) rpc) \<Rightarrow> ('a, control_world) rpc" where
  "deliver handler w =
     (case wd_calls w of
        [] \<Rightarrow> (Err call_lost, w)
      | (delivery, source, locked) # calls \<Rightarrow>
          if delivery = RequestLost then (Err call_lost, w\<lparr>wd_calls := calls\<rparr>)
          else (case handler source locked (wd_session w) of (r, s) \<Rightarrow>
            (if delivery = ResponseLost then Err call_lost else r,
             w\<lparr>wd_session := s, wd_calls := calls\<rparr>)))"

definition service_channel ::
  "('q, 'r) pg_env \<Rightarrow> judge_control_service \<Rightarrow> control_world control_channel" where
  "service_channel env service =
     \<lparr>ch_negotiate = (\<lambda>request. deliver (\<lambda>_ _. rpc_lift (service_negotiate service request))),
      ch_claim = (\<lambda>request. deliver (\<lambda>source locked. service_claim env service source locked request)),
      ch_renew_lease = (\<lambda>request. deliver (\<lambda>source _. service_renew_lease service source request)),
      ch_submit_result =
        (\<lambda>request. deliver (\<lambda>source _. service_submit_result env service source request))\<rparr>"

lemma service_channel_simps [simp]:
  "ch_negotiate (service_channel env service) request =
     deliver (\<lambda>_ _. rpc_lift (service_negotiate service request))"
  "ch_claim (service_channel env service) claim =
     deliver (\<lambda>source locked. service_claim env service source locked claim)"
  "ch_renew_lease (service_channel env service) renew =
     deliver (\<lambda>source _. service_renew_lease service source renew)"
  "ch_submit_result (service_channel env service) submit =
     deliver (\<lambda>source _. service_submit_result env service source submit)"
  by (simp_all add: service_channel_def)

definition world_db :: "control_world \<Rightarrow> tables" where
  "world_db w = ses_db (wd_session w)"

lemma deliver_steps:
  assumes "\<And>source locked. rpc_steps env (handler source locked)" and "deliver handler w = (r, w')"
  shows "store_steps env (world_db w) (world_db w')"
proof (cases "wd_calls w")
  case Nil
  then show ?thesis using assms(2) by (simp add: deliver_def steps_refl)
next
  case (Cons call calls)
  obtain d source locked where call: "call = (d, source, locked)" by (cases call)
  obtain r1 s1 where h: "handler source locked (wd_session w) = (r1, s1)" by force
  have "store_steps env (world_db w) (ses_db s1)"
    using rpc_stepsD [OF assms(1) h] by (simp add: world_db_def)
  then show ?thesis
    using assms(2) by (auto simp: deliver_def Cons call h world_db_def steps_refl split: if_splits)
qed

lemma deliver_Ok:
  assumes "deliver handler w = (Ok a, w')"
  obtains source locked where "handler source locked (wd_session w) = (Ok a, wd_session w')"
  using assms by (auto simp: deliver_def split: list.splits prod.splits if_splits)

section \<open>What an acknowledged submission means\<close>

text \<open>The evaluation of a result holds it as its terminal result.\<close>

definition result_recorded :: "('q, 'r) pg_env \<Rightarrow> tables \<Rightarrow> evaluation_result \<Rightarrow> bool" where
  "result_recorded env db r \<longleftrightarrow>
     (\<exists>e payload. evaluation_of db (evaluation_id_str (idn_evaluation_id (res_identity r))) = Some e \<and>
        ev_terminal_result e = Some payload \<and>
        decode_evaluation_result_domain (pg_wire env) payload = Ok r)"

lemma submit_recorded:
  assumes run: "submit_result env command s = (Ok snap, s')" and inv: "store_inv env (ses_db s)"
    and now: "unix_millis_ok (sr_now command)" and lib: "wire_lib_ok (pg_wire env)"
    and ok: "evaluation_result_ok (sr_result command)"
  shows "result_recorded env (ses_db s') (sr_result command)"
  using run inv now
proof (cases rule: submit_cases)
  case (failed e)
  then show ?thesis by simp
next
  case (replayed payload e)
  then show ?thesis
    using decode_encode_result [OF lib ok replayed(2)] by (auto simp: result_recorded_def)
next
  case (accepted payload e a request)
  note ch = accepted(8) [unfolded becomes_terminal_def]
  have "evaluation_of (ses_db s') (ev_evaluation_id e) =
      map_option (terminal_evaluation (EvaluationStatus_as_str (res_status (sr_result command)))
        payload (idempotency_key_str (sr_idempotency_key command)) (millis (sr_now command)))
        (evaluation_of (ses_db s) (ev_evaluation_id e))"
    using row_changesD(1) [OF ch, of "ev_evaluation_id e"] by simp
  then show ?thesis
    using accepted(2) row_keys(1) [OF accepted(2)] decode_encode_result [OF lib ok accepted(1)]
    by (auto simp: result_recorded_def terminal_evaluation_def)
qed

definition source_ok :: "control_source \<Rightarrow> bool" where
  "source_ok source \<longleftrightarrow> (\<forall>t. src_now source = Ok t \<longrightarrow> unix_millis_ok t)"

lemma system_now_ok: "system_now elapsed = Ok t \<Longrightarrow> unix_millis_ok t"
  by (auto simp: system_now_def and_then_Ok_iff split: if_splits dest: UnixMillis_new_ok)

lemma rpc_then_Ok:
  "rpc_then m f w = (Ok b, w') \<longleftrightarrow> (\<exists>a w1. m w = (Ok a, w1) \<and> f a w1 = (Ok b, w'))"
  by (auto simp: rpc_then_def split: prod.splits result.splits)

lemma rpc_lift_Ok [simp]: "rpc_lift r w = (Ok b, w') \<longleftrightarrow> r = Ok b \<and> w' = w"
  by (auto simp: rpc_lift_def)

lemma rpc_store_Ok [simp]: "rpc_store m s = (Ok r, s') \<longleftrightarrow> m s = (r, s')"
  by (auto simp: rpc_store_def split: prod.splits)

lemma judge_submit_Ok:
  assumes "judge_submit_result env command s = (Ok snap, s')"
  shows "\<exists>key. submit_result env
      \<lparr>sr_idempotency_key = key, sr_lease_token = js_lease_token command,
       sr_result = js_result command, sr_now = js_now command\<rparr> (tick s) = (Ok snap, s')"
  using assms
  by (auto simp: judge_submit_result_def sql_then_def fetch_def sql_lift_def sql_fail_def
      split: if_splits result.splits prod.splits option.splits)

lemma service_submit_recorded:
  assumes run: "service_submit_result env service source request s = (Ok response, s')"
    and inv: "store_inv env (ses_db s)" and lib: "wire_lib_ok (pg_wire env)" and src: "source_ok source"
    and dec: "decode_evaluation_result_domain (pg_wire env) (sq_canonical_result request) = Ok r"
  shows "result_recorded env (ses_db s') r"
proof -
  obtain node op token now snap where submit: "judge_submit_result env
      \<lparr>js_node_id = node, js_operation_id = op, js_lease_token = token, js_result = r,
       js_now = now\<rparr> s = (Ok snap, s')" and now: "src_now source = Ok now"
    using run by (auto simp: service_submit_result_def rpc_then_Ok dec split: if_splits)
  obtain key where s1: "submit_result env
      \<lparr>sr_idempotency_key = key, sr_lease_token = token, sr_result = r, sr_now = now\<rparr> (tick s) =
      (Ok snap, s')"
    using judge_submit_Ok [OF submit] by auto
  show ?thesis
    using submit_recorded [OF s1] inv lib src now decode_result_domain_ok [OF dec]
    by (simp add: source_ok_def tick_def)
qed

section \<open>The contract over the service\<close>

text \<open>
  The control plane the client talks to: libraries that behave, a store that satisfies its
  invariant, and clocks that return timestamps.
\<close>

definition control_inv :: "('q, 'r) pg_env \<Rightarrow> control_world \<Rightarrow> bool" where
  "control_inv env w \<longleftrightarrow>
     wire_lib_ok (pg_wire env) \<and> store_inv env (world_db w) \<and>
     list_all (\<lambda>(d, source, locked). source_ok source) (wd_calls w)"

lemma deliver_calls:
  "deliver handler w = (r, w') \<Longrightarrow> list_all P (wd_calls w) \<Longrightarrow> list_all P (wd_calls w')"
  by (auto simp: deliver_def split: list.splits prod.splits if_splits)

lemma deliver_keeps:
  assumes "\<And>source locked. rpc_steps env (handler source locked)" and run: "deliver handler w = (r, w')"
    and inv: "control_inv env w"
  shows "control_inv env w' \<and> store_steps env (world_db w) (world_db w')"
proof -
  have steps: "store_steps env (world_db w) (world_db w')"
    using assms(1) run by (rule deliver_steps)
  then show ?thesis
    using inv store_steps_inv [OF steps] deliver_calls [OF run] by (simp add: control_inv_def)
qed

lemma lease_of_response_ok:
  "lease_of_response lib self leased = Ok (WorkerClaim_Lease lease) \<Longrightarrow>
     evaluation_request_ok (tl_request lease)"
  by (auto simp: lease_of_response_def and_then_Ok_iff corrupt_def split: if_splits
      dest: decode_evaluation_request_ok)

lemma client_claim_law:
  assumes "control_inv env w"
    and run: "client_claim (pg_wire env) (service_channel env service) self op w = (claimed, w')"
  shows "control_inv env w' \<and> store_steps env (world_db w) (world_db w') \<and>
    (\<forall>lease. claimed = Ok (WorkerClaim_Lease lease) \<longrightarrow> evaluation_request_ok (tl_request lease))"
proof -
  let ?rq = "\<lparr>cr_version = CLIENT_PROTOCOL_VERSION, cr_node_id = node_id_str (uc_node_id self),
      cr_claim_operation_id = claim_operation_id_str op,
      cr_capabilities = map capability_str (uc_capabilities self)\<rparr>"
  obtain r w1 where d: "deliver (\<lambda>source locked. service_claim env service source locked ?rq) w = (r, w1)"
    by force
  then have "w1 = w'"
    using run by (auto simp: client_claim_def split: result.splits claim_response.splits)
  with deliver_keeps [OF rpc_steps_claim d assms(1)] show ?thesis
    using run d by (auto simp: client_claim_def split: result.splits claim_response.splits
        dest: lease_of_response_ok)
qed

lemma client_renew_law:
  assumes "control_inv env w" and run: "client_renew (service_channel env service) self lease w = (r, w')"
  shows "control_inv env w' \<and> store_steps env (world_db w) (world_db w')"
proof -
  let ?rq = "\<lparr>rr_version = CLIENT_PROTOCOL_VERSION, rr_node_id = node_id_str (uc_node_id self),
      rr_evaluation_id = evaluation_id_str (req_evaluation_id (tl_request lease)),
      rr_attempt_id = attempt_id_str (req_attempt_id (tl_request lease)),
      rr_lease_token = lease_token_str (tl_lease_token lease)\<rparr>"
  obtain q w1 where d: "deliver (\<lambda>source _. service_renew_lease service source ?rq) w = (q, w1)"
    by force
  then have "w1 = w'"
    using run by (auto simp: client_renew_def split: result.splits renew_lease_response.splits)
  with deliver_keeps [OF rpc_steps_renew d assms(1)] show ?thesis by simp
qed

lemma client_submit_law:
  assumes inv: "control_inv env w" and ok: "evaluation_result_ok q"
    and run: "client_submit (pg_wire env) (service_channel env service) self lease op q w = (r, w')"
  shows "control_inv env w' \<and> store_steps env (world_db w) (world_db w') \<and>
    (r = Ok () \<longrightarrow> result_recorded env (world_db w') q)"
proof (cases "encode_evaluation_result (pg_wire env) q")
  case (Err e)
  then show ?thesis using run inv by (auto simp: client_submit_def corrupt_def steps_refl)
next
  case (Ok payload)
  let ?rq = "\<lparr>sq_version = CLIENT_PROTOCOL_VERSION, sq_node_id = node_id_str (uc_node_id self),
      sq_evaluation_id = evaluation_id_str (req_evaluation_id (tl_request lease)),
      sq_attempt_id = attempt_id_str (req_attempt_id (tl_request lease)),
      sq_lease_token = lease_token_str (tl_lease_token lease),
      sq_result_operation_id = result_operation_id_str op, sq_canonical_result = payload\<rparr>"
  obtain a w1 where d: "deliver (\<lambda>source _. service_submit_result env service source ?rq) w = (a, w1)"
    by force
  then have w1: "w1 = w'"
    using run Ok by (auto simp: client_submit_def corrupt_def split: result.splits)
  have "result_recorded env (world_db w') q" if acknowledged: "r = Ok ()"
  proof -
    obtain response where "a = Ok response"
      using acknowledged run Ok d by (auto simp: client_submit_def corrupt_def split: result.splits)
    then obtain source locked calls d0 where h: "wd_calls w = (d0, source, locked) # calls"
      "service_submit_result env service source ?rq (wd_session w) = (Ok response, wd_session w')"
      using d w1 by (auto simp: deliver_def split: list.splits prod.splits if_splits)
    show ?thesis
      using service_submit_recorded [OF h(2), of q] h(1) inv
        decode_encode_result [OF _ ok Ok]
      by (simp add: control_inv_def world_db_def)
  qed
  with deliver_keeps [OF rpc_steps_submit d inv] show ?thesis using w1 by simp
qed

interpretation uds_contract: control_contract
  "uds_client (pg_wire env) (service_channel env service) self" "control_inv env"
  "\<lambda>w w'. store_steps env (world_db w) (world_db w')" "\<lambda>w. result_recorded env (world_db w)"
  for env service self
proof
  show "store_steps env (world_db a) (world_db b) \<Longrightarrow> store_steps env (world_db b) (world_db c) \<Longrightarrow>
      store_steps env (world_db a) (world_db c)" for a b c
    by (rule store_steps_trans)
qed (auto dest: client_claim_law client_renew_law client_submit_law)

interpretation mock_worker: worker
  "uds_client (pg_wire env) (service_channel env service) self" "control_inv env"
  "\<lambda>w w'. store_steps env (world_db w) (world_db w')" "\<lambda>w. result_recorded env (world_db w)"
  "evaluate development_mock" mock_inv
  for env service self
  by unfold_locales

end
