(* ===== verification/Sample_Data.thy ===== *)
theory Sample_Data
  imports Node_Client
begin

text \<open>
  A concrete run of the system, which the theorems are applied to: a request, the libraries with
  a small table of documents, and a database in which the request has been created, claimed and
  finished by the development executor.
\<close>

section \<open>Values\<close>

definition demo_digest :: content_digest where
  "demo_digest = ContentDigest (''sha256:'' @ replicate 64 (CHR ''0''))"

definition demo_artifact :: artifact_ref where
  "demo_artifact = \<lparr>art_artifact_id = ArtifactId ''src'', art_digest = demo_digest,
     art_media_type = MediaType ''text/plain'', art_size_bytes = 10,
     art_sensitivity = ArtifactSensitivity_Private\<rparr>"

definition demo_policy :: resource_policy where
  "demo_policy = \<lparr>pol_cpu_time_ms = 1000, pol_wall_time_ms = 2000, pol_memory_bytes = 4096,
     pol_output_bytes = 1024, pol_process_limit = 4, pol_network = NetworkPolicy_Denied\<rparr>"

definition demo_request :: evaluation_request where
  "demo_request =
     \<lparr>req_request_id = RequestId ''q'', req_idempotency_key = IdempotencyKey ''key'',
      req_evaluation_id = EvaluationId ''e'', req_attempt_id = AttemptId ''a1'',
      req_attempt_number = 1,
      req_problem_version = \<lparr>pv_problem_id = ProblemId ''p'',
        pv_problem_version_id = ProblemVersionId ''pv'', pv_digest = demo_digest\<rparr>,
      req_submission = \<lparr>sub_submission_id = SubmissionId ''s'', sub_source = demo_artifact\<rparr>,
      req_runtime = \<lparr>rt_runtime_id = RuntimeId ''rt'', rt_digest = demo_digest\<rparr>,
      req_plan = EvaluationPlan_algorithm_batch, req_policy = demo_policy,
      req_required_capabilities = [Capability ''algorithm.batch'']\<rparr>"

definition demo_mock :: development_mock_executor where
  "demo_mock = \<lparr>mock_node_id = NodeId ''n1''\<rparr>"

definition demo_report :: "stage_kind \<Rightarrow> stage_report" where
  "demo_report st = \<lparr>rep_stage = st, rep_status = StageStatus_Succeeded,
     rep_usage = ResourceUsage_default, rep_diagnostics = [], rep_evidence = []\<rparr>"

definition demo_result :: evaluation_result where
  "demo_result =
     \<lparr>res_identity = EvaluationIdentity_from_request demo_request,
      res_status = EvaluationStatus_Completed, res_verdict = Verdict_Accepted,
      res_score = \<lparr>sco_earned = 1, sco_possible = 1\<rparr>,
      res_stages = map demo_report ALGORITHM_BATCH_STAGES, res_usage = ResourceUsage_default,
      res_diagnostics = [], res_evidence = [],
      res_provenance = \<lparr>prov_executor_kind = ExecutorKind_DevelopmentMock,
        prov_production_eligible = False, prov_runtime_digest = demo_digest,
        prov_node_id = Some (NodeId ''n1'')\<rparr>\<rparr>"

lemma demo_digest_ok: "digest_ok (content_digest_str demo_digest)"
  by (simp add: demo_digest_def digest_ok_def is_lower_hex_def ascii_defs list_all_length)

lemma demo_ids_ok:
  "id_ok ''q''" "id_ok ''e''" "id_ok ''a1''" "id_ok ''p''" "id_ok ''pv''" "id_ok ''s''"
  "id_ok ''rt''" "id_ok ''src''" "id_ok ''n1''" "id_ok ''t1''" "id_ok ''op1''"
  "opaque_ok 128 ''key''" "opaque_ok 128 ''done''" "id_ok ''a2''" "opaque_ok 128 ''key2''"
  by (simp_all add: opaque_ok_def value_bounds ascii_defs is_separator_def)

lemma demo_media_type_ok: "media_type_ok ''text/plain''"
  unfolding media_type_ok_def
  by (rule exI [of _ "''text''"], rule exI [of _ "''plain''"])
    (simp add: is_media_type_byte_def ascii_defs)

lemma demo_capability_ok: "lower_token_ok MAX_CAPABILITY_LENGTH ''algorithm.batch''"
  by (simp add: lower_token_ok_def value_bounds is_separator_def is_lower_alnum_def ascii_defs)

lemma demo_request_ok: "evaluation_request_ok demo_request"
  using demo_ids_ok demo_digest_ok demo_media_type_ok demo_capability_ok
  by (simp add: evaluation_request_ok_def demo_request_def problem_version_ref_ok_def
      submission_ref_ok_def runtime_ref_ok_def demo_artifact_def artifact_ref_ok_def
      evaluation_plan_ok_def EvaluationPlan_algorithm_batch_def resource_policy_ok_def
      demo_policy_def evaluation_bounds value_bounds MAX_ARTIFACT_BYTES_def)

lemma demo_identity_ok: "evaluation_identity_ok (EvaluationIdentity_from_request demo_request)"
  by (rule EvaluationIdentity_from_request_ok [OF demo_request_ok])

lemma demo_result_ok: "evaluation_result_ok demo_result"
  using demo_ids_ok demo_digest_ok demo_identity_ok
  by (simp add: evaluation_result_ok_def demo_result_def score_ok_def demo_report_def
      ALGORITHM_BATCH_STAGES_def stage_report_ok_def MAX_RESULT_DIAGNOSTICS_def
      MAX_RESULT_EVIDENCE_def execution_provenance_ok_def terminal_shape_def o_def)
    (simp add: EvaluationIdentity_from_request_def demo_request_def)

lemma demo_mock_inv: "mock_inv demo_mock"
  using demo_ids_ok by (simp add: mock_inv_def demo_mock_def)

section \<open>Libraries\<close>

text \<open>
  The documents of a table, written as their index: every document is its own typed value and
  passes the schema.
\<close>

definition table_type :: "json list \<Rightarrow> json wire_type" where
  "table_type docs =
     \<lparr>from_slice = (\<lambda>b. case b of
        [i] \<Rightarrow> if unat i < length docs then Some (docs ! unat i) else None
      | _ \<Rightarrow> None),
      to_vec = (\<lambda>v. map_option (\<lambda>i. [of_nat i]) (position (\<lambda>d. d = v) docs)),
      from_value = Some, to_value = Some\<rparr>"

lemma table_type_ok: "length docs < 256 \<Longrightarrow> wire_type_ok p (table_type docs)"
  by (auto simp: wire_type_ok_def table_type_def unat_of_nat take_bit_nat_eq_self
      dest!: position_SomeD)

definition demo_second :: evaluation_request where
  "demo_second = demo_request\<lparr>req_idempotency_key := IdempotencyKey ''key2'',
     req_attempt_id := AttemptId ''a2'', req_attempt_number := 2\<rparr>"

definition demo_lib :: "(json, json) wire_lib" where
  "demo_lib =
     \<lparr>wl_validator = Some (\<lambda>_. True),
      wl_request = table_type [request_to_value demo_request, request_to_value demo_second],
      wl_result = table_type [result_to_value demo_result]\<rparr>"

definition demo_env :: "(json, json) pg_env" where
  "demo_env = \<lparr>pg_wire = demo_lib, pg_text_less = (<)\<rparr>"

lemma demo_second_ok: "evaluation_request_ok demo_second"
  using demo_request_ok demo_ids_ok
  by (simp add: evaluation_request_ok_def demo_second_def value_bounds)

lemma demo_documents: "request_to_value demo_request \<noteq> request_to_value demo_second"
proof
  assume "request_to_value demo_request = request_to_value demo_second"
  then have "(Ok demo_request :: (_, protocol_error) result) = Ok demo_second"
    using request_value_round_trip [OF demo_request_ok] request_value_round_trip [OF demo_second_ok]
    by metis
  then show False by (simp add: demo_second_def demo_request_def)
qed

lemma demo_lib_ok: "wire_lib_ok demo_lib" "wire_lib_ok (pg_wire demo_env)"
  by (simp_all add: wire_lib_ok_def demo_lib_def demo_env_def table_type_ok)

lemma demo_encode_request:
  "encode_evaluation_request demo_lib demo_request = Ok [0]"
  "encode_evaluation_request demo_lib demo_second = Ok [1]"
  using demo_documents demo_documents [symmetric]
  by (simp_all add: encode_evaluation_request_def encode_wire_def schema_validate_def demo_lib_def
      table_type_def ensure_size_def MAX_EVALUATION_REQUEST_BYTES_def)

lemma demo_decode_request:
  "decode_evaluation_request demo_lib [0] = Ok demo_request"
  "decode_evaluation_request demo_lib [1] = Ok demo_second"
  using decode_encode_request [OF demo_lib_ok(1) demo_request_ok demo_encode_request(1)]
    decode_encode_request [OF demo_lib_ok(1) demo_second_ok demo_encode_request(2)] by simp_all

lemma demo_totals: "usage_totals (res_stages demo_result) (res_usage demo_result)"
  by (simp add: usage_totals_def demo_result_def ALGORITHM_BATCH_STAGES_def demo_report_def
      ResourceUsage_default_def)

lemma demo_encode_result: "encode_evaluation_result demo_lib demo_result = Ok [0]"
  using validate_result_semantics_ok [OF demo_result_ok] demo_totals
  by (simp add: encode_evaluation_result_def Let_def encode_wire_def schema_validate_def
      demo_lib_def table_type_def ensure_size_def MAX_EVALUATION_RESULT_BYTES_def)

lemma demo_decode_result: "decode_evaluation_result_domain demo_lib [0] = Ok demo_result"
  by (rule decode_encode_result [OF demo_lib_ok(1) demo_result_ok demo_encode_result])

section \<open>A run of the store\<close>

definition demo_time :: "u64 \<Rightarrow> unix_millis" where
  "demo_time t = UnixMillis t"

definition demo_create :: create_evaluation where
  "demo_create = \<lparr>ce_request = demo_request, ce_created_at = UnixMillis 100\<rparr>"

definition demo_lease_policy :: lease_policy where
  "demo_lease_policy = \<lparr>lp_lease_duration = LeaseDuration 1000, lp_renew_after = LeaseDuration 400\<rparr>"

definition demo_claim :: judge_claim where
  "demo_claim = \<lparr>jc_node_id = NodeId ''n1'',
     jc_declared_capabilities = [Capability ''algorithm.batch''],
     jc_operation_id = ClaimOperationId ''op1'', jc_lease_token = LeaseToken ''t1'',
     jc_now = UnixMillis 200, jc_lease_policy = demo_lease_policy\<rparr>"

definition demo_submit :: submit_result where
  "demo_submit = \<lparr>sr_idempotency_key = IdempotencyKey ''done'', sr_lease_token = LeaseToken ''t1'',
     sr_result = demo_result, sr_now = UnixMillis 300\<rparr>"

definition demo_created :: tables where
  "demo_created =
     \<lparr>db_artifacts = [\<lparr>ar_artifact_id = ''src'', ar_digest = content_digest_str demo_digest,
        ar_media_type = ''text/plain'', ar_size_bytes = 10, ar_sensitivity = ''private''\<rparr>],
      db_problem_versions = [\<lparr>pr_problem_version_id = ''pv'', pr_problem_id = ''p'',
        pr_digest = content_digest_str demo_digest\<rparr>],
      db_submissions = [\<lparr>su_submission_id = ''s'', su_source_artifact_id = ''src''\<rparr>],
      db_runtimes = [\<lparr>rr_runtime_id = ''rt'', rr_digest = content_digest_str demo_digest\<rparr>],
      db_evaluations = [new_evaluation_row demo_request [0] 100],
      db_attempts = [new_attempt_row demo_request [0] 1 100],
      db_tasks = [new_task_row demo_request 100]\<rparr>"

definition demo_leased :: tables where
  "demo_leased = demo_created
     \<lparr>db_evaluations := [(new_evaluation_row demo_request [0] 100)
        \<lparr>ev_state := ''leased'', ev_updated_at_ms := 200\<rparr>],
      db_attempts := [lease_attempt ''n1'' ''t1'' 1200 (Some ''op1'') 200
        (new_attempt_row demo_request [0] 1 100)],
      db_tasks := [(new_task_row demo_request 100)
        \<lparr>ta_state := ''leased'', ta_updated_at_ms := 200\<rparr>]\<rparr>"

definition demo_finished :: tables where
  "demo_finished = demo_leased
     \<lparr>db_evaluations := [terminal_evaluation ''completed'' [0] ''done'' 300
        ((new_evaluation_row demo_request [0] 100)
           \<lparr>ev_state := ''leased'', ev_updated_at_ms := 200\<rparr>)],
      db_attempts := [terminal_attempt ''completed'' 300
        (lease_attempt ''n1'' ''t1'' 1200 (Some ''op1'') 200
          (new_attempt_row demo_request [0] 1 100))],
      db_tasks := [terminal_task ''completed'' 300 (new_task_row demo_request 100)]\<rparr>"

lemmas demo_rows = new_evaluation_row_def new_attempt_row_def new_task_row_def lease_attempt_def
  terminal_evaluation_def terminal_attempt_def terminal_task_def

lemma demo_fields:
  "evaluation_id_str (req_evaluation_id demo_request) = ''e''"
  "request_id_str (req_request_id demo_request) = ''q''"
  "idempotency_key_str (req_idempotency_key demo_request) = ''key''"
  "problem_version_id_str (pv_problem_version_id (req_problem_version demo_request)) = ''pv''"
  "problem_id_str (pv_problem_id (req_problem_version demo_request)) = ''p''"
  "pv_digest (req_problem_version demo_request) = demo_digest"
  "submission_id_str (sub_submission_id (req_submission demo_request)) = ''s''"
  "sub_source (req_submission demo_request) = demo_artifact"
  "runtime_id_str (rt_runtime_id (req_runtime demo_request)) = ''rt''"
  "rt_digest (req_runtime demo_request) = demo_digest"
  "attempt_id_str (req_attempt_id demo_request) = ''a1''"
  "req_attempt_number demo_request = 1"
  "map capability_str (req_required_capabilities demo_request) = [''algorithm.batch'']"
  by (simp_all add: demo_request_def)

lemma demo_capabilities_check: "valid_required_capabilities lt [''algorithm.batch'']"
  by (simp add: valid_required_capabilities_def pg_capability_ok_def is_lower_alnum_def ascii_defs)

lemmas demo_checks = evaluation_check_def attempt_check_def task_check_def time_bound_def
  MAX_TIME_MS_def pg_id_def checked_rows_def evaluations_unique_def attempts_unique_def
  tasks_unique_def claim_key_def insert_or_ignore_def

lemma demo_evaluation_check:
  "evaluation_check (new_evaluation_row demo_request [0] 100)"
  "attempt_check (new_attempt_row demo_request [0] 1 100)"
  "task_check lt (new_task_row demo_request 100)"
  using demo_ids_ok demo_capabilities_check
  by (simp_all add: demo_checks new_evaluation_row_def new_attempt_row_def new_task_row_def
      demo_fields value_bounds)

lemma demo_create_transaction:
  "create_transaction demo_env demo_create [0] (calm empty_tables) = (Ok None, calm demo_created)"
  using demo_ids_ok demo_digest_ok demo_evaluation_check
  by (simp add: create_transaction_def Let_def calm_simps demo_create_def demo_fields
      empty_tables_def register_artifact_def register_problem_version_def register_submission_def
      register_runtime_def insert_evaluation_def insert_attempt_def insert_task_def statement_defs
      artifact_check_def problem_version_check_def submission_check_def runtime_check_def pg_id_def
      demo_artifact_def ArtifactSensitivity_as_str_def i64_try_from_def insert_or_ignore_def
      sel_Cons checked_rows_def evaluations_unique_def attempts_unique_def tasks_unique_def
      demo_created_def value_bounds)
    (simp add: demo_rows demo_fields claim_key_def)

lemma demo_created_fk: "current_attempt_fk demo_created"
  by (simp add: current_attempt_fk_def demo_created_def demo_rows)

lemma demo_create_status:
  "\<exists>snap. evaluation_status demo_env (EvaluationId ''e'') (calm demo_created) = (Ok snap, calm demo_created)"
  by (simp add: evaluation_status_def calm_simps evaluation_with_attempt_def demo_created_def sel_Cons
      demo_rows demo_fields snapshot_of_def demo_env_def demo_decode_request corrupt_def
      request_matches_def snapshot_def evaluation_state_from_str_def attempt_state_from_str_def
      opaque_parse_defs parse_opaque_id_Ok [OF demo_ids_ok(2)] parse_opaque_id_Ok [OF demo_ids_ok(3)]
      u32_try_from_i64_def)

lemma demo_create_run:
  "\<exists>snap. create_evaluation demo_env demo_create (calm empty_tables) = (Ok snap, calm demo_created)"
proof -
  have "transaction current_attempt_fk (create_transaction demo_env demo_create [0]) (calm empty_tables) =
      (Ok None, calm demo_created)"
    by (intro calm_transaction demo_create_transaction demo_created_fk)
  moreover have "encode_evaluation_request (pg_wire demo_env) (ce_request demo_create) = Ok [0]"
    by (simp add: demo_env_def demo_create_def demo_encode_request)
  moreover have "req_evaluation_id (ce_request demo_create) = EvaluationId ''e''"
    by (simp add: demo_create_def demo_request_def)
  ultimately show ?thesis
    using demo_create_status by (simp add: create_evaluation_def calm_simps corrupt_def)
qed

lemma demo_steps_created: "store_steps demo_env empty_tables demo_created"
proof -
  obtain snap where run: "create_evaluation demo_env demo_create (calm empty_tables) = (Ok snap, calm demo_created)"
    using demo_create_run by blast
  have "runs_steps demo_env (create_evaluation demo_env demo_create)"
    by (rule runs_create) (simp add: demo_create_def demo_request_ok)
  from runs_stepsD [OF this run] show ?thesis by simp
qed

lemma demo_created_inv: "store_inv demo_env demo_created"
  by (rule store_steps_inv [OF demo_steps_created demo_lib_ok(2) store_inv_empty])

definition demo_task_lease :: task_lease where
  "demo_task_lease = \<lparr>tl_request = demo_request, tl_node_id = NodeId ''n1'',
     tl_lease_token = LeaseToken ''t1'', tl_expires_at = UnixMillis 1200\<rparr>"

lemma demo_lease_checks:
  "evaluation_check ((new_evaluation_row demo_request [0] 100)
     \<lparr>ev_state := ''leased'', ev_updated_at_ms := 200\<rparr>)"
  "attempt_check (lease_attempt ''n1'' ''t1'' 1200 (Some ''op1'') 200
     (new_attempt_row demo_request [0] 1 100))"
  "task_check lt ((new_task_row demo_request 100)\<lparr>ta_state := ''leased'', ta_updated_at_ms := 200\<rparr>)"
  using demo_ids_ok demo_capabilities_check
  by (simp_all add: demo_checks demo_rows demo_fields value_bounds)

lemma demo_select_task:
  "select_task lt {} (Some [''algorithm.batch'']) demo_created =
     Some (new_task_row demo_request 100, new_attempt_row demo_request [0] 1 100,
           new_evaluation_row demo_request [0] 100)"
  by (simp add: select_task_def task_join_def demo_created_def claimable_def demo_rows demo_fields)

lemma demo_claim_transaction:
  "claim_transaction demo_env {}
     \<lparr>ct_node_id = NodeId ''n1'', ct_lease_token = LeaseToken ''t1'', ct_now = UnixMillis 200,
      ct_lease_duration = LeaseDuration 1000\<rparr> (Some ''op1'') (Some [''algorithm.batch'']) 200 1200
     (calm demo_created) = (Ok demo_request, calm demo_leased)"
proof -
  have match: "request_matches demo_request ''e'' ''a1'' 1"
    by (simp add: request_matches_def demo_fields)
  show ?thesis
    using demo_lease_checks
    by (simp add: claim_transaction_def calm_simps demo_select_task Let_def demo_env_def
        corrupt_def)
      (simp add: demo_rows demo_fields demo_decode_request match calm_simps
        statement_defs demo_created_def upd_def checked_rows_def demo_leased_def
        evaluations_unique_def attempts_unique_def tasks_unique_def claim_key_def)
qed

lemma demo_leased_fk: "current_attempt_fk demo_leased"
  by (simp add: current_attempt_fk_def demo_leased_def demo_rows)

lemma demo_claim_run:
  "judge_claim_task demo_env {} demo_claim (calm demo_created) = (Ok demo_task_lease, calm demo_leased)"
proof -
  have expiry: "UnixMillis_checked_add (UnixMillis 200) (LeaseDuration 1000) = Ok (UnixMillis 1200)"
    by (simp add: UnixMillis_checked_add_def MAX_UNIX_MILLIS_def)
  have fresh: "select_claim ''op1'' demo_created = None"
    by (simp add: select_claim_def demo_created_def sel_Cons demo_rows)
  have commit: "transaction current_attempt_fk (claim_transaction demo_env {}
     \<lparr>ct_node_id = NodeId ''n1'', ct_lease_token = LeaseToken ''t1'', ct_now = UnixMillis 200,
      ct_lease_duration = LeaseDuration 1000\<rparr> (Some ''op1'') (Some [''algorithm.batch'']) 200 1200)
     (calm demo_created) = (Ok demo_request, calm demo_leased)"
    by (intro calm_transaction demo_claim_transaction demo_leased_fk)
  show ?thesis
    using commit
    by (simp add: judge_claim_task_def claim_replay_def calm_simps demo_claim_def fresh
        claim_task_with_capabilities_def demo_lease_policy_def expiry i64_try_from_def
        demo_task_lease_def)
qed

lemma demo_steps_leased: "store_steps demo_env demo_created demo_leased"
  using runs_stepsD [OF runs_judge_claim demo_claim_run] by simp

lemma demo_leased_inv: "store_inv demo_env demo_leased"
  by (rule store_steps_inv [OF demo_steps_leased demo_lib_ok(2) demo_created_inv])

lemma demo_finished_checks:
  "evaluation_check (terminal_evaluation ''completed'' [0] ''done'' 300
     ((new_evaluation_row demo_request [0] 100)\<lparr>ev_state := ''leased'', ev_updated_at_ms := 200\<rparr>))"
  "attempt_check (terminal_attempt ''completed'' 300 (lease_attempt ''n1'' ''t1'' 1200 (Some ''op1'') 200
     (new_attempt_row demo_request [0] 1 100)))"
  "task_check lt (terminal_task ''completed'' 300 (new_task_row demo_request 100))"
  using demo_ids_ok demo_capabilities_check
  by (simp_all add: demo_checks demo_rows demo_fields value_bounds)

lemma demo_result_identity:
  "res_identity demo_result = EvaluationIdentity_from_request demo_request"
  "evaluation_id_str (idn_evaluation_id (EvaluationIdentity_from_request demo_request)) = ''e''"
  "attempt_id_str (idn_attempt_id (EvaluationIdentity_from_request demo_request)) = ''a1''"
  "res_status demo_result = EvaluationStatus_Completed"
  by (simp_all add: demo_result_def EvaluationIdentity_from_request_def demo_fields)

lemma demo_submit_transaction:
  "submit_transaction demo_env demo_submit [0] 300 (calm demo_leased) = (Ok (), calm demo_finished)"
proof -
  have row: "evaluation_with_attempt ''e'' demo_leased =
      Some ((new_evaluation_row demo_request [0] 100)\<lparr>ev_state := ''leased'', ev_updated_at_ms := 200\<rparr>,
            lease_attempt ''n1'' ''t1'' 1200 (Some ''op1'') 200 (new_attempt_row demo_request [0] 1 100))"
    by (simp add: evaluation_with_attempt_def demo_leased_def sel_Cons demo_rows demo_fields)
  show ?thesis
    using demo_finished_checks
    by (simp add: submit_transaction_def Let_def calm_simps demo_submit_def demo_result_identity row
        stored_terminal_def)
      (simp add: Let_def demo_result_identity column_def corrupt_def demo_rows demo_fields demo_decode_request calm_simps write_terminal_def demo_env_def
        statement_defs upd_def checked_rows_def evaluations_unique_def attempts_unique_def
        tasks_unique_def claim_key_def demo_leased_def demo_created_def demo_finished_def)
qed

lemma demo_finished_fk: "current_attempt_fk demo_finished"
  by (simp add: current_attempt_fk_def demo_finished_def demo_rows)

lemma demo_submit_run:
  "\<exists>snap. submit_result demo_env demo_submit (calm demo_leased) = (Ok snap, calm demo_finished) \<and>
     snap_evaluation_id snap = EvaluationId ''e''"
proof -
  have commit: "transaction current_attempt_fk (submit_transaction demo_env demo_submit [0] 300)
      (calm demo_leased) = (Ok (), calm demo_finished)"
    by (intro calm_transaction demo_submit_transaction demo_finished_fk)
  have enc: "encode_evaluation_result (pg_wire demo_env) (sr_result demo_submit) = Ok [0]"
    by (simp add: demo_env_def demo_submit_def demo_encode_result)
  have "yields (submit_transaction demo_env demo_submit [0] 300) demo_leased () demo_finished"
    unfolding yields_def using demo_submit_transaction by blast
  moreover have "evaluation_result_ok (sr_result demo_submit)"
    by (simp add: demo_submit_def demo_result_ok)
  ultimately have "store_steps demo_env demo_leased demo_finished"
    using enc demo_finished_fk by (blast intro: store_steps_one step_submit)
  then have inv: "store_inv demo_env demo_finished"
    by (rule store_steps_inv [OF _ demo_lib_ok(2) demo_leased_inv])
  have "\<exists>e. evaluation_of demo_finished ''e'' = Some e"
    by (simp add: evaluation_of_def demo_finished_def sel_Cons demo_rows demo_fields)
  then obtain e where e: "evaluation_of demo_finished ''e'' = Some e" ..
  then obtain a snap where status: "evaluation_status demo_env (EvaluationId ''e'') (calm demo_finished) =
      (Ok snap, calm demo_finished)" and snap: "snapshot_for e a snap"
    using status_calm [OF inv, of "EvaluationId ''e''" e] by (metis evaluation_id.sel)
  have "idn_evaluation_id (res_identity demo_result) = EvaluationId ''e''"
    by (simp add: demo_result_identity EvaluationIdentity_from_request_def) (simp add: demo_request_def)
  moreover have "snap_evaluation_id snap = EvaluationId ''e''"
    using snap row_keys(1) [OF e] by (simp add: snapshot_for_def evaluation_id.expand)
  ultimately show ?thesis
    using commit enc status
    by (simp add: submit_result_def calm_simps corrupt_def demo_submit_def i64_try_from_def)
qed

lemma demo_steps_finished: "store_steps demo_env demo_leased demo_finished"
proof -
  have "runs_steps demo_env (submit_result demo_env demo_submit)"
    by (rule runs_submit) (simp add: demo_submit_def demo_result_ok)
  then show ?thesis using demo_submit_run runs_stepsD by fastforce
qed

lemma demo_finished_inv: "store_inv demo_env demo_finished"
  by (rule store_steps_inv [OF demo_steps_finished demo_lib_ok(2) demo_leased_inv])

definition demo_renew :: "u64 \<Rightarrow> judge_renew" where
  "demo_renew now = \<lparr>jr_node_id = NodeId ''n1'', jr_evaluation_id = EvaluationId ''e'',
     jr_attempt_id = AttemptId ''a1'', jr_lease_token = LeaseToken ''t1'', jr_now = UnixMillis now,
     jr_lease_policy = demo_lease_policy\<rparr>"

end
