(* ===== verification/Store_Commands.thy ===== *)
theory Store_Commands
  imports Sample_Data
begin

text \<open>
  The public operations of \<open>crates/openoj-storage\<close> as one command language, run one after the other
  on the database, each on a session with its own fates of the round trips.  What holds after
  every sequence of commands holds for every history of the store.
\<close>

section \<open>Recovery runs committed transactions\<close>

lemma parse_hex_ids:
  "next_attempt_id draw = Ok i \<Longrightarrow> id_ok (attempt_id_str i)"
  "next_idempotency_key draw = Ok k \<Longrightarrow> opaque_ok MAX_IDEMPOTENCY_KEY_LENGTH (idempotency_key_str k)"
  by (auto simp: next_attempt_id_def next_idempotency_key_def corrupt_def and_then_Ok_iff
      opaque_parse_defs parse_opaque_id_Ok_iff IdempotencyKey_parse_Ok_iff)

lemma next_request_ok:
  "next_request lib a attempt_draw key_draw = Ok r \<Longrightarrow> evaluation_request_ok r"
  by (auto simp: next_request_def corrupt_def and_then_Ok_iff
      dest!: decode_evaluation_request_ok parse_hex_ids intro: with_next_attempt_ok)

lemma fetch_same_db: "fetch q s = (r, s') \<Longrightarrow> ses_db s' = ses_db s"
  by (auto simp: fetch_def tick_def split: if_splits)

lemma recover_loop_steps:
  "recover_loop env now now_ms draws n s = (r, s') \<Longrightarrow> store_steps env (ses_db s) (ses_db s')"
proof (induction draws arbitrary: n s)
  case Nil
  then show ?case
    by (auto simp: steps_refl split: prod.splits result.splits option.splits dest!: fetch_same_db)
next
  case (Cons d draws)
  obtain d1 d2 where d: "d = (d1, d2)" by force
  obtain q s1 where f: "fetch (select_expired (pg_text_less env) now_ms) s = (q, s1)" by force
  note db1 = fetch_same_db [OF f]
  show ?case
  proof (cases "\<exists>e a next. q = Ok (Some (e, a)) \<and> next_request (pg_wire env) a d1 d2 = Ok next")
    case False
    then show ?thesis
      using Cons.prems d f db1
      by (auto simp: steps_refl split: prod.splits result.splits option.splits)
  next
    case True
    then obtain e a "next" where q: "q = Ok (Some (e, a))"
      and nx: "next_request (pg_wire env) a d1 d2 = Ok next" by blast
    obtain res s2 where re: "retry_expired env \<lparr>rx_request = next, rx_now = now\<rparr> s1 = (res, s2)"
      by force
    have "runs_steps env (retry_expired env \<lparr>rx_request = next, rx_now = now\<rparr>)"
      by (rule runs_retry) (use next_request_ok [OF nx] in simp)
    from runs_stepsD [OF this re] have st: "store_steps env (ses_db s) (ses_db s2)" using db1 by simp
    show ?thesis
      using Cons.prems Cons.IH [of _ s2] d f q nx re st
      by (auto split: result.splits if_splits intro: store_steps_trans)
  qed
qed

lemma recover_expired_steps:
  "recover_expired env now draws s = (r, s') \<Longrightarrow> store_steps env (ses_db s) (ses_db s')"
  by (auto simp: recover_expired_def steps_refl split: option.splits dest: recover_loop_steps)

section \<open>Commands\<close>

text \<open>
  A command with its inputs: the task rows locked by other sessions for a claim, the random draws
  for a recovery.
\<close>

datatype store_command =
  Cmd_Create create_evaluation
| Cmd_Status evaluation_id
| Cmd_Claim "str set" claim_task
| Cmd_JudgeClaim "str set" judge_claim
| Cmd_Renew judge_renew
| Cmd_Retry retry_expired
| Cmd_Recover unix_millis "(draw \<times> draw) list"
| Cmd_Submit submit_result
| Cmd_JudgeSubmit judge_submit_result
| Cmd_Cancel cancel_evaluation

fun run_command :: "('q, 'r) pg_env \<Rightarrow> store_command \<Rightarrow> tables session \<Rightarrow> tables session" where
  "run_command env (Cmd_Create c) s = snd (create_evaluation env c s)"
| "run_command env (Cmd_Status i) s = snd (evaluation_status env i s)"
| "run_command env (Cmd_Claim locked c) s = snd (claim_task env locked c s)"
| "run_command env (Cmd_JudgeClaim locked c) s = snd (judge_claim_task env locked c s)"
| "run_command env (Cmd_Renew c) s = snd (judge_renew_lease c s)"
| "run_command env (Cmd_Retry c) s = snd (retry_expired env c s)"
| "run_command env (Cmd_Recover now draws) s = snd (recover_expired env now draws s)"
| "run_command env (Cmd_Submit c) s = snd (submit_result env c s)"
| "run_command env (Cmd_JudgeSubmit c) s = snd (judge_submit_result env c s)"
| "run_command env (Cmd_Cancel c) s = snd (cancel_evaluation env c s)"

text \<open>The requests and results that commands carry are values of the domain types.\<close>

fun command_ok :: "store_command \<Rightarrow> bool" where
  "command_ok (Cmd_Create c) \<longleftrightarrow> evaluation_request_ok (ce_request c)"
| "command_ok (Cmd_Retry c) \<longleftrightarrow> evaluation_request_ok (rx_request c)"
| "command_ok (Cmd_Submit c) \<longleftrightarrow> evaluation_result_ok (sr_result c)"
| "command_ok (Cmd_JudgeSubmit c) \<longleftrightarrow> evaluation_result_ok (js_result c)"
| "command_ok (Cmd_Cancel c) \<longleftrightarrow> evaluation_result_ok (cx_result c)"
| "command_ok _ \<longleftrightarrow> True"

fun run_commands ::
  "('q, 'r) pg_env \<Rightarrow> (store_command \<times> link list) list \<Rightarrow> tables \<Rightarrow> tables" where
  "run_commands env [] db = db"
| "run_commands env ((c, links) # cs) db =
     run_commands env cs (ses_db (run_command env c \<lparr>ses_db = db, ses_link = links\<rparr>))"

lemma runs_steps_snd: "runs_steps env m \<Longrightarrow> store_steps env (ses_db s) (ses_db (snd (m s)))"
  by (simp add: runs_steps_def)

lemma run_command_steps:
  "command_ok c \<Longrightarrow> store_steps env (ses_db s) (ses_db (run_command env c s))"
proof (cases c)
  case (Cmd_Recover now draws)
  then show ?thesis
    using recover_expired_steps [of env now draws s] by (metis prod.collapse run_command.simps(7))
qed (simp_all add: runs_steps_snd runs_create runs_status runs_claim runs_judge_claim runs_renew
    runs_retry runs_submit runs_judge_submit runs_cancel)

lemma run_commands_steps:
  "list_all (\<lambda>(c, _). command_ok c) cs \<Longrightarrow> store_steps env db (run_commands env cs db)"
proof (induction cs arbitrary: db)
  case (Cons p cs)
  obtain c links where p: "p = (c, links)" by force
  have "store_steps env db (ses_db (run_command env c \<lparr>ses_db = db, ses_link = links\<rparr>))"
    using run_command_steps [of c env "\<lparr>ses_db = db, ses_link = links\<rparr>"] Cons.prems p by simp
  then show ?case using Cons p by (auto intro: store_steps_trans)
qed (simp add: steps_refl)

lemma run_commands_append:
  "run_commands env (cs @ ds) db = run_commands env ds (run_commands env cs db)"
  by (induction cs arbitrary: db) auto

text \<open>The run of the sample as commands.\<close>

definition demo_commands :: "(store_command \<times> link list) list" where
  "demo_commands =
     [(Cmd_Create demo_create, []), (Cmd_JudgeClaim {} demo_claim, []), (Cmd_Submit demo_submit, [])]"

lemma demo_commands_ok: "list_all (\<lambda>(c, _). command_ok c) demo_commands"
  by (simp add: demo_commands_def demo_create_def demo_submit_def demo_request_ok demo_result_ok)

lemma demo_commands_run: "run_commands demo_env demo_commands empty_tables = demo_finished"
proof -
  obtain s1 s2 where
    "create_evaluation demo_env demo_create (calm empty_tables) = (Ok s1, calm demo_created)"
    "submit_result demo_env demo_submit (calm demo_leased) = (Ok s2, calm demo_finished)"
    using demo_create_run demo_submit_run by blast
  then show ?thesis by (simp add: demo_commands_def demo_claim_run)
qed

lemma demo_distinct:
  "demo_created \<noteq> empty_tables" "demo_leased \<noteq> demo_created" "demo_finished \<noteq> demo_leased"
proof -
  have d: "map ev_state (db_evaluations x) \<noteq> map ev_state (db_evaluations y) \<Longrightarrow> x \<noteq> y" for x y
    by auto
  show "demo_created \<noteq> empty_tables" "demo_leased \<noteq> demo_created" "demo_finished \<noteq> demo_leased"
    by (rule d, simp add: demo_finished_def demo_leased_def demo_created_def empty_tables_def demo_rows)+
qed

end
