(* ===== verification/Store_Refinement.thy ===== *)
theory Store_Refinement
  imports Store_Commands
begin

text \<open>
  What the store promises, without rows: an evaluation is a domain state, the number of its current
  attempt and, once it is terminal, its result.  Every committed transaction is one step of this
  specification or leaves it unchanged.
\<close>

section \<open>The specification\<close>

record life =
  lf_state :: evaluation_state
  lf_number :: int
  lf_result :: "evaluation_result option"

type_synonym lives = "str \<Rightarrow> life option"

fun status_state :: "evaluation_status \<Rightarrow> evaluation_state" where
  "status_state EvaluationStatus_Completed = EvaluationState_Completed"
| "status_state EvaluationStatus_Failed = EvaluationState_Failed"
| "status_state EvaluationStatus_Cancelled = EvaluationState_Cancelled"

inductive life_step :: "lives \<Rightarrow> lives \<Rightarrow> bool" where
  life_create: "m k = None \<Longrightarrow> 1 \<le> n \<Longrightarrow>
     life_step m (m(k \<mapsto> \<lparr>lf_state = EvaluationState_Queued, lf_number = n, lf_result = None\<rparr>))"
| life_lease: "m k = Some \<lparr>lf_state = EvaluationState_Queued, lf_number = n, lf_result = None\<rparr> \<Longrightarrow>
     life_step m (m(k \<mapsto> \<lparr>lf_state = EvaluationState_Leased, lf_number = n, lf_result = None\<rparr>))"
| life_requeue: "m k = Some \<lparr>lf_state = EvaluationState_Leased, lf_number = n, lf_result = None\<rparr> \<Longrightarrow>
     life_step m (m(k \<mapsto> \<lparr>lf_state = EvaluationState_Queued, lf_number = n + 1, lf_result = None\<rparr>))"
| life_finish: "m k = Some \<lparr>lf_state = s, lf_number = n, lf_result = None\<rparr> \<Longrightarrow>
     s = EvaluationState_Leased \<or> s = EvaluationState_Queued \<and> res_status r = EvaluationStatus_Cancelled \<Longrightarrow>
     evaluation_result_ok r \<Longrightarrow> evaluation_id_str (idn_evaluation_id (res_identity r)) = k \<Longrightarrow>
     life_step m (m(k \<mapsto> \<lparr>lf_state = status_state (res_status r), lf_number = n, lf_result = Some r\<rparr>))"

inductive_cases life_stepE: "life_step m m'"

lemma status_state_str: "EvaluationState_as_str (status_state st) = EvaluationStatus_as_str st"
  by (cases st) simp_all

text \<open>The specification only takes transitions of the domain, and results are final in it.\<close>

lemma life_step_result:
  "life_step m m' \<Longrightarrow> m k = Some l \<Longrightarrow> lf_result l \<noteq> None \<Longrightarrow> m' k = Some l"
  by (auto elim!: life_stepE)

lemma life_step_moves:
  "life_step m m' \<Longrightarrow> m k = Some l \<Longrightarrow>
     \<exists>l'. m' k = Some l' \<and> lf_number l \<le> lf_number l' \<and>
       (lf_state l' = lf_state l \<or> is_ok (EvaluationState_transition_to (lf_state l) (lf_state l')))"
proof (induction rule: life_step.induct)
  case (life_finish m k' s n r)
  then show ?case
    by (cases "res_status r") (auto simp: EvaluationState_transition_to_def)
qed (auto simp: EvaluationState_transition_to_def)

section \<open>The abstraction\<close>

definition life_of :: "('q, 'r) pg_env \<Rightarrow> evaluation_row \<Rightarrow> attempt_row \<Rightarrow> life option" where
  "life_of env e a =
     (case (evaluation_state_from_str (ev_state e),
            case ev_terminal_result e of
              None \<Rightarrow> Ok None
            | Some b \<Rightarrow> map_ok Some (decode_evaluation_result_domain (pg_wire env) b)) of
        (Ok s, Ok r) \<Rightarrow> Some \<lparr>lf_state = s, lf_number = at_attempt_number a, lf_result = r\<rparr>
      | _ \<Rightarrow> None)"

definition abs_lives :: "('q, 'r) pg_env \<Rightarrow> tables \<Rightarrow> lives" where
  "abs_lives env db k =
     (case evaluation_of db k of
        None \<Rightarrow> None
      | Some e \<Rightarrow>
          (case attempt_of db (ev_current_attempt_id e) of None \<Rightarrow> None | Some a \<Rightarrow> life_of env e a))"

lemma abs_lives_row:
  "evaluation_of db k = Some e \<Longrightarrow> attempt_of db (ev_current_attempt_id e) = Some a \<Longrightarrow>
     abs_lives env db k = life_of env e a"
  by (simp add: abs_lives_def)

lemma life_of_live:
  "ev_state e = EvaluationState_as_str s \<Longrightarrow> ev_terminal_result e = None \<Longrightarrow>
     life_of env e a = Some \<lparr>lf_state = s, lf_number = at_attempt_number a, lf_result = None\<rparr>"
  by (simp add: life_of_def)

lemma life_of_queued:
  "ev_state e = ''queued'' \<Longrightarrow> ev_terminal_result e = None \<Longrightarrow> life_of env e a =
     Some \<lparr>lf_state = EvaluationState_Queued, lf_number = at_attempt_number a, lf_result = None\<rparr>"
  by (rule life_of_live) simp_all

lemma life_of_leased:
  "ev_state e = ''leased'' \<Longrightarrow> ev_terminal_result e = None \<Longrightarrow> life_of env e a =
     Some \<lparr>lf_state = EvaluationState_Leased, lf_number = at_attempt_number a, lf_result = None\<rparr>"
  by (rule life_of_live) simp_all

lemma life_of_terminal:
  "ev_state e = EvaluationStatus_as_str (res_status r) \<Longrightarrow> ev_terminal_result e = Some b \<Longrightarrow>
     decode_evaluation_result_domain (pg_wire env) b = Ok r \<Longrightarrow> life_of env e a =
     Some \<lparr>lf_state = status_state (res_status r), lf_number = at_attempt_number a, lf_result = Some r\<rparr>"
  using status_state_str [of "res_status r", symmetric] by (simp add: life_of_def)

text \<open>Evaluations other than the changed one look the same.\<close>

lemma abs_lives_other:
  assumes inv: "store_inv env db" and e: "evaluation_of db k = Some e"
    and ch: "row_changes db k fe (ev_current_attempt_id e) fa ft db'" and j: "j \<noteq> k"
  shows "abs_lives env db' j = abs_lives env db j"
proof (cases "evaluation_of db j")
  case None
  then show ?thesis using row_changesD(1) [OF ch, of j] j by (simp add: abs_lives_def)
next
  case (Some e2)
  obtain a2 where a2: "attempt_of db (ev_current_attempt_id e2) = Some a2" "at_evaluation_id a2 = j"
    by (rule current_rows [OF inv Some])
  obtain a where a: "attempt_of db (ev_current_attempt_id e) = Some a" "at_evaluation_id a = k"
    by (rule current_rows [OF inv e])
  have "ev_current_attempt_id e2 \<noteq> ev_current_attempt_id e" using a a2 j by auto
  then show ?thesis
    using row_changesD(1,2) [OF ch] Some a2 j by (simp add: abs_lives_def)
qed

lemma abs_lives_changed:
  assumes inv: "store_inv env db" and e: "evaluation_of db k = Some e"
    and a: "attempt_of db (ev_current_attempt_id e) = Some a"
    and ch: "row_changes db k fe (ev_current_attempt_id e) fa ft db'"
    and fe: "ev_current_attempt_id (fe e) = ev_current_attempt_id e"
    and new: "life_of env (fe e) (fa a) = Some l"
  shows "abs_lives env db' = (abs_lives env db)(k \<mapsto> l)"
proof
  fix j
  show "abs_lives env db' j = ((abs_lives env db)(k \<mapsto> l)) j"
  proof (cases "j = k")
    case True
    then show ?thesis using row_changesD(1,2) [OF ch] e a fe new by (simp add: abs_lives_def)
  qed (use abs_lives_other [OF inv e ch] in simp)
qed

section \<open>Simulation\<close>

lemma abs_created:
  assumes inv: "store_inv env db" and cr: "evaluation_created db request payload created_at db'"
  shows "abs_lives env db' = (abs_lives env db)(evaluation_id_str (req_evaluation_id request) \<mapsto>
      \<lparr>lf_state = EvaluationState_Queued, lf_number = uint (req_attempt_number request),
       lf_result = None\<rparr>)"
    and "abs_lives env db (evaluation_id_str (req_evaluation_id request)) = None"
proof -
  let ?ek = "evaluation_id_str (req_evaluation_id request)"
  let ?ak = "attempt_id_str (req_attempt_id request)"
  have fresh: "evaluation_of db ?ek = None" "attempt_of db ?ak = None"
    and ev: "\<And>j. evaluation_of db' j = (if j = ?ek
         then Some (new_evaluation_row request payload created_at) else evaluation_of db j)"
    and at: "\<And>j. attempt_of db' j = (if j = ?ak
         then Some (new_attempt_row request payload (uint (req_attempt_number request)) created_at)
         else attempt_of db j)"
    using cr by (simp_all add: evaluation_created_def Let_def)
  show "abs_lives env db ?ek = None" using fresh by (simp add: abs_lives_def)
  show "abs_lives env db' = (abs_lives env db)(?ek \<mapsto> \<lparr>lf_state = EvaluationState_Queued,
      lf_number = uint (req_attempt_number request), lf_result = None\<rparr>)"
  proof
    fix j
    show "abs_lives env db' j = ((abs_lives env db)(?ek \<mapsto> \<lparr>lf_state = EvaluationState_Queued,
        lf_number = uint (req_attempt_number request), lf_result = None\<rparr>)) j"
    proof (cases "j = ?ek \<or> evaluation_of db j = None")
      case True
      then show ?thesis
        by (auto simp: abs_lives_def ev at new_evaluation_row_def new_attempt_row_def life_of_queued)
    next
      case False
      then obtain e2 where e2: "evaluation_of db j = Some e2" by blast
      obtain a2 where "attempt_of db (ev_current_attempt_id e2) = Some a2"
        by (rule current_rows [OF inv e2])
      then have "ev_current_attempt_id e2 \<noteq> ?ak" using fresh(2) by auto
      then show ?thesis using False e2 by (simp add: abs_lives_def ev at)
    qed
  qed
qed

lemma abs_replaced:
  assumes inv: "store_inv env db" and e: "evaluation_of db (ev_evaluation_id e) = Some e"
    and a: "attempt_of db (ev_current_attempt_id e) = Some a"
    and number: "uint (req_attempt_number request) = at_attempt_number a + 1"
    and live: "ev_terminal_result e = None"
    and rp: "attempt_replaced db e request payload now db'"
  shows "abs_lives env db' = (abs_lives env db)(ev_evaluation_id e \<mapsto>
      \<lparr>lf_state = EvaluationState_Queued, lf_number = at_attempt_number a + 1, lf_result = None\<rparr>)"
proof
  fix j
  let ?new = "attempt_id_str (req_attempt_id request)"
  have fresh: "attempt_of db ?new = None"
    and ev: "\<And>j. evaluation_of db' j = (if j = ev_evaluation_id e
         then map_option (requeued_evaluation ?new now) (evaluation_of db j) else evaluation_of db j)"
    and at: "\<And>j. attempt_of db' j = (if j = ?new
         then Some (new_attempt_row request payload (uint (req_attempt_number request)) now)
         else if j = ev_current_attempt_id e
         then map_option (terminal_attempt ''expired'' now) (attempt_of db j) else attempt_of db j)"
    using rp by (simp_all add: attempt_replaced_def Let_def)
  show "abs_lives env db' j = ((abs_lives env db)(ev_evaluation_id e \<mapsto>
      \<lparr>lf_state = EvaluationState_Queued, lf_number = at_attempt_number a + 1, lf_result = None\<rparr>)) j"
  proof (cases "j = ev_evaluation_id e \<or> evaluation_of db j = None")
    case True
    then show ?thesis
      using e number live
      by (auto simp: abs_lives_def ev at requeued_evaluation_def new_attempt_row_def life_of_queued)
  next
    case False
    then obtain e2 where e2: "evaluation_of db j = Some e2" by blast
    obtain a2 where a2: "attempt_of db (ev_current_attempt_id e2) = Some a2" "at_evaluation_id a2 = j"
      by (rule current_rows [OF inv e2])
    obtain a' where "attempt_of db (ev_current_attempt_id e) = Some a'"
        "at_evaluation_id a' = ev_evaluation_id e"
      by (rule current_rows [OF inv e])
    then have "ev_current_attempt_id e2 \<noteq> ev_current_attempt_id e" "ev_current_attempt_id e2 \<noteq> ?new"
      using a2 fresh False by auto
    then show ?thesis using False e2 by (simp add: abs_lives_def ev at)
  qed
qed

lemma terminal_decodes:
  assumes inv: "store_inv env db" and e: "evaluation_of db k = Some e" and b: "ev_terminal_result e = Some b"
  obtains r where "decode_evaluation_result_domain (pg_wire env) b = Ok r" and "evaluation_result_ok r"
    and "ev_state e = EvaluationStatus_as_str (res_status r)"
    and "evaluation_id_str (idn_evaluation_id (res_identity r)) = k"
proof -
  obtain req n where "request_matches req k (ev_current_attempt_id e) n" "result_inv env req e"
    by (rule current_rows [OF inv e])
  then show ?thesis
    using b that by (auto simp: result_inv_def request_matches_def EvaluationIdentity_from_request_def)
qed

lemma EvaluationStatus_as_str_inj: "EvaluationStatus_as_str a = EvaluationStatus_as_str b \<longleftrightarrow> a = b"
  by (cases a; cases b) simp_all

lemma store_step_simulates:
  assumes step: "store_step env db db'" and inv: "store_inv env db" and lib: "wire_lib_ok (pg_wire env)"
  shows "abs_lives env db' = abs_lives env db \<or> life_step (abs_lives env db) (abs_lives env db')"
  using step inv
proof (cases rule: store_step_cases)
  case (created request payload created_at)
  have inv': "store_inv env db'" by (rule store_step_preserves [OF step lib inv])
  have "attempt_of db' (attempt_id_str (req_attempt_id request)) =
      Some (new_attempt_row request payload (uint (req_attempt_number request)) created_at)"
    using created by (simp add: evaluation_created_def Let_def)
  then have "1 \<le> uint (req_attempt_number request)"
    using integrity_checks(2) [OF store_inv_integrity [OF inv']]
    by (fastforce simp: attempt_check_def new_attempt_row_def)
  then show ?thesis using abs_created [OF inv created] life_create by metis
next
  case (claimed e a node token expiry operation now)
  have k: "ev_evaluation_id e = at_evaluation_id a" by (rule row_keys(1) [OF claimed(1)])
  have live: "ev_terminal_result e = None" using live_evaluation [OF inv claimed(1)] claimed(3) by simp
  have "abs_lives env db' = (abs_lives env db)(at_evaluation_id a \<mapsto>
      \<lparr>lf_state = EvaluationState_Leased, lf_number = at_attempt_number a, lf_result = None\<rparr>)"
    by (rule abs_lives_changed [OF inv claimed(1,2) claimed(5) [unfolded k]])
      (simp_all add: leased_evaluation_def lease_attempt_def life_of_leased live)
  moreover have "abs_lives env db (at_evaluation_id a) =
      Some \<lparr>lf_state = EvaluationState_Queued, lf_number = at_attempt_number a, lf_result = None\<rparr>"
    using abs_lives_row [OF claimed(1,2)] by (simp add: life_of_queued claimed(3) live)
  ultimately show ?thesis using life_lease by metis
next
  case (renewed e a now expiry)
  have live: "ev_terminal_result e = None" using live_evaluation [OF inv renewed(1)] renewed(3) by simp
  have old: "abs_lives env db (ev_evaluation_id e) =
      Some \<lparr>lf_state = EvaluationState_Leased, lf_number = at_attempt_number a, lf_result = None\<rparr>"
    using abs_lives_row [OF renewed(1,2)] by (simp add: life_of_leased renewed(3) live)
  have "abs_lives env db' = (abs_lives env db)(ev_evaluation_id e \<mapsto>
      \<lparr>lf_state = EvaluationState_Leased, lf_number = at_attempt_number a, lf_result = None\<rparr>)"
    by (rule abs_lives_changed [OF inv renewed(1,2,5)])
      (simp_all add: renewed_attempt_def life_of_leased renewed(3) live)
  then show ?thesis using old by (simp add: fun_upd_idem)
next
  case (replaced e a request payload now expires_at)
  have live: "ev_terminal_result e = None" using live_evaluation [OF inv replaced(1)] replaced(3) by simp
  have "abs_lives env db (ev_evaluation_id e) =
      Some \<lparr>lf_state = EvaluationState_Leased, lf_number = at_attempt_number a, lf_result = None\<rparr>"
    using abs_lives_row [OF replaced(1,2)] by (simp add: life_of_leased replaced(3) live)
  then show ?thesis
    using abs_replaced [OF inv replaced(1,2,7) live replaced(8)] life_requeue by metis
next
  case (finished e a st task_state payload key now)
  let ?e' = "terminal_evaluation (EvaluationStatus_as_str st) payload key now e"
  note ch = finished(6) [unfolded becomes_terminal_def]
  have inv': "store_inv env db'" by (rule store_step_preserves [OF step lib inv])
  have e': "evaluation_of db' (ev_evaluation_id e) = Some ?e'"
    using row_changesD(1) [OF ch, of "ev_evaluation_id e"] finished(1) by simp
  obtain r where r: "decode_evaluation_result_domain (pg_wire env) payload = Ok r"
    "evaluation_result_ok r" "ev_state ?e' = EvaluationStatus_as_str (res_status r)"
    "evaluation_id_str (idn_evaluation_id (res_identity r)) = ev_evaluation_id e"
    by (rule terminal_decodes [OF inv' e', of payload]) (simp_all add: terminal_evaluation_def)
  have st: "st = res_status r" using r(3) by (simp add: terminal_evaluation_def EvaluationStatus_as_str_inj)
  have new: "abs_lives env db' = (abs_lives env db)(ev_evaluation_id e \<mapsto>
      \<lparr>lf_state = status_state (res_status r), lf_number = at_attempt_number a, lf_result = Some r\<rparr>)"
    by (rule abs_lives_changed [OF inv finished(1,2) ch])
      (simp_all add: terminal_evaluation_def terminal_attempt_def life_of_terminal r(1) st)
  obtain s where s: "ev_state e = EvaluationState_as_str s"
    "s = EvaluationState_Leased \<or> s = EvaluationState_Queued \<and> res_status r = EvaluationStatus_Cancelled"
    using finished(5) st by (metis EvaluationState_as_str.simps(1,2))
  have "abs_lives env db (ev_evaluation_id e) =
      Some \<lparr>lf_state = s, lf_number = at_attempt_number a, lf_result = None\<rparr>"
    using abs_lives_row [OF finished(1,2)] by (simp add: life_of_live [OF s(1) finished(3)])
  then show ?thesis using life_finish [OF _ s(2) r(2,4)] new by metis
qed simp

inductive life_steps :: "lives \<Rightarrow> lives \<Rightarrow> bool" for m where
  life_refl: "life_steps m m"
| life_next: "life_steps m m1 \<Longrightarrow> life_step m1 m2 \<Longrightarrow> life_steps m m2"

lemma store_steps_simulate:
  assumes "store_steps env db db'" and "wire_lib_ok (pg_wire env)" and "store_inv env db"
  shows "life_steps (abs_lives env db) (abs_lives env db')"
  using assms(1)
proof induction
  case (steps_step db1 db2)
  show ?case
    using store_step_simulates [OF steps_step.hyps(2) _ assms(2)]
      store_steps_inv [OF steps_step.hyps(1) assms(2,3)] steps_step.IH life_next by metis
qed (rule life_refl)

end
