(* ===== verification/Store_Facts.thy ===== *)
theory Store_Facts
  imports Store_Refinement
begin

text \<open>
  What single runs of the store operations do, under every fate of their round trips: who holds an
  attempt, which task a claim takes, what a replay answers, and what renewal and retry change.
\<close>

section \<open>An attempt has one holder\<close>

definition same_holder :: "attempt_row \<Rightarrow> attempt_row \<Rightarrow> bool" where
  "same_holder a a' \<longleftrightarrow>
     at_state a' \<noteq> ''queued'' \<and> at_node_id a' = at_node_id a \<and>
     at_lease_token a' = at_lease_token a \<and> at_claim_operation_id a' = at_claim_operation_id a"

lemma status_not_queued: "EvaluationStatus_as_str st \<noteq> ''queued''"
  by (cases st) simp_all

lemma holder_step:
  assumes step: "store_step env db db'" and inv: "store_inv env db"
    and a: "attempt_of db k = Some a" and held: "at_state a \<noteq> ''queued''"
  shows "\<exists>a'. attempt_of db' k = Some a' \<and> same_holder a a'"
  using step inv
proof (cases rule: store_step_cases)
  case unchanged
  then show ?thesis using a held by (simp add: same_holder_def)
next
  case (created request payload created_at)
  then show ?thesis
    using a held by (auto simp: evaluation_created_def Let_def same_holder_def)
next
  case (claimed e1 a1 node token expiry operation now)
  then have "k \<noteq> ev_current_attempt_id e1" using a held by auto
  then show ?thesis using row_changesD(2) [OF claimed(5), of k] a held by (simp add: same_holder_def)
next
  case (renewed e1 a1 now expiry)
  then show ?thesis
    using row_changesD(2) [OF renewed(5), of k] a held
    by (auto simp: same_holder_def renewed_attempt_def)
next
  case (replaced e1 a1 request payload now expires_at)
  then show ?thesis
    using a held by (auto simp: attempt_replaced_def Let_def same_holder_def terminal_attempt_def)
next
  case (finished e1 a1 st task_state payload key now)
  then show ?thesis
    using row_changesD(2) [OF finished(6) [unfolded becomes_terminal_def], of k] a held
    by (auto simp: same_holder_def terminal_attempt_def status_not_queued)
qed

lemma holder_steps:
  assumes "store_steps env db db'" and "wire_lib_ok (pg_wire env)" and "store_inv env db"
    and "attempt_of db k = Some a" and "at_state a \<noteq> ''queued''"
  shows "\<exists>a'. attempt_of db' k = Some a' \<and> same_holder a a'"
  using assms(1)
proof induction
  case steps_refl
  then show ?case using assms(4,5) by (simp add: same_holder_def)
next
  case (steps_step db1 db2)
  obtain a1 where a1: "attempt_of db1 k = Some a1" "same_holder a a1"
    using steps_step.IH by blast
  have "store_inv env db1" using steps_step.hyps(1) assms(2,3) by (rule store_steps_inv)
  from holder_step [OF steps_step.hyps(2) this a1(1)] show ?case
    using a1(2) by (auto simp: same_holder_def)
qed

section \<open>Claims\<close>

lemma i64_try_from_SomeD: "i64_try_from v = Some i \<Longrightarrow> i = uint v"
  by (auto simp: i64_try_from_def split: if_splits)

lemma claim_with_run:
  assumes run: "claim_task_with_capabilities env locked command op caps s = (r, s')"
    and changed: "ses_db s' \<noteq> ses_db s"
  obtains expires_at request where
    "UnixMillis_checked_add (ct_now command) (ct_lease_duration command) = Ok expires_at"
    and "yields (claim_transaction env locked command op caps (millis (ct_now command))
          (millis expires_at)) (ses_db s) request (ses_db s')"
    and "\<And>lease. r = Ok lease \<Longrightarrow> lease = \<lparr>tl_request = request, tl_node_id = ct_node_id command,
          tl_lease_token = ct_lease_token command, tl_expires_at = expires_at\<rparr>"
proof -
  obtain expires_at now expiry where
    add: "UnixMillis_checked_add (ct_now command) (ct_lease_duration command) = Ok expires_at"
    and n: "i64_try_from (unix_millis_value (ct_now command)) = Some now"
      "i64_try_from (unix_millis_value expires_at) = Some expiry"
    using run changed
    by (auto simp: claim_task_with_capabilities_def sql_then_def sql_lift_def
        split: result.splits prod.splits)
  obtain r1 s1 where tx: "transaction current_attempt_fk
      (claim_transaction env locked command op caps now expiry) s = (r1, s1)" by force
  have r: "s1 = s'" "\<And>lease. r = Ok lease \<Longrightarrow> \<exists>request. r1 = Ok request \<and>
      lease = \<lparr>tl_request = request, tl_node_id = ct_node_id command,
        tl_lease_token = ct_lease_token command, tl_expires_at = expires_at\<rparr>"
    using run tx n add
    by (auto simp: claim_task_with_capabilities_def sql_then_def sql_lift_def sql_return_def
        split: result.splits)
  from tx show ?thesis
  proof (cases rule: transaction_cases)
    case (rollback e)
    then show ?thesis using changed r by simp
  next
    case (committed request)
    show ?thesis
      by (rule that [OF add, of request]) (use committed r n [THEN i64_try_from_SomeD] in \<open>auto simp: millis_def\<close>)
  qed
qed

text \<open>No claimable task is older than the one that is taken.\<close>

lemma select_task_oldest:
  assumes lt: "strict_linear lt" and s: "select_task lt locked caps db = Some (t, a, e)"
    and c: "(t', a', e') \<in> set (task_join db)" "claimable locked caps (t', a', e')"
  shows "\<not> before_row lt (ta_created_at_ms t', ta_attempt_id t') (ta_created_at_ms t, ta_attempt_id t)"
proof -
  let ?b = "\<lambda>(t, _) (t', _). before_row lt (ta_created_at_ms t, ta_attempt_id t)
      (ta_created_at_ms t', ta_attempt_id t')"
  note o = before_row_order [OF lt]
  have b: "?b x y = before_row lt (ta_created_at_ms (fst x), ta_attempt_id (fst x))
      (ta_created_at_ms (fst y), ta_attempt_id (fst y))" for x y
    by (cases x; cases y) simp
  have "\<not> ?b (t', a', e') (t, a, e)"
  proof (rule first_row_least [of ?b])
    show "first_row ?b (filter (claimable locked caps) (task_join db)) = Some (t, a, e)"
      using s by (simp add: select_task_def)
    show "(t', a', e') \<in> set (filter (claimable locked caps) (task_join db))" using c by simp
  qed (unfold b, (rule o(1) o(2) o(3); assumption?)+)
  then show ?thesis by simp
qed

lemma judge_claim_changed:
  assumes run: "judge_claim_task env locked command s = (r, s')" and ch: "ses_db s' \<noteq> ses_db s"
  shows "\<exists>s1. ses_db s1 = ses_db s \<and> claim_task_with_capabilities env locked
     \<lparr>ct_node_id = jc_node_id command, ct_lease_token = jc_lease_token command,
      ct_now = jc_now command, ct_lease_duration = lp_lease_duration (jc_lease_policy command)\<rparr>
     (Some (claim_operation_id_str (jc_operation_id command)))
     (Some (map capability_str (jc_declared_capabilities command))) s1 = (r, s')"
proof -
  have db: "ses_db (snd (fetch q s)) = ses_db s" for q :: "tables \<Rightarrow> 'x"
    by (simp add: fetch_def tick_def)
  show ?thesis
    using run ch
    by (auto simp: judge_claim_task_def claim_replay_def sql_then_def sql_return_def sql_lift_def
        split: prod.splits result.splits option.splits dest!: fetch_same_db)
qed

section \<open>Renewal and retry\<close>

lemma judge_renew_changed:
  assumes run: "judge_renew_lease command s = (r, s')" and ch: "ses_db s' \<noteq> ses_db s"
  obtains expires_at res where
    "UnixMillis_checked_add (jr_now command) (lp_lease_duration (jr_lease_policy command)) = Ok expires_at"
    and "yields (renew_transaction command (millis (jr_now command)) (millis expires_at))
           (ses_db s) res (ses_db s')"
    and "\<And>d. r = Ok d \<Longrightarrow> d = (case res of None \<Rightarrow> Directive_Cancel | Some _ \<Rightarrow> Directive_Continue expires_at)"
proof -
  obtain expires_at now expiry where
    add: "UnixMillis_checked_add (jr_now command) (lp_lease_duration (jr_lease_policy command)) = Ok expires_at"
    and n: "i64_try_from (unix_millis_value (jr_now command)) = Some now"
      "i64_try_from (unix_millis_value expires_at) = Some expiry"
    using run ch
    by (auto simp: judge_renew_lease_def sql_then_def sql_lift_def split: result.splits prod.splits)
  obtain r1 s1 where tx: "transaction current_attempt_fk (renew_transaction command now expiry) s = (r1, s1)"
    by force
  have r: "s1 = s'" "\<And>d. r = Ok d \<Longrightarrow> \<exists>res. r1 = Ok res \<and>
      d = (case res of None \<Rightarrow> Directive_Cancel | Some _ \<Rightarrow> Directive_Continue expires_at)"
    using run tx n add
    by (auto simp: judge_renew_lease_def sql_then_def sql_lift_def sql_return_def
        split: result.splits option.splits)
  from tx show ?thesis
  proof (cases rule: transaction_cases)
    case (rollback e)
    then show ?thesis using ch r by simp
  next
    case (committed res)
    show ?thesis
      by (rule that [OF add, of res]) (use committed r n [THEN i64_try_from_SomeD] in \<open>auto simp: millis_def\<close>)
  qed
qed

lemma retry_changed:
  assumes run: "retry_expired env command s = (r, s')" and ch: "ses_db s' \<noteq> ses_db s"
  obtains payload res where
    "encode_evaluation_request (pg_wire env) (rx_request command) = Ok payload"
    and "yields (retry_transaction env (rx_request command) payload (millis (rx_now command)))
           (ses_db s) res (ses_db s')"
proof -
  obtain now payload where n: "i64_try_from (unix_millis_value (rx_now command)) = Some now"
    and enc: "encode_evaluation_request (pg_wire env) (rx_request command) = Ok payload"
    using run ch
    by (auto simp: retry_expired_def sql_then_def sql_lift_def corrupt_def
        split: result.splits prod.splits)
  obtain r1 s1 where tx: "transaction current_attempt_fk
      (retry_transaction env (rx_request command) payload now) s = (r1, s1)" by force
  have s1: "ses_db s' = ses_db s1"
    using run tx n enc
    by (auto simp: retry_expired_def sql_then_def sql_lift_def corrupt_def
        split: result.splits option.splits dest: status_same_db)
  have "now = millis (rx_now command)" using n by (auto simp: i64_try_from_def millis_def split: if_splits)
  with tx s1 show ?thesis
    using ch that [OF enc] by (auto elim!: transaction_cases)
qed

section \<open>Creation and replayed claims\<close>

lemma create_run:
  assumes run: "create_evaluation env command s = (r, s')"
  obtains (same) "ses_db s' = ses_db s" and
      "\<And>snap. r = Ok snap \<Longrightarrow> \<exists>stored \<in> set (db_evaluations (ses_db s)).
         ev_creation_idempotency_key stored = idempotency_key_str (req_idempotency_key (ce_request command))"
  | (created) payload res where
      "encode_evaluation_request (pg_wire env) (ce_request command) = Ok payload"
      and "yields (create_transaction env command payload) (ses_db s) res (ses_db s')"
proof (cases "encode_evaluation_request (pg_wire env) (ce_request command)")
  case (Err e)
  then show ?thesis using run same by (auto simp: create_evaluation_def corrupt_def calm_simps)
next
  case (Ok payload)
  obtain r1 s1 where tx: "transaction current_attempt_fk (create_transaction env command payload) s = (r1, s1)"
    by force
  have s1: "ses_db s' = ses_db s1" and r1: "\<And>e. r1 = Err e \<Longrightarrow> r = Err e"
    using run tx by (auto simp: create_evaluation_def corrupt_def calm_simps Ok
        split: result.splits option.splits dest: status_same_db)
  from tx show ?thesis
  proof (cases rule: transaction_cases)
    case (rollback e)
    then show ?thesis using same s1 r1 by simp
  next
    case (committed res)
    then show ?thesis using created [OF Ok] s1 by simp
  qed
qed

lemma create_needs_ordered_capabilities:
  assumes run: "create_evaluation env command s = (r, s')" and inv: "store_inv env (ses_db s)"
    and bad: "\<not> valid_required_capabilities (pg_text_less env)
      (map capability_str (req_required_capabilities (ce_request command)))"
  shows "ses_db s' = ses_db s \<and> (\<forall>snap. r = Ok snap \<longrightarrow>
     (\<exists>stored \<in> set (db_evaluations (ses_db s)). ev_creation_idempotency_key stored =
        idempotency_key_str (req_idempotency_key (ce_request command))))"
  using run
proof (cases rule: create_run)
  case (created payload res)
  from created(2) show ?thesis
  proof (rule create_effect [OF _ store_inv_integrity [OF inv]])
    fix created_at
    assume int: "integrity (pg_text_less env) (ses_db s')"
      and cr: "evaluation_created (ses_db s) (ce_request command) payload created_at (ses_db s')"
    have "task_check (pg_text_less env) (new_task_row (ce_request command) created_at)"
      using integrity_checks(3) [OF int, of "attempt_id_str (req_attempt_id (ce_request command))"] cr
      by (simp add: evaluation_created_def Let_def)
    then show ?thesis using bad by (simp add: task_check_def new_task_row_def)
  qed auto
qed auto

lemma judge_claim_first:
  assumes run: "judge_claim_task env locked command s = (r, s')" and ch: "ses_db s' \<noteq> ses_db s"
  shows "select_claim (claim_operation_id_str (jc_operation_id command)) (ses_db s) = None"
  using run ch
  by (auto simp: judge_claim_task_def claim_replay_def sql_then_def sql_return_def sql_lift_def
      fetch_def tick_def map_ok_Ok_iff split: prod.splits result.splits option.splits if_splits)

text \<open>After the claim, its operation identifier leads to the attempt it leased.\<close>

lemma select_claim_leased:
  assumes int: "integrity lt db'" and none: "select_claim op db = None"
    and int0: "integrity lt db"
    and a': "attempt_of db' k = Some a'" and op: "at_claim_operation_id a' = Some op"
    and rest: "\<And>j. j \<noteq> k \<Longrightarrow> attempt_of db' j = attempt_of db j"
  shows "select_claim op db' = Some a'"
proof (cases "select_claim op db'")
  case None
  then show ?thesis using row_members(2) [OF a'] op by (force simp: select_claim_def sel_None_iff)
next
  case (Some b)
  then have b: "b \<in> set (db_attempts db')" "at_claim_operation_id b = Some op"
    by (auto simp: select_claim_def dest: sel_SomeD)
  have bk: "attempt_of db' (at_attempt_id b) = Some b" using integrity_row(2) [OF int b(1)] .
  have "at_attempt_id b = k"
  proof (rule ccontr)
    assume "at_attempt_id b \<noteq> k"
    then have "b \<in> set (db_attempts db)" using rest bk row_members(2) by metis
    then show False using none b(2) by (force simp: select_claim_def sel_None_iff)
  qed
  then show ?thesis using bk a' Some by simp
qed

end
