(* ===== verification/Store_Correctness.thy ===== *)
theory Store_Correctness
  imports Store_Facts
begin

text \<open>
  The correctness of \<open>crates/openoj-storage\<close>: histories of commands, fencing and idempotence of
  submissions, creation, claims, renewal, retry, and the status query.  Each statement holds under
  every fate of the round trips unless it says otherwise.
\<close>

section \<open>Histories\<close>

text \<open>C1: after every history of store commands, each with arbitrary lost or failed round trips, the
  database satisfies the invariant: keys and checks hold, every evaluation has a current attempt in
  the same state, every other attempt is expired and older, tasks mirror attempts, payloads decode to
  the request of their row, and a stored result is a valid result of the current attempt.\<close>

theorem store_history_invariant:
  assumes "wire_lib_ok (pg_wire env)" and "list_all (\<lambda>(c, _). command_ok c) history"
  shows "store_inv env (run_commands env history empty_tables)"
  by (rule store_steps_inv [OF run_commands_steps [OF assms(2)] assms(1) store_inv_empty])

theorem store_history_invariant_witness:
  "store_inv demo_env (run_commands demo_env demo_commands empty_tables) \<and>
   run_commands demo_env demo_commands empty_tables = demo_finished"
  using store_history_invariant [OF demo_lib_ok(2) demo_commands_ok] demo_commands_run by simp

text \<open>C2: the store refines the abstract lifecycle: over any further commands its evaluations move
  only by the steps of the specification (create, lease, requeue under the next number, finish with
  a valid result of that evaluation).\<close>

theorem store_history_refines_lifecycle:
  assumes "wire_lib_ok (pg_wire env)" and "list_all (\<lambda>(c, _). command_ok c) (history @ later)"
  shows "life_steps (abs_lives env (run_commands env history empty_tables))
           (abs_lives env (run_commands env (history @ later) empty_tables))"
proof -
  have "store_inv env (run_commands env history empty_tables)"
    by (rule store_steps_inv [OF run_commands_steps assms(1) store_inv_empty]) (use assms(2) in simp)
  moreover have "store_steps env (run_commands env history empty_tables)
      (run_commands env (history @ later) empty_tables)"
    unfolding run_commands_append by (rule run_commands_steps) (use assms(2) in simp)
  ultimately show ?thesis using store_steps_simulate assms(1) by blast
qed

theorem store_history_refines_lifecycle_witness:
  "life_steps (abs_lives demo_env empty_tables) (abs_lives demo_env demo_finished) \<and>
   abs_lives demo_env empty_tables ''e'' = None \<and>
   abs_lives demo_env demo_finished ''e'' = Some \<lparr>lf_state = EvaluationState_Completed,
     lf_number = 1, lf_result = Some demo_result\<rparr>"
proof -
  have "abs_lives demo_env demo_finished ''e'' = Some \<lparr>lf_state = EvaluationState_Completed,
     lf_number = 1, lf_result = Some demo_result\<rparr>"
    by (simp add: abs_lives_def evaluation_of_def attempt_of_def demo_finished_def sel_Cons demo_rows
        demo_fields life_of_def evaluation_state_from_str_def demo_env_def demo_decode_result)
  moreover have "abs_lives demo_env empty_tables ''e'' = None"
    by (simp add: abs_lives_def evaluation_of_def empty_tables_def)
  ultimately show ?thesis
    using store_history_refines_lifecycle [OF demo_lib_ok(2), of "[]" demo_commands]
      demo_commands_ok demo_commands_run by simp
qed

text \<open>C4: a terminal result is final: once an evaluation has one, no later command changes any
  column of its row.\<close>

theorem terminal_evaluation_immutable:
  assumes "wire_lib_ok (pg_wire env)" and "list_all (\<lambda>(c, _). command_ok c) (history @ later)"
    and "evaluation_of (run_commands env history empty_tables) k = Some e"
    and "ev_terminal_result e \<noteq> None"
  shows "evaluation_of (run_commands env (history @ later) empty_tables) k = Some e"
proof -
  have "store_inv env (run_commands env history empty_tables)"
    by (rule store_steps_inv [OF run_commands_steps assms(1) store_inv_empty]) (use assms(2) in simp)
  from terminal_result_final [OF run_commands_steps assms(1) this assms(3,4), of later] show ?thesis
    using assms(2) by (simp add: run_commands_append)
qed

theorem terminal_evaluation_immutable_witness:
  "\<exists>e. evaluation_of (run_commands demo_env (demo_commands @ [(Cmd_Submit demo_submit, [Fine, AckLost])])
     empty_tables) ''e'' = Some e \<and> ev_state e = ''completed''"
proof -
  let ?e = "terminal_evaluation ''completed'' [0] ''done'' 300
        ((new_evaluation_row demo_request [0] 100)\<lparr>ev_state := ''leased'', ev_updated_at_ms := 200\<rparr>)"
  have ok: "list_all (\<lambda>(c, _). command_ok c) (demo_commands @ [(Cmd_Submit demo_submit, [Fine, AckLost])])"
    using demo_commands_ok by (simp add: demo_submit_def demo_result_ok)
  have e: "evaluation_of (run_commands demo_env demo_commands empty_tables) ''e'' = Some ?e"
    by (simp add: demo_commands_run evaluation_of_def demo_finished_def sel_Cons demo_rows demo_fields)
  have "evaluation_of (run_commands demo_env (demo_commands @ [(Cmd_Submit demo_submit, [Fine, AckLost])])
      empty_tables) ''e'' = Some ?e"
    by (rule terminal_evaluation_immutable [OF demo_lib_ok(2) ok e]) (simp add: terminal_evaluation_def)
  then show ?thesis by (auto simp: terminal_evaluation_def)
qed

section \<open>Submission\<close>

text \<open>C5: a submission is fenced: when it changes the database, the evaluation had no result, its
  current attempt is the attempt of the result, leased under the given token and not yet expired,
  the result's identity is the stored request's, and the result is stored as the terminal result.\<close>

theorem submission_is_fenced:
  assumes run: "submit_result env command s = (r, s')" and inv: "store_inv env (ses_db s)"
    and now: "unix_millis_ok (sr_now command)" and changed: "ses_db s' \<noteq> ses_db s"
  shows "\<exists>e a request payload expires_at.
     evaluation_of (ses_db s) (evaluation_id_str (idn_evaluation_id (res_identity (sr_result command)))) = Some e \<and>
     ev_terminal_result e = None \<and>
     ev_current_attempt_id e = attempt_id_str (idn_attempt_id (res_identity (sr_result command))) \<and>
     attempt_of (ses_db s) (ev_current_attempt_id e) = Some a \<and> at_state a = ''leased'' \<and>
     at_lease_token a = Some (lease_token_str (sr_lease_token command)) \<and>
     at_lease_expires_at_ms a = Some expires_at \<and> millis (sr_now command) \<le> expires_at \<and>
     decode_evaluation_request (pg_wire env) (at_request_payload a) = Ok request \<and>
     EvaluationIdentity_from_request request = res_identity (sr_result command) \<and>
     encode_evaluation_result (pg_wire env) (sr_result command) = Ok payload \<and>
     map_option ev_terminal_result (evaluation_of (ses_db s') (ev_evaluation_id e)) = Some (Some payload)"
  using run inv now
proof (cases rule: submit_cases)
  case (accepted payload e a request)
  have "map_option ev_terminal_result (evaluation_of (ses_db s') (ev_evaluation_id e)) = Some (Some payload)"
    using row_changesD(1) [OF accepted(8) [unfolded becomes_terminal_def], of "ev_evaluation_id e"]
      accepted(2) row_keys(1) [OF accepted(2)] by (simp add: terminal_evaluation_def)
  then show ?thesis using accepted by (auto simp: holds_lease_def)
qed (use changed in simp_all)

theorem submission_is_fenced_witness:
  "\<exists>e. evaluation_of demo_leased ''e'' = Some e \<and> ev_terminal_result e = None \<and>
     map_option ev_terminal_result (evaluation_of demo_finished (ev_evaluation_id e)) = Some (Some [0])"
proof -
  obtain snap where run: "submit_result demo_env demo_submit (calm demo_leased) = (Ok snap, calm demo_finished)"
    using demo_submit_run by blast
  have "unix_millis_ok (sr_now demo_submit)"
    by (simp add: demo_submit_def unix_millis_ok_def MAX_UNIX_MILLIS_def)
  then show ?thesis
    using submission_is_fenced [OF run] demo_leased_inv demo_encode_result demo_distinct(3)
    by (auto simp: demo_submit_def demo_result_identity demo_env_def)
qed

text \<open>C7: a committed submission is idempotent, whatever its caller was told and whatever the store
  did since: repeating it answers with the terminal snapshot and writes nothing, the same key with
  another result is an idempotency conflict, and another key is a terminal conflict.\<close>

theorem submission_is_idempotent:
  assumes lib: "wire_lib_ok (pg_wire env)" and inv: "store_inv env (ses_db s)"
    and ok: "evaluation_result_ok (sr_result command)" and now: "unix_millis_ok (sr_now command)"
    and run: "submit_result env command s = (r, s')" and changed: "ses_db s' \<noteq> ses_db s"
    and later: "store_steps env (ses_db s') db"
    and again: "unix_millis_ok (sr_now again)" "evaluation_result_ok (sr_result again)"
      "encode_evaluation_result (pg_wire env) (sr_result again) = Ok payload'"
      "idn_evaluation_id (res_identity (sr_result again)) =
         idn_evaluation_id (res_identity (sr_result command))"
  shows "\<exists>answer. submit_result env again (calm db) = (answer, calm db) \<and>
     (if sr_idempotency_key again \<noteq> sr_idempotency_key command then answer = Err TerminalConflict
      else if sr_result again \<noteq> sr_result command then answer = Err IdempotencyConflict
      else \<exists>snap. answer = Ok snap \<and> snap_terminal_result snap)"
proof -
  let ?k = "evaluation_id_str (idn_evaluation_id (res_identity (sr_result command)))"
  let ?key = "idempotency_key_str (sr_idempotency_key command)"
  from run inv now obtain payload e where
    enc: "encode_evaluation_result (pg_wire env) (sr_result command) = Ok payload"
    and e: "evaluation_of (ses_db s') ?k = Some e" "ev_terminal_result e = Some payload"
      "ev_result_idempotency_key e = Some ?key"
  proof (cases rule: submit_cases)
    case (accepted payload e a request)
    then show ?thesis
      using that row_changesD(1) [OF accepted(8) [unfolded becomes_terminal_def], of "ev_evaluation_id e"]
        row_keys(1) [OF accepted(2)] by (simp add: terminal_evaluation_def)
  qed (use changed in simp_all)
  have "store_steps env (ses_db s) (ses_db s')" by (rule runs_stepsD [OF runs_submit [OF ok] run])
  then have inv': "store_inv env (ses_db s')" using store_steps_inv lib inv by blast
  have inv2: "store_inv env db" by (rule store_steps_inv [OF later lib inv'])
  have e2: "evaluation_of db ?k = Some e"
    by (rule terminal_result_final [OF later lib inv' e(1)]) (simp add: e(2))
  obtain a snap where status: "evaluation_status env (idn_evaluation_id (res_identity (sr_result command)))
      (calm db) = (Ok snap, calm db)" and snap: "snapshot_for e a snap"
    by (rule status_calm [OF inv2 e2])
  have same: "payload \<noteq> payload' \<longleftrightarrow> sr_result again \<noteq> sr_result command"
    using decode_encode_result [OF lib ok enc] decode_encode_result [OF lib again(2,3)] enc again(3)
    by (metis result.inject(1))
  have key: "Some ?key \<noteq> Some (idempotency_key_str (sr_idempotency_key again)) \<longleftrightarrow>
      sr_idempotency_key again \<noteq> sr_idempotency_key command"
    by (cases "sr_idempotency_key again"; cases "sr_idempotency_key command") auto
  have "submit_result env again (calm db) =
     (if sr_idempotency_key again \<noteq> sr_idempotency_key command then (Err TerminalConflict, calm db)
      else if sr_result again \<noteq> sr_result command then (Err IdempotencyConflict, calm db)
      else (Ok snap, calm db))"
    using submit_terminal [OF inv2 again(1) _ e(2) again(3)] e2 again(4) status
    by (simp only: e(3) key same)
  then show ?thesis using snap e(2) by (auto simp: snapshot_for_def)
qed

theorem submission_is_idempotent_witness:
  "(\<exists>snap. submit_result demo_env demo_submit (calm demo_finished) = (Ok snap, calm demo_finished) \<and>
     snap_terminal_result snap) \<and>
   submit_result demo_env (demo_submit\<lparr>sr_idempotency_key := IdempotencyKey ''other''\<rparr>)
     (calm demo_finished) = (Err TerminalConflict, calm demo_finished)"
proof -
  obtain snap where run: "submit_result demo_env demo_submit (calm demo_leased) = (Ok snap, calm demo_finished)"
    using demo_submit_run by blast
  have now: "unix_millis_ok (sr_now demo_submit)"
    by (simp add: demo_submit_def unix_millis_ok_def MAX_UNIX_MILLIS_def)
  have enc: "encode_evaluation_result (pg_wire demo_env) demo_result = Ok [0]"
    by (simp add: demo_env_def demo_encode_result)
  have r: "sr_result demo_submit = demo_result" "evaluation_result_ok (sr_result demo_submit)"
    by (simp_all add: demo_submit_def demo_result_ok)
  note idem = submission_is_idempotent [OF demo_lib_ok(2) _ r(2) now run _ steps_refl]
  have 1: "\<exists>answer. submit_result demo_env demo_submit (calm demo_finished) = (answer, calm demo_finished) \<and>
      (\<exists>snap. answer = Ok snap \<and> snap_terminal_result snap)"
    using idem [of demo_submit "[0]"] demo_leased_inv demo_distinct(3) now enc r by simp
  have "sr_idempotency_key demo_submit \<noteq> IdempotencyKey ''other''" by (simp add: demo_submit_def)
  then have 2: "\<exists>answer. submit_result demo_env (demo_submit\<lparr>sr_idempotency_key := IdempotencyKey ''other''\<rparr>)
      (calm demo_finished) = (answer, calm demo_finished) \<and> answer = Err TerminalConflict"
    using idem [of "demo_submit\<lparr>sr_idempotency_key := IdempotencyKey ''other''\<rparr>" "[0]"]
      demo_leased_inv demo_distinct(3) now enc r by auto
  show ?thesis using 1 2 by auto
qed

section \<open>Creation\<close>

text \<open>C8: an evaluation is created at most once: after a creation that reached the database, even
  one whose acknowledgement was lost, and after any further steps, the same command answers with the
  snapshot of that evaluation and changes nothing.\<close>

theorem creation_happens_once:
  assumes lib: "wire_lib_ok (pg_wire env)" and inv: "store_inv env (ses_db s)"
    and ok: "evaluation_request_ok (ce_request command)"
    and run: "create_evaluation env command s = (r, s')" and changed: "ses_db s' \<noteq> ses_db s"
    and later: "store_steps env (ses_db s') db"
  shows "evaluation_of (ses_db s) (evaluation_id_str (req_evaluation_id (ce_request command))) = None \<and>
     (\<exists>snap. create_evaluation env command (calm db) = (Ok snap, calm db) \<and>
        snap_evaluation_id snap = req_evaluation_id (ce_request command))"
proof -
  let ?k = "evaluation_id_str (req_evaluation_id (ce_request command))"
  obtain payload e where enc: "encode_evaluation_request (pg_wire env) (ce_request command) = Ok payload"
    and e: "evaluation_of (ses_db s') ?k = Some e" "ev_initial_request e = payload"
      "ev_creation_idempotency_key e = idempotency_key_str (req_idempotency_key (ce_request command))"
    and fresh: "evaluation_of (ses_db s) ?k = None"
    by (rule create_changed [OF run inv changed])
  have "store_steps env (ses_db s) (ses_db s')" by (rule runs_stepsD [OF runs_create [OF ok] run])
  then have inv': "store_inv env (ses_db s')" using store_steps_inv lib inv by blast
  obtain e2 where e2: "evaluation_of db ?k = Some e2" "ev_initial_request e2 = payload"
      "ev_creation_idempotency_key e2 = idempotency_key_str (req_idempotency_key (ce_request command))"
    by (rule evaluation_steps [OF later lib inv' e(1)]) (use e in simp)
  obtain a snap where "create_evaluation env command (calm db) = (Ok snap, calm db)" "snapshot_for e2 a snap"
    by (rule create_replay [OF store_steps_inv [OF later lib inv'] e2(1) e2(3)]) (use enc e2 in simp)
  moreover from this(2) have "snap_evaluation_id snap = req_evaluation_id (ce_request command)"
    using row_keys(1) [OF e2(1)] by (simp add: snapshot_for_def evaluation_id.expand)
  ultimately show ?thesis using fresh by blast
qed

theorem creation_happens_once_witness:
  "\<exists>snap. create_evaluation demo_env demo_create (calm demo_finished) = (Ok snap, calm demo_finished) \<and>
     snap_evaluation_id snap = EvaluationId ''e''"
proof -
  obtain snap where run: "create_evaluation demo_env demo_create (calm empty_tables) = (Ok snap, calm demo_created)"
    using demo_create_run by blast
  have later: "store_steps demo_env demo_created demo_finished"
    using store_steps_trans demo_steps_leased demo_steps_finished by blast
  have "req_evaluation_id (ce_request demo_create) = EvaluationId ''e''"
    by (simp add: demo_create_def demo_request_def)
  then show ?thesis
    using creation_happens_once [OF demo_lib_ok(2) _ _ run _, of demo_finished] later demo_distinct(1)
      store_inv_empty [of demo_env] demo_request_ok
    by (simp add: demo_create_def)
qed

section \<open>Claims and leases\<close>

text \<open>C9: a claim that changes the store takes a ready task whose required capabilities the node
  declared, none of the claimable tasks is older (creation time, then identifier), the attempt
  becomes leased to this node under this token until exactly now plus the lease duration, no other
  attempt changes, and the answered lease carries the stored request.\<close>

theorem claim_takes_oldest_eligible_task:
  assumes lt: "strict_linear (pg_text_less env)" and inv: "store_inv env (ses_db s)"
    and run: "judge_claim_task env locked command s = (r, s')" and changed: "ses_db s' \<noteq> ses_db s"
  shows "\<exists>t a e expires_at. (t, a, e) \<in> set (task_join (ses_db s)) \<and>
     ta_state t = ''ready'' \<and> at_state a = ''queued'' \<and> ta_attempt_id t \<notin> locked \<and>
     set (ta_required_capabilities t) \<subseteq> capability_str ` set (jc_declared_capabilities command) \<and>
     (\<forall>t' a' e'. (t', a', e') \<in> set (task_join (ses_db s)) \<longrightarrow>
        claimable locked (Some (map capability_str (jc_declared_capabilities command))) (t', a', e') \<longrightarrow>
        \<not> before_row (pg_text_less env) (ta_created_at_ms t', ta_attempt_id t')
            (ta_created_at_ms t, ta_attempt_id t)) \<and>
     UnixMillis_checked_add (jc_now command) (lp_lease_duration (jc_lease_policy command)) = Ok expires_at \<and>
     attempt_of (ses_db s') (ta_attempt_id t) = Some (lease_attempt (node_id_str (jc_node_id command))
        (lease_token_str (jc_lease_token command)) (millis expires_at)
        (Some (claim_operation_id_str (jc_operation_id command))) (millis (jc_now command)) a) \<and>
     (\<forall>j. j \<noteq> ta_attempt_id t \<longrightarrow> attempt_of (ses_db s') j = attempt_of (ses_db s) j) \<and>
     (\<forall>lease. r = Ok lease \<longrightarrow> tl_expires_at lease = expires_at \<and>
        tl_lease_token lease = jc_lease_token command \<and>
        decode_evaluation_request (pg_wire env) (at_request_payload a) = Ok (tl_request lease))"
proof -
  let ?caps = "Some (map capability_str (jc_declared_capabilities command))"
  let ?op = "Some (claim_operation_id_str (jc_operation_id command))"
  obtain s1 where s1: "ses_db s1 = ses_db s" and run1: "claim_task_with_capabilities env locked
     \<lparr>ct_node_id = jc_node_id command, ct_lease_token = jc_lease_token command,
      ct_now = jc_now command, ct_lease_duration = lp_lease_duration (jc_lease_policy command)\<rparr>
     ?op ?caps s1 = (r, s')"
    using judge_claim_changed [OF run changed] by blast
  obtain expires_at request where
    add: "UnixMillis_checked_add (jc_now command) (lp_lease_duration (jc_lease_policy command)) = Ok expires_at"
    and y: "yields (claim_transaction env locked
        \<lparr>ct_node_id = jc_node_id command, ct_lease_token = jc_lease_token command,
         ct_now = jc_now command, ct_lease_duration = lp_lease_duration (jc_lease_policy command)\<rparr>
        ?op ?caps (millis (jc_now command)) (millis expires_at)) (ses_db s) request (ses_db s')"
    and lease: "\<And>lease. r = Ok lease \<Longrightarrow> lease = \<lparr>tl_request = request, tl_node_id = jc_node_id command,
          tl_lease_token = jc_lease_token command, tl_expires_at = expires_at\<rparr>"
    by (rule claim_with_run [OF run1]) (use changed s1 in simp_all)
  obtain t a e where s: "select_task (pg_text_less env) locked ?caps (ses_db s) = Some (t, a, e)"
    and dec: "decode_evaluation_request (pg_wire env) (at_request_payload a) = Ok request"
    and ch: "row_changes (ses_db s) (at_evaluation_id a) (leased_evaluation (millis (jc_now command)))
      (ta_attempt_id t) (lease_attempt (node_id_str (jc_node_id command))
        (lease_token_str (jc_lease_token command)) (millis expires_at) ?op (millis (jc_now command)))
      (leased_task (millis (jc_now command))) (ses_db s')"
    by (rule claim_effect [OF y store_inv_integrity [OF inv]]) simp
  note sel = select_task_SomeD [OF s]
  have c: "ta_state t = ''ready''" "at_state a = ''queued''" "ta_attempt_id t \<notin> locked"
    "set (ta_required_capabilities t) \<subseteq> capability_str ` set (jc_declared_capabilities command)"
    using sel(2) by (auto simp: claimable_def)
  have l: "\<forall>lease. r = Ok lease \<longrightarrow> tl_expires_at lease = expires_at \<and>
      tl_lease_token lease = jc_lease_token command \<and>
      decode_evaluation_request (pg_wire env) (at_request_payload a) = Ok (tl_request lease)"
    using lease dec by auto
  show ?thesis
    by (rule exI [of _ t], rule exI [of _ a], rule exI [of _ e], rule exI [of _ expires_at])
      (use sel(1) c select_task_oldest [OF lt s] add row_changesD(2) [OF ch]
         selected_rows(2) [OF inv s] l in simp)
qed

lemma demo_text_order: "strict_linear (pg_text_less demo_env)"
  by (auto simp: strict_linear_def demo_env_def)

theorem claim_takes_oldest_eligible_task_witness:
  "\<exists>t a e. (t, a, e) \<in> set (task_join demo_created) \<and> ta_attempt_id t = ''a1'' \<and>
     map_option at_node_id (attempt_of demo_leased ''a1'') = Some (Some ''n1'') \<and>
     map_option at_lease_expires_at_ms (attempt_of demo_leased ''a1'') = Some (Some 1200)"
proof -
  obtain t a e where t: "(t, a, e) \<in> set (task_join demo_created)"
    using claim_takes_oldest_eligible_task [OF demo_text_order _ demo_claim_run]
      demo_created_inv demo_distinct(2) by auto
  moreover from t have "ta_attempt_id t = ''a1''"
    by (simp add: task_join_iff demo_created_def new_task_row_def demo_fields)
  moreover have "map_option at_node_id (attempt_of demo_leased ''a1'') = Some (Some ''n1'')"
    "map_option at_lease_expires_at_ms (attempt_of demo_leased ''a1'') = Some (Some 1200)"
    by (simp_all add: attempt_of_def demo_leased_def sel_Cons demo_rows demo_fields)
  ultimately show ?thesis by blast
qed

text \<open>C10: an attempt has at most one holder for ever: once it has left the queue, no later command
  queues it again or changes its node, its lease token or its claim operation.\<close>

theorem attempt_is_never_reassigned:
  assumes "wire_lib_ok (pg_wire env)" and "list_all (\<lambda>(c, _). command_ok c) (history @ later)"
    and "attempt_of (run_commands env history empty_tables) k = Some a" and "at_state a \<noteq> ''queued''"
  shows "\<exists>a'. attempt_of (run_commands env (history @ later) empty_tables) k = Some a' \<and>
     at_state a' \<noteq> ''queued'' \<and> at_node_id a' = at_node_id a \<and>
     at_lease_token a' = at_lease_token a \<and> at_claim_operation_id a' = at_claim_operation_id a"
proof -
  have "store_inv env (run_commands env history empty_tables)"
    by (rule store_steps_inv [OF run_commands_steps assms(1) store_inv_empty]) (use assms(2) in simp)
  from holder_steps [OF run_commands_steps assms(1) this assms(3,4), of later] show ?thesis
    using assms(2) by (simp add: run_commands_append same_holder_def)
qed

theorem attempt_is_never_reassigned_witness:
  "\<exists>a'. attempt_of (run_commands demo_env (demo_commands @ [(Cmd_JudgeClaim {} demo_claim, [])])
     empty_tables) ''a1'' = Some a' \<and> at_node_id a' = Some ''n1'' \<and> at_lease_token a' = Some ''t1''"
proof -
  have ok: "list_all (\<lambda>(c, _). command_ok c) (demo_commands @ [(Cmd_JudgeClaim {} demo_claim, [])])"
    using demo_commands_ok by simp
  have "attempt_of (run_commands demo_env demo_commands empty_tables) ''a1'' =
      Some (terminal_attempt ''completed'' 300 (lease_attempt ''n1'' ''t1'' 1200 (Some ''op1'') 200
          (new_attempt_row demo_request [0] 1 100)))"
    by (simp add: demo_commands_run attempt_of_def demo_finished_def sel_Cons demo_rows demo_fields)
  from attempt_is_never_reassigned [OF demo_lib_ok(2) ok this] show ?thesis
    by (auto simp: terminal_attempt_def lease_attempt_def)
qed

text \<open>C25: a renewal that changes the store is by the holder: the evaluation and its current attempt
  are leased, attempt, node and token are the stored ones, and the only effect is the new expiry (now
  plus the lease duration, the one in the answer) on that attempt.\<close>

theorem renewal_is_by_the_holder:
  assumes run: "judge_renew_lease command s = (r, s')" and inv: "store_inv env (ses_db s)"
    and changed: "ses_db s' \<noteq> ses_db s"
  shows "\<exists>e a expires_at.
     evaluation_of (ses_db s) (evaluation_id_str (jr_evaluation_id command)) = Some e \<and>
     attempt_of (ses_db s) (attempt_id_str (jr_attempt_id command)) = Some a \<and>
     ev_current_attempt_id e = attempt_id_str (jr_attempt_id command) \<and>
     ev_state e = ''leased'' \<and> at_state a = ''leased'' \<and>
     at_node_id a = Some (node_id_str (jr_node_id command)) \<and>
     at_lease_token a = Some (lease_token_str (jr_lease_token command)) \<and>
     UnixMillis_checked_add (jr_now command) (lp_lease_duration (jr_lease_policy command)) = Ok expires_at \<and>
     attempt_of (ses_db s') = (attempt_of (ses_db s))(attempt_id_str (jr_attempt_id command) \<mapsto>
        a\<lparr>at_lease_expires_at_ms := Some (millis expires_at), at_updated_at_ms := millis (jr_now command)\<rparr>) \<and>
     evaluation_of (ses_db s') = evaluation_of (ses_db s) \<and> task_of (ses_db s') = task_of (ses_db s) \<and>
     (\<forall>d. r = Ok d \<longrightarrow> d = Directive_Continue expires_at)"
proof -
  obtain expires_at res where
    add: "UnixMillis_checked_add (jr_now command) (lp_lease_duration (jr_lease_policy command)) = Ok expires_at"
    and y: "yields (renew_transaction command (millis (jr_now command)) (millis expires_at))
       (ses_db s) res (ses_db s')"
    and d: "\<And>d. r = Ok d \<Longrightarrow> d = (case res of None \<Rightarrow> Directive_Cancel | Some _ \<Rightarrow> Directive_Continue expires_at)"
    using judge_renew_changed [OF run changed] by metis
  obtain e a where e: "evaluation_of (ses_db s) (evaluation_id_str (jr_evaluation_id command)) = Some e"
    and a: "attempt_of (ses_db s) (ev_current_attempt_id e) = Some a"
    and c: "res = Some ()" "ev_state e = ''leased''" "at_state a = ''leased''"
      "ev_current_attempt_id e = attempt_id_str (jr_attempt_id command)"
      "at_node_id a = Some (node_id_str (jr_node_id command))"
      "at_lease_token a = Some (lease_token_str (jr_lease_token command))"
    and ch: "row_changes (ses_db s) (ev_evaluation_id e) id (ev_current_attempt_id e)
      (renewed_attempt (millis (jr_now command)) (millis expires_at)) id (ses_db s')"
    by (rule renew_effect [OF y store_inv_integrity [OF inv]]) (use changed in auto)
  have rows: "evaluation_of (ses_db s') = evaluation_of (ses_db s)" "task_of (ses_db s') = task_of (ses_db s)"
    "attempt_of (ses_db s') = (attempt_of (ses_db s))(attempt_id_str (jr_attempt_id command) \<mapsto>
        a\<lparr>at_lease_expires_at_ms := Some (millis expires_at), at_updated_at_ms := millis (jr_now command)\<rparr>)"
    using ch a c(4) by (auto simp: row_changes_def fun_eq_iff renewed_attempt_def option.map_id)
  show ?thesis
    by (rule exI [of _ e], rule exI [of _ a], rule exI [of _ expires_at])
      (use e a c add rows d in auto)
qed

definition demo_renewed :: tables where
  "demo_renewed = demo_leased\<lparr>db_attempts := [(lease_attempt ''n1'' ''t1'' 1200 (Some ''op1'') 200
     (new_attempt_row demo_request [0] 1 100))\<lparr>at_lease_expires_at_ms := Some 6000, at_updated_at_ms := 5000\<rparr>]\<rparr>"

lemma demo_renew_transaction:
  "renew_transaction (demo_renew 5000) 5000 6000 (calm demo_leased) = (Ok (Some ()), calm demo_renewed)"
proof -
  have row: "evaluation_with_attempt ''e'' demo_leased =
      Some ((new_evaluation_row demo_request [0] 100)\<lparr>ev_state := ''leased'', ev_updated_at_ms := 200\<rparr>,
            lease_attempt ''n1'' ''t1'' 1200 (Some ''op1'') 200 (new_attempt_row demo_request [0] 1 100))"
    by (simp add: evaluation_with_attempt_def demo_leased_def sel_Cons demo_rows demo_fields)
  have check: "attempt_check ((lease_attempt ''n1'' ''t1'' 1200 (Some ''op1'') 200
      (new_attempt_row demo_request [0] 1 100))\<lparr>at_lease_expires_at_ms := Some 6000, at_updated_at_ms := 5000\<rparr>)"
    using demo_ids_ok by (simp add: demo_checks demo_rows demo_fields value_bounds)
  then show ?thesis
    by (simp add: renew_transaction_def calm_simps demo_renew_def row)
      (simp add: column_def calm_simps demo_rows demo_fields statement_defs upd_def checked_rows_def
        attempts_unique_def claim_key_def demo_leased_def demo_renewed_def)
qed

lemma demo_renew_run:
  "judge_renew_lease (demo_renew 5000) (calm demo_leased) =
     (Ok (Directive_Continue (UnixMillis 6000)), calm demo_renewed)"
proof -
  have "transaction current_attempt_fk (renew_transaction (demo_renew 5000) 5000 6000) (calm demo_leased) =
      (Ok (Some ()), calm demo_renewed)"
    by (intro calm_transaction demo_renew_transaction)
      (simp add: current_attempt_fk_def demo_renewed_def demo_leased_def demo_rows)
  moreover have "UnixMillis_checked_add (UnixMillis 5000) (LeaseDuration 1000) = Ok (UnixMillis 6000)"
    by (simp add: UnixMillis_checked_add_def MAX_UNIX_MILLIS_def)
  ultimately show ?thesis
    by (simp add: judge_renew_lease_def calm_simps demo_renew_def demo_lease_policy_def
        i64_try_from_def)
qed

theorem renewal_is_by_the_holder_witness:
  "\<exists>a. attempt_of demo_leased ''a1'' = Some a \<and> at_node_id a = Some ''n1'' \<and>
     attempt_of demo_renewed = (attempt_of demo_leased)(''a1'' \<mapsto>
       a\<lparr>at_lease_expires_at_ms := Some 6000, at_updated_at_ms := 5000\<rparr>)"
proof -
  have "attempt_of demo_renewed \<noteq> attempt_of demo_leased"
    by (auto simp: attempt_of_def demo_leased_def demo_renewed_def sel_Cons demo_rows demo_fields
        dest!: fun_cong [of _ _ "''a1''"])
  then have "demo_renewed \<noteq> demo_leased" by auto
  then show ?thesis
    using renewal_is_by_the_holder [OF demo_renew_run, of demo_env] demo_leased_inv
    by (auto simp: demo_renew_def demo_lease_policy_def UnixMillis_checked_add_Ok_iff millis_def)
qed




section \<open>Retry and status\<close>










text \<open>C40: the table accepts required capabilities only in strictly ascending order and in its own
  grammar: a creation whose request lists them otherwise never writes, and its answer is an error
  unless the creation key was used before, although such requests are valid in the domain.\<close>

theorem unordered_capabilities_are_not_created:
  assumes "create_evaluation env command s = (r, s')" and "store_inv env (ses_db s)"
    and "\<not> valid_required_capabilities (pg_text_less env)
      (map capability_str (req_required_capabilities (ce_request command)))"
  shows "ses_db s' = ses_db s \<and> (\<forall>snap. r = Ok snap \<longrightarrow>
     (\<exists>stored \<in> set (db_evaluations (ses_db s)). ev_creation_idempotency_key stored =
        idempotency_key_str (req_idempotency_key (ce_request command))))"
  by (rule create_needs_ordered_capabilities [OF assms])

theorem unordered_capabilities_are_not_created_witness:
  "\<exists>request r s'. evaluation_request_ok request \<and>
     create_evaluation demo_env \<lparr>ce_request = request, ce_created_at = UnixMillis 100\<rparr> (calm empty_tables) =
       (r, s') \<and> ses_db s' = empty_tables \<and> (\<forall>snap. r \<noteq> Ok snap)"
proof -
  let ?q = "demo_request\<lparr>req_required_capabilities := [Capability ''b'', Capability ''a'']\<rparr>"
  have ok: "evaluation_request_ok ?q"
    using demo_request_ok
    by (simp add: evaluation_request_ok_def lower_token_ok_def value_bounds is_separator_def
        is_lower_alnum_def ascii_defs evaluation_bounds)
  obtain r s' where run: "create_evaluation demo_env \<lparr>ce_request = ?q, ce_created_at = UnixMillis 100\<rparr>
      (calm empty_tables) = (r, s')" by force
  have "\<not> valid_required_capabilities (pg_text_less demo_env) [''b'', ''a'']"
    by (simp add: valid_required_capabilities_def pg_capability_ok_def is_lower_alnum_def ascii_defs
        demo_env_def)
  then show ?thesis
    using unordered_capabilities_are_not_created [OF run] ok run store_inv_empty [of demo_env]
    by (intro exI [of _ ?q] exI [of _ r] exI [of _ s']) (simp add: empty_tables_def)
qed

end
