(* ===== verification/Evaluation_Correctness.thy ===== *)
theory Evaluation_Correctness
  imports Sample_Data
begin

text \<open>
  The correctness of the domain types, the evaluation pipeline and the canonical documents: which
  results can be built, what an evaluation of a request returns, and that documents survive the
  way through the wire in both directions.
\<close>

section \<open>Domain\<close>

text \<open>C29: a result is accepted exactly when its five stages are in canonical order, its lists are
  bounded, its provenance names the requested runtime and status, verdict, score and stage statuses
  have one of the terminal shapes: a decided run with all stages succeeded, a rejection at the build
  or the run stage, or a failure or cancellation at one stage; nothing else is changed.\<close>

theorem result_accepted_iff_terminal_shape:
  "EvaluationResult_new p = Ok r \<longleftrightarrow>
     r = p \<and> map rep_stage (res_stages p) = ALGORITHM_BATCH_STAGES \<and>
     length (res_diagnostics p) \<le> MAX_RESULT_DIAGNOSTICS \<and>
     length (res_evidence p) \<le> MAX_RESULT_EVIDENCE \<and>
     prov_runtime_digest (res_provenance p) = idn_runtime_digest (res_identity p) \<and>
     terminal_shape (res_status p) (res_verdict p) (res_score p) (map rep_status (res_stages p))"
  by (rule EvaluationResult_new_Ok_iff)

text \<open>C31: the one-pass token validator accepts exactly the grammar of the schema: the text cut at its
  separators has only non-empty lowercase alphanumeric pieces, starts with a letter and is within the
  bound.\<close>

theorem token_loop_is_segment_grammar:
  "is_ok (validate_lower_token s name maximum) \<longleftrightarrow>
     length s \<le> maximum \<and> s \<noteq> [] \<and> is_ascii_lowercase (hd s) \<and>
     list_all (\<lambda>seg. seg \<noteq> [] \<and> list_all is_lower_alnum seg) (segments s)"
  using validate_lower_token_Ok_iff [of s name maximum]
  by (cases "validate_lower_token s name maximum") (auto simp: lower_token_ok_def)

text \<open>C37: a lease expiry never wraps: for valid operands the 64-bit sum is the mathematical sum, and
  it is refused exactly when it passes the last representable instant.\<close>

theorem lease_expiry_is_exact:
  assumes "unix_millis_ok t" and "lease_duration_ok d"
  shows "UnixMillis_checked_add t d =
     (if millis t + uint (lease_duration_value d) \<le> 253402300799999
      then Ok (UnixMillis (word_of_int (millis t + uint (lease_duration_value d))))
      else Err (OutOfRange ''lease_expires_at_ms'' 0 253402300799999
             (word_of_int (millis t + uint (lease_duration_value d)))))"
proof -
  have sum: "uint (unix_millis_value t + lease_duration_value d) = millis t + uint (lease_duration_value d)"
    using uint_checked_add [OF assms] by (simp add: millis_def)
  have word: "word_of_int (millis t + uint (lease_duration_value d)) = unix_millis_value t + lease_duration_value d"
    using sum by (metis word_of_int_uint)
  show ?thesis
    unfolding word using sum
    by (auto simp: UnixMillis_checked_add_def Let_def MAX_UNIX_MILLIS_def word_less_def not_le)
qed

theorem lease_expiry_is_exact_witness:
  "is_ok (UnixMillis_checked_add (UnixMillis 253402300799998) (LeaseDuration 1)) \<and>
   \<not> is_ok (UnixMillis_checked_add (UnixMillis 253402300799999) (LeaseDuration 1))"
  using lease_expiry_is_exact [of "UnixMillis 253402300799998" "LeaseDuration 1"]
    lease_expiry_is_exact [of "UnixMillis 253402300799999" "LeaseDuration 1"]
  by (simp add: unix_millis_ok_def lease_duration_ok_def MAX_UNIX_MILLIS_def MAX_LEASE_DURATION_MS_def
      millis_def)



section \<open>The pipeline\<close>

text \<open>C6: an evaluation over any executor that returns typed outcomes is sound: a returned result is
  valid, belongs to the request, carries the executor's provenance, totals the stages' usage, and
  exactly the stages it reports as not skipped were executed, once each and in order; an error is an
  unsupported capability, unusable provenance or a malformed stage outcome, never a wrong result.\<close>

theorem evaluation_is_sound:
  assumes "typed_executor ex safe" and "evaluation_request_ok request" and "safe s"
    and "evaluate (logged ex) request (s, []) = (res, (s', executed))"
  shows "safe s' \<and>
     (case res of
        Ok r \<Rightarrow> evaluation_result_ok r \<and>
          res_identity r = EvaluationIdentity_from_request request \<and>
          ExecutionProvenance_new (ex_kind ex s) (ex_production_eligible ex s)
             (rt_digest (req_runtime request)) (ex_node_id ex s) = Ok (res_provenance r) \<and>
          usage_totals (res_stages r) (res_usage r) \<and> executed = executed_stages r
      | Err e \<Rightarrow> e = UnsupportedCapability \<or>
          (\<exists>m. e = ApplicationError_Domain (InvalidProvenance m)) \<or> stage_error e)"
proof -
  have "safe s' \<and> (case res of
      Ok r \<Rightarrow> executed = executed_stages r \<and>
        (\<exists>provenance. ExecutionProvenance_new (ex_kind ex s) (ex_production_eligible ex s)
             (rt_digest (req_runtime request)) (ex_node_id ex s) = Ok provenance \<and>
           result_for request provenance r)
    | Err e \<Rightarrow> e = UnsupportedCapability \<or>
        (\<exists>m. e = ApplicationError_Domain (InvalidProvenance m)) \<or> stage_error e)"
    by (rule typed_executor.evaluate_logged_sound [OF assms])
  then show ?thesis by (cases res) (auto simp: result_for_def)
qed

theorem evaluation_is_sound_witness:
  "\<exists>r. evaluate (logged development_mock) demo_request (demo_mock, []) =
       (Ok r, (demo_mock, ALGORITHM_BATCH_STAGES)) \<and> evaluation_result_ok r"
proof -
  obtain r where run: "evaluate development_mock demo_request demo_mock = (Ok r, demo_mock)"
    and c: "res_status r = EvaluationStatus_Completed" "res_verdict r = Verdict_Accepted"
    using evaluate_mock [OF demo_request_ok demo_mock_inv] by (auto simp: demo_request_def)
  obtain l where logged: "evaluate (logged development_mock) demo_request (demo_mock, []) =
      (Ok r, (demo_mock, l))"
    using evaluate_logged [OF run] by blast
  have "evaluation_result_ok r \<and> l = executed_stages r"
    using evaluation_is_sound [OF mock_typed.typed_executor_axioms demo_request_ok demo_mock_inv logged]
    by simp
  moreover from this have "executed_stages r = ALGORITHM_BATCH_STAGES"
    using c by (auto simp: evaluation_result_ok_def terminal_shape_def run_rejections_def
        executed_stages_def ALGORITHM_BATCH_STAGES_def map_eq_Cons_conv)
  ultimately show ?thesis using logged by auto
qed



text \<open>C27: the two validators agree: the result of any evaluation passes the semantic validation of the
  canonical document (status and verdict table, stage statuses, aggregate usage, provenance), so
  encoding it can only fail at the schema or at the size bound.\<close>

theorem evaluated_results_pass_document_validation:
  assumes "typed_executor ex safe" and "evaluation_request_ok request" and "safe s"
    and "evaluate ex request s = (Ok r, s')"
  shows "validate_result_semantics (result_to_value r) = Ok () \<and>
     encode_evaluation_result lib r =
       encode_wire lib (wl_result lib) (result_to_value r) MAX_EVALUATION_RESULT_BYTES"
proof -
  have "\<exists>provenance. result_for request provenance r"
    using typed_executor.evaluate_sound [OF assms] by auto
  then have "validate_result_semantics (result_to_value r) = Ok ()"
    using validate_result_semantics_ok [of r] by (auto simp: result_for_def)
  then show ?thesis by (simp add: encode_evaluation_result_def Let_def)
qed

theorem evaluated_results_pass_document_validation_witness:
  "\<exists>r. evaluate development_mock demo_request demo_mock = (Ok r, demo_mock) \<and>
     validate_result_semantics (result_to_value r) = Ok ()"
proof -
  obtain r where run: "evaluate development_mock demo_request demo_mock = (Ok r, demo_mock)"
    using evaluate_mock [OF demo_request_ok demo_mock_inv] by (auto simp: demo_request_def)
  then show ?thesis
    using evaluated_results_pass_document_validation
      [OF mock_typed.typed_executor_axioms demo_request_ok demo_mock_inv run] by blast
qed

section \<open>Canonical documents\<close>

text \<open>C12: a valid request survives the wire: whatever it is encoded to decodes to exactly that request
  and stays within the size bound; and whatever decodes at all is a valid request.\<close>

theorem request_round_trip:
  assumes "wire_lib_ok lib" and "evaluation_request_ok r" and "encode_evaluation_request lib r = Ok b"
  shows "decode_evaluation_request lib b = Ok r \<and> length b \<le> MAX_EVALUATION_REQUEST_BYTES \<and>
     (\<forall>b' r'. decode_evaluation_request lib b' = Ok r' \<longrightarrow> evaluation_request_ok r')"
  using decode_encode_request [OF assms] decode_evaluation_request_ok assms(3)
  by (auto simp: encode_evaluation_request_def dest: encode_wire_bound)

theorem request_round_trip_witness:
  "encode_evaluation_request demo_lib demo_request = Ok [0] \<and>
   decode_evaluation_request demo_lib [0] = Ok demo_request"
  using request_round_trip [OF demo_lib_ok(1) demo_request_ok demo_encode_request(1)]
    demo_encode_request(1) by simp

text \<open>C11: a valid result survives the wire: whatever it is encoded to decodes to exactly that result
  and stays within the size bound; and whatever decodes at all is a valid result.\<close>

theorem result_round_trip:
  assumes "wire_lib_ok lib" and "evaluation_result_ok r" and "encode_evaluation_result lib r = Ok b"
  shows "decode_evaluation_result_domain lib b = Ok r \<and> length b \<le> MAX_EVALUATION_RESULT_BYTES \<and>
     (\<forall>b' r'. decode_evaluation_result_domain lib b' = Ok r' \<longrightarrow> evaluation_result_ok r')"
  using decode_encode_result [OF assms] encode_result_bound [OF assms(3)] decode_result_domain_ok
  by blast

theorem result_round_trip_witness:
  "encode_evaluation_result demo_lib demo_result = Ok [0] \<and>
   decode_evaluation_result_domain demo_lib [0] = Ok demo_result"
  using result_round_trip [OF demo_lib_ok(1) demo_result_ok demo_encode_result] demo_encode_result
  by simp

text \<open>C28: what the document validator accepts: for a document written from a result with canonical
  stages, a score and a provenance of the domain, it accepts exactly the terminal shapes whose usage
  is the total of the stages, so it checks the totals the domain constructor does not.\<close>

theorem document_validator_accepts:
  assumes "score_ok (res_score r)" and "map rep_stage (res_stages r) = ALGORITHM_BATCH_STAGES"
    and "execution_provenance_ok (res_provenance r)"
  shows "validate_result_semantics (result_to_value r) = Ok () \<longleftrightarrow>
     terminal_shape (res_status r) (res_verdict r) (res_score r) (map rep_status (res_stages r)) \<and>
     usage_totals (res_stages r) (res_usage r)"
  by (rule validate_result_semantics_iff) (simp add: result_parts_ok_def assms)

theorem document_validator_accepts_witness:
  "validate_result_semantics (result_to_value demo_result) = Ok () \<and>
   validate_result_semantics (result_to_value (demo_result\<lparr>res_verdict := Verdict_SystemError\<rparr>)) \<noteq> Ok ()"
proof -
  have p: "result_parts_ok demo_result" by (rule evaluation_result_ok_parts [OF demo_result_ok])
  have "terminal_shape (res_status demo_result) (res_verdict demo_result) (res_score demo_result)
      (map rep_status (res_stages demo_result))"
    using demo_result_ok by (simp add: evaluation_result_ok_def)
  moreover have "\<not> terminal_shape (res_status demo_result) Verdict_SystemError (res_score demo_result)
      (map rep_status (res_stages demo_result))"
    by (simp add: terminal_shape_def demo_result_def run_rejections_def)
  ultimately show ?thesis
    using document_validator_accepts [of demo_result] demo_totals p
      document_validator_accepts [of "demo_result\<lparr>res_verdict := Verdict_SystemError\<rparr>"]
    by (simp add: result_parts_ok_def)
qed

end
