(* ===== verification/Sample_Run.thy ===== *)
theory Sample_Run
  imports Sample_Data
begin

text \<open>
  A concrete cycle of a judge node against the control plane: the node claims the task of the
  sample store, renews its lease, evaluates the request with the development executor and submits
  the result.
\<close>

section \<open>The service and its handlers\<close>

definition demo_service :: judge_control_service where
  "demo_service = \<lparr>svc_store = Some PostgresEvaluationStore,
     svc_node_policy = \<lparr>np_allowed = [NodeId ''n1'' \<mapsto> {Capability ''algorithm.batch''}]\<rparr>,
     svc_lease_policy = demo_lease_policy\<rparr>"

definition demo_source :: "u64 \<Rightarrow> control_source" where
  "demo_source t = \<lparr>src_now = Ok (UnixMillis t), src_lease_token = Ok (LeaseToken ''t1'')\<rparr>"

definition demo_client :: uds_judge_control_client where
  "demo_client = \<lparr>uc_node_id = NodeId ''n1'', uc_capabilities = [Capability ''algorithm.batch''],
     uc_lease_duration = LeaseDuration 1000, uc_no_task_backoff_ms = 500\<rparr>"

lemma demo_evaluate: "evaluate development_mock demo_request demo_mock = (Ok demo_result, demo_mock)"
proof -
  have add: "ResourceUsage_checked_add ResourceUsage_default ResourceUsage_default =
      Ok ResourceUsage_default"
    by (simp add: checked_add_default)
  have fields: "req_plan demo_request = EvaluationPlan_algorithm_batch"
    "req_required_capabilities demo_request = [Capability ''algorithm.batch'']"
    "req_runtime demo_request = \<lparr>rt_runtime_id = RuntimeId ''rt'', rt_digest = demo_digest\<rparr>"
    "mock_node_id demo_mock = NodeId ''n1''"
    by (simp_all add: demo_request_def demo_mock_def)
  show ?thesis
    using demo_result_ok
    by (simp add: evaluate_def fields EvaluationPlan_algorithm_batch_def ExecutionProvenance_new_def
        EvaluationRun_record_def
        classify_outcome_def validate_decision_location_def EvaluationRun_new_def add
        StageReport_new_def enforce_collection_limit_def EvaluationRun_finish_success_def
        EvaluationRun_finish_def build_result_def EvaluationResult_new_def MAX_STAGES_def
        MAX_RESULT_DIAGNOSTICS_def MAX_RESULT_EVIDENCE_def ALGORITHM_BATCH_STAGES_def
        validate_terminal_semantics_def ensure_def demo_result_def demo_report_def)
      (simp add: EvaluationIdentity_from_request_def fields)
qed

lemma demo_done_ok: "id_ok ''done''"
  by (simp add: opaque_ok_def value_bounds ascii_defs is_separator_def)

lemma demo_parse:
  "NodeId_parse ''n1'' = Ok (NodeId ''n1'')" "EvaluationId_parse ''e'' = Ok (EvaluationId ''e'')"
  "AttemptId_parse ''a1'' = Ok (AttemptId ''a1'')" "LeaseToken_parse ''t1'' = Ok (LeaseToken ''t1'')"
  "ClaimOperationId_parse ''op1'' = Ok (ClaimOperationId ''op1'')"
  "ResultOperationId_parse ''done'' = Ok (ResultOperationId ''done'')"
  "IdempotencyKey_parse ''done'' = Ok (IdempotencyKey ''done'')"
  using demo_ids_ok demo_done_ok
  by (simp_all add: opaque_parse_defs parse_opaque_id_Ok IdempotencyKey_parse_Ok value_bounds)

lemma demo_negotiate:
  "negotiate_session demo_service \<lparr>nr_version = CLIENT_PROTOCOL_VERSION, nr_node_id = ''n1'',
     nr_capabilities = [''algorithm.batch'']\<rparr> =
   Ok \<lparr>ses_node_id = NodeId ''n1'', ses_capabilities = [Capability ''algorithm.batch'']\<rparr>"
proof -
  have "validate_capabilities [''algorithm.batch''] = Ok [Capability ''algorithm.batch'']"
    using demo_capability_ok
    by (simp add: validate_capabilities_Ok_iff MAX_DECLARED_CAPABILITIES_def)
  then show ?thesis
    by (simp add: negotiate_session_def reject_def validate_protocol_version_def demo_parse
        demo_service_def NodePolicy_authorize_def)
qed

lemma demo_service_claim:
  "service_claim demo_env demo_service (demo_source 200) {}
     \<lparr>cr_version = CLIENT_PROTOCOL_VERSION, cr_node_id = ''n1'', cr_claim_operation_id = ''op1'',
      cr_capabilities = [''algorithm.batch'']\<rparr> (calm demo_created) =
   (Ok (Outcome_Leased \<lparr>lt_evaluation_id = ''e'', lt_attempt_id = ''a1'', lt_attempt_number = 1,
      lt_lease_token = ''t1'', lt_lease_expires_at_unix_ms = 1200, lt_canonical_request = [0]\<rparr>),
    calm demo_leased)"
proof -
  have enc: "encode_evaluation_request (pg_wire demo_env) demo_request = Ok [0]"
    by (simp add: demo_env_def demo_encode_request)
  have svc: "service_store demo_service = Ok PostgresEvaluationStore"
    "svc_lease_policy demo_service = demo_lease_policy"
    by (simp_all add: service_store_def demo_service_def)
  show ?thesis
    using demo_claim_run
    by (simp add: service_claim_def rpc_then_def rpc_lift_def rpc_store_def demo_negotiate demo_parse
        reject_def svc demo_source_def demo_claim_def demo_task_lease_def demo_fields enc)
qed

lemma demo_renew_same_transaction:
  "renew_transaction (demo_renew 200) 200 1200 (calm demo_leased) = (Ok (Some ()), calm demo_leased)"
proof -
  have row: "evaluation_with_attempt ''e'' demo_leased =
      Some ((new_evaluation_row demo_request [0] 100)\<lparr>ev_state := ''leased'', ev_updated_at_ms := 200\<rparr>,
            lease_attempt ''n1'' ''t1'' 1200 (Some ''op1'') 200 (new_attempt_row demo_request [0] 1 100))"
    by (simp add: evaluation_with_attempt_def demo_leased_def sel_Cons demo_rows demo_fields)
  show ?thesis
    using demo_lease_checks
    by (simp add: renew_transaction_def calm_simps demo_renew_def row)
      (simp add: column_def calm_simps demo_rows demo_fields statement_defs upd_def checked_rows_def
        attempts_unique_def claim_key_def demo_leased_def)
qed

lemma demo_service_renew:
  "service_renew_lease demo_service (demo_source 200)
     \<lparr>rr_version = CLIENT_PROTOCOL_VERSION, rr_node_id = ''n1'', rr_evaluation_id = ''e'',
      rr_attempt_id = ''a1'', rr_lease_token = ''t1''\<rparr> (calm demo_leased) =
   (Ok (ContinueLease 1200 400), calm demo_leased)"
proof -
  have "transaction current_attempt_fk (renew_transaction (demo_renew 200) 200 1200) (calm demo_leased) =
      (Ok (Some ()), calm demo_leased)"
    by (intro calm_transaction demo_renew_same_transaction demo_leased_fk)
  moreover have "UnixMillis_checked_add (UnixMillis 200) (LeaseDuration 1000) = Ok (UnixMillis 1200)"
    by (simp add: UnixMillis_checked_add_def MAX_UNIX_MILLIS_def)
  ultimately have "judge_renew_lease (demo_renew 200) (calm demo_leased) =
      (Ok (Directive_Continue (UnixMillis 1200)), calm demo_leased)"
    by (simp add: judge_renew_lease_def calm_simps demo_renew_def demo_lease_policy_def i64_try_from_def)
  then show ?thesis
    by (simp add: service_renew_lease_def rpc_then_def rpc_lift_def rpc_store_def demo_parse reject_def
        validate_protocol_version_def parse_and_authorize_node_def demo_service_def
        NodePolicy_authorize_identity_def service_store_def demo_source_def demo_renew_def
        duration_ms_def demo_lease_policy_def)
qed

lemma demo_service_submit:
  "\<exists>snap. service_submit_result demo_env demo_service (demo_source 300)
     \<lparr>sq_version = CLIENT_PROTOCOL_VERSION, sq_node_id = ''n1'', sq_evaluation_id = ''e'',
      sq_attempt_id = ''a1'', sq_lease_token = ''t1'', sq_result_operation_id = ''done'',
      sq_canonical_result = [0]\<rparr> (calm demo_leased) =
   (Ok (Some snap), calm demo_finished) \<and> sm_evaluation_id snap = ''e''"
proof -
  obtain snap where sub: "submit_result demo_env demo_submit (calm demo_leased) = (Ok snap, calm demo_finished)"
    and sid: "snap_evaluation_id snap = EvaluationId ''e''"
    using demo_submit_run by blast
  have row: "evaluation_with_attempt ''e'' demo_leased =
      Some ((new_evaluation_row demo_request [0] 100)\<lparr>ev_state := ''leased'', ev_updated_at_ms := 200\<rparr>,
            lease_attempt ''n1'' ''t1'' 1200 (Some ''op1'') 200 (new_attempt_row demo_request [0] 1 100))"
    by (simp add: evaluation_with_attempt_def demo_leased_def sel_Cons demo_rows demo_fields)
  have prov: "prov_node_id (res_provenance demo_result) = Some (NodeId ''n1'')"
    by (simp add: demo_result_def)
  have ids: "idn_evaluation_id (res_identity demo_result) = EvaluationId ''e''"
    "idn_attempt_id (res_identity demo_result) = AttemptId ''a1''"
    by (simp_all add: demo_result_def EvaluationIdentity_from_request_def demo_request_def)
  have judge: "judge_submit_result demo_env \<lparr>js_node_id = NodeId ''n1'',
      js_operation_id = ResultOperationId ''done'', js_lease_token = LeaseToken ''t1'',
      js_result = demo_result, js_now = UnixMillis 300\<rparr> (calm demo_leased) = (Ok snap, calm demo_finished)"
    using sub by (simp add: judge_submit_result_def prov ids row calm_simps lease_attempt_def corrupt_def
        demo_parse demo_submit_def)
  show ?thesis
    using judge sid demo_decode_result
    by (simp add: service_submit_result_def rpc_then_def rpc_lift_def rpc_store_def demo_parse reject_def
        validate_protocol_version_def parse_and_authorize_node_def demo_service_def ids demo_env_def
        NodePolicy_authorize_identity_def service_store_def demo_source_def)
qed

end
