(* ===== verification/Worker_Correctness.thy ===== *)
theory Worker_Correctness
  imports Sample_Run Store_Refinement
begin

text \<open>
  The judge node, the control plane and the store together: what a connection negotiates, what one
  cycle of a worker may do to the store, and what an acknowledged submission means.
\<close>

section \<open>Negotiation\<close>

lemma duration_ms_ok:
  assumes "lease_duration_ok d"
  shows "duration_ms d = Ok (ucast (lease_duration_value d))"
    and "ucast (ucast (lease_duration_value d) :: u32) = lease_duration_value d"
    and "unat (ucast (lease_duration_value d) :: u32) = unat (lease_duration_value d)"
proof -
  have "unat (lease_duration_value d) \<le> 3600000"
    using assms by (simp add: lease_duration_ok_def MAX_LEASE_DURATION_MS_def word_le_nat_alt)
  then have small: "unat (lease_duration_value d) < 2 ^ 32" by simp
  then show "duration_ms d = Ok (ucast (lease_duration_value d))" by (simp add: duration_ms_def)
  show u: "unat (ucast (lease_duration_value d) :: u32) = unat (lease_duration_value d)"
    using small by (simp add: unsigned_ucast_eq take_bit_nat_eq_self)
  then show "ucast (ucast (lease_duration_value d) :: u32) = lease_duration_value d"
    by (simp only: word_unat_eq_iff unat_u64_of_u32)
qed

text \<open>The offer of a service with a valid lease policy passes the client's checks.\<close>

definition offer :: "lease_policy \<Rightarrow> capability list \<Rightarrow> negotiate_response" where
  "offer p cs = \<lparr>ns_accepted_version = CLIENT_PROTOCOL_VERSION,
     ns_allowed_capabilities = map capability_str cs,
     ns_lease_duration_ms = ucast (lease_duration_value (lp_lease_duration p)),
     ns_renew_after_ms = ucast (lease_duration_value (lp_renew_after p)),
     ns_no_task_backoff_ms = 500\<rparr>"

lemma offer_accepted:
  assumes "lease_policy_ok p"
  shows "negotiated_ok (offer p cs) cs"
    and "LeaseDuration_new (ucast (ns_lease_duration_ms (offer p cs))) = Ok (lp_lease_duration p)"
proof -
  have d: "lease_duration_ok (lp_lease_duration p)" "lease_duration_ok (lp_renew_after p)"
    and half: "lease_duration_value (lp_renew_after p) \<le> lease_duration_value (lp_lease_duration p) div 2"
    using assms by (simp_all add: lease_policy_ok_def)
  note u = duration_ms_ok(3) [OF d(1)] duration_ms_ok(3) [OF d(2)]
  have pos: "0 < unat (lease_duration_value (lp_lease_duration p))"
    "0 < unat (lease_duration_value (lp_renew_after p))"
    using d by (auto simp: lease_duration_ok_def word_le_nat_alt)
  have half': "unat (lease_duration_value (lp_renew_after p)) \<le>
      unat (lease_duration_value (lp_lease_duration p)) div 2"
    using half by (simp add: word_le_nat_alt unat_div)
  show "negotiated_ok (offer p cs) cs"
    using pos half' u
    by (auto simp: negotiated_ok_def offer_def list_all_iff list_ex_iff word_unat_eq_iff
        word_less_nat_alt unat_div)
  show "LeaseDuration_new (ucast (ns_lease_duration_ms (offer p cs))) = Ok (lp_lease_duration p)"
    using d(1) duration_ms_ok(2) [OF d(1)]
    by (cases "lp_lease_duration p") (simp add: offer_def LeaseDuration_new_def lease_duration_ok_def)
qed

lemma service_negotiate_iff:
  assumes "lease_policy_ok (svc_lease_policy service)" and "id_ok (node_id_str node)"
    and tokens: "list_all (\<lambda>c. lower_token_ok MAX_CAPABILITY_LENGTH (capability_str c)) cs"
  shows "service_negotiate service \<lparr>nr_version = CLIENT_PROTOCOL_VERSION, nr_node_id = node_id_str node,
       nr_capabilities = map capability_str cs\<rparr> = Ok response \<longleftrightarrow>
     response = offer (svc_lease_policy service) cs \<and> cs \<noteq> [] \<and> distinct cs \<and>
     length cs \<le> MAX_DECLARED_CAPABILITIES \<and>
     (\<exists>allowed. np_allowed (svc_node_policy service) node = Some allowed \<and> set cs \<subseteq> allowed)"
proof -
  have node: "NodeId_parse (node_id_str node) = Ok node"
    using assms(2) by (cases node) (simp add: NodeId_parse_def parse_opaque_id_Ok)
  have id: "map Capability (map capability_str cs) = cs" by (simp add: map_idI)
  have dist: "distinct (map capability_str cs) \<longleftrightarrow> distinct cs"
    by (auto simp: distinct_map inj_on_def capability.expand)
  have caps: "validate_capabilities (map capability_str cs) = Ok cs' \<longleftrightarrow>
      cs' = cs \<and> distinct cs \<and> length cs \<le> MAX_DECLARED_CAPABILITIES" for cs'
    using tokens dist id by (auto simp: validate_capabilities_Ok_iff list_all_iff o_def)
  have d: "lease_duration_ok (lp_lease_duration (svc_lease_policy service))"
    "lease_duration_ok (lp_renew_after (svc_lease_policy service))"
    using assms(1) by (simp_all add: lease_policy_ok_def)
  show ?thesis
    by (auto simp: service_negotiate_def negotiate_session_def reject_def and_then_Ok_iff node caps
        NodePolicy_authorize_Ok_iff duration_ms_ok(1) [OF d(1)] duration_ms_ok(1) [OF d(2)] offer_def)
qed

text \<open>C22: client and service agree on the negotiation: over a call that is delivered, a connection with
  well-formed node and capabilities succeeds exactly when the deployment's policy allows the node all
  of them (non-empty, distinct, at most 64), and then the client holds exactly the service's lease
  duration; every offer the service makes passes the client's own checks.\<close>

theorem connection_iff_authorised:
  assumes "lease_policy_ok (svc_lease_policy service)" and "id_ok (node_id_str node)"
    and "list_all (\<lambda>c. lower_token_ok MAX_CAPABILITY_LENGTH (capability_str c)) cs"
    and path: "socket_path = CHR ''/'' # rest" and call: "wd_calls w = (Delivered, source, locked) # calls"
  shows "fst (UdsJudgeControlClient_connect (service_channel env service) True socket_path node cs w) =
     (if cs = [] then Err InvalidConfiguration
      else if distinct cs \<and> length cs \<le> MAX_DECLARED_CAPABILITIES \<and>
        (\<exists>allowed. np_allowed (svc_node_policy service) node = Some allowed \<and> set cs \<subseteq> allowed)
      then Ok \<lparr>uc_node_id = node, uc_capabilities = cs,
             uc_lease_duration = lp_lease_duration (svc_lease_policy service),
             uc_no_task_backoff_ms = 500\<rparr>
      else Err IncompatibleServer)"
proof -
  let ?rq = "\<lparr>nr_version = CLIENT_PROTOCOL_VERSION, nr_node_id = node_id_str node,
       nr_capabilities = map capability_str cs\<rparr>"
  note iff = service_negotiate_iff [OF assms(1-3)]
  note ok = offer_accepted [OF assms(1), of cs]
  have backoff: "ns_no_task_backoff_ms (offer p cs) = 500" for p by (simp add: offer_def)
  show ?thesis
  proof (cases "service_negotiate service ?rq")
    case (Ok response)
    then have "response = offer (svc_lease_policy service) cs" "cs \<noteq> []" "distinct cs"
      "length cs \<le> MAX_DECLARED_CAPABILITIES"
      "\<exists>allowed. np_allowed (svc_node_policy service) node = Some allowed \<and> set cs \<subseteq> allowed"
      using iff [of response] by simp_all
    then show ?thesis
      using Ok ok backoff by (simp add: UdsJudgeControlClient_connect_def path deliver_def call rpc_lift_def)
  next
    case (Err e)
    then have "\<not> (cs \<noteq> [] \<and> distinct cs \<and> length cs \<le> MAX_DECLARED_CAPABILITIES \<and>
        (\<exists>allowed. np_allowed (svc_node_policy service) node = Some allowed \<and> set cs \<subseteq> allowed))"
      using iff [of "offer (svc_lease_policy service) cs"] by simp
    then show ?thesis
      using Err by (auto simp: UdsJudgeControlClient_connect_def path deliver_def call rpc_lift_def)
  qed
qed

theorem connection_iff_authorised_witness:
  "fst (UdsJudgeControlClient_connect (service_channel demo_env demo_service) True ''/run/x.sock''
     (NodeId ''n1'') [Capability ''algorithm.batch'']
     \<lparr>wd_session = calm empty_tables, wd_calls = [(Delivered, demo_source 1, {})]\<rparr>) = Ok demo_client \<and>
   fst (UdsJudgeControlClient_connect (service_channel demo_env demo_service) True ''/run/x.sock''
     (NodeId ''n1'') [Capability ''gpu'']
     \<lparr>wd_session = calm empty_tables, wd_calls = [(Delivered, demo_source 1, {})]\<rparr>) = Err IncompatibleServer"
proof -
  have p: "lease_policy_ok (svc_lease_policy demo_service)"
    by (simp add: demo_service_def demo_lease_policy_def lease_policy_ok_def lease_duration_ok_def
        MAX_LEASE_DURATION_MS_def)
  have n: "id_ok (node_id_str (NodeId ''n1''))" using demo_ids_ok by simp
  have c: "list_all (\<lambda>c. lower_token_ok MAX_CAPABILITY_LENGTH (capability_str c)) [Capability ''algorithm.batch'']"
    "list_all (\<lambda>c. lower_token_ok MAX_CAPABILITY_LENGTH (capability_str c)) [Capability ''gpu'']"
    using demo_capability_ok
    by (simp_all add: lower_token_ok_def value_bounds is_separator_def is_lower_alnum_def ascii_defs)
  let ?w = "\<lparr>wd_session = calm empty_tables, wd_calls = [(Delivered, demo_source 1, {})]\<rparr>"
  have call: "wd_calls ?w = (Delivered, demo_source 1, {}) # []" by simp
  note connect = connection_iff_authorised [OF p n _ refl call, of _ demo_env "''run/x.sock''"]
  have np: "np_allowed (svc_node_policy demo_service) (NodeId ''n1'') = Some {Capability ''algorithm.batch''}"
    "lp_lease_duration (svc_lease_policy demo_service) = LeaseDuration 1000"
    by (simp_all add: demo_service_def demo_lease_policy_def)
  show ?thesis
    using connect [OF c(1)] connect [OF c(2)]
    by (simp add: np demo_client_def MAX_DECLARED_CAPABILITIES_def)
qed

section \<open>A cycle of the worker\<close>

text \<open>C14: whatever a worker cycle returns, under any losses of requests and responses and any failures of
  the database, it keeps the invariant of the control plane, leaves its executor in a sound state and
  moves the store only by steps of the abstract lifecycle.\<close>

theorem worker_cycle_is_safe:
  assumes "judge_contract executor safe" and "control_inv env w" and "safe x"
    and run: "run_once_async (uds_client (pg_wire env) (service_channel env service) self) executor
       claim_op result_op w x = (outcome, w', x')"
  shows "control_inv env w' \<and> safe x' \<and>
     life_steps (abs_lives env (world_db w)) (abs_lives env (world_db w'))"
proof -
  have "worker (uds_client (pg_wire env) (service_channel env service) self) (control_inv env)
      (\<lambda>w w'. store_steps env (world_db w) (world_db w')) (\<lambda>w. result_recorded env (world_db w)) executor safe"
    by (intro worker.intro uds_contract.control_contract_axioms assms(1))
  from worker.run_once_async_sound [OF this assms(2,3) run] show ?thesis
    using assms(2) store_steps_simulate by (auto simp: control_inv_def)
qed

definition demo_world :: control_world where
  "demo_world = \<lparr>wd_session = calm demo_created, wd_calls =
     [(Delivered, demo_source 200, {}), (Delivered, demo_source 200, {}), (Delivered, demo_source 300, {})]\<rparr>"

lemma demo_world_inv: "control_inv demo_env demo_world"
  using demo_lib_ok demo_created_inv
  by (simp add: control_inv_def demo_world_def world_db_def source_ok_def demo_source_def
      unix_millis_ok_def MAX_UNIX_MILLIS_def)

lemma demo_client_claim:
  "client_claim (pg_wire demo_env) (service_channel demo_env demo_service) demo_client
     (ClaimOperationId ''op1'') demo_world =
   (Ok (WorkerClaim_Lease demo_task_lease), demo_world\<lparr>wd_session := calm demo_leased, wd_calls :=
      [(Delivered, demo_source 200, {}), (Delivered, demo_source 300, {})]\<rparr>)"
  by (simp add: client_claim_def deliver_def demo_world_def demo_client_def demo_service_claim
      lease_of_response_def corrupt_def demo_decode_request demo_fields demo_parse UnixMillis_new_def
      MAX_UNIX_MILLIS_def demo_task_lease_def)
    (simp add: demo_env_def corrupt_def demo_decode_request demo_fields demo_parse UnixMillis_new_def
      MAX_UNIX_MILLIS_def)

lemma demo_cycle:
  "\<exists>w'. run_once_async (uds_client (pg_wire demo_env) (service_channel demo_env demo_service) demo_client)
     (evaluate development_mock) (ClaimOperationId ''op1'') (ResultOperationId ''done'') demo_world demo_mock =
     (Ok Submitted, w', demo_mock) \<and> world_db w' = demo_finished"
proof -
  have lease: "tl_request demo_task_lease = demo_request"
    "tl_lease_token demo_task_lease = LeaseToken ''t1''"
    by (simp_all add: demo_task_lease_def)
  obtain snap where sub: "service_submit_result demo_env demo_service (demo_source 300)
     \<lparr>sq_version = CLIENT_PROTOCOL_VERSION, sq_node_id = ''n1'', sq_evaluation_id = ''e'',
      sq_attempt_id = ''a1'', sq_lease_token = ''t1'', sq_result_operation_id = ''done'',
      sq_canonical_result = [0]\<rparr> (calm demo_leased) = (Ok (Some snap), calm demo_finished)"
    "sm_evaluation_id snap = ''e''"
    using demo_service_submit by blast
  have enc: "encode_evaluation_result (pg_wire demo_env) demo_result = Ok [0]"
    by (simp add: demo_env_def demo_encode_result)
  have node: "node_id_str (uc_node_id demo_client) = ''n1''" by (simp add: demo_client_def)
  show ?thesis
    using demo_service_renew sub
    by (simp add: run_once_async_def demo_client_claim client_renew_def deliver_def lease demo_fields node
        corrupt_def UnixMillis_new_def MAX_UNIX_MILLIS_def demo_evaluate client_submit_def enc world_db_def)
qed

theorem worker_cycle_is_safe_witness:
  "\<exists>w'. control_inv demo_env w' \<and> world_db w' = demo_finished \<and>
     life_steps (abs_lives demo_env demo_created) (abs_lives demo_env demo_finished)"
proof -
  obtain w' where run: "run_once_async (uds_client (pg_wire demo_env) (service_channel demo_env demo_service)
      demo_client) (evaluate development_mock) (ClaimOperationId ''op1'') (ResultOperationId ''done'')
      demo_world demo_mock = (Ok Submitted, w', demo_mock)" and w': "world_db w' = demo_finished"
    using demo_cycle by blast
  have "world_db demo_world = demo_created" by (simp add: demo_world_def world_db_def)
  then show ?thesis
    using worker_cycle_is_safe [OF mock_typed.judged.judge_contract_axioms demo_world_inv demo_mock_inv run] w'
    by auto
qed

text \<open>C3: an acknowledged cycle is an evaluation that counts: when the worker reports a submission, it held
  a lease from the control plane, the submitted result is the valid one that its executor gave for
  exactly the leased request, and the store holds that result as the terminal result of the evaluation.\<close>

theorem acknowledged_result_is_stored:
  assumes "judge_contract executor safe" and "control_inv env w" and "safe x"
    and run: "run_once_async (uds_client (pg_wire env) (service_channel env service) self) executor
       claim_op result_op w x = (Ok Submitted, w', x')"
  shows "\<exists>lease w1 q e payload.
     client_claim (pg_wire env) (service_channel env service) self claim_op w =
       (Ok (WorkerClaim_Lease lease), w1) \<and>
     executor (tl_request lease) x = (Ok q, x') \<and> evaluation_result_ok q \<and>
     res_identity q = EvaluationIdentity_from_request (tl_request lease) \<and>
     evaluation_of (world_db w') (evaluation_id_str (req_evaluation_id (tl_request lease))) = Some e \<and>
     ev_terminal_result e = Some payload \<and>
     decode_evaluation_result_domain (pg_wire env) payload = Ok q"
proof -
  have "worker (uds_client (pg_wire env) (service_channel env service) self) (control_inv env)
      (\<lambda>w w'. store_steps env (world_db w) (world_db w')) (\<lambda>w. result_recorded env (world_db w)) executor safe"
    by (intro worker.intro uds_contract.control_contract_axioms assms(1))
  from worker.run_once_async_submitted [OF this assms(2,3) run] obtain lease w1 q provenance where
    "client_claim (pg_wire env) (service_channel env service) self claim_op w =
       (Ok (WorkerClaim_Lease lease), w1)"
    and "executor (tl_request lease) x = (Ok q, x')"
    and "result_for (tl_request lease) provenance q" and "result_recorded env (world_db w') q"
    by (metis uds_client_simps(1))
  then show ?thesis
    by (fastforce simp: result_for_def result_recorded_def EvaluationIdentity_from_request_def)
qed

theorem acknowledged_result_is_stored_witness:
  "\<exists>e payload. evaluation_of demo_finished ''e'' = Some e \<and> ev_terminal_result e = Some payload \<and>
     decode_evaluation_result_domain (pg_wire demo_env) payload = Ok demo_result"
proof -
  obtain w' where run: "run_once_async (uds_client (pg_wire demo_env) (service_channel demo_env demo_service)
      demo_client) (evaluate development_mock) (ClaimOperationId ''op1'') (ResultOperationId ''done'')
      demo_world demo_mock = (Ok Submitted, w', demo_mock)" and w': "world_db w' = demo_finished"
    using demo_cycle by blast
  show ?thesis
    using acknowledged_result_is_stored [OF mock_typed.judged.judge_contract_axioms demo_world_inv demo_mock_inv run]
      demo_client_claim demo_evaluate w'
    by (auto simp: demo_task_lease_def demo_fields)
qed

end
