(* ===== verification/Guest_Protocol.thy ===== *)
theory Guest_Protocol
  imports Protocol_Json
begin

text \<open>
  \<open>crates/openoj-guest-protocol/src/lib.rs\<close>: the messages between the host and the agent in the
  guest, and their bounded, length-prefixed frames.  Names that other crates use too carry the
  prefix \<open>guest\<close>.  \<open>serde_json\<close> is not part of the repository: \<open>guest_json\<close> holds its two
  functions, and \<open>guest_json_ok\<close> states that it reads back the documents the codec writes.
\<close>

section \<open>Bounds and errors\<close>

definition PROTOCOL_VERSION :: str where "PROTOCOL_VERSION = ''v0alpha1''"
definition MAX_FRAME_BYTES :: nat where "MAX_FRAME_BYTES = 1048576"
definition MAX_TYPE_LEN :: nat where "MAX_TYPE_LEN = 32"
definition MAX_GUEST_CAPABILITIES :: nat where "MAX_GUEST_CAPABILITIES = 32"
definition MAX_CAPABILITY_LEN :: nat where "MAX_CAPABILITY_LEN = 32"
definition MAX_DIGEST_LEN :: nat where "MAX_DIGEST_LEN = 64"
definition MAX_INLINE_BYTES :: nat where "MAX_INLINE_BYTES = 262144"
definition MAX_NAME_LEN :: nat where "MAX_NAME_LEN = 128"
definition MAX_ARGUMENTS :: nat where "MAX_ARGUMENTS = 32"
definition MAX_ARGUMENT_LEN :: nat where "MAX_ARGUMENT_LEN = 256"
definition MAX_DIAGNOSTICS :: nat where "MAX_DIAGNOSTICS = 32"
definition MAX_DIAGNOSTIC_MESSAGE :: nat where "MAX_DIAGNOSTIC_MESSAGE = 4096"

lemmas guest_bounds = MAX_FRAME_BYTES_def MAX_TYPE_LEN_def MAX_GUEST_CAPABILITIES_def
  MAX_CAPABILITY_LEN_def MAX_DIGEST_LEN_def MAX_INLINE_BYTES_def MAX_NAME_LEN_def MAX_ARGUMENTS_def
  MAX_ARGUMENT_LEN_def MAX_DIAGNOSTICS_def MAX_DIAGNOSTIC_MESSAGE_def

datatype codec_error =
    FrameTooLarge nat nat
  | BoundedLengthExceeded nat nat
  | Truncated
  | MalformedJson
  | UnknownType
  | TypeTooLong
  | CodecError_UnsupportedVersion
  | BoundsExceeded str nat nat

definition bounds :: "str \<Rightarrow> nat \<Rightarrow> nat \<Rightarrow> codec_error" where
  "bounds name actual maximum = BoundsExceeded name actual maximum"

section \<open>Messages\<close>

datatype stage = Stage_Build | Stage_Run

fun Stage_as_str :: "stage \<Rightarrow> str" where
  "Stage_as_str Stage_Build = ''build''"
| "Stage_as_str Stage_Run = ''run''"

definition Stage_parse :: "str \<Rightarrow> (stage, codec_error) result" where
  "Stage_parse value =
     (if value = ''build'' then Ok Stage_Build
      else if value = ''run'' then Ok Stage_Run
      else Err UnknownType)"

record guest_usage =
  gu_cpu_time_ms :: u64
  gu_wall_time_ms :: u64
  gu_memory_peak_bytes :: u64
  gu_output_bytes :: u64

record guest_diagnostic =
  gd_code :: str
  gd_message :: str
  gd_truncated :: bool

text \<open>\<open>str::is_char_boundary\<close>: the ends, and every byte that does not continue a character.\<close>

definition is_char_boundary :: "str \<Rightarrow> nat \<Rightarrow> bool" where
  "is_char_boundary s i \<longleftrightarrow>
     i = 0 \<or> i = length s \<or> (i < length s \<and> \<not> is_utf8_continuation (s ! i))"

text \<open>The loop of \<open>truncate\<close>.\<close>

fun truncate_end :: "str \<Rightarrow> nat \<Rightarrow> nat" where
  "truncate_end s 0 = 0"
| "truncate_end s (Suc n) = (if is_char_boundary s (Suc n) then Suc n else truncate_end s n)"

definition truncate_str :: "str \<Rightarrow> nat \<Rightarrow> str" where
  "truncate_str value maximum =
     (if length value \<le> maximum then value else take (truncate_end value maximum) value)"

definition GuestDiagnostic_new :: "str \<Rightarrow> str \<Rightarrow> guest_diagnostic" where
  "GuestDiagnostic_new code message =
     \<lparr>gd_code = code, gd_message = truncate_str message MAX_DIAGNOSTIC_MESSAGE,
      gd_truncated = (length message > MAX_DIAGNOSTIC_MESSAGE)\<rparr>"

type_synonym i32 = "32 word"

datatype guest_message =
    Message_Negotiate "str list"
  | Message_Negotiated bool
  | Message_UploadInput str str bytes
  | Message_UploadAck str bool
  | Message_Build "str list" u64
  | Message_Run "str list" u64
  | Message_StageOutput stage i32 str u64 guest_usage "guest_diagnostic list"
  | Message_StageEvidence str
  | Message_EvidenceAck str bool
  | Message_Cancel
  | Message_Cancelled
  | Message_Heartbeat
  | Message_Ack

fun message_type :: "guest_message \<Rightarrow> str" where
  "message_type (Message_Negotiate _) = ''negotiate''"
| "message_type (Message_Negotiated _) = ''negotiated''"
| "message_type (Message_UploadInput _ _ _) = ''upload_input''"
| "message_type (Message_UploadAck _ _) = ''upload_ack''"
| "message_type (Message_Build _ _) = ''build''"
| "message_type (Message_Run _ _) = ''run''"
| "message_type (Message_StageOutput _ _ _ _ _ _) = ''stage_output''"
| "message_type (Message_StageEvidence _) = ''stage_evidence''"
| "message_type (Message_EvidenceAck _ _) = ''evidence_ack''"
| "message_type Message_Cancel = ''cancel''"
| "message_type Message_Cancelled = ''cancelled''"
| "message_type Message_Heartbeat = ''heartbeat''"
| "message_type Message_Ack = ''ack''"

section \<open>Fields\<close>

text \<open>Strings are ordered by their bytes, as in a \<open>BTreeSet<&str>\<close>.\<close>

definition is_sorted_unique :: "str list \<Rightarrow> bool" where
  "is_sorted_unique values \<longleftrightarrow>
     card (set values) = length values \<and> sorted_list_of_set (set values) = values"

definition guest_validate_capabilities :: "str list \<Rightarrow> (unit, codec_error) result" where
  "guest_validate_capabilities capabilities =
     (if length capabilities > MAX_GUEST_CAPABILITIES
      then Err (bounds ''capabilities'' (length capabilities) MAX_GUEST_CAPABILITIES)
      else if \<not> is_sorted_unique capabilities
      then Err (BoundsExceeded ''capabilities'' (length capabilities) MAX_GUEST_CAPABILITIES)
      else map_ok (\<lambda>_. ()) (traverse (\<lambda>capability.
        if length capability > MAX_CAPABILITY_LEN
        then Err (bounds ''capability'' (length capability) MAX_CAPABILITY_LEN)
        else Ok ()) capabilities))"

definition json_array :: "str list \<Rightarrow> json" where
  "json_array values = JArray (map JString values)"

definition json_bytes :: "bytes \<Rightarrow> json" where
  "json_bytes bytes = JArray (map (\<lambda>b. JNumber (PosInt (ucast b))) bytes)"

text \<open>\<open>contains("..")\<close>.\<close>

fun has_dots :: "str \<Rightarrow> bool" where
  "has_dots (a # b # s) \<longleftrightarrow> a = CHR ''.'' \<and> b = CHR ''.'' \<or> has_dots (b # s)"
| "has_dots _ \<longleftrightarrow> False"

definition backslash :: char where "backslash = char_of (92 :: nat)"

definition check_name :: "str \<Rightarrow> (unit, codec_error) result" where
  "check_name name =
     (if name = [] \<or> length name > MAX_NAME_LEN then Err (bounds ''name'' (length name) MAX_NAME_LEN)
      else if CHR ''/'' \<in> set name \<or> backslash \<in> set name \<or> has_dots name
      then Err (bounds ''name'' (length name) MAX_NAME_LEN)
      else Ok ())"

type_synonym json_map = "(str, json) fmap"

fun json_str :: "json \<Rightarrow> str option" where
  "json_str (JString s) = Some s"
| "json_str _ = None"

fun json_array_of :: "json \<Rightarrow> json list option" where
  "json_array_of (JArray xs) = Some xs"
| "json_array_of _ = None"

fun json_object_of :: "json \<Rightarrow> json_map option" where
  "json_object_of (JObject m) = Some m"
| "json_object_of _ = None"

text \<open>\<open>as_i64\<close>, as the bits of an \<open>i64\<close>, and \<open>i32::try_from\<close>.\<close>

fun json_i64 :: "json \<Rightarrow> 64 word option" where
  "json_i64 (JNumber (PosInt n)) = (if unat n < 2 ^ 63 then Some n else None)"
| "json_i64 (JNumber (NegInt n)) = Some n"
| "json_i64 _ = None"

definition i32_try_from :: "64 word \<Rightarrow> i32 option" where
  "i32_try_from n = (if - (2 ^ 31) \<le> sint n \<and> sint n < 2 ^ 31 then Some (scast n) else None)"

text \<open>\<open>Number::from\<close> on an \<open>i32\<close>.\<close>

definition json_i32 :: "i32 \<Rightarrow> json" where
  "json_i32 n = JNumber (if sint n < 0 then NegInt (scast n) else PosInt (scast n))"

text \<open>\<open>object.get(key).and_then(..).ok_or(MalformedJson)\<close>.\<close>

definition get_as :: "(json \<Rightarrow> 'a option) \<Rightarrow> json_map \<Rightarrow> str \<Rightarrow> ('a, codec_error) result" where
  "get_as read object key = ok_or (Option.bind (fmlookup object key) read) MalformedJson"

definition guest_string_field :: "json_map \<Rightarrow> str \<Rightarrow> nat \<Rightarrow> (str, codec_error) result" where
  "guest_string_field object key maximum =
     and_then (get_as json_str object key) (\<lambda>value.
       if length value > maximum then Err (bounds key (length value) maximum) else Ok value)"

definition guest_string_vec :: "json_map \<Rightarrow> str \<Rightarrow> nat \<Rightarrow> (str list, codec_error) result" where
  "guest_string_vec object key maximum =
     and_then (get_as json_array_of object key) (\<lambda>array.
       if length array > maximum then Err (bounds key (length array) maximum)
       else traverse (\<lambda>item. ok_or (json_str item) MalformedJson) array)"

definition byte_of_json :: "json \<Rightarrow> (u8, codec_error) result" where
  "byte_of_json item =
     and_then (ok_or (json_as_u64 item) MalformedJson) (\<lambda>number.
       if unat number > 255 then Err MalformedJson else Ok (ucast number))"

definition byte_field :: "json_map \<Rightarrow> str \<Rightarrow> (bytes, codec_error) result" where
  "byte_field object key =
     and_then (get_as json_array_of object key) (\<lambda>array.
       if length array > MAX_INLINE_BYTES then Err (bounds ''bytes'' (length array) MAX_INLINE_BYTES)
       else traverse byte_of_json array)"

definition bool_field :: "json_map \<Rightarrow> str \<Rightarrow> (bool, codec_error) result" where
  "bool_field object key = get_as json_as_bool object key"

definition i32_field :: "json_map \<Rightarrow> str \<Rightarrow> (i32, codec_error) result" where
  "i32_field object key =
     and_then (get_as json_i64 object key) (\<lambda>number. ok_or (i32_try_from number) MalformedJson)"

definition guest_u64_field :: "json_map \<Rightarrow> str \<Rightarrow> (u64, codec_error) result" where
  "guest_u64_field object key = get_as json_as_u64 object key"

definition check_arguments :: "str list \<Rightarrow> (unit, codec_error) result" where
  "check_arguments argv =
     map_ok (\<lambda>_. ()) (traverse (\<lambda>argument.
       if length argument > MAX_ARGUMENT_LEN
       then Err (bounds ''argument'' (length argument) MAX_ARGUMENT_LEN) else Ok ()) argv)"

definition write_command :: "json_map \<Rightarrow> str list \<Rightarrow> u64 \<Rightarrow> (json_map, codec_error) result" where
  "write_command object argv wall_time_ms =
     (if argv = [] \<or> length argv > MAX_ARGUMENTS
      then Err (bounds ''argv'' (length argv) MAX_ARGUMENTS)
      else and_then (check_arguments argv) (\<lambda>_.
        Ok (fmupd ''wall_time_ms'' (json_u64 wall_time_ms) (fmupd ''argv'' (json_array argv) object))))"

definition readable_command :: "json_map \<Rightarrow> (str list \<times> u64, codec_error) result" where
  "readable_command object =
     and_then (guest_string_vec object ''argv'' MAX_ARGUMENTS) (\<lambda>argv.
     if argv = [] then Err (BoundsExceeded ''argv'' 0 MAX_ARGUMENTS)
     else
       and_then (check_arguments argv) (\<lambda>_.
       and_then (guest_u64_field object ''wall_time_ms'') (\<lambda>wall_time_ms. Ok (argv, wall_time_ms))))"

definition parse_capabilities :: "json_map \<Rightarrow> (str list, codec_error) result" where
  "parse_capabilities object =
     and_then (guest_string_vec object ''capabilities'' MAX_GUEST_CAPABILITIES) (\<lambda>capabilities.
     and_then (guest_validate_capabilities capabilities) (\<lambda>_. Ok capabilities))"

definition usage_value :: "guest_usage \<Rightarrow> json" where
  "usage_value usage = JObject
     (fmupd ''output_bytes'' (json_u64 (gu_output_bytes usage))
     (fmupd ''memory_peak_bytes'' (json_u64 (gu_memory_peak_bytes usage))
     (fmupd ''wall_time_ms'' (json_u64 (gu_wall_time_ms usage))
     (fmupd ''cpu_time_ms'' (json_u64 (gu_cpu_time_ms usage)) fmempty))))"

definition usage_from :: "json \<Rightarrow> (guest_usage, codec_error) result" where
  "usage_from value =
     and_then (ok_or (json_object_of value) MalformedJson) (\<lambda>object.
     and_then (guest_u64_field object ''cpu_time_ms'') (\<lambda>cpu_time_ms.
     and_then (guest_u64_field object ''wall_time_ms'') (\<lambda>wall_time_ms.
     and_then (guest_u64_field object ''memory_peak_bytes'') (\<lambda>memory_peak_bytes.
     and_then (guest_u64_field object ''output_bytes'') (\<lambda>output_bytes.
       Ok \<lparr>gu_cpu_time_ms = cpu_time_ms, gu_wall_time_ms = wall_time_ms,
           gu_memory_peak_bytes = memory_peak_bytes, gu_output_bytes = output_bytes\<rparr>)))))"

definition diagnostic_value :: "guest_diagnostic \<Rightarrow> json" where
  "diagnostic_value d = JObject
     (fmupd ''truncated'' (JBool (gd_truncated d))
     (fmupd ''message'' (JString (gd_message d))
     (fmupd ''code'' (JString (gd_code d)) fmempty)))"

definition diagnostics_value :: "guest_diagnostic list \<Rightarrow> json" where
  "diagnostics_value diagnostics = JArray (map diagnostic_value diagnostics)"

definition diagnostic_from :: "json \<Rightarrow> (guest_diagnostic, codec_error) result" where
  "diagnostic_from item =
     and_then (ok_or (json_object_of item) MalformedJson) (\<lambda>object.
     and_then (guest_string_field object ''code'' MAX_TYPE_LEN) (\<lambda>code.
     and_then (guest_string_field object ''message'' MAX_DIAGNOSTIC_MESSAGE) (\<lambda>message.
     and_then (bool_field object ''truncated'') (\<lambda>truncated.
       Ok \<lparr>gd_code = code, gd_message = message, gd_truncated = truncated\<rparr>))))"

definition diagnostics_from :: "json \<Rightarrow> (guest_diagnostic list, codec_error) result" where
  "diagnostics_from value =
     and_then (ok_or (json_array_of value) MalformedJson) (\<lambda>array.
       if length array > MAX_DIAGNOSTICS then Err (bounds ''diagnostics'' (length array) MAX_DIAGNOSTICS)
       else traverse diagnostic_from array)"

section \<open>Documents\<close>

fun write_fields :: "guest_message \<Rightarrow> json_map \<Rightarrow> (json_map, codec_error) result" where
  "write_fields (Message_Negotiate capabilities) object =
     and_then (guest_validate_capabilities capabilities) (\<lambda>_.
       Ok (fmupd ''capabilities'' (json_array capabilities) object))"
| "write_fields (Message_Negotiated supported) object =
     Ok (fmupd ''supported'' (JBool supported) object)"
| "write_fields (Message_UploadInput name digest content) object =
     and_then (check_name name) (\<lambda>_.
       if length digest > MAX_DIGEST_LEN then Err (bounds ''digest'' (length digest) MAX_DIGEST_LEN)
       else if length content > MAX_INLINE_BYTES
       then Err (bounds ''bytes'' (length content) MAX_INLINE_BYTES)
       else Ok (fmupd ''bytes'' (json_bytes content) (fmupd ''digest'' (JString digest)
         (fmupd ''name'' (JString name) object))))"
| "write_fields (Message_UploadAck name accepted) object =
     and_then (check_name name) (\<lambda>_.
       Ok (fmupd ''accepted'' (JBool accepted) (fmupd ''name'' (JString name) object)))"
| "write_fields (Message_Build argv wall_time_ms) object = write_command object argv wall_time_ms"
| "write_fields (Message_Run argv wall_time_ms) object = write_command object argv wall_time_ms"
| "write_fields (Message_StageOutput stage exit_code output_digest output_bytes usage diagnostics)
     object =
     (if length output_digest > MAX_DIGEST_LEN
      then Err (bounds ''output_digest'' (length output_digest) MAX_DIGEST_LEN)
      else if length diagnostics > MAX_DIAGNOSTICS
      then Err (bounds ''diagnostics'' (length diagnostics) MAX_DIAGNOSTICS)
      else Ok (fmupd ''diagnostics'' (diagnostics_value diagnostics)
        (fmupd ''usage'' (usage_value usage)
        (fmupd ''output_bytes'' (json_u64 output_bytes)
        (fmupd ''output_digest'' (JString output_digest)
        (fmupd ''exit_code'' (json_i32 exit_code)
        (fmupd ''stage'' (JString (Stage_as_str stage)) object)))))))"
| "write_fields (Message_StageEvidence kind) object =
     (if length kind > MAX_TYPE_LEN then Err (bounds ''kind'' (length kind) MAX_TYPE_LEN)
      else Ok (fmupd ''kind'' (JString kind) object))"
| "write_fields (Message_EvidenceAck kind accepted) object =
     Ok (fmupd ''accepted'' (JBool accepted) (fmupd ''kind'' (JString kind) object))"
| "write_fields Message_Cancel object = Ok object"
| "write_fields Message_Cancelled object = Ok object"
| "write_fields Message_Heartbeat object = Ok object"
| "write_fields Message_Ack object = Ok object"

text \<open>The document \<open>encode\<close> hands to \<open>serde_json::to_vec\<close>.\<close>

definition message_document :: "guest_message \<Rightarrow> (json, codec_error) result" where
  "message_document message =
     map_ok JObject (write_fields message (fmupd ''version'' (JString PROTOCOL_VERSION)
       (fmupd ''type'' (JString (message_type message)) fmempty)))"

definition object_str :: "json_map \<Rightarrow> str \<Rightarrow> str option" where
  "object_str object key = Option.bind (fmlookup object key) json_str"

definition message_fields :: "str \<Rightarrow> json_map \<Rightarrow> (guest_message, codec_error) result" where
  "message_fields type_name object =
     (if type_name = ''negotiate'' then map_ok Message_Negotiate (parse_capabilities object)
      else if type_name = ''negotiated''
      then map_ok Message_Negotiated (get_as json_as_bool object ''supported'')
      else if type_name = ''upload_input'' then
        and_then (guest_string_field object ''name'' MAX_NAME_LEN) (\<lambda>name.
        and_then (guest_string_field object ''digest'' MAX_DIGEST_LEN) (\<lambda>digest.
        and_then (byte_field object ''bytes'') (\<lambda>content.
          Ok (Message_UploadInput name digest content))))
      else if type_name = ''upload_ack'' then
        and_then (guest_string_field object ''name'' MAX_NAME_LEN) (\<lambda>name.
        and_then (bool_field object ''accepted'') (\<lambda>accepted. Ok (Message_UploadAck name accepted)))
      else if type_name = ''build''
      then map_ok (\<lambda>(argv, wall_time_ms). Message_Build argv wall_time_ms) (readable_command object)
      else if type_name = ''run''
      then map_ok (\<lambda>(argv, wall_time_ms). Message_Run argv wall_time_ms) (readable_command object)
      else if type_name = ''stage_output'' then
        and_then (and_then (guest_string_field object ''stage'' MAX_TYPE_LEN) Stage_parse) (\<lambda>stage.
        and_then (i32_field object ''exit_code'') (\<lambda>exit_code.
        and_then (guest_string_field object ''output_digest'' MAX_DIGEST_LEN) (\<lambda>output_digest.
        and_then (guest_u64_field object ''output_bytes'') (\<lambda>output_bytes.
        and_then (and_then (ok_or (fmlookup object ''usage'') MalformedJson) usage_from) (\<lambda>usage.
        and_then (and_then (ok_or (fmlookup object ''diagnostics'') MalformedJson) diagnostics_from)
          (\<lambda>diagnostics.
          Ok (Message_StageOutput stage exit_code output_digest output_bytes usage diagnostics)))))))
      else if type_name = ''stage_evidence''
      then map_ok Message_StageEvidence (guest_string_field object ''kind'' MAX_TYPE_LEN)
      else if type_name = ''evidence_ack'' then
        and_then (guest_string_field object ''kind'' MAX_TYPE_LEN) (\<lambda>kind.
        and_then (bool_field object ''accepted'') (\<lambda>accepted. Ok (Message_EvidenceAck kind accepted)))
      else if type_name = ''cancel'' then Ok Message_Cancel
      else if type_name = ''cancelled'' then Ok Message_Cancelled
      else if type_name = ''heartbeat'' then Ok Message_Heartbeat
      else if type_name = ''ack'' then Ok Message_Ack
      else Err UnknownType)"

definition from_value :: "json \<Rightarrow> (guest_message, codec_error) result" where
  "from_value value =
     and_then (ok_or (json_object_of value) MalformedJson) (\<lambda>object.
     and_then (ok_or (object_str object ''type'') UnknownType) (\<lambda>type_name.
       if length type_name > MAX_TYPE_LEN then Err TypeTooLong
       else and_then (ok_or (object_str object ''version'') CodecError_UnsupportedVersion) (\<lambda>version.
         if version \<noteq> PROTOCOL_VERSION then Err CodecError_UnsupportedVersion
         else message_fields type_name object)))"

section \<open>Frames\<close>

unbundle bit_operations_syntax

record guest_json =
  gj_to_vec :: "json \<Rightarrow> bytes option"
  gj_from_slice :: "bytes \<Rightarrow> json option"

definition guest_json_ok :: "guest_json \<Rightarrow> bool" where
  "guest_json_ok lib \<longleftrightarrow>
     (\<forall>message document body. message_document message = Ok document \<longrightarrow>
        gj_to_vec lib document = Some body \<longrightarrow> gj_from_slice lib body = Some document)"

definition u32_to_be_bytes :: "u32 \<Rightarrow> bytes" where
  "u32_to_be_bytes n = [ucast (drop_bit 24 n), ucast (drop_bit 16 n), ucast (drop_bit 8 n), ucast n]"

fun u32_from_be_bytes :: "bytes \<Rightarrow> u32" where
  "u32_from_be_bytes [a, b, c, d] =
     push_bit 24 (ucast a) OR push_bit 16 (ucast b) OR push_bit 8 (ucast c) OR ucast d"
| "u32_from_be_bytes _ = 0"

text \<open>
  The length of a body is a \<open>usize\<close>, so adding 4 to the length of a vector does not overflow; a
  body within \<open>MAX_FRAME_BYTES\<close> passes \<open>u32::try_from\<close>.
\<close>

definition encode :: "guest_json \<Rightarrow> guest_message \<Rightarrow> (bytes, codec_error) result" where
  "encode lib message =
     and_then (message_document message) (\<lambda>document.
     and_then (ok_or (gj_to_vec lib document) MalformedJson) (\<lambda>body.
       let frame_bytes = length body + 4 in
       if frame_bytes > MAX_FRAME_BYTES then Err (FrameTooLarge frame_bytes MAX_FRAME_BYTES)
       else if length body \<ge> 2 ^ 32 then Err (FrameTooLarge (length body) MAX_FRAME_BYTES)
       else Ok (u32_to_be_bytes (of_nat (length body)) @ body)))"

definition decode :: "guest_json \<Rightarrow> bytes \<Rightarrow> (guest_message, codec_error) result" where
  "decode lib frame =
     (if length frame < 4 then Err Truncated
      else
        let declared = unat (u32_from_be_bytes (take 4 frame)) in
        if declared > MAX_FRAME_BYTES - 4
        then Err (BoundedLengthExceeded declared (MAX_FRAME_BYTES - 4))
        else if length frame < 4 + declared then Err Truncated
        else and_then (ok_or (gj_from_slice lib (take declared (drop 4 frame))) MalformedJson)
          from_value)"

end
