(* ===== verification/Guest_Correctness.thy ===== *)
theory Guest_Correctness
  imports Guest_Protocol
begin

text \<open>
  The frame codec between the host and the guest agent: what was encoded is decoded again, what
  was decoded is within the bounds of the protocol, and a diagnostic message is cut at a
  character.
\<close>

section \<open>Values and fields\<close>

lemma Stage_parse_as_str [res_simps]: "Stage_parse (Stage_as_str s) = Ok s"
  by (cases s) (simp_all add: Stage_parse_def)

lemma stage_length: "length (Stage_as_str s) \<le> MAX_TYPE_LEN"
  by (cases s) (simp_all add: guest_bounds)

lemma sint_i32_bounds: "- (2 ^ 31) \<le> sint (n :: i32) \<and> sint n < 2 ^ 31"
  using sint_greater_eq [of n] sint_less [of n] by simp

lemma sint_scast_i64 [simp]: "sint (scast (n :: i32) :: 64 word) = sint n"
  using sint_i32_bounds [of n] by (simp add: signed_scast_eq signed_take_bit_int_eq_self)

lemma scast_i64_i32 [simp]: "(scast (scast (n :: i32) :: 64 word) :: i32) = n"
  by (rule bit_word_eqI) (auto simp: bit_simps)

lemma unat_scast_nonneg: "0 \<le> sint (n :: i32) \<Longrightarrow> unat (scast n :: 64 word) < 2 ^ 63"
proof -
  assume nonneg: "0 \<le> sint n"
  then have "uint (scast n :: 64 word) = sint n"
    using sint_i32_bounds [of n] by (simp add: uint_sint [of "scast n :: 64 word"] take_bit_int_eq_self)
  then show ?thesis
    using sint_i32_bounds [of n] by (simp add: unat_eq_nat_uint nat_less_iff nonneg)
qed

lemma i32_json [res_simps]: "Option.bind (json_i64 (json_i32 n)) i32_try_from = Some n"
  using sint_i32_bounds [of n] unat_scast_nonneg [of n]
  by (auto simp: json_i32_def i32_try_from_def)

lemma byte_of_json_byte [res_simps]: "byte_of_json (JNumber (PosInt (ucast b))) = Ok b"
proof -
  have "unat (ucast b :: u64) = unat b"
    using unsigned_less [of b, where ?'a = nat] by (simp add: unsigned_ucast_eq take_bit_nat_eq_self)
  moreover have "(ucast (ucast b :: u64) :: u8) = b"
    by (rule bit_word_eqI) (auto simp: bit_simps)
  ultimately show ?thesis
    using unsigned_less [of b, where ?'a = nat] by (simp add: byte_of_json_def json_as_u64_def)
qed

lemma u32_be_bytes: "u32_from_be_bytes (u32_to_be_bytes n) = n"
proof (rule bit_word_eqI)
  fix i assume "i < LENGTH(32)"
  then consider "i < 8" | "8 \<le> i \<and> i < 16" | "16 \<le> i \<and> i < 24" | "24 \<le> i \<and> i < 32"
    by fastforce
  then show "bit (u32_from_be_bytes (u32_to_be_bytes n)) i \<longleftrightarrow> bit n i"
    by cases (auto simp: u32_to_be_bytes_def bit_simps)
qed

lemma traverse_map_inv: "(\<And>x. x \<in> set xs \<Longrightarrow> f (g x) = Ok x) \<Longrightarrow> traverse f (map g xs) = Ok xs"
  by (induction xs) auto

lemma traverse_check:
  "traverse (\<lambda>x. if P x then Err (e x) else Ok ()) xs = Ok us \<longleftrightarrow>
     (\<forall>x \<in> set xs. \<not> P x) \<and> us = map (\<lambda>_. ()) xs"
  by (induction xs arbitrary: us) (auto simp: and_then_Ok_iff)

lemma map_ok_traverse_check [simp]:
  "map_ok (\<lambda>_. ()) (traverse (\<lambda>x. if P x then Err (e x) else Ok ()) xs) = Ok u \<longleftrightarrow>
     (\<forall>x \<in> set xs. \<not> P x)"
  by (auto simp: map_ok_Ok_iff traverse_check)

lemma is_sorted_unique_iff: "is_sorted_unique values \<longleftrightarrow> sorted values \<and> distinct values"
  unfolding is_sorted_unique_def
  by (metis List.finite_set card_distinct distinct_card sorted_list_of_set.idem_if_sorted_distinct
      sorted_list_of_set.sorted_key_list_of_set_unique sorted_list_of_set.distinct_sorted_key_list_of_set
      sorted_list_of_set.sorted_sorted_key_list_of_set)

section \<open>Bounded messages\<close>

definition capabilities_within :: "str list \<Rightarrow> bool" where
  "capabilities_within capabilities \<longleftrightarrow>
     length capabilities \<le> 32 \<and> sorted capabilities \<and> distinct capabilities \<and>
     (\<forall>capability \<in> set capabilities. length capability \<le> 32)"

definition command_within :: "str list \<Rightarrow> bool" where
  "command_within argv \<longleftrightarrow>
     argv \<noteq> [] \<and> length argv \<le> 32 \<and> (\<forall>argument \<in> set argv. length argument \<le> 256)"

definition diagnostic_within :: "guest_diagnostic \<Rightarrow> bool" where
  "diagnostic_within d \<longleftrightarrow> length (gd_code d) \<le> 32 \<and> length (gd_message d) \<le> 4096"

text \<open>The bounds that decoding enforces.\<close>

fun message_within :: "guest_message \<Rightarrow> bool" where
  "message_within (Message_Negotiate capabilities) = capabilities_within capabilities"
| "message_within (Message_UploadInput name digest content) \<longleftrightarrow>
     length name \<le> 128 \<and> length digest \<le> 64 \<and> length content \<le> 262144"
| "message_within (Message_UploadAck name accepted) \<longleftrightarrow> length name \<le> 128"
| "message_within (Message_Build argv wall_time_ms) = command_within argv"
| "message_within (Message_Run argv wall_time_ms) = command_within argv"
| "message_within (Message_StageOutput stage exit_code output_digest output_bytes usage diagnostics) \<longleftrightarrow>
     length output_digest \<le> 64 \<and> length diagnostics \<le> 32 \<and> list_all diagnostic_within diagnostics"
| "message_within (Message_StageEvidence kind) \<longleftrightarrow> length kind \<le> 32"
| "message_within (Message_EvidenceAck kind accepted) \<longleftrightarrow> length kind \<le> 32"
| "message_within _ = True"

lemmas within_defs = capabilities_within_def command_within_def diagnostic_within_def guest_bounds
  bounds_def

lemmas read_defs = get_as_def guest_string_field_def guest_string_vec_def byte_field_def
  bool_field_def i32_field_def guest_u64_field_def

lemma validate_capabilities_Ok [simp]:
  "guest_validate_capabilities capabilities = Ok u \<longleftrightarrow> capabilities_within capabilities"
  by (auto simp: guest_validate_capabilities_def is_sorted_unique_iff within_defs not_less)

lemma check_arguments_Ok [simp]:
  "check_arguments argv = Ok u \<longleftrightarrow> (\<forall>argument \<in> set argv. length argument \<le> 256)"
  by (auto simp: check_arguments_def within_defs not_less)

lemma read_strings:
  "traverse (\<lambda>item. ok_or (json_str item) MalformedJson) (map JString xs) = Ok xs"
  by (rule traverse_map_inv) simp

section \<open>What is decoded is bounded\<close>

lemma string_field_within: "guest_string_field object key n = Ok s \<Longrightarrow> length s \<le> n"
  by (auto simp: guest_string_field_def and_then_Ok_iff split: if_splits)

lemma string_vec_within: "guest_string_vec object key n = Ok xs \<Longrightarrow> length xs \<le> n"
  by (auto simp: guest_string_vec_def and_then_Ok_iff dest: traverse_Ok_length split: if_splits)

lemma byte_field_within: "byte_field object key = Ok bs \<Longrightarrow> length bs \<le> MAX_INLINE_BYTES"
  by (auto simp: byte_field_def and_then_Ok_iff dest: traverse_Ok_length split: if_splits)

lemma diagnostic_from_within: "diagnostic_from item = Ok d \<Longrightarrow> diagnostic_within d"
  by (auto simp: diagnostic_from_def and_then_Ok_iff within_defs dest!: string_field_within)

lemma diagnostics_from_within:
  assumes "diagnostics_from value = Ok ds"
  shows "length ds \<le> MAX_DIAGNOSTICS \<and> list_all diagnostic_within ds"
proof -
  obtain items where "length items \<le> MAX_DIAGNOSTICS" and "traverse diagnostic_from items = Ok ds"
    using assms by (auto simp: diagnostics_from_def and_then_Ok_iff not_less split: if_splits)
  then show ?thesis
    using traverse_Ok_length traverse_Ok_set diagnostic_from_within
    by (fastforce simp: list_all_iff)
qed

lemma readable_command_within: "readable_command object = Ok (argv, t) \<Longrightarrow> command_within argv"
  by (auto simp: readable_command_def and_then_Ok_iff within_defs split: if_splits
      dest!: string_vec_within)

lemmas from_within = string_field_within byte_field_within diagnostics_from_within
  readable_command_within

lemma message_fields_within: "message_fields type_name object = Ok m \<Longrightarrow> message_within m"
  unfolding message_fields_def
  by (auto simp: and_then_Ok_iff map_ok_Ok_iff parse_capabilities_def guest_bounds
      split: if_splits dest!: from_within)

lemma from_value_within: "from_value value = Ok m \<Longrightarrow> message_within m"
  by (auto simp: from_value_def and_then_Ok_iff message_fields_within split: if_splits)

section \<open>What is encoded is decoded\<close>

lemma traverse_bytes: "traverse byte_of_json (map (\<lambda>b. JNumber (PosInt (ucast b))) bs) = Ok bs"
  by (rule traverse_map_inv) (simp add: byte_of_json_byte)

lemma guest_usage_read [res_simps]: "usage_from (usage_value usage) = Ok usage"
  by (simp add: usage_from_def usage_value_def guest_u64_field_def get_as_def res_simps)

lemma guest_diagnostic_read:
  "diagnostic_within d \<Longrightarrow> diagnostic_from (diagnostic_value d) = Ok d"
  by (simp add: diagnostic_from_def diagnostic_value_def read_defs json_as_bool_def within_defs)

lemma guest_diagnostics_read:
  "length ds \<le> MAX_DIAGNOSTICS \<Longrightarrow> list_all diagnostic_within ds \<Longrightarrow>
     diagnostics_from (diagnostics_value ds) = Ok ds"
  by (simp add: diagnostics_from_def diagnostics_value_def traverse_map_inv guest_diagnostic_read
      list_all_iff)

lemma write_command_Ok:
  "write_command object argv t = Ok object' \<longleftrightarrow>
     command_within argv \<and>
     object' = fmupd ''wall_time_ms'' (json_u64 t) (fmupd ''argv'' (json_array argv) object)"
  by (auto simp: write_command_def and_then_Ok_iff within_defs not_less)

lemma check_arguments_within: "command_within argv \<Longrightarrow> check_arguments argv = Ok ()"
  by (simp add: command_within_def)

lemma get_as_fmupd [res_simps]:
  "get_as read (fmupd k v m) k' = (if k = k' then ok_or (read v) MalformedJson else get_as read m k')"
  by (simp add: get_as_def)

lemma readable_command_written:
  "command_within argv \<Longrightarrow>
     readable_command (fmupd ''wall_time_ms'' (json_u64 t) (fmupd ''argv'' (json_array argv) object))
       = Ok (argv, t)"
  using check_arguments_within [of argv]
  by (simp add: readable_command_def guest_string_vec_def guest_u64_field_def json_array_def
      read_strings guest_bounds res_simps del: check_arguments_Ok)
    (auto simp: command_within_def)

lemma validate_capabilities_within:
  "capabilities_within capabilities \<Longrightarrow> guest_validate_capabilities capabilities = Ok ()"
  by simp

lemma parse_capabilities_written:
  "capabilities_within capabilities \<Longrightarrow>
     parse_capabilities (fmupd ''capabilities'' (json_array capabilities) object) = Ok capabilities"
  using validate_capabilities_within [of capabilities]
  by (simp add: parse_capabilities_def guest_string_vec_def json_array_def
      read_strings guest_bounds res_simps del: validate_capabilities_Ok)
    (auto simp: capabilities_within_def)

lemma message_type_length: "length (message_type m) \<le> MAX_TYPE_LEN"
  by (cases m) (simp_all add: guest_bounds)

lemma write_fields_keeps:
  "write_fields m object = Ok object' \<Longrightarrow>
     fmlookup object' ''type'' = fmlookup object ''type'' \<and>
     fmlookup object' ''version'' = fmlookup object ''version''"
  by (cases m) (auto simp: and_then_Ok_iff write_command_Ok split: if_splits)

lemma check_name_length: "check_name name = Ok u \<Longrightarrow> length name \<le> 128"
  by (auto simp: check_name_def guest_bounds split: if_splits)

lemma i32_field_written [res_simps]:
  "i32_field (fmupd k v m) k' =
     (if k = k' then and_then (ok_or (json_i64 v) MalformedJson)
        (\<lambda>number. ok_or (i32_try_from number) MalformedJson) else i32_field m k')"
  by (simp add: i32_field_def get_as_fmupd)

lemma read_i32 [res_simps]:
  "and_then (ok_or (json_i64 (json_i32 n)) MalformedJson)
     (\<lambda>number. ok_or (i32_try_from number) MalformedJson) = Ok n"
  using i32_json [of n] by (cases "json_i64 (json_i32 n)") simp_all

lemmas written_simps = guest_string_field_def guest_string_vec_def byte_field_def
  bool_field_def guest_u64_field_def res_simps

lemma fields_round_trip:
  "write_fields m object = Ok object' \<Longrightarrow> message_within m \<Longrightarrow>
     message_fields (message_type m) object' = Ok m"
  by (cases m; clarsimp simp: and_then_Ok_iff write_command_Ok guest_bounds not_less split: if_splits;
      simp add: message_fields_def parse_capabilities_written written_simps json_bytes_def
        read_strings traverse_bytes readable_command_written json_as_bool_def check_name_length
        guest_bounds stage_length [unfolded guest_bounds] not_less
        guest_diagnostics_read [unfolded guest_bounds] guest_usage_read)

definition header_object :: "guest_message \<Rightarrow> json_map" where
  "header_object message = fmupd ''version'' (JString PROTOCOL_VERSION)
     (fmupd ''type'' (JString (message_type message)) fmempty)"

lemma message_document_Ok:
  "message_document m = Ok document \<longleftrightarrow>
     (\<exists>object. write_fields m (header_object m) = Ok object \<and> document = JObject object)"
  by (auto simp: message_document_def header_object_def map_ok_Ok_iff)

lemma document_round_trip:
  assumes "message_document m = Ok document"
  shows "from_value document = Ok m \<longleftrightarrow> message_within m"
proof
  assume within: "message_within m"
  obtain object where written: "write_fields m (header_object m) = Ok object"
    and document: "document = JObject object"
    using assms by (auto simp: message_document_Ok)
  have "fmlookup object ''type'' = Some (JString (message_type m))"
    and "fmlookup object ''version'' = Some (JString PROTOCOL_VERSION)"
    using write_fields_keeps [OF written] by (simp_all add: header_object_def)
  then show "from_value document = Ok m"
    using fields_round_trip [OF written within] message_type_length [of m]
    by (simp add: from_value_def document object_str_def)
qed (rule from_value_within)

lemma guarded_Ok_iff: "(if P then Err e else r) = Ok x \<longleftrightarrow> \<not> P \<and> r = Ok x"
  by simp

lemma encode_Ok_iff:
  "encode lib m = Ok frame \<longleftrightarrow>
     (\<exists>document body. message_document m = Ok document \<and> gj_to_vec lib document = Some body \<and>
        length body + 4 \<le> MAX_FRAME_BYTES \<and>
        frame = u32_to_be_bytes (of_nat (length body)) @ body)"
  unfolding encode_def Let_def and_then_Ok_iff ok_or_Ok_iff guarded_Ok_iff
  by (intro iff_exI) (auto simp: guest_bounds)

lemma length_u32_bytes [simp]: "length (u32_to_be_bytes n) = 4"
  by (simp add: u32_to_be_bytes_def)

lemma declared_length:
  "length body + 4 \<le> MAX_FRAME_BYTES \<Longrightarrow> unat (of_nat (length body) :: u32) = length body"
  by (simp add: unat_of_nat guest_bounds)

lemma decode_encoded:
  assumes lib: "guest_json_ok lib" and document: "message_document m = Ok document"
    and body: "gj_to_vec lib document = Some body" "length body + 4 \<le> MAX_FRAME_BYTES"
  shows "decode lib (u32_to_be_bytes (of_nat (length body)) @ body @ rest) = from_value document"
  using lib [unfolded guest_json_ok_def, rule_format, OF document body(1)] body(2)
  by (auto simp: decode_def u32_be_bytes declared_length Let_def guest_bounds)

section \<open>Cutting a diagnostic message\<close>

lemma truncate_end_spec:
  "truncate_end s n \<le> n \<and> is_char_boundary s (truncate_end s n) \<and>
     (\<forall>i. truncate_end s n < i \<and> i \<le> n \<longrightarrow> \<not> is_char_boundary s i)"
proof (induction n)
  case 0
  then show ?case by (auto simp: is_char_boundary_def)
next
  case (Suc n)
  then show ?case by (auto simp: le_Suc_eq)
qed

section \<open>A concrete library\<close>

definition demo_long_kind :: str where
  "demo_long_kind = replicate 33 CHR ''k''"

definition demo_ack_body :: bytes where "demo_ack_body = [123, 125]"
definition demo_long_body :: bytes where "demo_long_body = [123, 34, 125]"

definition demo_ack_document :: json where
  "demo_ack_document = JObject (header_object Message_Ack)"

definition demo_long_document :: json where
  "demo_long_document = JObject (fmupd ''accepted'' (JBool True)
     (fmupd ''kind'' (JString demo_long_kind) (header_object (Message_EvidenceAck demo_long_kind True))))"

definition demo_guest_json :: guest_json where
  "demo_guest_json = \<lparr>
     gj_to_vec = (\<lambda>document. if document = demo_ack_document then Some demo_ack_body
       else if document = demo_long_document then Some demo_long_body else None),
     gj_from_slice = (\<lambda>body. if body = demo_ack_body then Some demo_ack_document
       else if body = demo_long_body then Some demo_long_document else None)\<rparr>"

lemma demo_guest_json_ok: "guest_json_ok demo_guest_json"
  by (auto simp: guest_json_ok_def demo_guest_json_def demo_ack_body_def demo_long_body_def
      split: if_splits)

lemma demo_documents_differ: "demo_long_document \<noteq> demo_ack_document"
proof
  assume "demo_long_document = demo_ack_document"
  then have "fmupd ''accepted'' (JBool True) (fmupd ''kind'' (JString demo_long_kind)
      (header_object (Message_EvidenceAck demo_long_kind True))) = header_object Message_Ack"
    by (simp only: demo_long_document_def demo_ack_document_def json.inject)
  from arg_cong [OF this, of "\<lambda>object. fmlookup object ''kind''"]
  show False by (simp add: header_object_def)
qed

lemma demo_encode_ack:
  "encode demo_guest_json Message_Ack = Ok (u32_to_be_bytes 2 @ demo_ack_body)"
  by (simp add: encode_Ok_iff message_document_Ok demo_guest_json_def demo_ack_document_def
      demo_ack_body_def guest_bounds)

lemma demo_encode_long:
  "encode demo_guest_json (Message_EvidenceAck demo_long_kind True) =
     Ok (u32_to_be_bytes 3 @ demo_long_body)"
  using demo_documents_differ
  by (auto simp: encode_Ok_iff message_document_Ok demo_guest_json_def demo_long_document_def
      demo_long_body_def guest_bounds)

section \<open>Properties\<close>

text \<open>C13: A message that was encoded is decoded from its frame, whatever follows the frame, to the
  same message exactly when it is within the bounds of the decoder.  The condition is not void: the
  encoder does not bound the kind of an evidence acknowledgement or the code of a diagnostic, which
  the decoder refuses beyond 32 bytes.\<close>

theorem guest_frame_round_trip:
  assumes lib: "guest_json_ok lib" and encoded: "encode lib m = Ok frame"
  shows "decode lib (frame @ rest) = Ok m \<longleftrightarrow> message_within m"
proof -
  obtain document body where "message_document m = Ok document" "gj_to_vec lib document = Some body"
    "length body + 4 \<le> MAX_FRAME_BYTES" and "frame = u32_to_be_bytes (of_nat (length body)) @ body"
    using encoded by (auto simp: encode_Ok_iff)
  then show ?thesis
    using decode_encoded [OF lib] document_round_trip by simp
qed

theorem guest_frame_round_trip_witness:
  "decode demo_guest_json (u32_to_be_bytes 2 @ demo_ack_body) = Ok Message_Ack \<and>
   decode demo_guest_json (u32_to_be_bytes 3 @ demo_long_body) \<noteq>
     Ok (Message_EvidenceAck demo_long_kind True)"
  using guest_frame_round_trip [OF demo_guest_json_ok demo_encode_ack, of "[]"]
    guest_frame_round_trip [OF demo_guest_json_ok demo_encode_long, of "[]"]
  by (simp add: demo_long_kind_def)

text \<open>C34: Whatever bytes arrive, a message that is decoded is within the bounds of the protocol:
  sorted capabilities without duplicates, at most 32 of them, names, digests, inputs, arguments and
  diagnostics no longer than their maxima; and the frame declares at most \<open>MAX_FRAME_BYTES\<close> less the
  length prefix and holds that many bytes.\<close>

theorem decoded_messages_are_bounded:
  assumes "decode lib frame = Ok m"
  shows "message_within m \<and> 4 + unat (u32_from_be_bytes (take 4 frame)) \<le> length frame \<and>
    4 + unat (u32_from_be_bytes (take 4 frame)) \<le> MAX_FRAME_BYTES"
  using assms
  by (auto simp: decode_def Let_def and_then_Ok_iff from_value_within guest_bounds split: if_splits)

theorem decoded_messages_are_bounded_witness:
  "message_within Message_Ack \<and>
   4 + unat (u32_from_be_bytes (take 4 (u32_to_be_bytes 2 @ demo_ack_body))) \<le> 6"
proof -
  have "decode demo_guest_json (u32_to_be_bytes 2 @ demo_ack_body) = Ok Message_Ack"
    by (simp add: decode_def u32_be_bytes demo_ack_body_def demo_guest_json_def Let_def guest_bounds
        from_value_def demo_ack_document_def header_object_def object_str_def message_fields_def)
  from decoded_messages_are_bounded [OF this] show ?thesis
    by (simp add: demo_ack_body_def)
qed

text \<open>C36: A diagnostic keeps its code and a prefix of its message: all of it within 4,096 bytes, and
  otherwise the longest prefix within 4,096 bytes that ends between two characters, with the flag
  that says so.\<close>

theorem diagnostic_message_is_cut_at_a_character:
  "let d = GuestDiagnostic_new code message; n = length (gd_message d) in
     gd_code d = code \<and> gd_message d = take n message \<and> n \<le> 4096 \<and> is_char_boundary message n \<and>
     \<not> (\<exists>i \<le> min 4096 (length message). n < i \<and> is_char_boundary message i) \<and>
     gd_truncated d = (n \<noteq> length message)"
proof (cases "length message \<le> 4096")
  case True
  then show ?thesis
    by (auto simp: GuestDiagnostic_new_def truncate_str_def guest_bounds is_char_boundary_def Let_def)
next
  case False
  then show ?thesis
    using truncate_end_spec [of message 4096]
    by (auto simp: GuestDiagnostic_new_def truncate_str_def guest_bounds Let_def min_def)
qed

end
