(* ===== verification/Std_Text.thy ===== *)
theory Std_Text
  imports Prelude
begin

text \<open>
  Text operations of the Rust standard library that the process-level code uses: decimal numbers,
  splitting into lines, fields and words, trimming, and the lossy decoding of bytes as UTF-8.
  Strings are UTF-8 byte lists, so the white space outside ASCII is recognised by its byte
  sequences.
\<close>

section \<open>Decimal numbers\<close>

definition digit_char :: "nat \<Rightarrow> char" where
  "digit_char d = char_of (48 + d)"

definition digit_value :: "char \<Rightarrow> nat" where
  "digit_value c = byte_code c - 48"

fun show_nat :: "nat \<Rightarrow> str" where
  "show_nat n = (if n < 10 then [digit_char n] else show_nat (n div 10) @ [digit_char (n mod 10)])"

declare show_nat.simps [simp del]

definition read_digits :: "nat \<Rightarrow> str \<Rightarrow> nat" where
  "read_digits n s = foldl (\<lambda>n c. 10 * n + digit_value c) n s"

text \<open>\<open>parse::<uN>\<close>: one leading plus sign is accepted, a value above the maximum is not.\<close>

definition parse_unsigned :: "nat \<Rightarrow> str \<Rightarrow> nat option" where
  "parse_unsigned maximum s =
     (let digits = (case s of c # cs \<Rightarrow> if c = CHR ''+'' then cs else s | [] \<Rightarrow> [])
      in if digits \<noteq> [] \<and> list_all is_ascii_digit digits \<and> read_digits 0 digits \<le> maximum
         then Some (read_digits 0 digits) else None)"

lemma byte_code_digit: "d < 10 \<Longrightarrow> byte_code (digit_char d) = 48 + d"
  by (simp add: byte_code_def digit_char_def)

lemma is_digit_digit_char: "d < 10 \<Longrightarrow> is_ascii_digit (digit_char d)"
  by (simp add: is_ascii_digit_def byte_code_digit)

lemma digit_value_char: "d < 10 \<Longrightarrow> digit_value (digit_char d) = d"
  by (simp add: digit_value_def byte_code_digit)

lemma read_digits_append: "read_digits n (s @ t) = read_digits (read_digits n s) t"
  by (simp add: read_digits_def)

lemma show_nat_digits: "list_all is_ascii_digit (show_nat n) \<and> show_nat n \<noteq> []"
proof (induction n rule: show_nat.induct)
  case (1 n)
  then show ?case by (subst (1 2) show_nat.simps) (simp add: is_digit_digit_char)
qed

lemma read_show_nat: "read_digits 0 (show_nat n) = n"
proof (induction n rule: show_nat.induct)
  case (1 n)
  show ?case
  proof (cases "n < 10")
    case True
    then show ?thesis
      by (subst show_nat.simps) (simp add: read_digits_def digit_value_char)
  next
    case False
    then show ?thesis
      using 1 by (subst show_nat.simps) (simp add: read_digits_append, simp add: read_digits_def digit_value_char)
  qed
qed

lemma parse_show_nat: "parse_unsigned maximum (show_nat n) = (if n \<le> maximum then Some n else None)"
proof -
  obtain c cs where s: "show_nat n = c # cs"
    using show_nat_digits [of n] by (cases "show_nat n") auto
  have "c \<noteq> CHR ''+''"
    using show_nat_digits [of n] s by (auto simp: is_ascii_digit_def byte_code_def)
  then show ?thesis
    using show_nat_digits [of n] read_show_nat [of n] by (simp add: parse_unsigned_def s)
qed

lemma parse_unsigned_le: "parse_unsigned maximum s = Some n \<Longrightarrow> n \<le> maximum"
  by (auto simp: parse_unsigned_def Let_def split: if_splits)

section \<open>Splitting\<close>

fun split_on :: "char \<Rightarrow> str \<Rightarrow> str list" where
  "split_on d [] = [[]]"
| "split_on d (c # cs) =
     (if c = d then [] # split_on d cs
      else (case split_on d cs of [] \<Rightarrow> [[c]] | w # ws \<Rightarrow> (c # w) # ws))"

fun join_with :: "char \<Rightarrow> str list \<Rightarrow> str" where
  "join_with d [] = []"
| "join_with d [w] = w"
| "join_with d (w # ws) = w @ d # join_with d ws"

definition newline :: char where "newline = char_of (10 :: nat)"
definition carriage_return :: char where "carriage_return = char_of (13 :: nat)"

definition strip_carriage_return :: "str \<Rightarrow> str" where
  "strip_carriage_return s = (if s \<noteq> [] \<and> last s = carriage_return then butlast s else s)"

text \<open>\<open>lines()\<close>: a line ends at a newline, of which it loses a carriage return before it.\<close>

fun lines_from :: "str \<Rightarrow> str \<Rightarrow> str list" where
  "lines_from line [] = (if line = [] then [] else [line])"
| "lines_from line (c # cs) =
     (if c = newline then strip_carriage_return line # lines_from [] cs
      else lines_from (line @ [c]) cs)"

definition lines :: "str \<Rightarrow> str list" where
  "lines s = lines_from [] s"

text \<open>The length in bytes of the white space character at the front, 0 if there is none.\<close>

definition space_length :: "str \<Rightarrow> nat" where
  "space_length s =
     (case map byte_code s of
        [] \<Rightarrow> 0
      | a # rest \<Rightarrow>
          if a = 32 \<or> (9 \<le> a \<and> a \<le> 13) then 1
          else (case rest of
              b # rest' \<Rightarrow>
                if a = 194 \<and> (b = 133 \<or> b = 160) then 2
                else (case rest' of
                    c # _ \<Rightarrow>
                      if (a = 225 \<and> b = 154 \<and> c = 128) \<or>
                         (a = 226 \<and> b = 128 \<and>
                            ((128 \<le> c \<and> c \<le> 138) \<or> c = 168 \<or> c = 169 \<or> c = 175)) \<or>
                         (a = 226 \<and> b = 129 \<and> c = 159) \<or>
                         (a = 227 \<and> b = 128 \<and> c = 128)
                      then 3 else 0
                  | [] \<Rightarrow> 0)
            | [] \<Rightarrow> 0))"

lemma space_length_le: "space_length s \<le> length s"
  by (cases s) (auto simp: space_length_def split: list.splits)

function skip_space :: "str \<Rightarrow> str" where
  "skip_space s = (if space_length s = 0 then s else skip_space (drop (space_length s) s))"
  by pat_completeness auto
termination
proof (relation "measure length")
  fix s :: str
  assume "space_length s \<noteq> 0"
  then show "(drop (space_length s) s, s) \<in> measure length"
    using space_length_le [of s] by simp
qed simp

declare skip_space.simps [simp del]

text \<open>The bytes before the next white space character.\<close>

fun word_at :: "str \<Rightarrow> str" where
  "word_at [] = []"
| "word_at (c # cs) = (if space_length (c # cs) \<noteq> 0 then [] else c # word_at cs)"

text \<open>\<open>split_whitespace().nth(n)\<close>.\<close>

fun nth_word :: "nat \<Rightarrow> str \<Rightarrow> str option" where
  "nth_word n s =
     (let t = skip_space s in
      if t = [] then None
      else case n of 0 \<Rightarrow> Some (word_at t) | Suc m \<Rightarrow> nth_word m (drop (length (word_at t)) t))"

declare nth_word.simps [simp del]

text \<open>\<open>trim()\<close>: the text from the first to the last character that is not white space.\<close>

fun drop_trailing_space :: "str \<Rightarrow> str" where
  "drop_trailing_space [] = []"
| "drop_trailing_space (c # cs) =
     (if skip_space (c # cs) = [] then [] else c # drop_trailing_space cs)"

definition trim :: "str \<Rightarrow> str" where
  "trim s = drop_trailing_space (skip_space s)"

definition ascii_lower :: "char \<Rightarrow> char" where
  "ascii_lower c = (if is_ascii_uppercase c then char_of (byte_code c + 32) else c)"

definition eq_ignore_ascii_case :: "str \<Rightarrow> str \<Rightarrow> bool" where
  "eq_ignore_ascii_case s t \<longleftrightarrow> map ascii_lower s = map ascii_lower t"

section \<open>Bytes as text\<close>

definition char_of_byte :: "u8 \<Rightarrow> char" where
  "char_of_byte b = char_of (unat b)"

definition byte_of_char :: "char \<Rightarrow> u8" where
  "byte_of_char c = of_nat (byte_code c)"

definition text_bytes :: "str \<Rightarrow> bytes" where
  "text_bytes s = map byte_of_char s"

lemma byte_of_char_of_byte [simp]: "byte_of_char (char_of_byte b) = b"
proof -
  have "unat b < 256"
    using unsigned_less [of b, where ?'a = nat] by simp
  then show ?thesis
    by (simp add: byte_of_char_def char_of_byte_def byte_code_def)
qed

lemma char_of_byte_of_char [simp]: "char_of_byte (byte_of_char c) = c"
proof -
  have "byte_code c < 256"
    by (simp add: byte_code_def)
  then have "unat (of_nat (byte_code c) :: u8) = byte_code c"
    by (simp add: unat_of_nat)
  then show ?thesis
    by (simp add: byte_of_char_def char_of_byte_def byte_code_def)
qed

text \<open>
  One step of \<open>from_utf8_lossy\<close>: whether a well-formed character starts here, and how many bytes it
  or the ill-formed sequence takes (Unicode, table 3-7; the longest prefix of a character).
\<close>

definition follows :: "nat \<Rightarrow> nat \<Rightarrow> nat \<Rightarrow> bool" where
  "follows lo hi b \<longleftrightarrow> lo \<le> b \<and> b \<le> hi"

definition second_range :: "nat \<Rightarrow> nat \<times> nat" where
  "second_range a =
     (if a = 224 then (160, 191) else if a = 237 then (128, 159)
      else if a = 240 then (144, 191) else if a = 244 then (128, 143) else (128, 191))"

fun well_formed_tail :: "nat \<Rightarrow> nat \<Rightarrow> nat list \<Rightarrow> bool \<times> nat" where
  "well_formed_tail 0 n bs = (True, n)"
| "well_formed_tail (Suc k) n [] = (False, n)"
| "well_formed_tail (Suc k) n (b # bs) =
     (if follows 128 191 b then well_formed_tail k (Suc n) bs else (False, n))"

definition utf8_step :: "nat list \<Rightarrow> bool \<times> nat" where
  "utf8_step bs =
     (case bs of
        [] \<Rightarrow> (True, 0)
      | a # rest \<Rightarrow>
          if a < 128 then (True, 1)
          else if 194 \<le> a \<and> a \<le> 244 then
            let width = (if a < 224 then 1 else if a < 240 then 2 else 3 :: nat) in
            (case rest of
               b # rest' \<Rightarrow>
                 (case second_range a of (lo, hi) \<Rightarrow>
                    if follows lo hi b then well_formed_tail (width - 1) 2 rest' else (False, 1))
             | [] \<Rightarrow> (False, 1))
          else (False, 1))"

definition replacement :: str where
  "replacement = map char_of [239 :: nat, 191, 189]"

fun from_utf8_lossy_fuel :: "nat \<Rightarrow> bytes \<Rightarrow> str" where
  "from_utf8_lossy_fuel 0 bs = []"
| "from_utf8_lossy_fuel (Suc fuel) bs =
     (if bs = [] then []
      else case utf8_step (map unat bs) of
          (ok, n) \<Rightarrow> (if ok then map char_of_byte (take n bs) else replacement) @
            from_utf8_lossy_fuel fuel (drop (max 1 n) bs))"

definition from_utf8_lossy :: "bytes \<Rightarrow> str" where
  "from_utf8_lossy bs = from_utf8_lossy_fuel (length bs) bs"

lemma from_utf8_lossy_fuel_ascii:
  "list_all (\<lambda>b. unat b < 128) bs \<Longrightarrow> length bs \<le> fuel \<Longrightarrow>
     from_utf8_lossy_fuel fuel bs = map char_of_byte bs"
proof (induction bs arbitrary: fuel)
  case Nil
  then show ?case by (cases fuel) auto
next
  case (Cons b bs)
  then show ?case by (cases fuel) (auto simp: utf8_step_def)
qed

lemma from_utf8_lossy_ascii:
  "list_all (\<lambda>b. unat b < 128) bs \<Longrightarrow> from_utf8_lossy bs = map char_of_byte bs"
  by (simp add: from_utf8_lossy_def from_utf8_lossy_fuel_ascii)

text \<open>The fuel is enough: more of it changes nothing.\<close>

lemma from_utf8_lossy_fuel_irrelevant:
  "length bs \<le> m \<Longrightarrow> length bs \<le> n \<Longrightarrow> from_utf8_lossy_fuel m bs = from_utf8_lossy_fuel n bs"
proof (induction m arbitrary: n bs)
  case 0
  then show ?case by (cases n) simp_all
next
  case (Suc m)
  show ?case
  proof (cases n)
    case 0
    then show ?thesis using Suc.prems by simp
  next
    case n: (Suc n')
    obtain ok k where step: "utf8_step (map unat bs) = (ok, k)" by force
    have "from_utf8_lossy_fuel m (drop (max 1 k) bs) = from_utf8_lossy_fuel n' (drop (max 1 k) bs)"
      by (rule Suc.IH) (use Suc.prems n in auto)
    then show ?thesis using step n by simp
  qed
qed

lemma from_utf8_lossy_fuel_enough:
  "length bs \<le> fuel \<Longrightarrow> from_utf8_lossy_fuel fuel bs = from_utf8_lossy bs"
  unfolding from_utf8_lossy_def by (rule from_utf8_lossy_fuel_irrelevant) simp_all

lemma from_utf8_lossy_text:
  assumes "list_all (\<lambda>c. byte_code c < 128) s"
  shows "from_utf8_lossy (text_bytes s) = s"
proof -
  have "unat (byte_of_char c) = byte_code c" for c
  proof -
    have "byte_code c < 256" by (simp add: byte_code_def)
    then show ?thesis by (simp add: byte_of_char_def unat_of_nat)
  qed
  then have "list_all (\<lambda>b. unat b < 128) (text_bytes s)"
    using assms by (simp add: text_bytes_def list_all_iff)
  from from_utf8_lossy_ascii [OF this] show ?thesis
    by (simp add: text_bytes_def comp_def)
qed

lemma line_ends: "newline = CHR 0x0A" "carriage_return = CHR 0x0D"
  by (code_simp, code_simp)

end
