(* ===== verification/Std_Host.thy ===== *)
theory Std_Host
  imports Std_Text
begin

text \<open>
  What the process-level code relies on beyond text: file paths as \<open>std::path\<close> reads them, loops
  that poll until something happens, and the contract of a clock that moves forward, under which a
  polling loop with a deadline ends.  A loop that may not end is \<open>None\<close>.
\<close>

section \<open>Paths\<close>

type_synonym path = str

definition is_absolute :: "path \<Rightarrow> bool" where
  "is_absolute p \<longleftrightarrow> p \<noteq> [] \<and> hd p = CHR ''/''"

text \<open>
  The components of a path are its segments but the empty ones and \<open>.\<close>, which counts at the start
  of a relative path.  \<open>last_component\<close> is the index of the last one among the first \<open>n\<close> segments.
\<close>

definition is_component :: "str list \<Rightarrow> nat \<Rightarrow> bool" where
  "is_component segments i \<longleftrightarrow>
     segments ! i \<noteq> [] \<and> (segments ! i \<noteq> ''.'' \<or> i = 0)"

fun last_component :: "str list \<Rightarrow> nat \<Rightarrow> nat option" where
  "last_component segments 0 = None"
| "last_component segments (Suc n) =
     (if is_component segments n then Some n else last_component segments n)"

definition path_file_name :: "path \<Rightarrow> str option" where
  "path_file_name p =
     (let segments = split_on CHR ''/'' p in
      case last_component segments (length segments) of
        None \<Rightarrow> None
      | Some i \<Rightarrow> if segments ! i = ''.'' \<or> segments ! i = ''..'' then None else Some (segments ! i))"

definition path_parent :: "path \<Rightarrow> path option" where
  "path_parent p =
     (let segments = split_on CHR ''/'' p in
      case last_component segments (length segments) of
        None \<Rightarrow> None
      | Some i \<Rightarrow>
          (case last_component segments i of
             Some j \<Rightarrow> Some (join_with CHR ''/'' (take (Suc j) segments))
           | None \<Rightarrow> Some (if is_absolute p then ''/'' else [])))"

definition path_join :: "path \<Rightarrow> path \<Rightarrow> path" where
  "path_join base p =
     (if is_absolute p then p
      else if base = [] \<or> last base = CHR ''/'' then base @ p
      else base @ CHR ''/'' # p)"

lemma split_on_not_in: "d \<notin> set s \<Longrightarrow> split_on d s = [s]"
  by (induction s) auto

lemma split_on_nonempty [simp]: "split_on d s \<noteq> []"
  by (induction d s rule: split_on.induct) (auto split: list.splits)

lemma split_on_append:
  "d \<notin> set t \<Longrightarrow> split_on d (s @ d # t) = split_on d s @ [t]"
proof (induction s)
  case Nil
  then show ?case by (simp add: split_on_not_in)
next
  case (Cons c s)
  then show ?case by (cases "split_on d s") auto
qed

lemma join_with_split_on: "join_with d (split_on d s) = s"
proof (induction d s rule: split_on.induct)
  case (2 d c cs)
  then show ?case
    by (cases "split_on d cs" rule: list.exhaust; cases "tl (split_on d cs)") auto
qed simp

lemma last_component_append:
  "n \<le> length segments \<Longrightarrow> last_component (segments @ more) n = last_component segments n"
  by (induction n) (auto simp: is_component_def nth_append)

text \<open>A plain name joined to a directory that has a last component is a file in that directory.\<close>

lemma path_join_name:
  assumes name: "name \<noteq> []" "name \<noteq> ''.''" "name \<noteq> ''..''" "CHR ''/'' \<notin> set name"
    and dir: "dir \<noteq> []" "last dir \<noteq> CHR ''/''" "is_component (split_on CHR ''/'' dir) (length (split_on CHR ''/'' dir) - 1)"
  shows "path_file_name (path_join dir name) = Some name \<and> path_parent (path_join dir name) = Some dir"
proof -
  let ?segments = "split_on CHR ''/'' dir"
  have relative: "\<not> is_absolute name"
    using name by (cases name) (auto simp: is_absolute_def)
  have split: "split_on CHR ''/'' (path_join dir name) = ?segments @ [name]"
    using name dir relative by (simp add: path_join_def split_on_append)
  have last: "last_component (?segments @ [name]) (length (?segments @ [name])) = Some (length ?segments)"
    using name by (simp add: is_component_def nth_append)
  obtain m where m: "length ?segments = Suc m"
    by (cases "length ?segments") auto
  have "last_component (?segments @ [name]) (length ?segments) = Some m"
    using dir(3) m by (simp add: last_component_append is_component_def nth_append)
  then show ?thesis
    using last name m by (simp add: path_file_name_def path_parent_def split nth_append join_with_split_on
        del: last_component.simps)
qed

section \<open>Polling\<close>

text \<open>
  One turn of a polling loop ends it with a value or goes on, after a pause, in a new world.  A turn
  that does not return, and a loop that does not end, is \<open>None\<close>.
\<close>

datatype 'a turn = Done 'a | Again

partial_function (option) poll :: "('w \<Rightarrow> ('a turn \<times> 'w) option) \<Rightarrow> 'w \<Rightarrow> ('a \<times> 'w) option" where
  "poll turn w =
     Option.bind (turn w) (\<lambda>(r, w'). case r of Done a \<Rightarrow> Some (a, w') | Again \<Rightarrow> poll turn w')"

lemma poll_done: "turn w = Some (Done a, w') \<Longrightarrow> poll turn w = Some (a, w')"
  by (subst poll.simps) simp

lemma poll_again: "turn w = Some (Again, w') \<Longrightarrow> poll turn w = poll turn w'"
  by (subst poll.simps) simp

text \<open>An invariant of the turns holds of the result, and a decreasing measure ends the loop.\<close>

lemma poll_invariant:
  assumes "poll turn w = Some (a, w')" and "I w"
    and again: "\<And>w w'. I w \<Longrightarrow> turn w = Some (Again, w') \<Longrightarrow> I w'"
    and ends: "\<And>w a w'. I w \<Longrightarrow> turn w = Some (Done a, w') \<Longrightarrow> P a w'"
  shows "P a w'"
proof -
  have "t = turn \<longrightarrow> I w \<longrightarrow> (case x of (a, w') \<Rightarrow> P a w')" if "poll t w = Some x" for t w x
  proof (rule poll.raw_induct [where P = "\<lambda>t w x. t = turn \<longrightarrow> I w \<longrightarrow> (case x of (a, w') \<Rightarrow> P a w')",
        OF _ that])
    fix f t w x
    assume IH: "\<And>t w x. f t w = Some x \<Longrightarrow> t = turn \<longrightarrow> I w \<longrightarrow> (case x of (a, w') \<Rightarrow> P a w')"
      and eq: "Option.bind (t w) (\<lambda>(r, w'). case r of Done a \<Rightarrow> Some (a, w') | Again \<Rightarrow> f t w') = Some x"
    show "t = turn \<longrightarrow> I w \<longrightarrow> (case x of (a, w') \<Rightarrow> P a w')"
    proof (intro impI)
      assume t: "t = turn" and w: "I w"
      obtain r w1 where turn: "turn w = Some (r, w1)"
        using eq t by (auto simp: bind_eq_Some_conv)
      show "case x of (a, w') \<Rightarrow> P a w'"
      proof (cases r)
        case (Done a)
        then show ?thesis using eq t turn ends [OF w] by auto
      next
        case Again
        then have "f turn w1 = Some x" using eq t turn by simp
        then show ?thesis using IH again [OF w] Again turn by blast
      qed
    qed
  qed
  then show ?thesis using assms(1,2) by fastforce
qed

lemma poll_ends:
  assumes "I w" and returns: "\<And>w. I w \<Longrightarrow> turn w \<noteq> None"
    and step: "\<And>w w'. I w \<Longrightarrow> turn w = Some (Again, w') \<Longrightarrow>
      I w' \<and> measure_of w' < (measure_of w :: nat)"
  shows "\<exists>a w'. poll turn w = Some (a, w')"
  using assms(1)
proof (induction "measure_of w" arbitrary: w rule: less_induct)
  case less
  obtain r w' where turn: "turn w = Some (r, w')"
    using returns [OF less.prems] by auto
  show ?case
  proof (cases r)
    case (Done a)
    then show ?thesis using turn poll_done by metis
  next
    case Again
    then show ?thesis using turn poll_again step [OF less.prems] less.hyps by metis
  qed
qed

section \<open>Deadlines\<close>

text \<open>
  Milliseconds of a monotonic clock, and a pause.  A loop with a deadline probes, gives up at the
  deadline and otherwise pauses for a time that may depend on what remains.
\<close>

record 'w clock =
  ck_now :: "'w \<Rightarrow> nat"
  ck_sleep :: "nat \<Rightarrow> 'w \<Rightarrow> 'w"

definition deadline_turn ::
  "('w, 'z) clock_scheme \<Rightarrow> nat \<Rightarrow> (nat \<Rightarrow> nat) \<Rightarrow> ('w \<Rightarrow> (('a + 'e) \<times> 'w) option) \<Rightarrow>
     ('e \<Rightarrow> 'w \<Rightarrow> 'a \<times> 'w) \<Rightarrow> 'w \<Rightarrow> ('a turn \<times> 'w) option" where
  "deadline_turn clock deadline pause probe give_up w =
     (case probe w of
        None \<Rightarrow> None
      | Some (Inl a, w') \<Rightarrow> Some (Done a, w')
      | Some (Inr e, w') \<Rightarrow>
          let now = ck_now clock w' in
          if deadline \<le> now then (case give_up e w' of (a, w'') \<Rightarrow> Some (Done a, w''))
          else Some (Again, ck_sleep clock (pause (deadline - now)) w'))"

definition deadline_loop ::
  "('w, 'z) clock_scheme \<Rightarrow> nat \<Rightarrow> (nat \<Rightarrow> nat) \<Rightarrow> ('w \<Rightarrow> (('a + 'e) \<times> 'w) option) \<Rightarrow>
     ('e \<Rightarrow> 'w \<Rightarrow> 'a \<times> 'w) \<Rightarrow> 'w \<Rightarrow> ('a \<times> 'w) option" where
  "deadline_loop clock deadline pause probe give_up =
     poll (deadline_turn clock deadline pause probe give_up)"

text \<open>
  What a clock promises: a pause lasts at least as long as asked; and what an operation does that
  returns and does not turn the clock back.
\<close>

definition clock_ok :: "('w, 'z) clock_scheme \<Rightarrow> bool" where
  "clock_ok clock \<longleftrightarrow> (\<forall>d w. ck_now clock w + d \<le> ck_now clock (ck_sleep clock d w))"

definition forward :: "('w, 'z) clock_scheme \<Rightarrow> ('w \<Rightarrow> ('a \<times> 'w) option) \<Rightarrow> bool" where
  "forward clock f \<longleftrightarrow> (\<forall>w. \<exists>a w'. f w = Some (a, w') \<and> ck_now clock w \<le> ck_now clock w')"

lemma forwardD: "forward clock f \<Longrightarrow> f w = Some (a, w') \<Longrightarrow> ck_now clock w \<le> ck_now clock w'"
  unfolding forward_def by (metis option.inject prod.inject)

lemma forward_returns: "forward clock f \<Longrightarrow> f w \<noteq> None"
  unfolding forward_def by (metis option.distinct(1))

lemma deadline_turn_Again:
  "deadline_turn clock deadline pause probe give_up w = Some (Again, w') \<Longrightarrow>
     \<exists>e w1. probe w = Some (Inr e, w1) \<and> ck_now clock w1 < deadline \<and>
       w' = ck_sleep clock (pause (deadline - ck_now clock w1)) w1"
  by (auto simp: deadline_turn_def Let_def split: option.splits prod.splits sum.splits if_splits)

lemma deadline_turn_Done:
  "deadline_turn clock deadline pause probe give_up w = Some (Done a, w') \<Longrightarrow>
     probe w = Some (Inl a, w') \<or>
     (\<exists>e w1. probe w = Some (Inr e, w1) \<and> deadline \<le> ck_now clock w1 \<and> give_up e w1 = (a, w'))"
  by (auto simp: deadline_turn_def Let_def split: option.splits prod.splits sum.splits if_splits)

lemma deadline_turn_returns:
  "probe w \<noteq> None \<Longrightarrow> deadline_turn clock deadline pause probe give_up w \<noteq> None"
  by (auto simp: deadline_turn_def Let_def split: prod.splits sum.splits)

lemma deadline_loop_ends:
  assumes clock: "clock_ok clock" and probe: "forward clock probe"
    and pause: "\<And>remaining. 0 < remaining \<Longrightarrow> 0 < pause remaining"
  shows "\<exists>a w'. deadline_loop clock deadline pause probe give_up w = Some (a, w')"
  unfolding deadline_loop_def
proof (rule poll_ends [where I = "\<lambda>_. True" and measure_of = "\<lambda>w. deadline - ck_now clock w"])
  fix w w'
  assume "deadline_turn clock deadline pause probe give_up w = Some (Again, w')"
  from deadline_turn_Again [OF this]
  obtain e w1 where probed: "probe w = Some (Inr e, w1)" and early: "ck_now clock w1 < deadline"
    and w': "w' = ck_sleep clock (pause (deadline - ck_now clock w1)) w1" by blast
  have "ck_now clock w \<le> ck_now clock w1"
    by (rule forwardD [OF probe probed])
  moreover have "ck_now clock w1 + pause (deadline - ck_now clock w1) \<le> ck_now clock w'"
    using clock w' by (simp add: clock_ok_def)
  moreover have "0 < pause (deadline - ck_now clock w1)"
    using early by (intro pause) simp
  ultimately have "deadline - ck_now clock w' < deadline - ck_now clock w"
    using early by linarith
  then show "True \<and> deadline - ck_now clock w' < deadline - ck_now clock w" by simp
next
  show "deadline_turn clock deadline pause probe give_up w \<noteq> None" for w
    by (rule deadline_turn_returns [OF forward_returns [OF probe]])
qed simp

text \<open>What a probe or the giving up establishes, from an invariant of the loop, holds of the outcome.\<close>

lemma deadline_loop_result:
  assumes "deadline_loop clock deadline pause probe give_up w = Some (a, w')" and "I w"
    and again: "\<And>w e w' d. I w \<Longrightarrow> probe w = Some (Inr e, w') \<Longrightarrow> I (ck_sleep clock d w')"
    and found: "\<And>w a w'. I w \<Longrightarrow> probe w = Some (Inl a, w') \<Longrightarrow> P a w'"
    and gave_up: "\<And>w e w1 a w'. I w \<Longrightarrow> probe w = Some (Inr e, w1) \<Longrightarrow> give_up e w1 = (a, w') \<Longrightarrow> P a w'"
  shows "P a w'"
proof (rule poll_invariant [where I = I, OF assms(1) [unfolded deadline_loop_def] assms(2)])
  show "I w'" if "I w" and "deadline_turn clock deadline pause probe give_up w = Some (Again, w')" for w w'
    using deadline_turn_Again [OF that(2)] again [OF that(1)] by blast
  show "P a w'" if "I w" and "deadline_turn clock deadline pause probe give_up w = Some (Done a, w')" for w a w'
    using deadline_turn_Done [OF that(2)] found [OF that(1)] gave_up [OF that(1)] by blast
qed

end
