(* ===== verification/Vm_Config.thy ===== *)
theory Vm_Config
  imports Std_Host Guest_Protocol
begin

text \<open>
  \<open>crates/openoj-firecracker/src/config.rs\<close>: the validated configuration of a microVM and the
  errors of the crate.  An error of the operating system is its text.
\<close>

section \<open>Bounds and errors\<close>

definition MIN_MEMORY_MIB :: u32 where "MIN_MEMORY_MIB = 64"
definition MAX_MEMORY_MIB :: u32 where "MAX_MEMORY_MIB = 65536"
definition MIN_VCPUS :: u8 where "MIN_VCPUS = 1"
definition MAX_VCPUS :: u8 where "MAX_VCPUS = 255"
definition DEFAULT_GUEST_CID :: u32 where "DEFAULT_GUEST_CID = 3"
definition MIN_GUEST_CID :: u32 where "MIN_GUEST_CID = 3"
definition DEFAULT_GUEST_PORT :: u32 where "DEFAULT_GUEST_PORT = 8266"
definition MIN_GUEST_PORT :: u32 where "MIN_GUEST_PORT = 1"
definition MAX_GUEST_PORT :: u32 where "MAX_GUEST_PORT = 65535"

lemmas vm_bounds = MIN_MEMORY_MIB_def MAX_MEMORY_MIB_def MIN_VCPUS_def MAX_VCPUS_def
  DEFAULT_GUEST_CID_def MIN_GUEST_CID_def DEFAULT_GUEST_PORT_def MIN_GUEST_PORT_def
  MAX_GUEST_PORT_def

datatype firecracker_error =
    FirecrackerError_OutOfRange str u64 u64 u64
  | NonAbsolutePath str
  | MissingDigest str
  | MissingJailer
  | InvalidResourceLimit str
  | ProductionRequiresJailer
  | ControlApi u16 str
  | FirecrackerError_Io str

definition CodecError_fmt :: "codec_error \<Rightarrow> str" where
  "CodecError_fmt error =
     (case error of
        FrameTooLarge actual maximum \<Rightarrow>
          ''encoded frame is '' @ show_nat actual @ '' bytes, maximum '' @ show_nat maximum
      | BoundedLengthExceeded actual maximum \<Rightarrow>
          ''declared frame length '' @ show_nat actual @ '' exceeds maximum '' @ show_nat maximum
      | Truncated \<Rightarrow> ''frame is truncated''
      | MalformedJson \<Rightarrow> ''frame body is not valid JSON''
      | UnknownType \<Rightarrow> ''message type is missing or unknown''
      | TypeTooLong \<Rightarrow> ''message type is too long''
      | CodecError_UnsupportedVersion \<Rightarrow> ''message version is missing or unsupported''
      | BoundsExceeded name actual maximum \<Rightarrow>
          ''field '' @ name @ '' is '' @ show_nat actual @ '', maximum '' @ show_nat maximum)"

definition FirecrackerError_from_io :: "str \<Rightarrow> firecracker_error" where
  "FirecrackerError_from_io error = FirecrackerError_Io error"

definition FirecrackerError_from_codec :: "codec_error \<Rightarrow> firecracker_error" where
  "FirecrackerError_from_codec error =
     FirecrackerError_Io (''guest message codec error: '' @ CodecError_fmt error)"

definition FirecrackerError_fmt :: "firecracker_error \<Rightarrow> str" where
  "FirecrackerError_fmt error =
     (case error of
        FirecrackerError_OutOfRange name minimum maximum actual \<Rightarrow>
          name @ '' must be within '' @ show_nat (unat minimum) @ ''..='' @ show_nat (unat maximum) @
            '', got '' @ show_nat (unat actual)
      | NonAbsolutePath name \<Rightarrow> name @ '' must be an absolute path''
      | MissingDigest name \<Rightarrow> name @ '' image digest is required''
      | MissingJailer \<Rightarrow> ''jailer binary path is required''
      | InvalidResourceLimit name \<Rightarrow> ''resource limit '' @ name @ '' is inconsistent''
      | ProductionRequiresJailer \<Rightarrow> ''production profile requires jailer isolation''
      | ControlApi status detail \<Rightarrow>
          ''Firecracker control API returned '' @ show_nat (unat status) @ '': '' @ detail
      | FirecrackerError_Io message \<Rightarrow> ''I/O error: '' @ message)"

definition require_range :: "str \<Rightarrow> u64 \<Rightarrow> u64 \<Rightarrow> u64 \<Rightarrow> (unit, firecracker_error) result" where
  "require_range name actual minimum maximum =
     (if \<not> (minimum \<le> actual \<and> actual \<le> maximum)
      then Err (FirecrackerError_OutOfRange name minimum maximum actual) else Ok ())"

definition require_absolute :: "path \<Rightarrow> str \<Rightarrow> (unit, firecracker_error) result" where
  "require_absolute p name = (if \<not> is_absolute p then Err (NonAbsolutePath name) else Ok ())"

section \<open>Sizing, limits and the vsock device\<close>

record machine_config =
  mc_vcpu_count :: u8
  mc_mem_size_mib :: u32

definition MachineConfig_new :: "u8 \<Rightarrow> u32 \<Rightarrow> (machine_config, firecracker_error) result" where
  "MachineConfig_new vcpu_count mem_size_mib =
     and_then (require_range ''vcpu_count'' (ucast vcpu_count) (ucast MIN_VCPUS) (ucast MAX_VCPUS)) (\<lambda>_.
     and_then (require_range ''mem_size_mib'' (ucast mem_size_mib) (ucast MIN_MEMORY_MIB)
                 (ucast MAX_MEMORY_MIB)) (\<lambda>_.
       Ok \<lparr>mc_vcpu_count = vcpu_count, mc_mem_size_mib = mem_size_mib\<rparr>))"

record resource_limits =
  rl_cpu_quota_us :: "u32 option"
  rl_cpu_period_us :: "u32 option"
  rl_memory_bytes :: "u64 option"
  rl_pids_max :: "u32 option"

definition ResourceLimits_default :: resource_limits where
  "ResourceLimits_default =
     \<lparr>rl_cpu_quota_us = None, rl_cpu_period_us = None, rl_memory_bytes = None, rl_pids_max = None\<rparr>"

definition ResourceLimits_validate :: "resource_limits \<Rightarrow> (unit, firecracker_error) result" where
  "ResourceLimits_validate self =
     (case (rl_cpu_quota_us self, rl_cpu_period_us self) of
        (Some _, None) \<Rightarrow> Err (InvalidResourceLimit ''cpu'')
      | (Some _, Some period) \<Rightarrow> if period = 0 then Err (InvalidResourceLimit ''cpu'') else Ok ()
      | (None, _) \<Rightarrow> Ok ())"

record vsock_config =
  vc_guest_cid :: u32
  vc_port :: u32

definition VsockConfig_new :: "u32 \<Rightarrow> u32 \<Rightarrow> (vsock_config, firecracker_error) result" where
  "VsockConfig_new guest_cid port =
     and_then (require_range ''guest_cid'' (ucast guest_cid) (ucast MIN_GUEST_CID)
                 (ucast (- 1 :: u32))) (\<lambda>_.
     and_then (require_range ''port'' (ucast port) (ucast MIN_GUEST_PORT) (ucast MAX_GUEST_PORT)) (\<lambda>_.
       Ok \<lparr>vc_guest_cid = guest_cid, vc_port = port\<rparr>))"

section \<open>The configuration\<close>

record firecracker_config_parts =
  fp_kernel_path :: path
  fp_kernel_digest :: str
  fp_rootfs_path :: path
  fp_rootfs_digest :: str
  fp_boot_args :: str
  fp_machine :: machine_config
  fp_limits :: resource_limits
  fp_vsock :: vsock_config
  fp_vsock_uds_path :: path
  fp_jailer_path :: "path option"

record firecracker_config =
  fc_kernel_path :: path
  fc_kernel_digest :: str
  fc_rootfs_path :: path
  fc_rootfs_digest :: str
  fc_boot_args :: str
  fc_machine :: machine_config
  fc_limits :: resource_limits
  fc_vsock :: vsock_config
  fc_vsock_uds_path :: path
  fc_jailer_path :: "path option"

definition FirecrackerConfig_from_parts ::
  "firecracker_config_parts \<Rightarrow> (firecracker_config, firecracker_error) result" where
  "FirecrackerConfig_from_parts parts =
     and_then (require_absolute (fp_kernel_path parts) ''kernel_path'') (\<lambda>_.
     and_then (require_absolute (fp_rootfs_path parts) ''rootfs_path'') (\<lambda>_.
     if fp_kernel_digest parts = [] then Err (MissingDigest ''kernel'')
     else if fp_rootfs_digest parts = [] then Err (MissingDigest ''rootfs'')
     else
       and_then (ResourceLimits_validate (fp_limits parts)) (\<lambda>_.
       and_then (case fp_jailer_path parts of
           Some p \<Rightarrow> require_absolute p ''jailer_path'' | None \<Rightarrow> Ok ()) (\<lambda>_.
       and_then (require_absolute (fp_vsock_uds_path parts) ''vsock_uds_path'') (\<lambda>_.
         Ok \<lparr>fc_kernel_path = fp_kernel_path parts, fc_kernel_digest = fp_kernel_digest parts,
             fc_rootfs_path = fp_rootfs_path parts, fc_rootfs_digest = fp_rootfs_digest parts,
             fc_boot_args = fp_boot_args parts, fc_machine = fp_machine parts,
             fc_limits = fp_limits parts, fc_vsock = fp_vsock parts,
             fc_vsock_uds_path = fp_vsock_uds_path parts,
             fc_jailer_path = fp_jailer_path parts\<rparr>)))))"

section \<open>What a configuration guarantees\<close>

definition firecracker_config_ok :: "firecracker_config \<Rightarrow> bool" where
  "firecracker_config_ok config \<longleftrightarrow>
     is_absolute (fc_kernel_path config) \<and> is_absolute (fc_rootfs_path config) \<and>
     is_absolute (fc_vsock_uds_path config) \<and>
     fc_kernel_digest config \<noteq> [] \<and> fc_rootfs_digest config \<noteq> [] \<and>
     (\<forall>p \<in> set_option (fc_jailer_path config). is_absolute p) \<and>
     (rl_cpu_quota_us (fc_limits config) \<noteq> None \<longrightarrow>
        rl_cpu_period_us (fc_limits config) \<notin> {None, Some 0})"

lemma require_absolute_Ok [simp]: "require_absolute p name = Ok u \<longleftrightarrow> is_absolute p"
  by (simp add: require_absolute_def)

lemma require_range_Ok [simp]:
  "require_range name actual minimum maximum = Ok u \<longleftrightarrow> minimum \<le> actual \<and> actual \<le> maximum"
  by (simp add: require_range_def)

lemma ResourceLimits_validate_Ok [simp]:
  "ResourceLimits_validate limits = Ok u \<longleftrightarrow>
     (rl_cpu_quota_us limits \<noteq> None \<longrightarrow> rl_cpu_period_us limits \<notin> {None, Some 0})"
  by (auto simp: ResourceLimits_validate_def split: option.splits)

lemma config_from_parts_Ok_iff:
  "FirecrackerConfig_from_parts parts = Ok config \<longleftrightarrow>
     firecracker_config_ok config \<and>
     parts = \<lparr>fp_kernel_path = fc_kernel_path config, fp_kernel_digest = fc_kernel_digest config,
       fp_rootfs_path = fc_rootfs_path config, fp_rootfs_digest = fc_rootfs_digest config,
       fp_boot_args = fc_boot_args config, fp_machine = fc_machine config,
       fp_limits = fc_limits config, fp_vsock = fc_vsock config,
       fp_vsock_uds_path = fc_vsock_uds_path config, fp_jailer_path = fc_jailer_path config\<rparr>"
  by (cases parts; cases config)
    (auto simp: FirecrackerConfig_from_parts_def firecracker_config_ok_def and_then_Ok_iff
      split: if_splits option.splits)

lemma ucast_le_iff:
  fixes a b :: "'a::len word"
  assumes "LENGTH('a) \<le> LENGTH('b::len)"
  shows "(ucast a :: 'b word) \<le> ucast b \<longleftrightarrow> a \<le> b"
proof -
  have "unat (ucast c :: 'b word) = unat c" for c :: "'a word"
  proof -
    have "unat c < 2 ^ LENGTH('b)"
      using unsigned_less [of c, where ?'a = nat] assms
      by (meson less_le_trans one_le_numeral power_increasing)
    then show ?thesis by (simp add: unsigned_ucast_eq take_bit_nat_eq_self)
  qed
  then show ?thesis by (simp add: word_le_nat_alt)
qed

lemma MachineConfig_new_Ok_iff:
  "MachineConfig_new vcpus memory = Ok config \<longleftrightarrow>
     1 \<le> vcpus \<and> 64 \<le> memory \<and> memory \<le> 65536 \<and>
     config = \<lparr>mc_vcpu_count = vcpus, mc_mem_size_mib = memory\<rparr>"
proof -
  have "vcpus \<le> 255"
    using unsigned_less [of vcpus, where ?'a = nat] by (simp add: word_le_nat_alt)
  then show ?thesis
    unfolding MachineConfig_new_def and_then_Ok_iff require_range_Ok
    by (simp add: ucast_le_iff) (auto simp: vm_bounds)
qed

lemma VsockConfig_new_Ok_iff:
  "VsockConfig_new cid port = Ok config \<longleftrightarrow>
     3 \<le> cid \<and> 1 \<le> port \<and> port \<le> 65535 \<and> config = \<lparr>vc_guest_cid = cid, vc_port = port\<rparr>"
proof -
  have "cid \<le> - 1" by simp
  then show ?thesis
    unfolding VsockConfig_new_def and_then_Ok_iff require_range_Ok
    by (simp add: ucast_le_iff del: unsigned_minus_1_eq_mask) (auto simp: vm_bounds)
qed

end
