(* ===== verification/Vm_Api.thy ===== *)
theory Vm_Api
  imports Vm_Config
begin

text \<open>
  \<open>crates/openoj-firecracker/src/api.rs\<close>: the bounded HTTP client of the Firecracker control API.
  A socket that is read is the bytes it still delivers and the error that follows them; the error
  of a \<open>std::io\<close> operation is its text.  Reads that time out are outcomes of the transport.
\<close>

section \<open>The bounded reader\<close>

definition MAX_API_BODY :: nat where "MAX_API_BODY = 65536"

record api_response =
  ar_status :: u16
  ar_body :: bytes

record bounded_reader =
  br_buffer :: bytes
  br_maximum :: nat

definition BoundedReader_new :: "nat \<Rightarrow> bounded_reader" where
  "BoundedReader_new maximum = \<lparr>br_buffer = [], br_maximum = maximum\<rparr>"

definition BoundedReader_push :: "u8 \<Rightarrow> bounded_reader \<Rightarrow> (bounded_reader, str) result" where
  "BoundedReader_push byte self =
     (if length (br_buffer self) \<ge> br_maximum self then Err ''response exceeds bound''
      else Ok (self\<lparr>br_buffer := br_buffer self @ [byte]\<rparr>))"

text \<open>\<open>b"\r\n\r\n"\<close>, and the position of the first window that is equal to it.\<close>

definition header_end :: bytes where "header_end = [13, 10, 13, 10]"

fun find_header_end :: "bytes \<Rightarrow> nat option" where
  "find_header_end [] = None"
| "find_header_end (b # bs) =
     (if take 4 (b # bs) = header_end then Some 0 else map_option Suc (find_header_end bs))"

text \<open>The second word of the first line, as a number.\<close>

definition status_of_head :: "str \<Rightarrow> u16" where
  "status_of_head head =
     (case lines head of
        [] \<Rightarrow> 0
      | line # _ \<Rightarrow>
          (case Option.bind (nth_word 1 line) (parse_unsigned 65535) of
             Some code \<Rightarrow> of_nat code
           | None \<Rightarrow> 0))"

text \<open>\<open>None\<close> is the panic of a slice that starts behind the end of the buffer.\<close>

definition BoundedReader_finish :: "bounded_reader \<Rightarrow> (u16 \<times> bytes) option" where
  "BoundedReader_finish self =
     (let text = br_buffer self;
          index = (case find_header_end text of Some i \<Rightarrow> i | None \<Rightarrow> length text)
      in if index + 4 > length text then None
         else Some (status_of_head (from_utf8_lossy (take index text)), drop (index + 4) text))"

section \<open>Reading a response\<close>

text \<open>
  The loop that reads to the end of the header; a header that ends with the byte over the limit of
  16 KiB is still taken.
\<close>

fun read_head :: "str \<Rightarrow> bytes \<Rightarrow> bounded_reader \<Rightarrow> (bounded_reader \<times> bytes, str) result" where
  "read_head eof [] out = Err eof"
| "read_head eof (b # bs) out =
     and_then (BoundedReader_push b out) (\<lambda>out.
       if find_header_end (br_buffer out) \<noteq> None then Ok (out, bs)
       else if length (br_buffer out) > 16 * 1024 then Err ''headers not terminated''
       else read_head eof bs out)"

definition content_length_line :: "str \<Rightarrow> nat option" where
  "content_length_line line =
     Option.bind (position (\<lambda>c. c = CHR '':'') line) (\<lambda>separator.
       if \<not> eq_ignore_ascii_case (take separator line) ''content-length'' then None
       else parse_unsigned (2 ^ 64 - 1) (trim (drop (separator + 1) line)))"

fun find_map :: "('a \<Rightarrow> 'b option) \<Rightarrow> 'a list \<Rightarrow> 'b option" where
  "find_map f [] = None"
| "find_map f (x # xs) = (case f x of Some y \<Rightarrow> Some y | None \<Rightarrow> find_map f xs)"

fun read_body :: "str \<Rightarrow> nat \<Rightarrow> bytes \<Rightarrow> bounded_reader \<Rightarrow> (bounded_reader \<times> bytes, str) result" where
  "read_body eof 0 bs out = Ok (out, bs)"
| "read_body eof (Suc remaining) [] out = Err eof"
| "read_body eof (Suc remaining) (b # bs) out =
     and_then (BoundedReader_push b out) (\<lambda>out. read_body eof remaining bs out)"

definition read_response ::
  "str \<Rightarrow> bytes \<Rightarrow> bounded_reader \<Rightarrow> (bounded_reader \<times> bytes, str) result" where
  "read_response eof input out =
     and_then (read_head eof input out) (\<lambda>(out, rest).
       case find_map content_length_line (lines (from_utf8_lossy (br_buffer out))) of
         None \<Rightarrow> Ok (out, rest)
       | Some content_length \<Rightarrow>
           if content_length > br_maximum out - length (br_buffer out)
           then Err ''content-length exceeds bound''
           else read_body eof content_length rest out)"

section \<open>One request\<close>

text \<open>
  What happens to the bytes of a request on the socket: it cannot be connected, written or read in
  time, or the response arrives, with the error that follows its last byte.
\<close>

datatype api_exchange =
    ConnectTimedOut
  | ConnectFailed str
  | WriteRequestFailed str
  | WriteBodyFailed str
  | ReadTimedOut
  | Replied bytes str

text \<open>A socket of the host: the path, the bytes of the head and of the body that are written.\<close>

type_synonym 'w api_transport = "path \<Rightarrow> bytes \<Rightarrow> bytes \<Rightarrow> 'w \<Rightarrow> api_exchange \<times> 'w"

definition crlf :: str where "crlf = [carriage_return, newline]"

definition request_head :: "str \<Rightarrow> str \<Rightarrow> str \<Rightarrow> nat \<Rightarrow> str" where
  "request_head verb target content_type n =
     verb @ '' '' @ target @ '' HTTP/1.1'' @ crlf @ ''Host: firecracker'' @ crlf @
     ''Content-Type: '' @ content_type @ crlf @ ''Content-Length: '' @ show_nat n @ crlf @
     ''Connection: close'' @ crlf @ crlf"

definition response_of ::
  "bytes \<Rightarrow> str \<Rightarrow> (api_response, firecracker_error) result option" where
  "response_of input eof =
     (case read_response eof input (BoundedReader_new MAX_API_BODY) of
        Err error \<Rightarrow> Some (Err (FirecrackerError_from_io error))
      | Ok (reader, _) \<Rightarrow>
          map_option (\<lambda>(status, body).
            if \<not> (200 \<le> status \<and> status < 300)
            then Err (ControlApi status (from_utf8_lossy body))
            else Ok \<lparr>ar_status = status, ar_body = body\<rparr>) (BoundedReader_finish reader))"

definition api_request ::
  "'w api_transport \<Rightarrow> path \<Rightarrow> str \<Rightarrow> str \<Rightarrow> str \<Rightarrow> bytes option \<Rightarrow> 'w \<Rightarrow>
     (api_response, firecracker_error) result option \<times> 'w" where
  "api_request transport socket_path verb target content_type body w =
     (let content = (case body of Some b \<Rightarrow> b | None \<Rightarrow> []) in
      case transport socket_path (text_bytes (request_head verb target content_type (length content)))
             content w of
        (exchange, w') \<Rightarrow>
          ((case exchange of
              ConnectTimedOut \<Rightarrow> Some (Err (FirecrackerError_Io ''connect timed out''))
            | ConnectFailed error \<Rightarrow> Some (Err (FirecrackerError_Io (''connect failed: '' @ error)))
            | WriteRequestFailed error \<Rightarrow>
                Some (Err (FirecrackerError_Io (''write request failed: '' @ error)))
            | WriteBodyFailed error \<Rightarrow>
                Some (Err (FirecrackerError_Io (''write body failed: '' @ error)))
            | ReadTimedOut \<Rightarrow> Some (Err (FirecrackerError_Io ''read response timed out''))
            | Replied input eof \<Rightarrow> response_of input eof), w'))"

section \<open>What a response holds\<close>

lemma header_end_length: "take 4 bs = header_end \<Longrightarrow> 4 \<le> length bs"
  by (drule arg_cong [of _ _ length]) (simp add: header_end_def)

lemma find_header_end_Some:
  "find_header_end bs = Some i \<Longrightarrow> i + 4 \<le> length bs \<and> take 4 (drop i bs) = header_end"
proof (induction bs arbitrary: i)
  case Nil
  then show ?case by simp
next
  case (Cons b bs)
  show ?case
  proof (cases "take 4 (b # bs) = header_end")
    case True
    then show ?thesis
      using Cons.prems header_end_length [OF True] by (simp del: take_Cons_numeral)
  next
    case False
    then obtain j where "find_header_end bs = Some j" "i = Suc j"
      using Cons.prems by (auto simp del: take_Cons_numeral)
    then show ?thesis using Cons.IH by simp
  qed
qed

lemma find_header_end_append:
  "find_header_end bs = Some i \<Longrightarrow> find_header_end (bs @ cs) = Some i"
proof (induction bs arbitrary: i)
  case Nil
  then show ?case by simp
next
  case (Cons b bs)
  show ?case
  proof (cases "take 4 (b # bs) = header_end")
    case True
    then have "take 4 (b # bs @ cs) = header_end"
      using header_end_length [OF True] take_append [of 4 "b # bs" cs] by (simp del: take_Cons_numeral)
    then show ?thesis using True Cons.prems by (simp del: take_Cons_numeral)
  next
    case False
    then obtain j where j: "find_header_end bs = Some j" "i = Suc j"
      using Cons.prems by (auto simp del: take_Cons_numeral)
    then have "4 \<le> length bs"
      using find_header_end_Some [OF j(1)] by simp
    then have "take 4 (b # bs @ cs) = take 4 (b # bs)"
      using take_append [of 4 "b # bs" cs] by (simp del: take_Cons_numeral)
    then show ?thesis using False Cons.IH [OF j(1)] j(2) by (simp del: take_Cons_numeral)
  qed
qed

lemma find_header_end_first:
  "find_header_end bs = None \<Longrightarrow> i + 4 \<le> length bs \<Longrightarrow> take 4 (drop i bs) \<noteq> header_end"
proof (induction bs arbitrary: i)
  case Nil
  then show ?case by (auto simp: header_end_def)
next
  case (Cons b bs)
  then show ?case by (cases i) (auto simp del: take_Cons_numeral split: if_splits)
qed

text \<open>The window that ends a header is found with its last byte.\<close>

lemma find_header_end_push:
  assumes "find_header_end bs = None" and "find_header_end (bs @ [b]) = Some i"
  shows "i + 4 = length bs + 1"
proof (rule ccontr)
  assume "i + 4 \<noteq> length bs + 1"
  with find_header_end_Some [OF assms(2)] have "i + 4 \<le> length bs"
    and "take 4 (drop i bs) = header_end" by auto
  with find_header_end_first [OF assms(1)] show False by blast
qed

lemma push_Ok:
  "BoundedReader_push b out = Ok out' \<longleftrightarrow>
     length (br_buffer out) < br_maximum out \<and> out' = out\<lparr>br_buffer := br_buffer out @ [b]\<rparr>"
  by (auto simp: BoundedReader_push_def)

lemma read_head_Ok:
  "read_head eof input out = Ok (out', rest) \<Longrightarrow> find_header_end (br_buffer out) = None \<Longrightarrow>
     \<exists>taken. input = taken @ rest \<and> out' = out\<lparr>br_buffer := br_buffer out @ taken\<rparr> \<and>
       length (br_buffer out') \<le> br_maximum out \<and> 4 \<le> length (br_buffer out') \<and>
       find_header_end (br_buffer out') = Some (length (br_buffer out') - 4)"
proof (induction eof input out rule: read_head.induct)
  case (1 eof out)
  then show ?case by simp
next
  case (2 eof b bs out)
  let ?out = "out\<lparr>br_buffer := br_buffer out @ [b]\<rparr>"
  from "2.prems" have push: "BoundedReader_push b out = Ok ?out"
    by (auto simp: and_then_Ok_iff push_Ok)
  show ?case
  proof (cases "find_header_end (br_buffer ?out)")
    case None
    then have "read_head eof bs ?out = Ok (out', rest)" and "\<not> 16 * 1024 < length (br_buffer ?out)"
      using "2.prems" push by (auto split: if_splits)
    then obtain taken where "bs = taken @ rest" "out' = ?out\<lparr>br_buffer := br_buffer ?out @ taken\<rparr>"
      "length (br_buffer out') \<le> br_maximum ?out" "4 \<le> length (br_buffer out')"
      "find_header_end (br_buffer out') = Some (length (br_buffer out') - 4)"
      using "2.IH" [of ?out] None push by auto
    then show ?thesis by (intro exI [of _ "b # taken"]) auto
  next
    case (Some i)
    have "i + 4 = length (br_buffer ?out)"
      using find_header_end_push [of "br_buffer out" b i] "2.prems"(2) Some by simp
    then show ?thesis
      using "2.prems" push Some by (intro exI [of _ "[b]"]) (auto simp: push_Ok)
  qed
qed

lemma read_body_Ok:
  "read_body eof n input out = Ok (out', rest) \<Longrightarrow> length (br_buffer out) \<le> br_maximum out \<Longrightarrow>
     n \<le> length input \<and> rest = drop n input \<and> length (br_buffer out) + n \<le> br_maximum out \<and>
     out' = out\<lparr>br_buffer := br_buffer out @ take n input\<rparr>"
proof (induction eof n input out rule: read_body.induct)
  case (3 eof n b bs out)
  then have push: "BoundedReader_push b out = Ok (out\<lparr>br_buffer := br_buffer out @ [b]\<rparr>)"
    and "length (br_buffer out) < br_maximum out"
    by (auto simp: and_then_Ok_iff push_Ok)
  with "3.IH" [of "out\<lparr>br_buffer := br_buffer out @ [b]\<rparr>"] "3.prems" show ?case by auto
qed auto

text \<open>The length that a header declares; 0 bytes are read when it declares none.\<close>

definition declared_body :: "bytes \<Rightarrow> nat" where
  "declared_body header =
     (case find_map content_length_line (lines (from_utf8_lossy header)) of Some n \<Rightarrow> n | None \<Rightarrow> 0)"

lemma read_response_Ok:
  assumes "read_response eof input (BoundedReader_new maximum) = Ok (out, rest)"
  shows "\<exists>head body. input = head @ header_end @ body @ rest \<and>
    br_buffer out = head @ header_end @ body \<and> length (br_buffer out) \<le> maximum \<and>
    find_header_end (br_buffer out) = Some (length head) \<and>
    length body = declared_body (head @ header_end)"
proof -
  obtain out1 rest1 where head_read: "read_head eof input (BoundedReader_new maximum) = Ok (out1, rest1)"
    using assms by (auto simp: read_response_def and_then_Ok_iff)
  obtain header where header: "input = header @ rest1" "out1 = \<lparr>br_buffer = header, br_maximum = maximum\<rparr>"
    "length header \<le> maximum" "4 \<le> length header" "find_header_end header = Some (length header - 4)"
    using read_head_Ok [OF head_read] by (auto simp: BoundedReader_new_def)
  define head where "head = take (length header - 4) header"
  have split: "header = head @ header_end"
  proof -
    have "header = head @ drop (length header - 4) header"
      by (simp add: head_def)
    moreover have "take 4 (drop (length header - 4) header) = drop (length header - 4) header"
      using header(4) by simp
    ultimately show ?thesis
      using find_header_end_Some [OF header(5)] by simp
  qed
  have len: "length header - 4 = length head"
    by (simp add: head_def)
  let ?n = "declared_body header"
  have body: "out = \<lparr>br_buffer = header @ take ?n rest1, br_maximum = maximum\<rparr> \<and> rest = drop ?n rest1 \<and>
      ?n \<le> length rest1 \<and> length header + ?n \<le> maximum"
  proof (cases "find_map content_length_line (lines (from_utf8_lossy header))")
    case None
    then show ?thesis
      using assms head_read header by (auto simp: read_response_def declared_body_def)
  next
    case (Some n)
    then have "read_body eof n rest1 out1 = Ok (out, rest)"
      using assms head_read header by (auto simp: read_response_def split: if_splits)
    from read_body_Ok [OF this] show ?thesis
      using header Some by (simp add: declared_body_def)
  qed
  show ?thesis
  proof (rule exI [of _ head], rule exI [of _ "take ?n rest1"], intro conjI)
    show "find_header_end (br_buffer out) = Some (length head)"
      using body find_header_end_append [OF header(5)] len by simp
    show "length (take ?n rest1) = declared_body (head @ header_end)"
      using body split by simp
  qed (use body split header(1) in auto)
qed

lemma finish_Some:
  assumes "find_header_end (br_buffer out) = Some i"
  shows "BoundedReader_finish out =
    Some (status_of_head (from_utf8_lossy (take i (br_buffer out))), drop (i + 4) (br_buffer out))"
  using find_header_end_Some [OF assms] assms by (simp add: BoundedReader_finish_def Let_def)

lemma response_of_cases:
  obtains (failed) e where "response_of input eof = Some (Err e)"
  | (answered) head body rest status where
    "response_of input eof = Some (Ok \<lparr>ar_status = status, ar_body = body\<rparr>)"
    "input = head @ header_end @ body @ rest" "length (head @ header_end @ body) \<le> MAX_API_BODY"
    "find_header_end input = Some (length head)" "length body = declared_body (head @ header_end)"
    "status = status_of_head (from_utf8_lossy head)" "200 \<le> status" "status < 300"
proof (cases "read_response eof input (BoundedReader_new MAX_API_BODY)")
  case (Err e)
  then show ?thesis using failed by (simp add: response_of_def)
next
  case (Ok a)
  then obtain out rest where run: "read_response eof input (BoundedReader_new MAX_API_BODY) = Ok (out, rest)"
    by (cases a) auto
  from read_response_Ok [OF this] obtain head body where parts: "input = head @ header_end @ body @ rest"
    "br_buffer out = head @ header_end @ body" "length (br_buffer out) \<le> MAX_API_BODY"
    "find_header_end (br_buffer out) = Some (length head)"
    "length body = declared_body (head @ header_end)" by blast
  have finish: "BoundedReader_finish out = Some (status_of_head (from_utf8_lossy head), body)"
    using finish_Some [OF parts(4)] parts(2) by (simp add: header_end_def)
  have found: "find_header_end input = Some (length head)"
    using find_header_end_append [OF parts(4), of rest] parts(1,2) by simp
  show ?thesis
  proof (cases "200 \<le> status_of_head (from_utf8_lossy head) \<and> status_of_head (from_utf8_lossy head) < 300")
    case True
    then show ?thesis
      using answered [of "status_of_head (from_utf8_lossy head)" body head rest] run finish found parts
      by (simp add: response_of_def)
  next
    case False
    then show ?thesis
      using failed [of "ControlApi (status_of_head (from_utf8_lossy head)) (from_utf8_lossy body)"] run finish
      by (simp add: response_of_def)
  qed
qed

lemma response_of_total: "response_of input eof \<noteq> None"
  by (cases input eof rule: response_of_cases) simp_all

end
