(* ===== verification/Vm_Lifecycle.thy ===== *)
theory Vm_Lifecycle
  imports Prelude
begin

text \<open>
  \<open>crates/openoj-firecracker/src/lifecycle.rs\<close>: the state machine of one microVM.  A transition
  that is not allowed answers with the current phase and changes nothing.  The counter of teardowns
  wraps at its width, as in a release build.
\<close>

section \<open>Phases\<close>

datatype vm_phase =
    Phase_Idle | Phase_Launching | Phase_Configuring | Phase_Started
  | Phase_Running | Phase_Terminating | Phase_Terminated | Phase_Failed

fun VmPhase_is_terminal :: "vm_phase \<Rightarrow> bool" where
  "VmPhase_is_terminal p \<longleftrightarrow> p = Phase_Terminated \<or> p = Phase_Failed"

fun VmPhase_needs_teardown :: "vm_phase \<Rightarrow> bool" where
  "VmPhase_needs_teardown p \<longleftrightarrow>
     p = Phase_Launching \<or> p = Phase_Configuring \<or> p = Phase_Started \<or> p = Phase_Running \<or>
     p = Phase_Terminating \<or> p = Phase_Failed"

fun VmPhase_can_communicate :: "vm_phase \<Rightarrow> bool" where
  "VmPhase_can_communicate p \<longleftrightarrow> p = Phase_Started \<or> p = Phase_Running"

fun VmPhase_fmt :: "vm_phase \<Rightarrow> str" where
  "VmPhase_fmt Phase_Idle = ''idle''"
| "VmPhase_fmt Phase_Launching = ''launching''"
| "VmPhase_fmt Phase_Configuring = ''configuring''"
| "VmPhase_fmt Phase_Started = ''started''"
| "VmPhase_fmt Phase_Running = ''running''"
| "VmPhase_fmt Phase_Terminating = ''terminating''"
| "VmPhase_fmt Phase_Terminated = ''terminated''"
| "VmPhase_fmt Phase_Failed = ''failed''"

datatype teardown_reason =
  UnexpectedExit | Reason_ControlApi | GuestStage | Reason_Cancelled | ResourceLimit

section \<open>Transitions\<close>

record lifecycle =
  lc_phase :: vm_phase
  lc_teardowns :: u32
  lc_reason :: "teardown_reason option"

definition Lifecycle_new :: lifecycle where
  "Lifecycle_new = \<lparr>lc_phase = Phase_Idle, lc_teardowns = 0, lc_reason = None\<rparr>"

definition ALLOWED :: "(vm_phase \<times> vm_phase) list" where
  "ALLOWED = [
     (Phase_Idle, Phase_Launching),
     (Phase_Launching, Phase_Configuring),
     (Phase_Configuring, Phase_Started),
     (Phase_Started, Phase_Running),
     (Phase_Running, Phase_Terminating),
     (Phase_Started, Phase_Terminating),
     (Phase_Configuring, Phase_Terminating),
     (Phase_Launching, Phase_Terminating)]"

definition Lifecycle_transition ::
  "vm_phase \<Rightarrow> lifecycle \<Rightarrow> (unit, vm_phase) result \<times> lifecycle" where
  "Lifecycle_transition target self =
     (if (lc_phase self, target) \<notin> set ALLOWED then (Err (lc_phase self), self)
      else (Ok (), self\<lparr>lc_phase := target\<rparr>))"

definition Lifecycle_launch :: "lifecycle \<Rightarrow> (unit, vm_phase) result \<times> lifecycle" where
  "Lifecycle_launch = Lifecycle_transition Phase_Launching"

definition Lifecycle_configuring :: "lifecycle \<Rightarrow> (unit, vm_phase) result \<times> lifecycle" where
  "Lifecycle_configuring self =
     (if lc_phase self \<noteq> Phase_Launching then (Err (lc_phase self), self)
      else (Ok (), self\<lparr>lc_phase := Phase_Configuring\<rparr>))"

definition Lifecycle_start :: "lifecycle \<Rightarrow> (unit, vm_phase) result \<times> lifecycle" where
  "Lifecycle_start self =
     (if lc_phase self \<noteq> Phase_Configuring then (Err (lc_phase self), self)
      else (Ok (), self\<lparr>lc_phase := Phase_Started\<rparr>))"

definition Lifecycle_running :: "lifecycle \<Rightarrow> (unit, vm_phase) result \<times> lifecycle" where
  "Lifecycle_running self =
     (if lc_phase self \<noteq> Phase_Started then (Err (lc_phase self), self)
      else (Ok (), self\<lparr>lc_phase := Phase_Running\<rparr>))"

definition Lifecycle_fail :: "teardown_reason \<Rightarrow> lifecycle \<Rightarrow> lifecycle" where
  "Lifecycle_fail reason self = self\<lparr>lc_phase := Phase_Failed, lc_reason := Some reason\<rparr>"

definition Lifecycle_fail_with :: "teardown_reason \<Rightarrow> lifecycle \<Rightarrow> lifecycle" where
  "Lifecycle_fail_with reason self = Lifecycle_fail reason self"

definition Lifecycle_teardown :: "lifecycle \<Rightarrow> (unit, vm_phase) result \<times> lifecycle" where
  "Lifecycle_teardown self =
     (case lc_phase self of
        Phase_Idle \<Rightarrow>
          (Ok (), self\<lparr>lc_teardowns := lc_teardowns self + 1, lc_phase := Phase_Terminated\<rparr>)
      | Phase_Terminating \<Rightarrow> (Ok (), self\<lparr>lc_teardowns := lc_teardowns self + 1\<rparr>)
      | Phase_Terminated \<Rightarrow> (Err Phase_Terminated, self)
      | _ \<Rightarrow> (Ok (), self\<lparr>lc_teardowns := lc_teardowns self + 1, lc_phase := Phase_Terminating\<rparr>))"

definition Lifecycle_reclaimed :: "lifecycle \<Rightarrow> lifecycle" where
  "Lifecycle_reclaimed self = self\<lparr>lc_phase := Phase_Terminated\<rparr>"

section \<open>Histories\<close>

text \<open>Any sequence of calls on a new lifecycle, with the calls that were accepted.\<close>

datatype lifecycle_call =
    Call_Launch | Call_Configuring | Call_Start | Call_Running
  | Call_Fail teardown_reason | Call_Teardown | Call_Reclaimed

fun call_step :: "lifecycle_call \<Rightarrow> lifecycle \<Rightarrow> (unit, vm_phase) result \<times> lifecycle" where
  "call_step Call_Launch self = Lifecycle_launch self"
| "call_step Call_Configuring self = Lifecycle_configuring self"
| "call_step Call_Start self = Lifecycle_start self"
| "call_step Call_Running self = Lifecycle_running self"
| "call_step (Call_Fail reason) self = (Ok (), Lifecycle_fail_with reason self)"
| "call_step Call_Teardown self = Lifecycle_teardown self"
| "call_step Call_Reclaimed self = (Ok (), Lifecycle_reclaimed self)"

inductive lifecycle_history :: "lifecycle_call list \<Rightarrow> lifecycle \<Rightarrow> bool" where
  start: "lifecycle_history [] Lifecycle_new"
| accepted: "lifecycle_history calls self \<Longrightarrow> call_step c self = (Ok (), self') \<Longrightarrow>
    lifecycle_history (calls @ [c]) self'"
| refused: "lifecycle_history calls self \<Longrightarrow> call_step c self = (Err phase, self') \<Longrightarrow>
    lifecycle_history calls self'"

inductive_cases lifecycle_historyE: "lifecycle_history calls self"

lemmas lifecycle_defs = Lifecycle_launch_def Lifecycle_transition_def ALLOWED_def
  Lifecycle_configuring_def Lifecycle_start_def Lifecycle_running_def Lifecycle_fail_with_def
  Lifecycle_fail_def Lifecycle_teardown_def Lifecycle_reclaimed_def

definition boot_order :: "lifecycle_call list" where
  "boot_order = [Call_Launch, Call_Configuring, Call_Start, Call_Running]"

text \<open>How far a phase is in the boot order.\<close>

fun boot_progress :: "vm_phase \<Rightarrow> nat option" where
  "boot_progress Phase_Idle = Some 0"
| "boot_progress Phase_Launching = Some 1"
| "boot_progress Phase_Configuring = Some 2"
| "boot_progress Phase_Started = Some 3"
| "boot_progress Phase_Running = Some 4"
| "boot_progress _ = None"

lemma refused_unchanged: "call_step c self = (Err phase, self') \<Longrightarrow> self' = self \<and> phase = lc_phase self"
  by (cases c) (auto simp: lifecycle_defs split: if_splits vm_phase.splits)

lemma accepted_boot:
  "call_step c self = (Ok (), self') \<Longrightarrow> boot_progress (lc_phase self') = Some n \<Longrightarrow>
     \<exists>m. n = Suc m \<and> m < 4 \<and> boot_progress (lc_phase self) = Some m \<and> c = boot_order ! m"
  by (cases c; cases "lc_phase self")
    (auto simp: lifecycle_defs boot_order_def split: if_splits)

lemma boot_history:
  "lifecycle_history calls self \<Longrightarrow> boot_progress (lc_phase self) = Some n \<Longrightarrow>
     calls = take n boot_order \<and> n \<le> 4"
proof (induction arbitrary: n rule: lifecycle_history.induct)
  case start
  then show ?case by (simp add: Lifecycle_new_def)
next
  case (accepted calls self c self')
  from accepted_boot [OF accepted.hyps(2) accepted.prems] obtain m where
    m: "n = Suc m" "m < 4" "boot_progress (lc_phase self) = Some m" "c = boot_order ! m"
    by blast
  have "length boot_order = 4"
    by (simp add: boot_order_def)
  with m accepted.IH [of m] show ?case
    by (simp add: take_Suc_conv_app_nth)
next
  case (refused calls self c phase self')
  then show ?case using refused_unchanged by blast
qed

text \<open>A teardown that is followed by the reclaiming ends the life of any microVM.\<close>

lemma teardown_accepted_iff: "fst (Lifecycle_teardown self) = Ok () \<longleftrightarrow> lc_phase self \<noteq> Phase_Terminated"
  by (cases "lc_phase self") (simp_all add: Lifecycle_teardown_def)

end
