(* ===== verification/Guest_Channel.thy ===== *)
theory Guest_Channel
  imports Vm_Config
begin

text \<open>
  \<open>crates/openoj-firecracker/src/vsock.rs\<close>: the host's end of the channel to the guest agent.  The
  socket operations of the host are a record of functions over its world; times are milliseconds.
\<close>

section \<open>The host's sockets\<close>

record ('w, 's) socket_host = "'w clock" +
  sh_connect :: "path \<Rightarrow> 'w \<Rightarrow> ('s, str) result \<times> 'w"
  sh_set_timeouts :: "'s \<Rightarrow> nat \<Rightarrow> 'w \<Rightarrow> (unit, str) result \<times> 'w"
  sh_write_all :: "'s \<Rightarrow> bytes \<Rightarrow> 'w \<Rightarrow> (unit, str) result \<times> 'w"
  sh_read :: "'s \<Rightarrow> nat \<Rightarrow> 'w \<Rightarrow> (bytes, str) result \<times> 'w"
  sh_read_exact :: "'s \<Rightarrow> nat \<Rightarrow> 'w \<Rightarrow> (bytes, str) result \<times> 'w"

definition DEFAULT_READ_TIMEOUT :: nat where "DEFAULT_READ_TIMEOUT = 15000"
definition DEFAULT_CONNECT_TIMEOUT :: nat where "DEFAULT_CONNECT_TIMEOUT = 500"
definition DEFAULT_CONNECT_WAIT :: nat where "DEFAULT_CONNECT_WAIT = 10000"
definition DEFAULT_CONNECT_POLL :: nat where "DEFAULT_CONNECT_POLL = 50"
definition CONNECT_OK_PREFIX :: str where "CONNECT_OK_PREFIX = ''OK ''"

record 's guest_channel =
  gc_stream :: 's
  gc_read_timeout :: nat

section \<open>Connecting\<close>

text \<open>\<open>byte as char\<close>, appended to a string.\<close>

definition latin1 :: "u8 \<Rightarrow> str" where
  "latin1 b =
     (if unat b < 128 then [char_of_byte b]
      else [char_of (192 + unat b div 64), char_of (128 + unat b mod 64)])"

text \<open>
  The loop reads byte by byte to a newline or the end of the stream; nothing bounds the line, so a
  stream that never sends a newline is \<open>None\<close>.
\<close>

partial_function (option) read_line_from ::
  "('w \<Rightarrow> (bytes, str) result \<times> 'w) \<Rightarrow> u8 \<Rightarrow> str \<Rightarrow> 'w \<Rightarrow> ((str, str) result \<times> 'w) option" where
  "read_line_from read_byte previous out w =
     (case read_byte w of
        (Err error, w') \<Rightarrow> Some (Err error, w')
      | (Ok buf, w') \<Rightarrow>
          (case buf of
             [] \<Rightarrow> Some (Ok out, w')
           | byte # _ \<Rightarrow>
               let out' = (if previous = 13 \<and> byte = 10 then butlast out else out) in
               if byte = 10 then Some (Ok out', w')
               else read_line_from read_byte byte (out' @ latin1 byte) w'))"

definition read_line ::
  "('w \<Rightarrow> (bytes, str) result \<times> 'w) \<Rightarrow> 'w \<Rightarrow> ((str, str) result \<times> 'w) option" where
  "read_line read_byte w = read_line_from read_byte 10 [] w"

definition starts_with :: "str \<Rightarrow> str \<Rightarrow> bool" where
  "starts_with p s \<longleftrightarrow> take (length p) s = p"

definition GuestChannel_connect ::
  "('w, 's, 'z) socket_host_scheme \<Rightarrow> path \<Rightarrow> u32 \<Rightarrow> nat \<Rightarrow> 'w \<Rightarrow>
     (('s guest_channel, firecracker_error) result \<times> 'w) option" where
  "GuestChannel_connect host uds_path port read_timeout w =
     (case sh_connect host uds_path w of
        (Err error, w) \<Rightarrow> Some (Err (FirecrackerError_Io (''vsock unix connect failed: '' @ error)), w)
      | (Ok stream, w) \<Rightarrow>
     (case sh_set_timeouts host stream DEFAULT_CONNECT_TIMEOUT w of
        (Err error, w) \<Rightarrow>
          Some (Err (FirecrackerError_Io (''set vsock CONNECT timeout failed: '' @ error)), w)
      | (Ok _, w) \<Rightarrow>
     (case sh_write_all host stream
             (text_bytes (''CONNECT '' @ show_nat (unat port) @ [newline])) w of
        (Err error, w) \<Rightarrow> Some (Err (FirecrackerError_Io (''vsock CONNECT write failed: '' @ error)), w)
      | (Ok _, w) \<Rightarrow>
     map_option (\<lambda>(line, w).
       case line of
         Err error \<Rightarrow> (Err (FirecrackerError_Io (''vsock CONNECT reply failed: '' @ error)), w)
       | Ok line \<Rightarrow>
           if \<not> starts_with CONNECT_OK_PREFIX line
           then (Err (FirecrackerError_Io (''vsock CONNECT rejected: '' @ line)), w)
           else
             (case sh_set_timeouts host stream read_timeout w of
                (Err error, w) \<Rightarrow>
                  (Err (FirecrackerError_Io (''set guest channel timeout failed: '' @ error)), w)
              | (Ok _, w) \<Rightarrow> (Ok \<lparr>gc_stream = stream, gc_read_timeout = read_timeout\<rparr>, w)))
       (read_line (sh_read host stream 1) w))))"

text \<open>The retries of an operation within a window of time; the last error is reported.\<close>

definition retry_until ::
  "('w, 'z) clock_scheme \<Rightarrow> nat \<Rightarrow> nat \<Rightarrow>
     ('w \<Rightarrow> (('a, firecracker_error) result \<times> 'w) option) \<Rightarrow> 'w \<Rightarrow>
     (('a, firecracker_error) result \<times> 'w) option" where
  "retry_until clock wait pause operation w =
     deadline_loop clock (ck_now clock w + wait) (\<lambda>remaining. min pause remaining)
       (\<lambda>w. map_option (\<lambda>(outcome, w').
          (case outcome of Ok a \<Rightarrow> Inl (Ok a) | Err error \<Rightarrow> Inr error, w')) (operation w))
       (\<lambda>error w. (Err (FirecrackerError_Io
          (''guest channel readiness timed out: '' @ FirecrackerError_fmt error)), w)) w"

definition GuestChannel_connect_until_ready ::
  "('w, 's, 'z) socket_host_scheme \<Rightarrow> path \<Rightarrow> u32 \<Rightarrow> nat \<Rightarrow> 'w \<Rightarrow>
     (('s guest_channel, firecracker_error) result \<times> 'w) option" where
  "GuestChannel_connect_until_ready host uds_path port read_timeout =
     retry_until host DEFAULT_CONNECT_WAIT DEFAULT_CONNECT_POLL
       (GuestChannel_connect host uds_path port read_timeout)"

section \<open>Frames over the channel\<close>

definition GuestChannel_send ::
  "guest_json \<Rightarrow> ('w, 's, 'z) socket_host_scheme \<Rightarrow> 's guest_channel \<Rightarrow> guest_message \<Rightarrow> 'w \<Rightarrow>
     (unit, firecracker_error) result \<times> 'w" where
  "GuestChannel_send lib host self message w =
     (case encode lib message of
        Err error \<Rightarrow> (Err (FirecrackerError_from_codec error), w)
      | Ok frame \<Rightarrow>
          (case sh_write_all host (gc_stream self) frame w of
             (Err error, w') \<Rightarrow> (Err (FirecrackerError_Io (''vsock write failed: '' @ error)), w')
           | (Ok _, w') \<Rightarrow> (Ok (), w')))"

definition read_length :: "bytes \<Rightarrow> (nat, firecracker_error) result" where
  "read_length length_buf =
     (let declared = unat (u32_from_be_bytes length_buf) in
      if declared > MAX_FRAME_BYTES - 4
      then Err (FirecrackerError_Io (''guest frame length '' @ show_nat declared @
        '' exceeds bound '' @ show_nat MAX_FRAME_BYTES))
      else Ok declared)"

definition map_codec :: "codec_error \<Rightarrow> firecracker_error" where
  "map_codec error = FirecrackerError_Io (''guest message decode failed: '' @ CodecError_fmt error)"

definition GuestChannel_recv ::
  "guest_json \<Rightarrow> ('w, 's, 'z) socket_host_scheme \<Rightarrow> 's guest_channel \<Rightarrow> 'w \<Rightarrow>
     (guest_message, firecracker_error) result \<times> 'w" where
  "GuestChannel_recv lib host self w =
     (case sh_read_exact host (gc_stream self) 4 w of
        (Err error, w) \<Rightarrow> (Err (FirecrackerError_Io (''vsock read failed: '' @ error)), w)
      | (Ok length_buf, w) \<Rightarrow>
          (case read_length length_buf of
             Err error \<Rightarrow> (Err error, w)
           | Ok declared \<Rightarrow>
               (case sh_read_exact host (gc_stream self) declared w of
                  (Err error, w) \<Rightarrow> (Err (FirecrackerError_Io (''vsock read body failed: '' @ error)), w)
                | (Ok body, w) \<Rightarrow> (map_err map_codec (decode lib (length_buf @ body)), w))))"

section \<open>Lemmas\<close>

lemma retry_until_ends:
  assumes clock: "clock_ok clock" and operation: "forward clock operation" and "0 < pause"
  shows "\<exists>r w'. retry_until clock wait pause operation w = Some (r, w')"
  unfolding retry_until_def
proof (rule deadline_loop_ends [OF clock])
  show "forward clock (\<lambda>w. map_option (\<lambda>(outcome, w').
      (case outcome of Ok a \<Rightarrow> Inl (Ok a) | Err error \<Rightarrow> Inr error, w')) (operation w))"
    unfolding forward_def
  proof
    fix w
    obtain a w' where "operation w = Some (a, w')" "ck_now clock w \<le> ck_now clock w'"
      using operation by (auto simp: forward_def dest: spec [of _ w])
    then show "\<exists>a w'. map_option (\<lambda>(outcome, w').
        (case outcome of Ok a \<Rightarrow> Inl (Ok a) | Err error \<Rightarrow> Inr error, w')) (operation w) = Some (a, w') \<and>
        ck_now clock w \<le> ck_now clock w'" by simp
  qed
qed (use assms(3) in simp)

text \<open>A reply line that ends with a newline is read up to it, without a carriage return before it.\<close>

lemma read_line_ends:
  assumes "\<And>w b bs w'. read_byte w = (Ok (b # bs), w') \<Longrightarrow> pending w' < (pending w :: nat)"
  shows "\<exists>r w'. read_line_from read_byte previous out w = Some (r, w')"
proof (induction "pending w" arbitrary: w previous out rule: less_induct)
  case less
  obtain r w1 where read: "read_byte w = (r, w1)" by force
  show ?case
  proof (cases "\<exists>b bs. r = Ok (b # bs)")
    case True
    then obtain b bs where r: "r = Ok (b # bs)" by blast
    then show ?thesis
      using less [OF assms [of w b bs w1]] read
      by (subst read_line_from.simps) (auto simp: Let_def)
  next
    case False
    then show ?thesis
      using read by (subst read_line_from.simps) (auto split: result.splits list.splits)
  qed
qed

text \<open>A frame is received as the message that \<open>decode\<close> reads from it.\<close>

lemma recv_bounded:
  assumes "GuestChannel_recv lib host self w = (Ok m, w')"
  shows "\<exists>frame. decode lib frame = Ok m"
  using assms
  by (auto simp: GuestChannel_recv_def split: result.splits prod.splits)

end
