(* ===== verification/Vm_Machine.thy ===== *)
theory Vm_Machine
  imports Vm_Api Vm_Lifecycle Guest_Channel
begin

text \<open>
  \<open>crates/openoj-firecracker/src/machine.rs\<close>: one Firecracker process for one task, from its launch
  over the configuration through the control API to the teardown.  The host - processes, files,
  the API socket and the clock - is a record of functions over its world; the state of a method is
  the handle with that world.  \<open>None\<close> stands for a call that does not return or panics.
\<close>

section \<open>The host\<close>

record ('w, 's, 'c) vmm_host = "('w, 's) socket_host" +
  vh_spawn :: "path \<Rightarrow> str list \<Rightarrow> 'w \<Rightarrow> ('c, str) result \<times> 'w"
  vh_try_exists :: "path \<Rightarrow> 'w \<Rightarrow> (bool, str) result \<times> 'w"
  vh_try_wait :: "'c \<Rightarrow> 'w \<Rightarrow> (int option, str) result \<times> 'w"
  vh_kill :: "'c \<Rightarrow> 'w \<Rightarrow> 'w"
  vh_wait :: "'c \<Rightarrow> 'w \<Rightarrow> 'w"
  vh_start_kill :: "'c \<Rightarrow> 'w \<Rightarrow> 'w"
  vh_remove_file :: "path \<Rightarrow> 'w \<Rightarrow> 'w"
  vh_api :: "'w api_transport"
  vh_to_vec :: "json \<Rightarrow> (bytes, str) result"

definition SOCKET_WAIT :: nat where "SOCKET_WAIT = 10000"
definition SOCKET_POLL :: nat where "SOCKET_POLL = 50"
definition CONTENT_TYPE_JSON :: str where "CONTENT_TYPE_JSON = ''application/json''"

record 'c firecracker_vm =
  vm_config :: firecracker_config
  vm_lifecycle :: lifecycle
  vm_firecracker_path :: path
  vm_api_socket :: path
  vm_child :: "'c option"

type_synonym ('a, 'c, 'w) vm_op =
  "'c firecracker_vm \<times> 'w \<Rightarrow> (('a, firecracker_error) result \<times> 'c firecracker_vm \<times> 'w) option"

definition vm_then :: "('a, 'c, 'w) vm_op \<Rightarrow> ('a \<Rightarrow> ('b, 'c, 'w) vm_op) \<Rightarrow> ('b, 'c, 'w) vm_op" where
  "vm_then m f s =
     (case m s of
        None \<Rightarrow> None
      | Some (Ok a, s') \<Rightarrow> f a s'
      | Some (Err e, s') \<Rightarrow> Some (Err e, s'))"

definition vm_return :: "'a \<Rightarrow> ('a, 'c, 'w) vm_op" where
  "vm_return a s = Some (Ok a, s)"

definition vm_phase_of :: "'c firecracker_vm \<Rightarrow> vm_phase" where
  "vm_phase_of vm = lc_phase (vm_lifecycle vm)"

definition set_lifecycle :: "(lifecycle \<Rightarrow> lifecycle) \<Rightarrow> 'c firecracker_vm \<Rightarrow> 'c firecracker_vm" where
  "set_lifecycle f vm = vm\<lparr>vm_lifecycle := f (vm_lifecycle vm)\<rparr>"

text \<open>A transition of the lifecycle, with the error that a refusal is turned into.\<close>

definition advance ::
  "(lifecycle \<Rightarrow> (unit, vm_phase) result \<times> lifecycle) \<Rightarrow> (vm_phase \<Rightarrow> str) \<Rightarrow> (unit, 'c, 'w) vm_op" where
  "advance transition message s =
     (case s of (vm, w) \<Rightarrow>
        (case transition (vm_lifecycle vm) of
           (r, self) \<Rightarrow> Some (map_err (\<lambda>phase. FirecrackerError_Io (message phase)) r,
                          vm\<lparr>vm_lifecycle := self\<rparr>, w)))"

definition FirecrackerVm_new :: "firecracker_config \<Rightarrow> path \<Rightarrow> path \<Rightarrow> 'c firecracker_vm" where
  "FirecrackerVm_new config firecracker_path api_socket =
     \<lparr>vm_config = config, vm_lifecycle = Lifecycle_new, vm_firecracker_path = firecracker_path,
      vm_api_socket = api_socket, vm_child = None\<rparr>"

definition FirecrackerVm_can_communicate :: "'c firecracker_vm \<Rightarrow> bool" where
  "FirecrackerVm_can_communicate self = VmPhase_can_communicate (vm_phase_of self)"

section \<open>The process\<close>

definition spawn_direct ::
  "('w, 's, 'c, 'z) vmm_host_scheme \<Rightarrow> 'c firecracker_vm \<Rightarrow> 'w \<Rightarrow>
     ('c, firecracker_error) result \<times> 'w" where
  "spawn_direct host self w =
     (case vh_spawn host (vm_firecracker_path self) [''--api-sock'', vm_api_socket self] w of
        (r, w') \<Rightarrow> (map_err (\<lambda>error. FirecrackerError_Io (''spawn firecracker failed: '' @ error)) r, w'))"

definition spawn_jailer ::
  "('w, 's, 'c, 'z) vmm_host_scheme \<Rightarrow> 'c firecracker_vm \<Rightarrow> path \<Rightarrow> 'w \<Rightarrow>
     ('c, firecracker_error) result \<times> 'w" where
  "spawn_jailer host self jailer_path w =
     (case path_parent (vm_api_socket self) of
        None \<Rightarrow> (Err (FirecrackerError_Io ''api socket has no parent''), w)
      | Some chroot_base \<Rightarrow>
     (case path_file_name (vm_api_socket self) of
        None \<Rightarrow> (Err (FirecrackerError_Io ''api socket has no file name''), w)
      | Some socket_name \<Rightarrow>
     (case vh_spawn host jailer_path
             [''--id'', ''openoj'', ''--exec-file'', vm_firecracker_path self, ''--chroot-base-dir'',
              chroot_base, ''--'', ''--api-sock'', socket_name] w of
        (r, w') \<Rightarrow> (map_err (\<lambda>error. FirecrackerError_Io (''spawn jailer failed: '' @ error)) r, w'))))"

definition spawn_process :: "('w, 's, 'c, 'z) vmm_host_scheme \<Rightarrow> (unit, 'c, 'w) vm_op" where
  "spawn_process host s =
     (case s of (self, w) \<Rightarrow>
        (case (case fc_jailer_path (vm_config self) of
                 Some jailer_path \<Rightarrow> spawn_jailer host self jailer_path w
               | None \<Rightarrow> spawn_direct host self w) of
           (Err e, w') \<Rightarrow> Some (Err e, self, w')
         | (Ok child, w') \<Rightarrow> Some (Ok (), self\<lparr>vm_child := Some child\<rparr>, w')))"

definition child_finished ::
  "('w, 's, 'c, 'z) vmm_host_scheme \<Rightarrow> 'c firecracker_vm \<Rightarrow> 'w \<Rightarrow> bool \<times> 'w" where
  "child_finished host self w =
     (case vm_child self of
        None \<Rightarrow> (True, w)
      | Some child \<Rightarrow>
          (case vh_try_wait host child w of
             (Ok (Some status), w') \<Rightarrow> (True, w')
           | (_, w') \<Rightarrow> (False, w')))"

definition vm_clock :: "('w, 's, 'c, 'z) vmm_host_scheme \<Rightarrow> ('c firecracker_vm \<times> 'w) clock" where
  "vm_clock host =
     \<lparr>ck_now = (\<lambda>(self, w). ck_now host w), ck_sleep = (\<lambda>d (self, w). (self, ck_sleep host d w))\<rparr>"

definition unexpected_exit :: "str \<Rightarrow> 'c firecracker_vm \<times> 'w \<Rightarrow>
    (unit, firecracker_error) result \<times> 'c firecracker_vm \<times> 'w" where
  "unexpected_exit message s =
     (case s of (self, w) \<Rightarrow>
        (Err (FirecrackerError_Io message),
         set_lifecycle (Lifecycle_fail_with UnexpectedExit) self, w))"

definition socket_probe ::
  "('w, 's, 'c, 'z) vmm_host_scheme \<Rightarrow> 'c firecracker_vm \<times> 'w \<Rightarrow>
     (((unit, firecracker_error) result + unit) \<times> 'c firecracker_vm \<times> 'w) option" where
  "socket_probe host s =
     (case s of (self, w) \<Rightarrow>
        (case vh_try_exists host (vm_api_socket self) w of
           (found, w1) \<Rightarrow>
             if found = Ok True then Some (Inl (Ok ()), self, w1)
             else
               (case child_finished host self w1 of
                  (True, w2) \<Rightarrow>
                    (case unexpected_exit ''firecracker exited before opening the API socket'' (self, w2) of
                       (r, s') \<Rightarrow> Some (Inl r, s'))
                | (False, w2) \<Rightarrow> Some (Inr (), self, w2))))"

definition wait_for_socket :: "('w, 's, 'c, 'z) vmm_host_scheme \<Rightarrow> (unit, 'c, 'w) vm_op" where
  "wait_for_socket host s =
     deadline_loop (vm_clock host) (ck_now host (snd s) + SOCKET_WAIT) (\<lambda>_. SOCKET_POLL)
       (socket_probe host) (\<lambda>_. unexpected_exit ''timed out waiting for the API socket'') s"

section \<open>The control API\<close>

definition vm_api ::
  "('w, 's, 'c, 'z) vmm_host_scheme \<Rightarrow> str \<Rightarrow> str \<Rightarrow> json \<Rightarrow> (unit, 'c, 'w) vm_op" where
  "vm_api host verb target value s =
     (case s of (self, w) \<Rightarrow>
        (case vh_to_vec host value of
           Err error \<Rightarrow>
             Some (Err (FirecrackerError_Io (''serialize API body failed: '' @ error)), self, w)
         | Ok body \<Rightarrow>
             (case api_request (vh_api host) (vm_api_socket self) verb target CONTENT_TYPE_JSON
                     (Some body) w of
                (None, _) \<Rightarrow> None
              | (Some (Ok _), w') \<Rightarrow> Some (Ok (), self, w')
              | (Some (Err e), w') \<Rightarrow>
                  Some (Err e, set_lifecycle (Lifecycle_fail_with Reason_ControlApi) self, w'))))"

definition put_boot_source :: "('w, 's, 'c, 'z) vmm_host_scheme \<Rightarrow> (unit, 'c, 'w) vm_op" where
  "put_boot_source host s = vm_api host ''PUT'' ''/boot-source'' (json_object
     [(''kernel_image_path'', JString (fc_kernel_path (vm_config (fst s)))),
      (''boot_args'', JString (fc_boot_args (vm_config (fst s))))]) s"

definition put_root_drive :: "('w, 's, 'c, 'z) vmm_host_scheme \<Rightarrow> (unit, 'c, 'w) vm_op" where
  "put_root_drive host s = vm_api host ''PUT'' ''/drives/rootfs'' (json_object
     [(''drive_id'', JString ''rootfs''),
      (''path_on_host'', JString (fc_rootfs_path (vm_config (fst s)))),
      (''is_root_device'', JBool True),
      (''is_read_only'', JBool True)]) s"

definition put_machine_config :: "('w, 's, 'c, 'z) vmm_host_scheme \<Rightarrow> (unit, 'c, 'w) vm_op" where
  "put_machine_config host s = vm_api host ''PUT'' ''/machine-config'' (json_object
     [(''vcpu_count'', json_u64 (ucast (mc_vcpu_count (fc_machine (vm_config (fst s)))))),
      (''mem_size_mib'', json_u64 (ucast (mc_mem_size_mib (fc_machine (vm_config (fst s)))))),
      (''smt'', JBool False),
      (''track_dirty_pages'', JBool False)]) s"

definition put_vsock :: "('w, 's, 'c, 'z) vmm_host_scheme \<Rightarrow> (unit, 'c, 'w) vm_op" where
  "put_vsock host s = vm_api host ''PUT'' ''/vsock'' (json_object
     [(''vsock_id'', JString ''vsock0''),
      (''guest_cid'', json_u64 (ucast (vc_guest_cid (fc_vsock (vm_config (fst s)))))),
      (''uds_path'', JString (fc_vsock_uds_path (vm_config (fst s))))]) s"

definition vm_configure :: "('w, 's, 'c, 'z) vmm_host_scheme \<Rightarrow> (unit, 'c, 'w) vm_op" where
  "vm_configure host =
     vm_then (put_boot_source host) (\<lambda>_.
     vm_then (put_root_drive host) (\<lambda>_.
     vm_then (put_machine_config host) (\<lambda>_.
       put_vsock host)))"

definition vm_start :: "('w, 's, 'c, 'z) vmm_host_scheme \<Rightarrow> (unit, 'c, 'w) vm_op" where
  "vm_start host = vm_api host ''PUT'' ''/actions''
     (json_object [(''action_type'', JString ''InstanceStart'')])"

section \<open>Bootstrap, channel and teardown\<close>

definition require_jailer :: "bool \<Rightarrow> (unit, 'c, 'w) vm_op" where
  "require_jailer production s =
     (case s of (self, w) \<Rightarrow>
        if production \<and> fc_jailer_path (vm_config self) = None
        then Some (Err ProductionRequiresJailer,
               set_lifecycle (Lifecycle_fail_with Reason_ControlApi) self, w)
        else Some (Ok (), self, w))"

definition FirecrackerVm_bootstrap ::
  "('w, 's, 'c, 'z) vmm_host_scheme \<Rightarrow> bool \<Rightarrow> (unit, 'c, 'w) vm_op" where
  "FirecrackerVm_bootstrap host production =
     vm_then (advance Lifecycle_launch (\<lambda>_. ''lifecycle cannot launch'')) (\<lambda>_.
     vm_then (require_jailer production) (\<lambda>_.
     vm_then (spawn_process host) (\<lambda>_.
     vm_then (wait_for_socket host) (\<lambda>_.
     vm_then (advance Lifecycle_configuring (\<lambda>_. ''lifecycle cannot configure'')) (\<lambda>_.
     vm_then (vm_configure host) (\<lambda>_.
     vm_then (vm_start host) (\<lambda>_.
       advance Lifecycle_start (\<lambda>_. ''lifecycle cannot start''))))))))"

definition FirecrackerVm_open_guest_channel ::
  "('w, 's, 'c, 'z) vmm_host_scheme \<Rightarrow> 'c firecracker_vm \<Rightarrow> 'w \<Rightarrow>
     (('s guest_channel, firecracker_error) result \<times> 'w) option" where
  "FirecrackerVm_open_guest_channel host self w =
     (if \<not> FirecrackerVm_can_communicate self
      then Some (Err (FirecrackerError_Io ''guest channel requested before start''), w)
      else GuestChannel_connect_until_ready host (fc_vsock_uds_path (vm_config self))
        (vc_port (fc_vsock (vm_config self))) DEFAULT_READ_TIMEOUT w)"

definition reclaim_host ::
  "('w, 's, 'c, 'z) vmm_host_scheme \<Rightarrow> 'c firecracker_vm \<Rightarrow> 'w \<Rightarrow> 'w" where
  "reclaim_host host self w =
     (let w = (case vm_child self of Some child \<Rightarrow> vh_wait host child (vh_kill host child w) | None \<Rightarrow> w);
          w = vh_remove_file host (vm_api_socket self) w
      in vh_remove_file host (fc_vsock_uds_path (vm_config self)) w)"

definition FirecrackerVm_terminate ::
  "('w, 's, 'c, 'z) vmm_host_scheme \<Rightarrow> (unit, 'c, 'w) vm_op" where
  "FirecrackerVm_terminate host s =
     (if vm_phase_of (fst s) = Phase_Terminated then Some (Ok (), s)
      else
        vm_then (advance Lifecycle_teardown (\<lambda>phase. ''cannot tear down from '' @ VmPhase_fmt phase))
          (\<lambda>_ (self, w). Some (Ok (),
             set_lifecycle Lifecycle_reclaimed (self\<lparr>vm_child := None\<rparr>), reclaim_host host self w)) s)"

definition FirecrackerVm_drop ::
  "('w, 's, 'c, 'z) vmm_host_scheme \<Rightarrow> 'c firecracker_vm \<Rightarrow> 'w \<Rightarrow> 'w" where
  "FirecrackerVm_drop host self w =
     (if VmPhase_needs_teardown (vm_phase_of self)
      then
        let w = (case vm_child self of Some child \<Rightarrow> vh_start_kill host child w | None \<Rightarrow> w);
            w = vh_remove_file host (vm_api_socket self) w
        in vh_remove_file host (fc_vsock_uds_path (vm_config self)) w
      else w)"

section \<open>What the methods keep\<close>

text \<open>A handle in a phase that nothing tears down owns no process.\<close>

definition vm_inv :: "'c firecracker_vm \<Rightarrow> bool" where
  "vm_inv vm \<longleftrightarrow> (\<not> VmPhase_needs_teardown (vm_phase_of vm) \<longrightarrow> vm_child vm = None)"

lemma vm_then_Some:
  "vm_then m f s = Some (r, s') \<longleftrightarrow>
     (\<exists>e. m s = Some (Err e, s') \<and> r = Err e) \<or> (\<exists>a s1. m s = Some (Ok a, s1) \<and> f a s1 = Some (r, s'))"
  by (auto simp: vm_then_def split: option.splits prod.splits result.splits)

text \<open>The part of a boot after the launch: the handle stays the same but for phase and child.\<close>

definition same_vm :: "'c firecracker_vm \<Rightarrow> 'c firecracker_vm \<Rightarrow> bool" where
  "same_vm vm vm' \<longleftrightarrow> vm_config vm' = vm_config vm \<and>
     vm_firecracker_path vm' = vm_firecracker_path vm \<and> vm_api_socket vm' = vm_api_socket vm"

lemma advance_Some:
  "advance t message (vm, w) = Some (r, s') \<longleftrightarrow>
     (\<exists>r' self. t (vm_lifecycle vm) = (r', self) \<and> s' = (vm\<lparr>vm_lifecycle := self\<rparr>, w) \<and>
        r = map_err (\<lambda>phase. FirecrackerError_Io (message phase)) r')"
  by (auto simp: advance_def split: prod.splits)

lemma api_request_total: "fst (api_request transport p verb target ct body w) \<noteq> None"
  using response_of_total
  by (fastforce simp: api_request_def Let_def split: prod.splits api_exchange.splits)

lemma vm_api_Some: "\<exists>r s'. vm_api host verb target value s = Some (r, s')"
proof -
  obtain vm w where s: "s = (vm, w)" by force
  show ?thesis
  proof (cases "vh_to_vec host value")
    case (Err e)
    then show ?thesis by (simp add: vm_api_def s)
  next
    case (Ok body)
    obtain r w' where run: "api_request (vh_api host) (vm_api_socket vm) verb target CONTENT_TYPE_JSON
        (Some body) w = (Some r, w')"
      using api_request_total [of "vh_api host" "vm_api_socket vm" verb target CONTENT_TYPE_JSON "Some body" w]
      by (metis not_None_eq prod.collapse)
    then show ?thesis using Ok by (cases r) (simp_all add: vm_api_def s)
  qed
qed

text \<open>An operation keeps the handle but for a failure that it records.\<close>

definition kept_or_failed :: "('a, 'c, 'w) vm_op \<Rightarrow> 'c firecracker_vm \<times> 'w \<Rightarrow> bool" where
  "kept_or_failed m s \<longleftrightarrow>
     (\<forall>r s'. m s = Some (r, s') \<longrightarrow>
        fst s' = fst s \<or> (\<exists>reason. fst s' = set_lifecycle (Lifecycle_fail_with reason) (fst s) \<and> (\<exists>e. r = Err e)))"

lemma kept_or_failedD:
  "kept_or_failed m s \<Longrightarrow> m s = Some (r, s') \<Longrightarrow>
     fst s' = fst s \<or> (\<exists>reason. fst s' = set_lifecycle (Lifecycle_fail_with reason) (fst s) \<and> (\<exists>e. r = Err e))"
  by (cases s') (simp only: kept_or_failed_def)

lemma kept_or_failed_then:
  assumes "\<And>s. kept_or_failed m s" and "\<And>a s. kept_or_failed (f a) s"
  shows "kept_or_failed (vm_then m f) s"
  unfolding kept_or_failed_def
proof (intro allI impI)
  fix r s'
  assume "vm_then m f s = Some (r, s')"
  then consider e where "m s = Some (Err e, s')" "r = Err e"
    | a s1 where "m s = Some (Ok a, s1)" "f a s1 = Some (r, s')"
    by (auto simp: vm_then_Some)
  then show "fst s' = fst s \<or>
      (\<exists>reason. fst s' = set_lifecycle (Lifecycle_fail_with reason) (fst s) \<and> (\<exists>e. r = Err e))"
  proof cases
    case 1
    then show ?thesis using kept_or_failedD [OF assms(1) 1(1)] by blast
  next
    case 2
    then have "fst s1 = fst s" using kept_or_failedD [OF assms(1) 2(1)] by blast
    then show ?thesis using kept_or_failedD [OF assms(2) 2(2)] by simp
  qed
qed

lemma kept_or_failed_api: "kept_or_failed (vm_api host verb target value) s"
  by (auto simp: kept_or_failed_def vm_api_def split: result.splits prod.splits option.splits)

lemma kept_or_failed_configure: "kept_or_failed (vm_configure host) s"
proof -
  have puts: "kept_or_failed (put_boot_source host) s" "kept_or_failed (put_root_drive host) s"
    "kept_or_failed (put_machine_config host) s" "kept_or_failed (put_vsock host) s" for s
    using kept_or_failed_api [of host _ _ _ s]
    by (auto simp: kept_or_failed_def put_boot_source_def put_root_drive_def put_machine_config_def
        put_vsock_def)
  show ?thesis
    unfolding vm_configure_def by (intro kept_or_failed_then puts)
qed

lemma kept_or_failed_start: "kept_or_failed (vm_start host) s"
  unfolding vm_start_def by (rule kept_or_failed_api)

lemma socket_probe_Some:
  "socket_probe host s = Some (found, s') \<Longrightarrow>
     case found of
       Inl r \<Rightarrow> (r = Ok () \<and> fst s' = fst s) \<or>
         (\<exists>e. r = Err e \<and> fst s' = set_lifecycle (Lifecycle_fail_with UnexpectedExit) (fst s))
     | Inr _ \<Rightarrow> fst s' = fst s"
  by (auto simp: socket_probe_def unexpected_exit_def split: prod.splits if_splits bool.splits)

lemma kept_or_failed_wait: "kept_or_failed (wait_for_socket host) s"
  unfolding kept_or_failed_def
proof (intro allI impI)
  fix r s'
  assume run: "wait_for_socket host s = Some (r, s')"
  show "fst s' = fst s \<or>
      (\<exists>reason. fst s' = set_lifecycle (Lifecycle_fail_with reason) (fst s) \<and> (\<exists>e. r = Err e))"
  proof (rule deadline_loop_result [where I = "\<lambda>s'. fst s' = fst s", OF run [unfolded wait_for_socket_def] refl])
    show "fst (ck_sleep (vm_clock host) d s2) = fst s"
      if "fst s1 = fst s" and "socket_probe host s1 = Some (Inr e, s2)" for s1 e s2 d
      using socket_probe_Some [OF that(2)] that(1) by (auto simp: vm_clock_def split: prod.splits)
    show "fst s2 = fst s \<or>
        (\<exists>reason. fst s2 = set_lifecycle (Lifecycle_fail_with reason) (fst s) \<and> (\<exists>e. a = Err e))"
      if "fst s1 = fst s" and "socket_probe host s1 = Some (Inl a, s2)" for s1 a s2
      using socket_probe_Some [OF that(2)] that(1) by auto
    show "fst s3 = fst s \<or>
        (\<exists>reason. fst s3 = set_lifecycle (Lifecycle_fail_with reason) (fst s) \<and> (\<exists>e. a = Err e))"
      if "fst s1 = fst s" and "socket_probe host s1 = Some (Inr e, s2)"
        and "unexpected_exit ''timed out waiting for the API socket'' s2 = (a, s3)" for s1 e s2 a s3
      using socket_probe_Some [OF that(2)] that(1,3) by (auto simp: unexpected_exit_def split: prod.splits)
  qed
qed

section \<open>Booting\<close>

definition boot_failed :: "'c firecracker_vm \<Rightarrow> 'c firecracker_vm \<Rightarrow> bool" where
  "boot_failed vm vm' \<longleftrightarrow> same_vm vm vm' \<and> VmPhase_needs_teardown (vm_phase_of vm') \<and>
     vm_phase_of vm' \<noteq> Phase_Started"

lemma phase_simps [simp]:
  "vm_phase_of (set_lifecycle (Lifecycle_fail_with reason) vm) = Phase_Failed"
  "vm_phase_of (set_lifecycle Lifecycle_reclaimed vm) = Phase_Terminated"
  "vm_phase_of (vm\<lparr>vm_lifecycle := l\<rparr>) = lc_phase l"
  "vm_phase_of (vm\<lparr>vm_child := c\<rparr>) = vm_phase_of vm"
  "vm_child (set_lifecycle f vm) = vm_child vm"
  "vm_config (set_lifecycle f vm) = vm_config vm"
  "same_vm vm (set_lifecycle f vm') = same_vm vm vm'"
  "same_vm vm (vm'\<lparr>vm_lifecycle := l\<rparr>) = same_vm vm vm'"
  "same_vm vm (vm'\<lparr>vm_child := c\<rparr>) = same_vm vm vm'"
  "same_vm vm vm"
  by (simp_all add: vm_phase_of_def set_lifecycle_def same_vm_def Lifecycle_fail_with_def
      Lifecycle_fail_def Lifecycle_reclaimed_def)

text \<open>One step of the boot after the launch: it goes on with the same handle or the boot has failed.\<close>

lemma boot_step:
  assumes "vm_then m f s = Some (r, s')" and "kept_or_failed m s" and "boot_failed vm (fst s)"
  obtains (failed) e where "r = Err e" "boot_failed vm (fst s')"
  | (later) a s1 where "f a s1 = Some (r, s')" "fst s1 = fst s"
proof -
  from assms(1) consider e where "m s = Some (Err e, s')" "r = Err e"
    | a s1 where "m s = Some (Ok a, s1)" "f a s1 = Some (r, s')"
    by (auto simp: vm_then_Some)
  then show ?thesis
  proof cases
    case 1
    from kept_or_failedD [OF assms(2) 1(1)] have "boot_failed vm (fst s')"
      using assms(3) by (auto simp: boot_failed_def)
    with 1(2) show ?thesis by (rule failed)
  next
    case 2
    from kept_or_failedD [OF assms(2) 2(1)] have "fst s1 = fst s" by blast
    with 2(2) show ?thesis by (rule later)
  qed
qed

lemma boot_configured:
  assumes run: "vm_then (advance Lifecycle_configuring (\<lambda>_. ''lifecycle cannot configure'')) (\<lambda>_.
     vm_then (vm_configure host) (\<lambda>_.
     vm_then (vm_start host) (\<lambda>_.
       advance Lifecycle_start (\<lambda>_. ''lifecycle cannot start'')))) s = Some (r, s')"
    and s: "same_vm vm (fst s)" "vm_phase_of (fst s) = Phase_Launching" "vm_child (fst s) = Some child"
  shows "(\<exists>e. r = Err e) \<and> boot_failed vm (fst s') \<or>
     r = Ok () \<and> same_vm vm (fst s') \<and> vm_phase_of (fst s') = Phase_Started \<and>
     vm_child (fst s') = Some child"
proof -
  let ?vm = "set_lifecycle (\<lambda>l. l\<lparr>lc_phase := Phase_Configuring\<rparr>) (fst s)"
  have phase: "vm_phase_of ?vm = Phase_Configuring"
    by (simp add: vm_phase_of_def set_lifecycle_def)
  have start: "boot_failed vm ?vm"
    using s phase by (simp add: boot_failed_def)
  have "advance Lifecycle_configuring (\<lambda>_. ''lifecycle cannot configure'') s = Some (Ok (), ?vm, snd s)"
    using s(2) by (cases s) (simp add: advance_def Lifecycle_configuring_def vm_phase_of_def set_lifecycle_def)
  with run have run1: "vm_then (vm_configure host) (\<lambda>_. vm_then (vm_start host) (\<lambda>_.
       advance Lifecycle_start (\<lambda>_. ''lifecycle cannot start''))) (?vm, snd s) = Some (r, s')"
    by (simp add: vm_then_def)
  show ?thesis
  proof (cases rule: boot_step [OF run1 kept_or_failed_configure, of vm, simplified fst_conv, OF start])
    case (1 e)
    then show ?thesis by blast
  next
    case (2 a s1)
    from start 2(2) have "boot_failed vm (fst s1)" by simp
    note step = boot_step [OF 2(1) kept_or_failed_start this]
    show ?thesis
    proof (cases rule: step)
      case (1 e)
      then show ?thesis by blast
    next
      case later: (2 b s2)
      have "fst s2 = ?vm" using later(2) 2(2) by simp
      then have "fst s' = set_lifecycle (\<lambda>l. l\<lparr>lc_phase := Phase_Started\<rparr>) ?vm \<and> r = Ok ()"
        using later(1) phase
        by (cases s2) (auto simp: advance_def Lifecycle_start_def vm_phase_of_def set_lifecycle_def)
      then show ?thesis
        using s by (auto simp: vm_phase_of_def set_lifecycle_def same_vm_def)
    qed
  qed
qed

lemma bootstrap_refused:
  "vm_phase_of vm \<noteq> Phase_Idle \<Longrightarrow>
     FirecrackerVm_bootstrap host production (vm, w) =
       Some (Err (FirecrackerError_Io ''lifecycle cannot launch''), vm, w)"
  by (cases "vm_phase_of vm")
    (simp_all add: FirecrackerVm_bootstrap_def vm_then_def advance_def Lifecycle_launch_def
      Lifecycle_transition_def ALLOWED_def vm_phase_of_def)

lemma bootstrap_outcome:
  assumes idle: "vm_phase_of vm = Phase_Idle"
    and run: "FirecrackerVm_bootstrap host production (vm, w) = Some (r, s')"
  shows "(\<exists>e. r = Err e) \<and> boot_failed vm (fst s') \<or>
     r = Ok () \<and> same_vm vm (fst s') \<and> vm_phase_of (fst s') = Phase_Started \<and>
     vm_child (fst s') \<noteq> None \<and> \<not> (production \<and> fc_jailer_path (vm_config vm) = None)"
proof -
  let ?vm = "set_lifecycle (\<lambda>l. l\<lparr>lc_phase := Phase_Launching\<rparr>) vm"
  have phase: "vm_phase_of ?vm = Phase_Launching"
    by (simp add: vm_phase_of_def set_lifecycle_def)
  have start: "boot_failed vm ?vm"
    using phase by (simp add: boot_failed_def)
  have "advance Lifecycle_launch (\<lambda>_. ''lifecycle cannot launch'') (vm, w) = Some (Ok (), ?vm, w)"
    using idle by (simp add: advance_def Lifecycle_launch_def Lifecycle_transition_def ALLOWED_def
        vm_phase_of_def set_lifecycle_def)
  with run have run1: "vm_then (require_jailer production) (\<lambda>_. vm_then (spawn_process host) (\<lambda>_.
      vm_then (wait_for_socket host) (\<lambda>_.
      vm_then (advance Lifecycle_configuring (\<lambda>_. ''lifecycle cannot configure'')) (\<lambda>_.
      vm_then (vm_configure host) (\<lambda>_.
      vm_then (vm_start host) (\<lambda>_.
        advance Lifecycle_start (\<lambda>_. ''lifecycle cannot start''))))))) (?vm, w) = Some (r, s')"
    by (simp add: FirecrackerVm_bootstrap_def vm_then_def)
  show ?thesis
  proof (cases "production \<and> fc_jailer_path (vm_config vm) = None")
    case True
    then have "r = Err ProductionRequiresJailer \<and> fst s' = set_lifecycle (Lifecycle_fail_with Reason_ControlApi) ?vm"
      using run1 by (auto simp: vm_then_def require_jailer_def)
    then show ?thesis using start by (simp add: boot_failed_def)
  next
    case jailed: False
    then have run2: "vm_then (spawn_process host) (\<lambda>_. vm_then (wait_for_socket host) (\<lambda>_.
      vm_then (advance Lifecycle_configuring (\<lambda>_. ''lifecycle cannot configure'')) (\<lambda>_.
      vm_then (vm_configure host) (\<lambda>_.
      vm_then (vm_start host) (\<lambda>_.
        advance Lifecycle_start (\<lambda>_. ''lifecycle cannot start'')))))) (?vm, w) = Some (r, s')"
      using run1 by (auto simp: vm_then_def require_jailer_def)
    obtain spawned w1 where "(case fc_jailer_path (vm_config ?vm) of
        Some jailer_path \<Rightarrow> spawn_jailer host ?vm jailer_path w | None \<Rightarrow> spawn_direct host ?vm w) = (spawned, w1)"
      by force
    note spawn = this
    show ?thesis
    proof (cases spawned)
      case (Err e)
      then have "r = Err e \<and> fst s' = ?vm"
        using run2 spawn by (auto simp: vm_then_def spawn_process_def)
      then show ?thesis using start by simp
    next
      case (Ok child)
      let ?vm1 = "?vm\<lparr>vm_child := Some child\<rparr>"
      have run3: "vm_then (wait_for_socket host) (\<lambda>_.
        vm_then (advance Lifecycle_configuring (\<lambda>_. ''lifecycle cannot configure'')) (\<lambda>_.
        vm_then (vm_configure host) (\<lambda>_.
        vm_then (vm_start host) (\<lambda>_.
          advance Lifecycle_start (\<lambda>_. ''lifecycle cannot start''))))) (?vm1, w1) = Some (r, s')"
        using run2 spawn Ok by (simp add: vm_then_def spawn_process_def)
      have "boot_failed vm ?vm1" using start phase by (simp add: boot_failed_def)
      then have start1: "boot_failed vm (fst (?vm1, w1))" by simp
      show ?thesis
      proof (cases rule: boot_step [OF run3 kept_or_failed_wait start1])
        case (1 e)
        then show ?thesis by blast
      next
        case (2 a s1)
        have "vm_phase_of (fst s1) = Phase_Launching" "same_vm vm (fst s1)" "vm_child (fst s1) = Some child"
          using 2(2) phase start by (simp_all add: boot_failed_def)
        from boot_configured [OF 2(1) this(2,1,3)] show ?thesis
          using jailed by (elim disjE) simp_all
      qed
    qed
  qed
qed

lemma terminate_outcome:
  "FirecrackerVm_terminate host (vm, w) =
     (if vm_phase_of vm = Phase_Terminated then Some (Ok (), vm, w)
      else Some (Ok (), set_lifecycle (Lifecycle_reclaimed \<circ> (snd \<circ> Lifecycle_teardown))
        (vm\<lparr>vm_child := None\<rparr>), reclaim_host host vm w))"
  by (cases "vm_phase_of vm")
    (simp_all add: FirecrackerVm_terminate_def vm_then_def advance_def Lifecycle_teardown_def
      vm_phase_of_def set_lifecycle_def reclaim_host_def Let_def)

section \<open>Every call returns\<close>

text \<open>What the host promises: time passes in a pause, and looking at a file or a process takes none back.\<close>

definition vmm_host_ok :: "('w, 's, 'c, 'z) vmm_host_scheme \<Rightarrow> bool" where
  "vmm_host_ok host \<longleftrightarrow>
     (\<forall>d w. ck_now host w + d \<le> ck_now host (ck_sleep host d w)) \<and>
     (\<forall>p w. ck_now host w \<le> ck_now host (snd (vh_try_exists host p w))) \<and>
     (\<forall>child w. ck_now host w \<le> ck_now host (snd (vh_try_wait host child w)))"

definition returns :: "('a, 'c, 'w) vm_op \<Rightarrow> bool" where
  "returns m \<longleftrightarrow> (\<forall>s. m s \<noteq> None)"

lemma returns_then: "returns m \<Longrightarrow> (\<And>a. returns (f a)) \<Longrightarrow> returns (vm_then m f)"
  by (auto simp: returns_def vm_then_def split: option.splits prod.splits result.splits)

lemma returns_advance: "returns (advance transition message)"
  by (auto simp: returns_def advance_def split: prod.splits)

lemma returns_api: "returns (vm_api host verb target value)"
  unfolding returns_def
  using vm_api_Some by (metis option.distinct(1))

lemma returns_configure: "returns (vm_configure host)"
proof -
  have "returns (put_boot_source host)" "returns (put_root_drive host)"
    "returns (put_machine_config host)" "returns (put_vsock host)"
    using returns_api [of host]
    by (simp_all add: returns_def put_boot_source_def put_root_drive_def put_machine_config_def
        put_vsock_def)
  then show ?thesis
    unfolding vm_configure_def by (intro returns_then)
qed

lemma child_finished_forward:
  "vmm_host_ok host \<Longrightarrow> ck_now host w \<le> ck_now host (snd (child_finished host self w))"
proof (cases "vm_child self")
  case (Some child)
  obtain found w' where look: "vh_try_wait host child w = (found, w')" by force
  moreover assume "vmm_host_ok host"
  ultimately have "ck_now host w \<le> ck_now host w'"
    by (metis vmm_host_ok_def snd_conv)
  then show ?thesis
    using Some look by (simp add: child_finished_def split: result.splits option.splits)
qed (simp add: child_finished_def)

lemma wait_for_socket_ends:
  fixes host :: "('w, 's, 'c, 'z) vmm_host_scheme"
  assumes "vmm_host_ok host"
  shows "\<exists>r s'. wait_for_socket host s = Some (r, s')"
  unfolding wait_for_socket_def
proof (rule deadline_loop_ends)
  show "clock_ok (vm_clock host)"
    using assms by (auto simp: clock_ok_def vm_clock_def vmm_host_ok_def)
  show "forward (vm_clock host) (socket_probe host)"
    unfolding forward_def
  proof
    fix s :: "'c firecracker_vm \<times> 'w"
    obtain self w where s: "s = (self, w)" by force
    obtain found w1 where look: "vh_try_exists host (vm_api_socket self) w = (found, w1)" by force
    obtain b w2 where exited: "child_finished host self w1 = (b, w2)" by force
    have "ck_now host w \<le> ck_now host w1"
      using assms look by (metis vmm_host_ok_def snd_conv)
    moreover have "ck_now host w1 \<le> ck_now host w2"
      using child_finished_forward [OF assms, of w1 self] exited by simp
    ultimately show "\<exists>a s'. socket_probe host s = Some (a, s') \<and> ck_now (vm_clock host) s \<le> ck_now (vm_clock host) s'"
      using look exited s
      by (cases b) (auto simp: socket_probe_def vm_clock_def unexpected_exit_def)
  qed
qed (simp add: SOCKET_POLL_def)

lemma bootstrap_returns:
  assumes "vmm_host_ok host"
  shows "returns (FirecrackerVm_bootstrap host production)"
proof -
  have "returns (wait_for_socket host)"
    using wait_for_socket_ends [OF assms] by (metis returns_def option.distinct(1))
  moreover have "returns (require_jailer production)"
    by (auto simp: returns_def require_jailer_def)
  moreover have "returns (spawn_process host)"
    by (auto simp: returns_def spawn_process_def split: prod.splits result.splits)
  ultimately show ?thesis
    unfolding FirecrackerVm_bootstrap_def vm_start_def
    by (intro returns_then returns_advance returns_configure returns_api)
qed

end
