(* ===== verification/Guest_Evaluator.thy ===== *)
theory Guest_Evaluator
  imports Evaluation_Pipeline Guest_Protocol Std_Text
begin

text \<open>
  \<open>crates/openoj-evaluator/src/lib.rs\<close>: how the host turns what the guest reports of a stage into
  an outcome of the pipeline, and the decision it forms itself.  The Unicode tables behind
  \<open>to_uppercase\<close> are a parameter; ASCII text is mapped here.
\<close>

section \<open>Usage and diagnostics\<close>

definition EVIDENCE_STDOUT :: str where "EVIDENCE_STDOUT = ''stdout''"
definition MEDIA_PLAIN_TEXT :: str where "MEDIA_PLAIN_TEXT = ''text/plain''"
definition GUEST_TIMEOUT_EXIT_CODE :: i32 where "GUEST_TIMEOUT_EXIT_CODE = 124"

definition usage_from_guest :: "guest_usage \<Rightarrow> (resource_usage, application_error) result" where
  "usage_from_guest value =
     map_err ApplicationError_Domain (ResourceUsage_new (gu_cpu_time_ms value)
       (gu_wall_time_ms value) (gu_memory_peak_bytes value) (gu_output_bytes value))"

definition to_ascii_uppercase :: "char \<Rightarrow> char" where
  "to_ascii_uppercase c = (if is_ascii_lowercase c then char_of (byte_code c - 32) else c)"

definition to_uppercase :: "(str \<Rightarrow> str) \<Rightarrow> str \<Rightarrow> str" where
  "to_uppercase unicode s =
     (if list_all (\<lambda>c. byte_code c < 128) s then map to_ascii_uppercase s else unicode s)"

definition diagnostic_from_guest ::
  "(str \<Rightarrow> str) \<Rightarrow> guest_diagnostic \<Rightarrow> (diagnostic, application_error) result" where
  "diagnostic_from_guest unicode value =
     and_then (map_err ApplicationError_Domain
       (DiagnosticCode_parse (to_uppercase unicode (gd_code value)))) (\<lambda>code.
     map_err ApplicationError_Domain (Diagnostic_new code (gd_message value) (gd_truncated value)))"

definition diagnostics_from_guest ::
  "(str \<Rightarrow> str) \<Rightarrow> guest_diagnostic list \<Rightarrow> (diagnostic list, application_error) result" where
  "diagnostics_from_guest unicode values = traverse (diagnostic_from_guest unicode) values"

section \<open>Evidence\<close>

definition content_digest :: "str \<Rightarrow> (content_digest, application_error) result" where
  "content_digest guest_digest =
     map_err ApplicationError_Domain (ContentDigest_parse (''sha256:'' @ guest_digest))"

definition short_token :: "str \<Rightarrow> nat \<Rightarrow> str" where
  "short_token digest maximum =
     from_utf8_lossy (take (min (length digest) maximum) (text_bytes digest))"

definition build_evidence ::
  "evidence_kind \<Rightarrow> str \<Rightarrow> u64 \<Rightarrow> (evidence_ref, application_error) result" where
  "build_evidence kind guest_digest output_bytes =
     and_then (content_digest guest_digest) (\<lambda>digest.
     and_then (map_err ApplicationError_Domain
       (ArtifactId_parse (''artifact-'' @ short_token guest_digest 48))) (\<lambda>artifact_id.
     and_then (map_err ApplicationError_Domain (MediaType_parse MEDIA_PLAIN_TEXT)) (\<lambda>media_type.
     and_then (map_err ApplicationError_Domain (ArtifactRef_new artifact_id digest media_type
       output_bytes ArtifactSensitivity_Private)) (\<lambda>artifact.
     and_then (map_err ApplicationError_Domain (EvidenceId_parse (''evidence-'' @
       evidence_kind_str kind @ ''-'' @ short_token guest_digest 32))) (\<lambda>evidence_id.
       Ok \<lparr>evd_evidence_id = evidence_id, evd_kind = kind, evd_artifact = Some artifact\<rparr>)))))"

definition stdout_evidence :: "str \<Rightarrow> u64 \<Rightarrow> (evidence_ref, application_error) result" where
  "stdout_evidence guest_digest output_bytes =
     and_then (map_err ApplicationError_Domain (EvidenceKind_parse EVIDENCE_STDOUT)) (\<lambda>kind.
       build_evidence kind guest_digest output_bytes)"

section \<open>Decisions and outcomes\<close>

definition host_check_decision :: "i32 \<Rightarrow> (decision, application_error) result" where
  "host_check_decision exit_code =
     (let verdict = (if exit_code = 0 then Verdict_Accepted else Verdict_WrongAnswer) in
      and_then (map_err ApplicationError_Domain
        (if exit_code = 0 then Score_new 1 1 else Score_new 0 1)) (\<lambda>score.
        Decision_new verdict score))"

definition execution_for_stage_output ::
  "(str \<Rightarrow> str) \<Rightarrow> stage_kind \<Rightarrow> i32 \<Rightarrow> str \<Rightarrow> u64 \<Rightarrow> guest_usage \<Rightarrow>
     guest_diagnostic list \<Rightarrow> (stage_execution, application_error) result" where
  "execution_for_stage_output unicode stage exit_code guest_digest output_bytes usage
     guest_diagnostics =
     and_then (usage_from_guest usage) (\<lambda>usage.
     and_then (diagnostics_from_guest unicode guest_diagnostics) (\<lambda>diagnostics.
     and_then (if stage = StageKind_Build \<or> stage = StageKind_Run
               then map_ok (\<lambda>evidence. [evidence]) (stdout_evidence guest_digest output_bytes)
               else Ok []) (\<lambda>evidence.
       if exit_code = 0 then Ok (StageExecution_Succeeded usage diagnostics evidence None)
       else
         let verdict =
           (case stage of
              StageKind_Build \<Rightarrow> Verdict_CompileError
            | StageKind_Run \<Rightarrow>
                if exit_code = GUEST_TIMEOUT_EXIT_CODE then Verdict_TimeLimitExceeded
                else Verdict_RuntimeError
            | _ \<Rightarrow> Verdict_SystemError)
         in Ok (StageExecution_Rejected verdict usage diagnostics evidence))))"

section \<open>What an accepted report gives\<close>

lemma diagnostics_from_guest_Ok:
  assumes "diagnostics_from_guest unicode values = Ok ds"
  shows "list_all diagnostic_ok ds \<and> length ds = length values \<and>
    map diag_message ds = map gd_message values"
proof -
  have "list_all2 (\<lambda>value d. diagnostic_from_guest unicode value = Ok d) values ds"
    using assms unfolding diagnostics_from_guest_def by (simp add: traverse_Ok_list_all2)
  then show ?thesis
    by (induction rule: list_all2_induct)
      (auto simp: diagnostic_from_guest_def and_then_Ok_iff Diagnostic_new_def diagnostic_ok_def
        DiagnosticCode_parse_Ok_iff split: if_splits)
qed

lemma MediaType_parse_typed: "MediaType_parse s = Ok t \<Longrightarrow> media_type_ok (media_type_str t)"
  by (auto simp: MediaType_parse_Ok_iff)

lemma stdout_evidence_Ok:
  assumes "stdout_evidence guest_digest output_bytes = Ok e"
  shows "evidence_ref_ok e \<and> digest_ok (''sha256:'' @ guest_digest) \<and>
    evd_kind e = EvidenceKind ''stdout'' \<and>
    (\<exists>a. evd_artifact e = Some a \<and> content_digest_str (art_digest a) = ''sha256:'' @ guest_digest \<and>
       art_size_bytes a = output_bytes \<and> art_sensitivity a = ArtifactSensitivity_Private)"
  using assms
  by (auto simp: stdout_evidence_def build_evidence_def content_digest_def EVIDENCE_STDOUT_def
      and_then_Ok_iff EvidenceKind_parse_Ok_iff ContentDigest_parse_Ok_iff ArtifactRef_new_Ok_iff
      opaque_parse_defs parse_opaque_id_Ok_iff evidence_ref_ok_def artifact_ref_ok_def
      dest!: MediaType_parse_typed)

lemma host_check_decision_eq:
  "host_check_decision exit_code = Ok
     (if exit_code = 0
      then \<lparr>dec_verdict = Verdict_Accepted, dec_score = \<lparr>sco_earned = 1, sco_possible = 1\<rparr>\<rparr>
      else \<lparr>dec_verdict = Verdict_WrongAnswer, dec_score = \<lparr>sco_earned = 0, sco_possible = 1\<rparr>\<rparr>)"
  by (simp add: host_check_decision_def Score_new_def Decision_new_def Let_def)

lemma execution_for_stage_output_Ok:
  assumes "execution_for_stage_output unicode stage exit_code digest written usage ds = Ok oc"
    and stage: "stage = StageKind_Build \<or> stage = StageKind_Run"
  shows "outcome_ok oc \<and> outcome_fits stage oc \<and> outcome_decision oc = None \<and>
    length (outcome_diagnostics oc) = length ds \<and>
    (\<exists>e. outcome_evidence oc = [e] \<and> stdout_evidence digest written = Ok e) \<and>
    (outcome_status oc = StageStatus_Succeeded \<longleftrightarrow> exit_code = 0)"
proof -
  from assms obtain u diags e where
    used: "usage_from_guest usage = Ok u" and diags: "diagnostics_from_guest unicode ds = Ok diags"
    and e: "stdout_evidence digest written = Ok e"
    and oc: "oc = (if exit_code = 0 then StageExecution_Succeeded u diags [e] None
       else StageExecution_Rejected (case stage of StageKind_Build \<Rightarrow> Verdict_CompileError
         | StageKind_Run \<Rightarrow> if exit_code = GUEST_TIMEOUT_EXIT_CODE then Verdict_TimeLimitExceeded
             else Verdict_RuntimeError
         | _ \<Rightarrow> Verdict_SystemError) u diags [e])"
    by (auto simp: execution_for_stage_output_def and_then_Ok_iff map_ok_Ok_iff Let_def split: if_splits)
  have "resource_usage_ok u"
    using used by (auto simp: usage_from_guest_def dest: ResourceUsage_new_ok)
  then show ?thesis
    using oc e diagnostics_from_guest_Ok [OF diags] stdout_evidence_Ok [OF e] stage
    by (auto simp: outcome_ok_def rejection_valid_def)
qed

lemma execution_for_stage_output_verdict:
  assumes "execution_for_stage_output unicode stage exit_code digest written usage ds = Ok oc"
    and "stage = StageKind_Build \<or> stage = StageKind_Run" and "outcome_terminal oc = Some t"
  shows "ter_verdict t \<in> {Verdict_CompileError, Verdict_TimeLimitExceeded, Verdict_RuntimeError}"
  using assms
  by (auto simp: execution_for_stage_output_def and_then_Ok_iff Let_def split: if_splits)

end
