(* ===== verification/Firecracker_Executor.thy ===== *)
theory Firecracker_Executor
  imports Vm_Machine Guest_Evaluator Judge_Worker
begin

text \<open>
  \<open>apps/openoj-judge-node/src/firecracker_executor.rs\<close>: the executor that boots a microVM for an
  attempt, asks the agent in it to build and run, and turns its reports into outcomes of the
  pipeline.  The asynchronous runtime is part of the host; \<open>None\<close> stands for a call that does not
  return.
\<close>

section \<open>Running a future of the VMM\<close>

datatype runtime_flavor = MultiThread | CurrentThread

record ('w, 's, 'c) executor_host = "('w, 's, 'c) vmm_host" +
  xh_runtime :: "'w \<Rightarrow> runtime_flavor option"
  xh_build_runtime :: "'w \<Rightarrow> (unit, str) result \<times> 'w"
  xh_close :: "'s \<Rightarrow> 'w \<Rightarrow> 'w"

definition block_on_vmm ::
  "('w, 's, 'c) executor_host \<Rightarrow> ('a, 'c, 'w) vm_op \<Rightarrow> 'c firecracker_vm \<times> 'w \<Rightarrow>
     ((('a, firecracker_error) result, application_error) result \<times> 'c firecracker_vm \<times> 'w) option" where
  "block_on_vmm host future s =
     (case xh_runtime host (snd s) of
        Some MultiThread \<Rightarrow> map_option (\<lambda>(r, s). (Ok r, s)) (future s)
      | Some CurrentThread \<Rightarrow>
          Some (Err (InvalidExecutorOutput ''firecracker executor requires a multi-thread runtime''), s)
      | None \<Rightarrow>
          (case xh_build_runtime host (snd s) of
             (Err _, w) \<Rightarrow>
               Some (Err (InvalidExecutorOutput ''firecracker runtime unavailable''), fst s, w)
           | (Ok _, w) \<Rightarrow> map_option (\<lambda>(r, s). (Ok r, s)) (future (fst s, w))))"

section \<open>The executor\<close>

definition BUILD_WALL_MS :: u64 where "BUILD_WALL_MS = 30000"
definition RUN_WALL_MS :: u64 where "RUN_WALL_MS = 10000"

definition map_firecracker :: "firecracker_error \<Rightarrow> application_error" where
  "map_firecracker _ = InvalidExecutorOutput ''guest transport failed''"

record executor_config =
  ec_node_id :: node_id
  ec_firecracker_path :: path
  ec_api_socket :: path
  ec_vm_config :: firecracker_config
  ec_production :: bool

definition FirecrackerExecutorConfig_validate :: "executor_config \<Rightarrow> (unit, application_error) result" where
  "FirecrackerExecutorConfig_validate self =
     (if ec_production self
      then Err (InvalidExecutorOutput ''production firecracker isolation profile is incomplete'')
      else Ok ())"

record ('s, 'c) firecracker_executor =
  fx_config :: executor_config
  fx_session :: "'s guest_channel option"
  fx_vm :: "'c firecracker_vm option"
  fx_negotiated :: bool
  fx_last_run_exit :: "i32 option"
  fx_terminated :: bool

definition FirecrackerExecutor_try_new ::
  "executor_config \<Rightarrow> (('s, 'c) firecracker_executor, application_error) result" where
  "FirecrackerExecutor_try_new config =
     and_then (FirecrackerExecutorConfig_validate config) (\<lambda>_.
       Ok \<lparr>fx_config = config, fx_session = None, fx_vm = None, fx_negotiated = False,
           fx_last_run_exit = None, fx_terminated = False\<rparr>)"

type_synonym ('a, 's, 'c, 'w) fx_op =
  "('s, 'c) firecracker_executor \<times> 'w \<Rightarrow>
     (('a, application_error) result \<times> ('s, 'c) firecracker_executor \<times> 'w) option"

definition fx_then ::
  "('a, 's, 'c, 'w) fx_op \<Rightarrow> ('a \<Rightarrow> ('b, 's, 'c, 'w) fx_op) \<Rightarrow> ('b, 's, 'c, 'w) fx_op" where
  "fx_then m f s =
     (case m s of
        None \<Rightarrow> None
      | Some (Ok a, s') \<Rightarrow> f a s'
      | Some (Err e, s') \<Rightarrow> Some (Err e, s'))"

section \<open>The microVM and the session of an attempt\<close>

text \<open>\<open>VmLease::terminate\<close> of the one implementation, and dropping what is owned.\<close>

definition VmLease_terminate ::
  "('w, 's, 'c) executor_host \<Rightarrow> 'c firecracker_vm \<times> 'w \<Rightarrow>
     ((unit, application_error) result \<times> 'c firecracker_vm \<times> 'w) option" where
  "VmLease_terminate host s =
     map_option (\<lambda>(outcome, s).
       (and_then outcome (\<lambda>r. map_err (\<lambda>_. InvalidExecutorOutput ''microvm teardown failed'') r), s))
       (block_on_vmm host (FirecrackerVm_terminate host) s)"

definition drop_vm :: "('w, 's, 'c) executor_host \<Rightarrow> 'c firecracker_vm option \<Rightarrow> 'w \<Rightarrow> 'w" where
  "drop_vm host vm w = (case vm of None \<Rightarrow> w | Some vm \<Rightarrow> FirecrackerVm_drop host vm w)"

definition drop_session :: "('w, 's, 'c) executor_host \<Rightarrow> 's guest_channel option \<Rightarrow> 'w \<Rightarrow> 'w" where
  "drop_session host session w =
     (case session of None \<Rightarrow> w | Some channel \<Rightarrow> xh_close host (gc_stream channel) w)"

definition activate_session ::
  "('w, 's, 'c) executor_host \<Rightarrow> 's guest_channel \<Rightarrow> 'c firecracker_vm \<Rightarrow>
     ('s, 'c) firecracker_executor \<times> 'w \<Rightarrow> ('s, 'c) firecracker_executor \<times> 'w" where
  "activate_session host session vm s =
     (case s of (self, w) \<Rightarrow>
        (self\<lparr>fx_vm := Some vm, fx_session := Some session\<rparr>,
         drop_session host (fx_session self) (drop_vm host (fx_vm self) w)))"

text \<open>The way out of a microVM that could not be used: it is torn down, the outcome ignored, and dropped.\<close>

definition abandon_vm ::
  "('w, 's, 'c) executor_host \<Rightarrow> str \<Rightarrow> ('s, 'c) firecracker_executor \<Rightarrow> 'c firecracker_vm \<times> 'w \<Rightarrow>
     ((unit, application_error) result \<times> ('s, 'c) firecracker_executor \<times> 'w) option" where
  "abandon_vm host reason self s =
     map_option (\<lambda>(_, vm, w).
       (Err (InvalidExecutorOutput reason), self, FirecrackerVm_drop host vm w))
       (block_on_vmm host (FirecrackerVm_terminate host) s)"

definition ensure_session :: "('w, 's, 'c) executor_host \<Rightarrow> (unit, 's, 'c, 'w) fx_op" where
  "ensure_session host s =
     (case s of (self, w) \<Rightarrow>
        if fx_session self \<noteq> None then Some (Ok (), self, w)
        else
          let vm = FirecrackerVm_new (ec_vm_config (fx_config self))
                (ec_firecracker_path (fx_config self)) (ec_api_socket (fx_config self)) in
          (case block_on_vmm host (FirecrackerVm_bootstrap host (ec_production (fx_config self))) (vm, w) of
             None \<Rightarrow> None
           | Some (booted, vm, w) \<Rightarrow>
               if booted \<noteq> Ok (Ok ()) then abandon_vm host ''microvm bootstrap failed'' self (vm, w)
               else
                 (case FirecrackerVm_open_guest_channel host vm w of
                    None \<Rightarrow> None
                  | Some (Err _, w) \<Rightarrow> abandon_vm host ''guest channel unavailable'' self (vm, w)
                  | Some (Ok channel, w) \<Rightarrow> Some (Ok (), activate_session host channel vm (self, w)))))"

definition begin_attempt :: "('s, 'c) firecracker_executor \<Rightarrow> ('s, 'c) firecracker_executor" where
  "begin_attempt self =
     (if fx_terminated self
      then self\<lparr>fx_negotiated := False, fx_last_run_exit := None, fx_terminated := False\<rparr>
      else self)"

definition teardown ::
  "('w, 's, 'c) executor_host \<Rightarrow> ('s, 'c) firecracker_executor \<times> 'w \<Rightarrow>
     (('s, 'c) firecracker_executor \<times> 'w) option" where
  "teardown host s =
     (case s of (self, w) \<Rightarrow>
        let w = drop_session host (fx_session self) w;
            closed = self\<lparr>fx_session := None, fx_vm := None, fx_terminated := True\<rparr>
        in
        (case fx_vm self of
           None \<Rightarrow> Some (closed, w)
         | Some vm \<Rightarrow>
             map_option (\<lambda>(_, vm, w). (closed, FirecrackerVm_drop host vm w))
               (VmLease_terminate host (vm, w))))"

section \<open>Stages in the guest\<close>

definition session_send ::
  "guest_json \<Rightarrow> ('w, 's, 'c) executor_host \<Rightarrow> 's guest_channel \<Rightarrow> guest_message \<Rightarrow>
     (unit, 's, 'c, 'w) fx_op" where
  "session_send lib host session message s =
     (case s of (self, w) \<Rightarrow>
        (case GuestChannel_send lib host session message w of
           (r, w) \<Rightarrow> Some (map_err map_firecracker r, self, w)))"

definition session_recv ::
  "guest_json \<Rightarrow> ('w, 's, 'c) executor_host \<Rightarrow> 's guest_channel \<Rightarrow> (guest_message, 's, 'c, 'w) fx_op" where
  "session_recv lib host session s =
     (case s of (self, w) \<Rightarrow>
        (case GuestChannel_recv lib host session w of
           (r, w) \<Rightarrow> Some (map_err map_firecracker r, self, w)))"

text \<open>\<open>self.session.as_mut().ok_or(UnsupportedCapability)\<close>.\<close>

definition with_session :: "('s guest_channel \<Rightarrow> ('a, 's, 'c, 'w) fx_op) \<Rightarrow> ('a, 's, 'c, 'w) fx_op" where
  "with_session f s =
     (case fx_session (fst s) of None \<Rightarrow> Some (Err UnsupportedCapability, s) | Some session \<Rightarrow> f session s)"

definition negotiated_reply :: "guest_message \<Rightarrow> (unit, 's, 'c, 'w) fx_op" where
  "negotiated_reply reply s =
     (case reply of
        Message_Negotiated True \<Rightarrow> Some (Ok (), (fst s)\<lparr>fx_negotiated := True\<rparr>, snd s)
      | Message_Negotiated False \<Rightarrow> Some (Err UnsupportedCapability, s)
      | _ \<Rightarrow> Some (Err (InvalidExecutorOutput ''unexpected negotiate reply''), s))"

definition ensure_negotiated ::
  "guest_json \<Rightarrow> ('w, 's, 'c) executor_host \<Rightarrow> (unit, 's, 'c, 'w) fx_op" where
  "ensure_negotiated lib host s =
     (if fx_negotiated (fst s) then Some (Ok (), s)
      else
        with_session (\<lambda>session.
          fx_then (session_send lib host session (Message_Negotiate [''algorithm.batch''])) (\<lambda>_.
          fx_then (session_recv lib host session) negotiated_reply)) s)"

definition default_argv :: "str list" where
  "default_argv = [''printf'', ''ok'']"

definition stage_reply ::
  "(str \<Rightarrow> str) \<Rightarrow> stage_kind \<Rightarrow> guest_message \<Rightarrow> (stage_execution, 's, 'c, 'w) fx_op" where
  "stage_reply unicode stage reply s =
     (case reply of
        Message_StageOutput _ exit_code output_digest output_bytes usage diagnostics \<Rightarrow>
          Some (execution_for_stage_output unicode stage exit_code output_digest output_bytes usage diagnostics,
            (if stage = StageKind_Run then (fst s)\<lparr>fx_last_run_exit := Some exit_code\<rparr> else fst s), snd s)
      | _ \<Rightarrow> Some (Err (InvalidExecutorOutput ''expected stage output''), s))"

definition run_guest_stage ::
  "guest_json \<Rightarrow> (str \<Rightarrow> str) \<Rightarrow> ('w, 's, 'c) executor_host \<Rightarrow> stage_kind \<Rightarrow> str list \<Rightarrow> u64 \<Rightarrow>
     (stage_execution, 's, 'c, 'w) fx_op" where
  "run_guest_stage lib unicode host stage argv wall_time_ms =
     fx_then (ensure_session host) (\<lambda>_.
     fx_then (ensure_negotiated lib host) (\<lambda>_.
     with_session (\<lambda>session.
       fx_then (session_send lib host session
         (if stage = StageKind_Build then Message_Build argv wall_time_ms else Message_Run argv wall_time_ms)) (\<lambda>_.
       fx_then (session_recv lib host session) (stage_reply unicode stage)))))"

section \<open>The executor of the pipeline\<close>

definition stage_failed :: stage_execution where
  "stage_failed = StageExecution_Failed ResourceUsage_default [] []"

definition check_stage :: "i32 option \<Rightarrow> (stage_execution, application_error) result" where
  "check_stage last_run_exit =
     (case last_run_exit of
        Some exit_code \<Rightarrow>
          map_ok (\<lambda>decision. StageExecution_Succeeded ResourceUsage_default [] [] (Some decision))
            (host_check_decision exit_code)
      | None \<Rightarrow> Err (InvalidExecutorOutput ''check stage before run''))"

definition stage_outcome ::
  "guest_json \<Rightarrow> (str \<Rightarrow> str) \<Rightarrow> ('w, 's, 'c) executor_host \<Rightarrow> stage_kind \<Rightarrow>
     (stage_execution, 's, 'c, 'w) fx_op" where
  "stage_outcome lib unicode host stage s =
     (case stage of
        StageKind_Build \<Rightarrow> run_guest_stage lib unicode host StageKind_Build default_argv BUILD_WALL_MS s
      | StageKind_Run \<Rightarrow> run_guest_stage lib unicode host StageKind_Run default_argv RUN_WALL_MS s
      | StageKind_Check \<Rightarrow> Some (check_stage (fx_last_run_exit (fst s)), s)
      | _ \<Rightarrow> Some (Ok (StageExecution_Succeeded ResourceUsage_default [] [] None), s))"

definition FirecrackerExecutor_stage ::
  "guest_json \<Rightarrow> (str \<Rightarrow> str) \<Rightarrow> ('w, 's, 'c) executor_host \<Rightarrow> stage_kind \<Rightarrow>
     ('s, 'c) firecracker_executor \<times> 'w \<Rightarrow>
     (stage_execution \<times> ('s, 'c) firecracker_executor \<times> 'w) option" where
  "FirecrackerExecutor_stage lib unicode host stage s =
     (if fx_terminated (fst s) then Some (stage_failed, s)
      else
        (case stage_outcome lib unicode host stage s of
           None \<Rightarrow> None
         | Some (Ok outcome, s) \<Rightarrow> Some (outcome, s)
         | Some (Err _, s) \<Rightarrow> map_option (\<lambda>s. (stage_failed, s)) (teardown host s)))"

text \<open>
  The trait \<open>StageExecutor\<close>: the state of an attempt is the executor with its world, and \<open>None\<close>
  once a stage has not returned, which ends the attempt without a result.
\<close>

definition firecracker_stages ::
  "guest_json \<Rightarrow> (str \<Rightarrow> str) \<Rightarrow> ('w, 's, 'c) executor_host \<Rightarrow>
     (('s, 'c) firecracker_executor \<times> 'w) option stage_executor" where
  "firecracker_stages lib unicode host =
     \<lparr>ex_kind = (\<lambda>_. ExecutorKind_Firecracker),
      ex_production_eligible = (\<lambda>_. False),
      ex_node_id = map_option (\<lambda>s. ec_node_id (fx_config (fst s))),
      ex_supports = (\<lambda>_ capability. capability_str capability = ''algorithm.batch''),
      ex_execute = (\<lambda>state request stage.
        case Option.bind state (FirecrackerExecutor_stage lib unicode host stage) of
          None \<Rightarrow> (stage_failed, None)
        | Some (outcome, s) \<Rightarrow> (outcome, Some s))\<rparr>"

definition FirecrackerExecutor_execute ::
  "guest_json \<Rightarrow> (str \<Rightarrow> str) \<Rightarrow> ('w, 's, 'c) executor_host \<Rightarrow> evaluation_request \<Rightarrow>
     ('s, 'c) firecracker_executor \<times> 'w \<Rightarrow>
     ((evaluation_result, application_error) result \<times> ('s, 'c) firecracker_executor \<times> 'w) option" where
  "FirecrackerExecutor_execute lib unicode host request s =
     (case evaluate (firecracker_stages lib unicode host) request (Some (begin_attempt (fst s), snd s)) of
        (_, None) \<Rightarrow> None
      | (result, Some s) \<Rightarrow> map_option (\<lambda>s. (result, s)) (teardown host s))"

text \<open>\<open>Drop\<close>: a last teardown.\<close>

definition FirecrackerExecutor_drop ::
  "('w, 's, 'c) executor_host \<Rightarrow> ('s, 'c) firecracker_executor \<times> 'w \<Rightarrow> 'w option" where
  "FirecrackerExecutor_drop host s = map_option snd (teardown host s)"

end
