(* ===== verification/Executor_Facts.thy ===== *)
theory Executor_Facts
  imports Firecracker_Executor Guest_Correctness
begin

text \<open>
  What every operation of the Firecracker executor keeps: who owns the processes that are alive, the
  state of session and microVM, and the shape of the outcomes.  The executor with its world is a
  lawful executor of the pipeline and keeps the contract a worker relies on.
\<close>

section \<open>Processes of the host\<close>

definition keeps :: "('w \<Rightarrow> 'p set) \<Rightarrow> ('w \<Rightarrow> 'w) \<Rightarrow> bool" where
  "keeps live f \<longleftrightarrow> (\<forall>w. live (f w) \<subseteq> live w)"

lemma keepsD: "keeps live (\<lambda>w. snd (f w)) \<Longrightarrow> f w = (a, w') \<Longrightarrow> live w' \<subseteq> live w"
  unfolding keeps_def by (metis snd_conv)

text \<open>
  A host with the processes alive in a world: only a spawn starts one, killing and awaiting a child
  ends it.
\<close>

definition processes_ok :: "('w, 's, 'c) executor_host \<Rightarrow> ('w \<Rightarrow> 'c set) \<Rightarrow> bool" where
  "processes_ok host live \<longleftrightarrow>
     (\<forall>p argv w. live (snd (vh_spawn host p argv w)) \<subseteq>
        (case fst (vh_spawn host p argv w) of Ok c \<Rightarrow> insert c (live w) | Err _ \<Rightarrow> live w)) \<and>
     (\<forall>c w. live (vh_wait host c (vh_kill host c w)) \<subseteq> live w - {c}) \<and>
     (\<forall>c. keeps live (vh_start_kill host c)) \<and>
     (\<forall>c. keeps live (\<lambda>w. snd (vh_try_wait host c w))) \<and>
     (\<forall>p. keeps live (\<lambda>w. snd (vh_try_exists host p w))) \<and>
     (\<forall>p. keeps live (vh_remove_file host p)) \<and>
     (\<forall>p request content. keeps live (\<lambda>w. snd (vh_api host p request content w))) \<and>
     (\<forall>d. keeps live (ck_sleep host d)) \<and>
     (\<forall>p. keeps live (\<lambda>w. snd (sh_connect host p w))) \<and>
     (\<forall>s d. keeps live (\<lambda>w. snd (sh_set_timeouts host s d w))) \<and>
     (\<forall>s b. keeps live (\<lambda>w. snd (sh_write_all host s b w))) \<and>
     (\<forall>s n. keeps live (\<lambda>w. snd (sh_read host s n w))) \<and>
     (\<forall>s n. keeps live (\<lambda>w. snd (sh_read_exact host s n w))) \<and>
     (\<forall>s. keeps live (xh_close host s))"

definition multi_threaded :: "('w, 's, 'c) executor_host \<Rightarrow> bool" where
  "multi_threaded host \<longleftrightarrow> (\<forall>w. xh_runtime host w = Some MultiThread)"

text \<open>The laws are only needed where processes are looked at.\<close>

definition ownership_ok :: "('w, 's, 'c) executor_host \<Rightarrow> ('w \<Rightarrow> 'c set) \<Rightarrow> bool" where
  "ownership_ok host live \<longleftrightarrow> live = (\<lambda>_. {}) \<or> processes_ok host live \<and> multi_threaded host"

named_theorems quiet

lemma keeps_empty: "keeps (\<lambda>_. {}) f"
  by (simp add: keeps_def)

lemma quiet_ops:
  assumes "ownership_ok host live"
  shows "keeps live (\<lambda>w. snd (vh_try_wait host c w))" and "keeps live (\<lambda>w. snd (vh_try_exists host p w))"
    and "keeps live (\<lambda>w. snd (vh_api host p request content w))"
    and "keeps live (\<lambda>w. snd (sh_connect host p w))"
    and "keeps live (\<lambda>w. snd (sh_set_timeouts host s d w))"
    and "keeps live (\<lambda>w. snd (sh_write_all host s b w))"
    and "keeps live (\<lambda>w. snd (sh_read host s n w))" and "keeps live (\<lambda>w. snd (sh_read_exact host s n w))"
    and "keeps live (ck_sleep host d)" and "keeps live (vh_remove_file host p)"
    and "keeps live (vh_start_kill host child)" and "keeps live (xh_close host s)"
  using assms unfolding ownership_ok_def processes_ok_def by (auto simp: keeps_empty)

lemmas quiet_results [quiet] = quiet_ops(1-8) [THEN keepsD]
lemmas quiet_worlds [quiet] = quiet_ops(9-12) [unfolded keeps_def, THEN spec]

lemma kill_live: "ownership_ok host live \<Longrightarrow> live (vh_wait host c (vh_kill host c w)) \<subseteq> live w - {c}"
  unfolding ownership_ok_def processes_ok_def by (elim disjE conjE) simp_all

lemma spawn_live:
  assumes "ownership_ok host live" and "vh_spawn host p argv w = (r, w')"
  shows "live w' \<subseteq> (case r of Ok c \<Rightarrow> insert c (live w) | Err _ \<Rightarrow> live w)"
proof -
  from assms(1) have "live (snd (vh_spawn host p argv w)) \<subseteq>
      (case fst (vh_spawn host p argv w) of Ok c \<Rightarrow> insert c (live w) | Err _ \<Rightarrow> live w)"
    unfolding ownership_ok_def processes_ok_def by (elim disjE conjE) simp_all
  then show ?thesis by (simp add: assms(2))
qed

section \<open>What a step establishes\<close>

text \<open>A step from \<open>I\<close> that succeeds ends in \<open>J\<close>, one that fails in \<open>K\<close>.\<close>

definition leads ::
  "('s \<Rightarrow> bool) \<Rightarrow> ('s \<Rightarrow> (('a, 'e) result \<times> 's) option) \<Rightarrow> ('s \<Rightarrow> bool) \<Rightarrow> ('s \<Rightarrow> bool) \<Rightarrow> bool" where
  "leads I m J K \<longleftrightarrow>
     (\<forall>s r s'. I s \<longrightarrow> m s = Some (r, s') \<longrightarrow> (case r of Ok _ \<Rightarrow> J s' | Err _ \<Rightarrow> K s'))"

lemma leadsI:
  "(\<And>s a s'. I s \<Longrightarrow> m s = Some (Ok a, s') \<Longrightarrow> J s') \<Longrightarrow>
   (\<And>s e s'. I s \<Longrightarrow> m s = Some (Err e, s') \<Longrightarrow> K s') \<Longrightarrow> leads I m J K"
  by (auto simp: leads_def split: result.splits)

lemma leads_Ok: "leads I m J K \<Longrightarrow> I s \<Longrightarrow> m s = Some (Ok a, s') \<Longrightarrow> J s'"
  unfolding leads_def by fastforce

lemma leads_Err: "leads I m J K \<Longrightarrow> I s \<Longrightarrow> m s = Some (Err e, s') \<Longrightarrow> K s'"
  unfolding leads_def by fastforce

lemma leads_either: "leads I m I I \<Longrightarrow> I s \<Longrightarrow> m s = Some (r, s') \<Longrightarrow> I s'"
  by (cases r) (auto dest: leads_Ok leads_Err)

lemma leads_bind:
  assumes "leads I m J K" and "\<And>a. leads J (f a) M K"
    and bind: "\<And>s r s'. t s = Some (r, s') \<Longrightarrow>
     (\<exists>e. m s = Some (Err e, s') \<and> r = Err e) \<or> (\<exists>a s1. m s = Some (Ok a, s1) \<and> f a s1 = Some (r, s'))"
  shows "leads I t M K"
proof (rule leadsI)
  fix s a s'
  assume I: "I s" and run: "t s = Some (Ok a, s')"
  from bind [OF run] obtain b s1 where m: "m s = Some (Ok b, s1)" and f: "f b s1 = Some (Ok a, s')" by auto
  show "M s'" by (rule leads_Ok [OF assms(2) leads_Ok [OF assms(1) I m] f])
next
  fix s e s'
  assume I: "I s" and run: "t s = Some (Err e, s')"
  from bind [OF run] consider "m s = Some (Err e, s')"
    | b s1 where "m s = Some (Ok b, s1)" "f b s1 = Some (Err e, s')" by auto
  then show "K s'"
  proof cases
    case 1
    show ?thesis by (rule leads_Err [OF assms(1) I 1])
  next
    case 2
    show ?thesis by (rule leads_Err [OF assms(2) leads_Ok [OF assms(1) I 2(1)] 2(2)])
  qed
qed

lemma leads_vm_then:
  "leads I m J K \<Longrightarrow> (\<And>a. leads J (f a) M K) \<Longrightarrow> leads I (vm_then m f) M K"
  by (erule leads_bind) (simp_all add: vm_then_Some)

lemma fx_then_Some:
  "fx_then m f s = Some (r, s') \<longleftrightarrow>
     (\<exists>e. m s = Some (Err e, s') \<and> r = Err e) \<or> (\<exists>a s1. m s = Some (Ok a, s1) \<and> f a s1 = Some (r, s'))"
  by (auto simp: fx_then_def split: option.splits prod.splits result.splits)

lemma leads_fx_then:
  "leads I m J K \<Longrightarrow> (\<And>a. leads J (f a) M K) \<Longrightarrow> leads I (fx_then m f) M K"
  by (erule leads_bind) (simp_all add: fx_then_Some)

section \<open>The process of a microVM\<close>

text \<open>Beyond the processes \<open>L\<close> of others, only the handle's own process is alive.\<close>

definition owned :: "('w \<Rightarrow> 'c set) \<Rightarrow> 'c set \<Rightarrow> 'c firecracker_vm \<times> 'w \<Rightarrow> bool" where
  "owned live L s \<longleftrightarrow> live (snd s) \<subseteq> L \<union> set_option (vm_child (fst s))"

lemma owned_shrinks:
  "owned live L (vm, w) \<Longrightarrow> live w' \<subseteq> live w \<Longrightarrow> vm_child vm' = vm_child vm \<Longrightarrow> owned live L (vm', w')"
  by (auto simp: owned_def)

lemma owned_api:
  assumes "ownership_ok host live"
  shows "leads (owned live L) (vm_api host verb target value) (owned live L) (owned live L)"
proof -
  have "owned live L s'" if "owned live L s" and run: "vm_api host verb target value s = Some (r, s')" for s r s'
  proof (cases "vh_to_vec host value")
    case (Err e)
    then show ?thesis using that by (auto simp: vm_api_def split: prod.splits)
  next
    case (Ok body)
    obtain vm w where s: "s = (vm, w)" by force
    obtain exchange w' where call: "vh_api host (vm_api_socket vm) (text_bytes (request_head verb target
        CONTENT_TYPE_JSON (length body))) body w = (exchange, w')" by force
    have "snd s' = w'" and "vm_child (fst s') = vm_child vm"
      using run Ok call by (auto simp: vm_api_def api_request_def s split: option.splits result.splits)
    then show ?thesis
      using that(1) quiet_results(3) [OF assms call] s by (auto simp: owned_def)
  qed
  then show ?thesis by (auto intro!: leadsI)
qed

lemma child_finished_live:
  assumes "ownership_ok host live" and "child_finished host vm w = (b, w')"
  shows "live w' \<subseteq> live w"
proof (cases "vm_child vm")
  case (Some child)
  obtain r w1 where look: "vh_try_wait host child w = (r, w1)" by force
  then show ?thesis
    using quiet_results(1) [OF assms(1) look] assms(2) Some
    by (auto simp: child_finished_def split: result.splits option.splits)
qed (use assms(2) in \<open>simp add: child_finished_def\<close>)

lemma owned_probe:
  assumes "ownership_ok host live" and "owned live L s" and "socket_probe host s = Some (found, s')"
  shows "owned live L s'"
proof -
  obtain vm w where s: "s = (vm, w)" by force
  obtain b w1 where look: "vh_try_exists host (vm_api_socket vm) w = (b, w1)" by force
  obtain f w2 where exited: "child_finished host vm w1 = (f, w2)" by force
  have "live w1 \<subseteq> live w" "live w2 \<subseteq> live w1"
    using quiet_results(2) [OF assms(1) look] child_finished_live [OF assms(1) exited] .
  then show ?thesis
    using assms(2,3) look exited s
    by (auto simp: socket_probe_def unexpected_exit_def elim!: owned_shrinks split: if_splits bool.splits)
qed

lemma owned_wait:
  assumes "ownership_ok host live"
  shows "leads (owned live L) (wait_for_socket host) (owned live L) (owned live L)"
proof -
  have "owned live L s'" if s: "owned live L s" and run: "wait_for_socket host s = Some (r, s')" for s r s'
  proof (rule deadline_loop_result [where I = "owned live L" and P = "\<lambda>_. owned live L",
        OF run [unfolded wait_for_socket_def] s])
    show "owned live L (ck_sleep (vm_clock host) d s2)"
      if "owned live L s1" and "socket_probe host s1 = Some (Inr e, s2)" for s1 e s2 d
      using owned_probe [OF assms that] quiet_worlds(1) [OF assms]
      by (cases s2) (auto simp: vm_clock_def elim!: owned_shrinks)
    show "owned live L s2" if "owned live L s1" and "socket_probe host s1 = Some (Inl a, s2)" for s1 a s2
      using owned_probe [OF assms that] .
    show "owned live L s3"
      if "owned live L s1" and "socket_probe host s1 = Some (Inr e, s2)"
        and "unexpected_exit ''timed out waiting for the API socket'' s2 = (a, s3)" for s1 e s2 a s3
      using owned_probe [OF assms that(1,2)] that(3)
      by (cases s2) (auto simp: unexpected_exit_def owned_def)
  qed
  then show ?thesis by (auto intro!: leadsI)
qed

lemma owned_advance:
  "leads (\<lambda>s. owned live L s \<and> P (vm_child (fst s))) (advance transition message)
     (\<lambda>s. owned live L s \<and> P (vm_child (fst s))) (owned live L)"
  by (rule leadsI; clarsimp simp: advance_Some) (auto simp: owned_def)

lemma owned_require_jailer:
  "leads (\<lambda>s. owned live L s \<and> P (vm_child (fst s))) (require_jailer production)
     (\<lambda>s. owned live L s \<and> P (vm_child (fst s))) (owned live L)"
  by (rule leadsI) (auto simp: require_jailer_def owned_def split: if_splits prod.splits)

lemma spawn_either_live:
  assumes "ownership_ok host live"
    and "(case fc_jailer_path (vm_config vm) of Some jailer_path \<Rightarrow> spawn_jailer host vm jailer_path w
          | None \<Rightarrow> spawn_direct host vm w) = (r, w')"
  shows "live w' \<subseteq> (case r of Ok c \<Rightarrow> insert c (live w) | Err _ \<Rightarrow> live w)"
proof -
  have spawned: "live w' \<subseteq> (case r of Ok c \<Rightarrow> insert c (live w) | Err _ \<Rightarrow> live w)"
    if "(case vh_spawn host p argv w of (r, w') \<Rightarrow> (map_err f r, w')) = (r, w')" for p argv f
    using that spawn_live [OF assms(1), of p argv w]
    by (cases "vh_spawn host p argv w"; cases "fst (vh_spawn host p argv w)") auto
  show ?thesis
    using assms(2)
    by (auto simp: spawn_direct_def spawn_jailer_def split: option.splits
        dest: spawned [simplified subset_iff])
qed

lemma owned_spawn:
  assumes "ownership_ok host live"
  shows "leads (\<lambda>s. owned live L s \<and> vm_child (fst s) = None) (spawn_process host) (owned live L) (owned live L)"
proof -
  have "owned live L s'" if s: "owned live L s" "vm_child (fst s) = None"
    and run: "spawn_process host s = Some (r, s')" for s r s'
  proof -
    obtain vm w where vm: "s = (vm, w)" by force
    obtain q w' where spawn: "(case fc_jailer_path (vm_config vm) of
        Some jailer_path \<Rightarrow> spawn_jailer host vm jailer_path w | None \<Rightarrow> spawn_direct host vm w) = (q, w')"
      by force
    from spawn_either_live [OF assms spawn] show ?thesis
      using s run spawn vm by (cases q) (auto simp: spawn_process_def owned_def)
  qed
  then show ?thesis by (auto intro!: leadsI)
qed

lemma owned_bootstrap:
  assumes "ownership_ok host live"
  shows "leads (\<lambda>s. owned live L s \<and> vm_child (fst s) = None) (FirecrackerVm_bootstrap host production)
     (owned live L) (owned live L)"
proof -
  note advance = owned_advance [where P = "\<lambda>_. True", simplified]
  have puts: "leads (owned live L) (put_boot_source host) (owned live L) (owned live L)"
    "leads (owned live L) (put_root_drive host) (owned live L) (owned live L)"
    "leads (owned live L) (put_machine_config host) (owned live L) (owned live L)"
    "leads (owned live L) (put_vsock host) (owned live L) (owned live L)"
    using owned_api [OF assms, of L] unfolding leads_def
    by (auto simp: put_boot_source_def put_root_drive_def put_machine_config_def put_vsock_def)
  have configure: "leads (owned live L) (vm_configure host) (owned live L) (owned live L)"
    unfolding vm_configure_def
    by (rule leads_vm_then [OF puts(1)], rule leads_vm_then [OF puts(2)],
        rule leads_vm_then [OF puts(3)], rule puts(4))
  show ?thesis
    unfolding FirecrackerVm_bootstrap_def vm_start_def
    by (rule leads_vm_then [OF owned_advance], rule leads_vm_then [OF owned_require_jailer],
        rule leads_vm_then [OF owned_spawn [OF assms]], rule leads_vm_then [OF owned_wait [OF assms]],
        rule leads_vm_then [OF advance], rule leads_vm_then [OF configure],
        rule leads_vm_then [OF owned_api [OF assms]], rule advance)
qed

text \<open>A microVM that is torn down and dropped leaves nothing of its own behind.\<close>

lemma reclaimed_live:
  assumes laws: "ownership_ok host live" and "owned live L (vm, w)" and "vm_phase_of vm \<noteq> Phase_Terminated"
    and run: "block_on_vmm host (FirecrackerVm_terminate host) (vm, w) = Some (r, vm', w')"
  shows "live (FirecrackerVm_drop host vm' w') \<subseteq> L"
proof (cases "live = (\<lambda>_. {})")
  case False
  then have "xh_runtime host w = Some MultiThread"
    using laws by (simp add: ownership_ok_def multi_threaded_def)
  then have "vm_phase_of vm' = Phase_Terminated" and w': "w' = reclaim_host host vm w"
    using run assms(3)
    by (auto simp: block_on_vmm_def terminate_outcome vm_phase_of_def set_lifecycle_def Lifecycle_reclaimed_def)
  then have "FirecrackerVm_drop host vm' w' = w'"
    by (simp add: FirecrackerVm_drop_def)
  moreover have files: "live (vh_remove_file host q (vh_remove_file host p x)) \<subseteq> live x" for p q x
    by (rule subset_trans [OF quiet_worlds(2) [OF laws] quiet_worlds(2) [OF laws]])
  have "live w' \<subseteq> L"
  proof (cases "vm_child vm")
    case None
    then show ?thesis
      using assms(2) files by (fastforce simp: w' owned_def reclaim_host_def Let_def)
  next
    case (Some child)
    then show ?thesis
      using assms(2) files kill_live [OF laws, of child w]
      by (fastforce simp: w' owned_def reclaim_host_def Let_def)
  qed
  ultimately show ?thesis by simp
qed simp

section \<open>The channel\<close>

lemma read_line_live:
  assumes "ownership_ok host live" and "read_line (sh_read host stream 1) w = Some (line, w')"
  shows "live w' \<subseteq> live w"
proof -
  have "(\<forall>w b w'. read w = (b, w') \<longrightarrow> live w' \<subseteq> live w) \<longrightarrow> live (snd x) \<subseteq> live w"
    if "read_line_from read previous out w = Some x" for read previous out w x
  proof (rule read_line_from.raw_induct [where
        P = "\<lambda>read previous out w x. (\<forall>w b w'. read w = (b, w') \<longrightarrow> live w' \<subseteq> live w) \<longrightarrow> live (snd x) \<subseteq> live w",
        OF _ that], intro impI)
    fix f read previous out w x
    assume IH: "\<And>read previous out w x. f read previous out w = Some x \<Longrightarrow>
        (\<forall>w b w'. read w = (b, w') \<longrightarrow> live w' \<subseteq> live w) \<longrightarrow> live (snd x) \<subseteq> live w"
      and run: "(case read w of (Ok [], w') \<Rightarrow> Some (Ok out, w')
         | (Ok (byte # _), w') \<Rightarrow>
             let out' = if previous = 13 \<and> byte = 10 then butlast out else out
             in if byte = 10 then Some (Ok out', w') else f read byte (out' @ latin1 byte) w'
         | (Err error, w') \<Rightarrow> Some (Err error, w')) = Some x"
      and read: "\<forall>w b w'. read w = (b, w') \<longrightarrow> live w' \<subseteq> live w"
    obtain b w1 where step: "read w = (b, w1)" by force
    then have "live w1 \<subseteq> live w" using read by blast
    moreover have "live (snd x) \<subseteq> live w1"
      using run step IH read by (auto simp: Let_def split: result.splits list.splits if_splits)
    ultimately show "live (snd x) \<subseteq> live w" by blast
  qed
  from this [OF assms(2) [unfolded read_line_def]] show ?thesis
    using quiet_results(7) [OF assms(1)] by auto
qed

lemma connect_live:
  assumes laws: "ownership_ok host live"
    and run: "GuestChannel_connect host p port timeout w = Some (r, w')"
  shows "live w' \<subseteq> live w"
proof -
  obtain c w1 where connect: "sh_connect host p w = (c, w1)" by force
  have live1: "live w1 \<subseteq> live w" by (rule quiet_results(4) [OF laws connect])
  show ?thesis
  proof (cases c)
    case (Err e)
    then show ?thesis using run connect live1 by (auto simp: GuestChannel_connect_def)
  next
    case (Ok stream)
    obtain t w2 where timeouts: "sh_set_timeouts host stream DEFAULT_CONNECT_TIMEOUT w1 = (t, w2)" by force
    obtain u w3 where written: "sh_write_all host stream
        (text_bytes (''CONNECT '' @ show_nat (unat port) @ [newline])) w2 = (u, w3)" by force
    have live3: "live w2 \<subseteq> live w" "live w3 \<subseteq> live w"
      using live1 quiet_results(5) [OF laws timeouts] quiet_results(6) [OF laws written] by auto
    show ?thesis
    proof (cases "\<exists>e. t = Err e \<or> u = Err e")
      case True
      then show ?thesis
        using run connect Ok timeouts written live3
        by (cases t) (auto simp: GuestChannel_connect_def)
    next
      case False
      then have tu: "t = Ok ()" "u = Ok ()" by (cases t; cases u; auto)+
      obtain l w4 where line: "read_line (sh_read host stream 1) w3 = Some (l, w4)"
        using run connect Ok timeouts written tu by (auto simp: GuestChannel_connect_def)
      obtain v w5 where again: "sh_set_timeouts host stream timeout w4 = (v, w5)" by force
      have "live w4 \<subseteq> live w" "live w5 \<subseteq> live w"
        using live3 read_line_live [OF laws line] quiet_results(5) [OF laws again] by auto
      then show ?thesis
        using run connect Ok timeouts written tu line again
        by (auto simp: GuestChannel_connect_def split: result.splits if_splits)
    qed
  qed
qed

lemma open_channel_live:
  assumes laws: "ownership_ok host live"
    and run: "FirecrackerVm_open_guest_channel host vm w = Some (r, w')"
  shows "live w' \<subseteq> live w"
proof (cases "FirecrackerVm_can_communicate vm")
  case True
  let ?connect = "GuestChannel_connect host (fc_vsock_uds_path (vm_config vm))
     (vc_port (fc_vsock (vm_config vm))) DEFAULT_READ_TIMEOUT"
  have probe: "live w2 \<subseteq> live w1"
    if "map_option (\<lambda>(outcome, w'). (case outcome of Ok a \<Rightarrow> Inl (Ok a) | Err error \<Rightarrow> Inr error, w'))
          (?connect w1) = Some (found, w2)" for w1 found w2
  proof -
    from that obtain a where "?connect w1 = Some (a, w2)" by auto
    then show ?thesis by (rule connect_live [OF laws])
  qed
  have "retry_until host DEFAULT_CONNECT_WAIT DEFAULT_CONNECT_POLL ?connect w = Some (r, w')"
    using run True by (simp add: FirecrackerVm_open_guest_channel_def GuestChannel_connect_until_ready_def)
  then show ?thesis
    unfolding retry_until_def
  proof (rule deadline_loop_result [where I = "\<lambda>w1. live w1 \<subseteq> live w" and P = "\<lambda>_ w1. live w1 \<subseteq> live w"])
    show "live (ck_sleep host d w2) \<subseteq> live w"
      if "live w1 \<subseteq> live w" and found: "map_option (\<lambda>(outcome, w'). (case outcome of Ok a \<Rightarrow> Inl (Ok a)
          | Err error \<Rightarrow> Inr error, w')) (?connect w1) = Some (Inr e, w2)" for w1 e w2 d
      using that(1) probe [OF found] quiet_worlds(1) [OF laws, of d w2] by blast
    show "live w2 \<subseteq> live w"
      if "live w1 \<subseteq> live w" and found: "map_option (\<lambda>(outcome, w'). (case outcome of Ok a \<Rightarrow> Inl (Ok a)
          | Err error \<Rightarrow> Inr error, w')) (?connect w1) = Some (Inl a, w2)" for w1 a w2
      using that(1) probe [OF found] by blast
    show "live w3 \<subseteq> live w"
      if "live w1 \<subseteq> live w" and found: "map_option (\<lambda>(outcome, w'). (case outcome of Ok a \<Rightarrow> Inl (Ok a)
          | Err error \<Rightarrow> Inr error, w')) (?connect w1) = Some (Inr e, w2)"
        and "(Err (FirecrackerError_Io (''guest channel readiness timed out: '' @
          FirecrackerError_fmt e)), w2) = (a, w3)" for w1 e w2 a w3
      using that(1,3) probe [OF found] by auto
  qed simp
qed (use run in \<open>simp add: FirecrackerVm_open_guest_channel_def\<close>)

section \<open>The executor with its world\<close>

text \<open>
  Beyond the processes \<open>L\<close> of others, only that of the executor's microVM is alive; a microVM comes
  with its session and has not been terminated; and the node identity is well formed.
\<close>

definition fx_ok ::
  "('w \<Rightarrow> 'c set) \<Rightarrow> 'c set \<Rightarrow> ('s, 'c) firecracker_executor \<times> 'w \<Rightarrow> bool" where
  "fx_ok live L s \<longleftrightarrow>
     id_ok (node_id_str (ec_node_id (fx_config (fst s)))) \<and>
     (case fx_vm (fst s) of
        None \<Rightarrow> live (snd s) \<subseteq> L
      | Some vm \<Rightarrow> fx_session (fst s) \<noteq> None \<and> vm_phase_of vm \<noteq> Phase_Terminated \<and>
          owned live L (vm, snd s))"

lemma fx_ok_shrinks:
  "fx_ok live L (self, w) \<Longrightarrow> live w' \<subseteq> live w \<Longrightarrow> fx_config self' = fx_config self \<Longrightarrow>
     fx_vm self' = fx_vm self \<Longrightarrow> fx_session self' = fx_session self \<Longrightarrow> fx_ok live L (self', w')"
  by (auto simp: fx_ok_def owned_def split: option.splits)

lemma block_on_cases:
  assumes laws: "ownership_ok host live" and run: "block_on_vmm host future (vm, w) = Some (r, vm', w')"
  obtains (ran) outcome w1 where "future (vm, w1) = Some (outcome, vm', w')" "r = Ok outcome" "live w1 \<subseteq> live w"
  | (refused) e where "r = Err e" "vm' = vm" "live w' \<subseteq> live w"
proof (cases "xh_runtime host w")
  case None
  then have trivial: "live w1 \<subseteq> live w2" for w1 w2
    using laws by (auto simp: ownership_ok_def multi_threaded_def)
  obtain built w1 where "xh_build_runtime host w = (built, w1)" by force
  show ?thesis
  proof (cases built)
    case (Ok u)
    then have "\<exists>outcome. future (vm, w1) = Some (outcome, vm', w') \<and> r = Ok outcome"
      using run None \<open>xh_build_runtime host w = (built, w1)\<close> by (auto simp: block_on_vmm_def)
    then show ?thesis using ran trivial by blast
  next
    case (Err e)
    then have "(\<exists>e. r = Err e) \<and> vm' = vm"
      using run None \<open>xh_build_runtime host w = (built, w1)\<close> by (auto simp: block_on_vmm_def)
    then show ?thesis using refused trivial by blast
  qed
next
  case (Some flavor)
  then show ?thesis
    using run by (cases flavor) (auto simp: block_on_vmm_def intro: ran refused)
qed

lemma booted:
  fixes live :: "'w \<Rightarrow> 'c set"
  assumes laws: "ownership_ok host live" and alone: "live w \<subseteq> L"
    and run: "block_on_vmm host (FirecrackerVm_bootstrap host production)
      (FirecrackerVm_new config firecracker_path api_socket, w) = Some (r, vm, w')"
  shows "owned live L (vm, w') \<and> vm_phase_of vm \<noteq> Phase_Terminated"
proof -
  let ?new = "FirecrackerVm_new config firecracker_path api_socket :: 'c firecracker_vm"
  have new: "vm_phase_of ?new = Phase_Idle" "vm_child ?new = None"
    by (simp_all add: FirecrackerVm_new_def vm_phase_of_def Lifecycle_new_def)
  from laws run show ?thesis
  proof (cases rule: block_on_cases)
    case (ran outcome w1)
    have "owned live L (?new, w1) \<and> vm_child (fst (?new, w1)) = None"
      using new alone ran(3) by (auto simp: owned_def)
    with ran(1) have "owned live L (vm, w')"
      using owned_bootstrap [OF laws, of L production]
      by (cases outcome) (blast dest: leads_Ok leads_Err)+
    moreover from bootstrap_outcome [OF new(1) ran(1)] have "vm_phase_of vm \<noteq> Phase_Terminated"
      by (auto simp: boot_failed_def)
    ultimately show ?thesis by blast
  next
    case (refused e)
    then show ?thesis using new alone by (auto simp: owned_def)
  qed
qed

lemma abandoned:
  assumes "ownership_ok host live" and "owned live L (vm, w)" and "vm_phase_of vm \<noteq> Phase_Terminated"
    and "abandon_vm host reason self (vm, w) = Some (r, self', w')"
  shows "self' = self \<and> (\<exists>e. r = Err e) \<and> live w' \<subseteq> L"
  using assms(4) reclaimed_live [OF assms(1-3)] by (auto simp: abandon_vm_def)

lemma fx_ok_ensure_session:
  assumes laws: "ownership_ok host live"
  shows "leads (fx_ok live L) (ensure_session host) (fx_ok live L) (fx_ok live L)"
proof -
  have "fx_ok live L s'" if s: "fx_ok live L s" and run: "ensure_session host s = Some (r, s')" for s r s'
  proof -
    obtain self w where self: "s = (self, w)" by force
    show ?thesis
    proof (cases "fx_session self = None")
      case False
      then show ?thesis using s run self by (auto simp: ensure_session_def)
    next
      case True
      then have alone: "live w \<subseteq> L" "fx_vm self = None"
        using s self by (auto simp: fx_ok_def split: option.splits)
      let ?new = "FirecrackerVm_new (ec_vm_config (fx_config self)) (ec_firecracker_path (fx_config self))
        (ec_api_socket (fx_config self))"
      obtain b vm w1 where boot: "block_on_vmm host (FirecrackerVm_bootstrap host (ec_production (fx_config self)))
          (?new, w) = Some (b, vm, w1)"
        using run True self by (auto simp: ensure_session_def Let_def split: option.splits)
      note vm = booted [OF laws alone(1) boot]
      have gone: "fx_ok live L s'" if "abandon_vm host reason self (vm, w2) = Some (r, s')" "live w2 \<subseteq> live w1"
        for reason w2
      proof -
        obtain self' w' where s': "s' = (self', w')" by force
        have "owned live L (vm, w2)" "vm_phase_of vm \<noteq> Phase_Terminated"
          using vm that(2) by (auto simp: owned_def)
        from abandoned [OF laws this that(1) [unfolded s']] show ?thesis
          using s alone(2) self s' by (simp add: fx_ok_def)
      qed
      show ?thesis
      proof (cases "b = Ok (Ok ())")
        case False
        then show ?thesis
          using run True self boot gone by (auto simp: ensure_session_def Let_def)
      next
        case booted: True
        obtain c w2 where channel: "FirecrackerVm_open_guest_channel host vm w1 = Some (c, w2)"
          using run True self boot booted by (auto simp: ensure_session_def Let_def split: option.splits)
        note live2 = open_channel_live [OF laws channel]
        show ?thesis
        proof (cases c)
          case (Err e)
          then show ?thesis
            using run True self boot booted channel gone live2 by (auto simp: ensure_session_def Let_def)
        next
          case (Ok session)
          then show ?thesis
            using run True self boot booted channel live2 vm s alone(2)
            by (auto simp: ensure_session_def Let_def activate_session_def drop_vm_def drop_session_def
                fx_ok_def owned_def)
        qed
      qed
    qed
  qed
  then show ?thesis by (auto intro!: leadsI)
qed

lemma fx_ok_teardown:
  assumes laws: "ownership_ok host live" and s: "fx_ok live L s" and run: "teardown host s = Some (self, w)"
  shows "fx_session self = None \<and> fx_vm self = None \<and> fx_terminated self \<and> live w \<subseteq> L \<and>
    fx_config self = fx_config (fst s)"
proof -
  obtain old w0 where old: "s = (old, w0)" by force
  have closed: "live (drop_session host (fx_session old) w0) \<subseteq> live w0"
    using quiet_worlds(4) [OF laws] by (auto simp: drop_session_def split: option.splits)
  show ?thesis
  proof (cases "fx_vm old")
    case None
    then show ?thesis using s run old closed by (auto simp: teardown_def fx_ok_def Let_def)
  next
    case (Some vm)
    then have "owned live L (vm, drop_session host (fx_session old) w0)" "vm_phase_of vm \<noteq> Phase_Terminated"
      using s old closed by (auto simp: fx_ok_def owned_def)
    from reclaimed_live [OF laws this] show ?thesis
      using run old Some by (auto simp: teardown_def Let_def VmLease_terminate_def)
  qed
qed

section \<open>Stages\<close>

lemma send_live:
  assumes "ownership_ok host live" and "GuestChannel_send lib host session message w = (r, w')"
  shows "live w' \<subseteq> live w"
  using assms(2)
  by (auto simp: GuestChannel_send_def split: result.splits prod.splits
      dest!: quiet_results(6) [OF assms(1)])

lemma recv_live:
  assumes "ownership_ok host live" and "GuestChannel_recv lib host session w = (r, w')"
  shows "live w' \<subseteq> live w"
  using assms(2)
  by (auto simp: GuestChannel_recv_def split: result.splits prod.splits
      dest!: quiet_results(8) [OF assms(1)])

lemma fx_ok_send:
  assumes "ownership_ok host live"
  shows "leads (fx_ok live L) (session_send lib host session message) (fx_ok live L) (fx_ok live L)"
  by (rule leadsI)
    (auto simp: session_send_def split: prod.splits dest!: send_live [OF assms] elim!: fx_ok_shrinks)

lemma fx_ok_recv:
  assumes "ownership_ok host live"
  shows "leads (fx_ok live L) (session_recv lib host session) (fx_ok live L) (fx_ok live L)"
  by (rule leadsI)
    (auto simp: session_recv_def split: prod.splits dest!: recv_live [OF assms] elim!: fx_ok_shrinks)

lemma leads_with_session:
  "(\<And>session. leads I (f session) I I) \<Longrightarrow> leads I (with_session f) I I"
  unfolding leads_def by (auto simp: with_session_def split: option.splits)

lemma fx_ok_replies:
  "leads (fx_ok live L) (negotiated_reply reply) (fx_ok live L) (fx_ok live L)"
  "leads (fx_ok live L) (stage_reply unicode stage reply) (fx_ok live L) (fx_ok live L)"
  by (rule leadsI; auto simp: negotiated_reply_def stage_reply_def fx_ok_def
      split: guest_message.splits bool.splits if_splits option.splits)+

lemma fx_ok_negotiated:
  assumes "ownership_ok host live"
  shows "leads (fx_ok live L) (ensure_negotiated lib host) (fx_ok live L) (fx_ok live L)"
proof -
  note ask = leads_fx_then [OF fx_ok_send [OF assms] leads_fx_then [OF fx_ok_recv [OF assms] fx_ok_replies(1)]]
  have "leads (fx_ok live L) (with_session (\<lambda>session.
      fx_then (session_send lib host session (Message_Negotiate [''algorithm.batch''])) (\<lambda>_.
      fx_then (session_recv lib host session) negotiated_reply))) (fx_ok live L) (fx_ok live L)"
    by (rule leads_with_session [OF ask])
  then show ?thesis unfolding leads_def ensure_negotiated_def by auto
qed

lemma fx_ok_stage_outcome:
  assumes "ownership_ok host live"
  shows "leads (fx_ok live L) (stage_outcome lib unicode host stage) (fx_ok live L) (fx_ok live L)"
proof -
  have run: "leads (fx_ok live L) (run_guest_stage lib unicode host stage argv ms) (fx_ok live L) (fx_ok live L)"
    for stage argv ms
    unfolding run_guest_stage_def
    by (intro leads_fx_then [OF fx_ok_ensure_session [OF assms]] leads_fx_then [OF fx_ok_negotiated [OF assms]]
        leads_with_session leads_fx_then [OF fx_ok_send [OF assms]] leads_fx_then [OF fx_ok_recv [OF assms]]
        fx_ok_replies)
  show ?thesis
    using run unfolding leads_def stage_outcome_def by (cases stage) (auto split: result.splits)
qed

lemma fx_ok_stage:
  assumes laws: "ownership_ok host live" and s: "fx_ok live L s"
    and run: "FirecrackerExecutor_stage lib unicode host stage s = Some (outcome, s')"
  shows "fx_ok live L s'"
proof (cases "fx_terminated (fst s)")
  case True
  then show ?thesis using s run by (simp add: FirecrackerExecutor_stage_def)
next
  case False
  then obtain r s1 where outcome: "stage_outcome lib unicode host stage s = Some (r, s1)"
    using run by (auto simp: FirecrackerExecutor_stage_def split: option.splits)
  note s1 = leads_either [OF fx_ok_stage_outcome [OF laws] s outcome]
  show ?thesis
  proof (cases r)
    case (Ok oc)
    then show ?thesis using run False outcome s1 by (simp add: FirecrackerExecutor_stage_def)
  next
    case (Err e)
    then obtain self w where "teardown host s1 = Some (self, w)" "s' = (self, w)"
      using run False outcome by (auto simp: FirecrackerExecutor_stage_def)
    with fx_ok_teardown [OF laws s1 this(1)] s1 show ?thesis by (auto simp: fx_ok_def)
  qed
qed

text \<open>
  The outcome of a guest stage comes from a message that the agent sent, within its bounds; the
  exit code of a successful run is zero and remembered for the check.
\<close>

lemma recv_within: "GuestChannel_recv lib host session w = (Ok m, w') \<Longrightarrow> message_within m"
  using recv_bounded [of lib host session w m w']
  by (auto simp: decode_def and_then_Ok_iff Let_def split: if_splits result.splits dest: from_value_within)

lemma session_recv_within: "session_recv lib host session s = Some (Ok m, s') \<Longrightarrow> message_within m"
proof -
  obtain r w' where recv: "GuestChannel_recv lib host session (snd s) = (r, w')" by force
  assume "session_recv lib host session s = Some (Ok m, s')"
  with recv have "r = Ok m" by (simp add: session_recv_def split: prod.splits)
  with recv show ?thesis by (simp add: recv_within)
qed

lemma run_guest_stage_Ok:
  assumes "run_guest_stage lib unicode host stage argv ms s = Some (Ok outcome, s')"
    and stage: "stage = StageKind_Build \<or> stage = StageKind_Run"
  obtains exit_code where "outcome_ok outcome" "outcome_fits stage outcome" "outcome_decision outcome = None"
    "length (outcome_diagnostics outcome) \<le> MAX_STAGE_DIAGNOSTICS" "length (outcome_evidence outcome) = 1"
    "outcome_status outcome = StageStatus_Succeeded \<longleftrightarrow> exit_code = 0"
    "stage = StageKind_Run \<Longrightarrow> fx_last_run_exit (fst s') = Some exit_code"
    "\<And>t. outcome_terminal outcome = Some t \<Longrightarrow>
       ter_verdict t \<in> {Verdict_CompileError, Verdict_TimeLimitExceeded, Verdict_RuntimeError}"
proof -
  from assms(1) obtain session s1 s2 m where recv: "session_recv lib host session s1 = Some (Ok m, s2)"
    and reply: "stage_reply unicode stage m s2 = Some (Ok outcome, s')"
    by (auto simp: run_guest_stage_def fx_then_Some with_session_def split: option.splits)
  from reply obtain st exit_code digest written usage ds where
    m: "m = Message_StageOutput st exit_code digest written usage ds"
    and exec: "execution_for_stage_output unicode stage exit_code digest written usage ds = Ok outcome"
    and s': "stage = StageKind_Run \<Longrightarrow> fx_last_run_exit (fst s') = Some exit_code"
    by (auto simp: stage_reply_def split: guest_message.splits)
  have "length ds \<le> MAX_STAGE_DIAGNOSTICS"
    using session_recv_within [OF recv] m by (simp add: MAX_STAGE_DIAGNOSTICS_def)
  then show ?thesis
    using execution_for_stage_output_Ok [OF exec stage] execution_for_stage_output_verdict [OF exec stage] s'
    by (intro that [of exit_code]) auto
qed

lemma outcome_ok_stage_failed [simp]:
  "outcome_ok stage_failed" "outcome_fits stage stage_failed"
  "outcome_diagnostics stage_failed = []" "outcome_evidence stage_failed = []"
  by (simp_all add: stage_failed_def outcome_ok_def)

lemma check_stage_Ok:
  "check_stage exit_code = Ok outcome \<Longrightarrow> outcome_ok outcome \<and> outcome_fits StageKind_Check outcome \<and>
     outcome_diagnostics outcome = [] \<and> outcome_evidence outcome = []"
  by (auto simp: check_stage_def host_check_decision_eq outcome_ok_def decision_ok_def score_ok_def
      split: option.splits if_splits)

lemma stage_shape:
  assumes "FirecrackerExecutor_stage lib unicode host stage s = Some (outcome, s')"
  shows "outcome_ok outcome \<and> outcome_fits stage outcome \<and>
    length (outcome_diagnostics outcome) \<le> MAX_STAGE_DIAGNOSTICS \<and>
    length (outcome_evidence outcome) \<le> MAX_STAGE_EVIDENCE"
proof -
  from assms consider "outcome = stage_failed" | "stage_outcome lib unicode host stage s = Some (Ok outcome, s')"
    by (auto simp: FirecrackerExecutor_stage_def split: if_splits option.splits result.splits)
  then show ?thesis
  proof cases
    case 2
    show ?thesis
    proof (cases "stage = StageKind_Build \<or> stage = StageKind_Run")
      case True
      then obtain argv ms where "run_guest_stage lib unicode host stage argv ms s = Some (Ok outcome, s')"
        using 2 by (auto simp: stage_outcome_def)
      from this True show ?thesis
        by (rule run_guest_stage_Ok) (simp add: MAX_STAGE_EVIDENCE_def)
    next
      case False
      then show ?thesis
        using 2 check_stage_Ok [of "fx_last_run_exit (fst s)" outcome]
        by (cases stage) (auto simp: stage_outcome_def outcome_ok_def)
    qed
  qed simp
qed

definition fx_state ::
  "('w \<Rightarrow> 'c set) \<Rightarrow> 'c set \<Rightarrow> (('s, 'c) firecracker_executor \<times> 'w) option \<Rightarrow> bool" where
  "fx_state live L state = (case state of None \<Rightarrow> True | Some s \<Rightarrow> fx_ok live L s)"

lemma firecracker_simps [simp]:
  "ex_kind (firecracker_stages lib unicode host) state = ExecutorKind_Firecracker"
  "ex_production_eligible (firecracker_stages lib unicode host) state = False"
  "ex_node_id (firecracker_stages lib unicode host) state =
     map_option (\<lambda>s. ec_node_id (fx_config (fst s))) state"
  "ex_supports (firecracker_stages lib unicode host) state c \<longleftrightarrow> capability_str c = ''algorithm.batch''"
  "ex_execute (firecracker_stages lib unicode host) None request stage = (stage_failed, None)"
  "ex_execute (firecracker_stages lib unicode host) (Some s) request stage =
     (case FirecrackerExecutor_stage lib unicode host stage s of
        None \<Rightarrow> (stage_failed, None) | Some (outcome, s) \<Rightarrow> (outcome, Some s))"
  by (simp_all add: firecracker_stages_def)

lemma firecracker_lawful:
  assumes laws: "ownership_ok host live"
  shows "lawful_executor (firecracker_stages lib unicode host) (fx_state live L)"
proof
  fix state request stage
  let ?run = "ex_execute (firecracker_stages lib unicode host) state request stage"
  have shape: "outcome_ok (fst ?run) \<and> outcome_fits stage (fst ?run) \<and>
      length (outcome_diagnostics (fst ?run)) \<le> MAX_STAGE_DIAGNOSTICS \<and>
      length (outcome_evidence (fst ?run)) \<le> MAX_STAGE_EVIDENCE"
    using stage_shape by (cases state) (fastforce split: option.splits)+
  then show "outcome_ok (fst ?run)" and "outcome_fits stage (fst ?run)"
    and "length (outcome_diagnostics (fst ?run)) \<le> MAX_STAGE_DIAGNOSTICS \<and>
      length (outcome_evidence (fst ?run)) \<le> MAX_STAGE_EVIDENCE" by simp_all
  show "fx_state live L (snd ?run)" if "fx_state live L state"
    using that fx_ok_stage [OF laws]
    by (cases state) (auto simp: fx_state_def split: option.splits)
  show "id_ok (node_id_str n)"
    if "fx_state live L state" and "ex_node_id (firecracker_stages lib unicode host) state = Some n" for n
    using that by (auto simp: fx_state_def fx_ok_def split: option.splits)
qed simp

interpretation firecracker_lawful: lawful_executor
  "firecracker_stages lib unicode host" "fx_state (\<lambda>_. {}) {}" for lib unicode host
  by (rule firecracker_lawful) (simp add: ownership_ok_def)

section \<open>An attempt\<close>

text \<open>The executor of a worker: an attempt that does not return leaves no state and no result.\<close>

definition firecracker_judge ::
  "guest_json \<Rightarrow> (str \<Rightarrow> str) \<Rightarrow> ('w, 's, 'c) executor_host \<Rightarrow>
     (('s, 'c) firecracker_executor \<times> 'w) option judge_executor" where
  "firecracker_judge lib unicode host request state =
     (case Option.bind state (FirecrackerExecutor_execute lib unicode host request) of
        None \<Rightarrow> (Err (InvalidExecutorOutput []), None)
      | Some (result, s) \<Rightarrow> (result, Some s))"

lemma fx_ok_begin_attempt: "fx_ok live L (self, w) \<Longrightarrow> fx_ok live L (begin_attempt self, w)"
  by (auto simp: fx_ok_def begin_attempt_def split: option.splits)

lemma begin_attempt_config [simp]: "fx_config (begin_attempt self) = fx_config self"
  by (simp add: begin_attempt_def)

lemma execute_outcome:
  assumes laws: "ownership_ok host live" and request: "evaluation_request_ok request" and s: "fx_ok live L s"
    and run: "FirecrackerExecutor_execute lib unicode host request s = Some (result, self, w)"
  shows "fx_session self = None \<and> fx_vm self = None \<and> fx_terminated self \<and> live w \<subseteq> L \<and>
    fx_ok live L (self, w) \<and>
    (case result of
       Ok q \<Rightarrow> \<exists>provenance. ExecutionProvenance_new ExecutorKind_Firecracker False
          (rt_digest (req_runtime request)) (Some (ec_node_id (fx_config (fst s)))) = Ok provenance \<and>
          result_for request provenance q
     | Err e \<Rightarrow> e = UnsupportedCapability \<or>
         (\<exists>f lo hi a. e = ApplicationError_Domain (OutOfRange f lo hi a)))"
proof -
  let ?ex = "firecracker_stages lib unicode host" and ?start = "Some (begin_attempt (fst s), snd s)"
  note lawful = firecracker_lawful [OF laws, of lib unicode L]
  then have typed: "typed_executor ?ex (fx_state live L)" by (rule lawful_executor.axioms)
  have started: "fx_state live L ?start"
    using s fx_ok_begin_attempt [of live L "fst s" "snd s"] by (simp add: fx_state_def)
  obtain r s1 where eval: "evaluate ?ex request ?start = (r, Some s1)" and down: "teardown host s1 = Some (self, w)"
    and r: "r = result"
    using run by (auto simp: FirecrackerExecutor_execute_def split: prod.splits option.splits)
  note sound = typed_executor.evaluate_sound [OF typed request started eval]
  then have s1: "fx_ok live L s1" by (simp add: fx_state_def)
  from fx_ok_teardown [OF laws s1 down] s1 have "fx_session self = None \<and> fx_vm self = None \<and>
      fx_terminated self \<and> live w \<subseteq> L \<and> fx_ok live L (self, w)"
    by (simp add: fx_ok_def)
  moreover have "case result of
       Ok q \<Rightarrow> \<exists>provenance. ExecutionProvenance_new ExecutorKind_Firecracker False
          (rt_digest (req_runtime request)) (Some (ec_node_id (fx_config (fst s)))) = Ok provenance \<and>
          result_for request provenance q
     | Err e \<Rightarrow> e = UnsupportedCapability \<or>
         (\<exists>f lo hi a. e = ApplicationError_Domain (OutOfRange f lo hi a))"
    using sound lawful_executor.evaluate_error [OF lawful request started] eval r
    by (auto split: result.splits)
  ultimately show ?thesis by blast
qed

interpretation firecracker: judge_contract
  "firecracker_judge lib unicode host" "fx_state (\<lambda>_. {}) {}" for lib unicode host
proof
  fix request state outcome state'
  assume request: "evaluation_request_ok request" and state: "fx_state (\<lambda>_. {}) {} state"
    and run: "firecracker_judge lib unicode host request state = (outcome, state')"
  show "fx_state (\<lambda>_. {}) {} state' \<and>
      (\<forall>q. outcome = Ok q \<longrightarrow> (\<exists>provenance. result_for request provenance q))"
  proof (cases "Option.bind state (FirecrackerExecutor_execute lib unicode host request)")
    case None
    then show ?thesis using run by (auto simp: firecracker_judge_def fx_state_def)
  next
    case (Some finished)
    then obtain s self w where s: "state = Some s" and finished: "finished = (outcome, self, w)" "state' = Some (self, w)"
      and execute: "FirecrackerExecutor_execute lib unicode host request s = Some (outcome, self, w)"
      using run by (cases state; cases finished) (auto simp: firecracker_judge_def)
    from execute_outcome [OF _ request _ execute, of "\<lambda>_. {}" "{}"] state s finished show ?thesis
      by (auto simp: fx_state_def ownership_ok_def split: result.splits)
  qed
qed

end
