(* ===== verification/Executor_Correctness.thy ===== *)
theory Executor_Correctness
  imports Executor_Facts Vm_Correctness Worker_Correctness
begin

text \<open>
  Attempts in a microVM: every attempt returns, leaves no process behind and gives a result of its
  request whose verdict comes from what the guest did; and the executor serves a worker of the
  control plane.
\<close>

section \<open>Where a verdict comes from\<close>

text \<open>A property of the verdicts that the stages can give is one of the result's verdict.\<close>

lemma evaluate_stages_verdict:
  assumes step: "\<And>i s oc s1. i < 5 \<Longrightarrow> Q i s \<Longrightarrow>
      ex_execute ex s request (ALGORITHM_BATCH_STAGES ! i) = (oc, s1) \<Longrightarrow>
      (\<forall>t. outcome_terminal oc = Some t \<longrightarrow> P (ter_verdict t)) \<and>
      (\<forall>d. outcome_decision oc = Some d \<longrightarrow> P (dec_verdict d)) \<and>
      (outcome_terminal oc = None \<longrightarrow> Q (Suc i) s1)"
    and "i \<le> 5" and "Q i s" and "\<forall>d. run_decision run = Some d \<longrightarrow> P (dec_verdict d)"
    and "evaluate_stages ex request n (drop i ALGORITHM_BATCH_STAGES) s run = (Ok q, s')"
  shows "P (res_verdict q)"
  using assms(2-)
proof (induction "5 - i" arbitrary: i s run n)
  case 0
  then have "EvaluationRun_finish_success run = Ok q" by (simp add: ALGORITHM_BATCH_STAGES_def)
  then show ?case
    using 0 by (auto simp: EvaluationRun_finish_success_def EvaluationRun_finish_def build_result_def
        EvaluationResult_new_Ok_iff split: option.splits)
next
  case (Suc k)
  then have i: "i < 5" by simp
  let ?st = "ALGORITHM_BATCH_STAGES ! i"
  obtain oc s1 where ex: "ex_execute ex s request ?st = (oc, s1)" by force
  note now = step [OF i Suc.prems(2) ex]
  have "drop i ALGORITHM_BATCH_STAGES = ?st # drop (Suc i) ALGORITHM_BATCH_STAGES"
    using i by (simp add: Cons_nth_drop_Suc)
  then obtain t run' where rec: "EvaluationRun_record run n ?st oc = Ok (t, run')"
    and later: "(case t of None \<Rightarrow> evaluate_stages ex request (n + 1) (drop (Suc i) ALGORITHM_BATCH_STAGES) s1 run'
       | Some terminal \<Rightarrow> (EvaluationRun_finish run' terminal, s1)) = (Ok q, s')"
    using Suc.prems(4) ex by (auto split: result.splits option.splits)
  show ?case
  proof (cases t)
    case None
    then have "outcome_terminal oc = None" "\<forall>d. run_decision run' = Some d \<longrightarrow> P (dec_verdict d)"
      using rec now Suc.prems(3)
      by (auto simp: EvaluationRun_record_Ok_iff record_step_def split: if_splits)
    then show ?thesis
      using Suc.hyps(1) [of "Suc i" s1 run' "n + 1"] Suc.hyps(2) later None now i by simp
  next
    case (Some terminal)
    then have "P (ter_verdict terminal)"
      using rec now by (auto simp: EvaluationRun_record_Ok_iff)
    moreover have "EvaluationRun_finish run' terminal = Ok q"
      using later Some by simp
    ultimately show ?thesis
      by (auto simp: EvaluationRun_finish_def build_result_def EvaluationResult_new_Ok_iff)
  qed
qed

definition guest_verdicts :: "verdict set" where
  "guest_verdicts = {Verdict_Accepted, Verdict_CompileError, Verdict_TimeLimitExceeded,
     Verdict_RuntimeError, Verdict_SystemError}"

text \<open>Before the check, an attempt that is still on has seen its run end with exit code zero.\<close>

definition checked_run :: "nat \<Rightarrow> (('s, 'c) firecracker_executor \<times> 'w) option \<Rightarrow> bool" where
  "checked_run i state \<longleftrightarrow>
     (case state of None \<Rightarrow> True
      | Some s \<Rightarrow> i = 3 \<longrightarrow> fx_terminated (fst s) \<or> fx_last_run_exit (fst s) = Some 0)"

lemma stage_failed_simps [simp]:
  "outcome_terminal stage_failed = Some \<lparr>ter_status = EvaluationStatus_Failed,
     ter_verdict = Verdict_SystemError, ter_score = \<lparr>sco_earned = 0, sco_possible = 1\<rparr>\<rparr>"
  "outcome_decision stage_failed = None"
  by (simp_all add: stage_failed_def)

lemma firecracker_step_verdict:
  assumes "i < 5" and "checked_run i state"
    and "ex_execute (firecracker_stages lib unicode host) state request (ALGORITHM_BATCH_STAGES ! i) = (oc, state')"
  shows "(\<forall>t. outcome_terminal oc = Some t \<longrightarrow> ter_verdict t \<in> guest_verdicts) \<and>
    (\<forall>d. outcome_decision oc = Some d \<longrightarrow> dec_verdict d \<in> guest_verdicts) \<and>
    (outcome_terminal oc = None \<longrightarrow> checked_run (Suc i) state')"
proof (cases "oc = stage_failed")
  case True
  then show ?thesis by (simp add: guest_verdicts_def)
next
  case False
  let ?st = "ALGORITHM_BATCH_STAGES ! i"
  from False assms(3) obtain s s' where s: "state = Some s" "state' = Some s'"
    and run: "FirecrackerExecutor_stage lib unicode host ?st s = Some (oc, s')"
    by (cases state) (auto split: option.splits)
  then have on: "\<not> fx_terminated (fst s)" and outcome: "stage_outcome lib unicode host ?st s = Some (Ok oc, s')"
    using False by (auto simp: FirecrackerExecutor_stage_def split: if_splits option.splits result.splits)
  show ?thesis
  proof (cases "?st = StageKind_Build \<or> ?st = StageKind_Run")
    case True
    then obtain argv ms where "run_guest_stage lib unicode host ?st argv ms s = Some (Ok oc, s')"
      using outcome by (auto simp: stage_outcome_def)
    from this True show ?thesis
    proof (rule run_guest_stage_Ok)
      fix exit_code
      assume shape: "outcome_decision oc = None" "outcome_status oc = StageStatus_Succeeded \<longleftrightarrow> exit_code = 0"
        and exit: "?st = StageKind_Run \<Longrightarrow> fx_last_run_exit (fst s') = Some exit_code"
        and verdict: "\<And>t. outcome_terminal oc = Some t \<Longrightarrow>
          ter_verdict t \<in> {Verdict_CompileError, Verdict_TimeLimitExceeded, Verdict_RuntimeError}"
      have "checked_run (Suc i) state'" if "outcome_terminal oc = None"
        using that shape(2) exit stage_index_cases(3) [OF assms(1)] s
        by (simp add: outcome_terminal_None_iff checked_run_def)
      then show ?thesis using shape(1) verdict by (fastforce simp: guest_verdicts_def)
    qed
  next
    case False
    then have i: "i = 0 \<or> i = 3 \<or> i = 4"
      using stage_index_cases(2,3) [OF assms(1)] assms(1) by linarith
    show ?thesis
    proof (cases "i = 3")
      case True
      then have "fx_last_run_exit (fst s) = Some 0" "?st = StageKind_Check"
        using assms(2) s on by (simp_all add: checked_run_def ALGORITHM_BATCH_STAGES_def)
      then show ?thesis
        using outcome s True
        by (auto simp: stage_outcome_def check_stage_def host_check_decision_eq guest_verdicts_def checked_run_def)
    next
      case False
      then show ?thesis
        using i outcome s by (auto simp: stage_outcome_def ALGORITHM_BATCH_STAGES_def checked_run_def)
    qed
  qed
qed

lemma execute_verdict:
  assumes "evaluation_request_ok request"
    and "FirecrackerExecutor_execute lib unicode host request s = Some (Ok q, s')"
  shows "res_verdict q \<in> guest_verdicts"
proof -
  let ?start = "Some (begin_attempt (fst s), snd s)"
  have plan: "plan_stages (req_plan request) = drop 0 ALGORITHM_BATCH_STAGES"
    using assms(1) by (simp add: evaluation_request_ok_def evaluation_plan_ok_def)
  from assms(2) obtain run state where "evaluate_stages (firecracker_stages lib unicode host) request 0
      (drop 0 ALGORITHM_BATCH_STAGES) ?start run = (Ok q, state)" and "run_decision run = None"
    by (auto simp: FirecrackerExecutor_execute_def evaluate_def plan EvaluationRun_new_def
        split: prod.splits option.splits if_splits result.splits)
  note walk = this
  show ?thesis
  proof (rule evaluate_stages_verdict [where Q = checked_run, OF _ _ _ _ walk(1)])
    show "checked_run 0 ?start" by (simp add: checked_run_def)
    show "\<forall>d. run_decision run = Some d \<longrightarrow> dec_verdict d \<in> guest_verdicts" by (simp add: walk(2))
  qed (erule (2) firecracker_step_verdict, simp)
qed

section \<open>Every call returns\<close>

text \<open>
  What the sockets promise: no operation takes time back, and a stream holds finitely many bytes,
  so that reading bytes one by one comes to an end.
\<close>

definition moves_on :: "('w, 's, 'c) executor_host \<Rightarrow> ('w \<Rightarrow> 'w) \<Rightarrow> bool" where
  "moves_on host f \<longleftrightarrow> (\<forall>w. ck_now host w \<le> ck_now host (f w))"


definition sockets_ok :: "('w, 's, 'c) executor_host \<Rightarrow> ('s \<Rightarrow> 'w \<Rightarrow> nat) \<Rightarrow> bool" where
  "sockets_ok host pending \<longleftrightarrow>
     (\<forall>p. moves_on host (\<lambda>w. snd (sh_connect host p w))) \<and>
     (\<forall>s d. moves_on host (\<lambda>w. snd (sh_set_timeouts host s d w))) \<and>
     (\<forall>s b. moves_on host (\<lambda>w. snd (sh_write_all host s b w))) \<and>
     (\<forall>s n. moves_on host (\<lambda>w. snd (sh_read host s n w))) \<and>
     (\<forall>s w b bs w'. sh_read host s 1 w = (Ok (b # bs), w') \<longrightarrow> pending s w' < pending s w)"

















section \<open>Attempts\<close>

text \<open>An assembled executor and any number of attempts on it, from the world \<open>start\<close> on.\<close>

inductive attempts ::
  "guest_json \<Rightarrow> (str \<Rightarrow> str) \<Rightarrow> ('w, 's, 'c) executor_host \<Rightarrow> 'w \<Rightarrow>
     ('s, 'c) firecracker_executor \<times> 'w \<Rightarrow> bool"
  for lib unicode host start where
  assembled: "FirecrackerExecutor_try_new config = Ok self \<Longrightarrow> id_ok (node_id_str (ec_node_id config)) \<Longrightarrow>
    attempts lib unicode host start (self, start)"
| attempted: "attempts lib unicode host start s \<Longrightarrow> evaluation_request_ok request \<Longrightarrow>
    FirecrackerExecutor_execute lib unicode host request s = Some (result, s') \<Longrightarrow>
    attempts lib unicode host start s'"

lemma attempts_ok:
  assumes "ownership_ok host live" and "attempts lib unicode host start s"
  shows "fx_session (fst s) = None \<and> fx_vm (fst s) = None \<and> fx_ok live (live start) s"
  using assms(2)
proof (induction rule: attempts.induct)
  case (assembled config self)
  then show ?case
    by (auto simp: FirecrackerExecutor_try_new_def FirecrackerExecutorConfig_validate_def fx_ok_def split: if_splits)
next
  case (attempted s request result s')
  obtain self w where s': "s' = (self, w)" by force
  from attempted.IH have "fx_ok live (live start) s" by blast
  from execute_outcome [OF assms(1) attempted.hyps(2) this attempted.hyps(3) [unfolded s']] show ?case
    by (simp add: s')
qed

section \<open>A sample host\<close>

text \<open>Its process starts and exits at once, without opening a socket.\<close>

definition demo_node_host :: "(nat \<times> bool, unit, unit) executor_host" where
  "demo_node_host = \<lparr>ck_now = fst, ck_sleep = (\<lambda>d (t, b). (t + d, b)),
     sh_connect = (\<lambda>_ w. (Ok (), w)), sh_set_timeouts = (\<lambda>_ _ w. (Ok (), w)),
     sh_write_all = (\<lambda>_ _ w. (Ok (), w)), sh_read = (\<lambda>_ _ w. (Ok [], w)),
     sh_read_exact = (\<lambda>_ _ w. (Err ''early eof'', w)),
     vh_spawn = (\<lambda>_ _ (t, b). (Ok (), t, True)), vh_try_exists = (\<lambda>_ w. (Ok False, w)),
     vh_try_wait = (\<lambda>_ w. (Ok (Some 1), w)), vh_kill = (\<lambda>_ w. w), vh_wait = (\<lambda>_ (t, b). (t, False)),
     vh_start_kill = (\<lambda>_ w. w), vh_remove_file = (\<lambda>_ w. w),
     vh_api = (\<lambda>_ _ _ w. (ConnectTimedOut, w)), vh_to_vec = (\<lambda>_. Ok []),
     xh_runtime = (\<lambda>_. Some MultiThread), xh_build_runtime = (\<lambda>w. (Ok (), w)), xh_close = (\<lambda>_ w. w)\<rparr>"

definition demo_live :: "nat \<times> bool \<Rightarrow> unit set" where
  "demo_live w = (if snd w then {()} else {})"

definition demo_executor_config :: executor_config where
  "demo_executor_config = \<lparr>ec_node_id = NodeId ''n1'', ec_firecracker_path = ''/fc'',
     ec_api_socket = ''/s'', ec_vm_config = demo_config, ec_production = False\<rparr>"

definition demo_executor :: "(unit, unit) firecracker_executor" where
  "demo_executor = \<lparr>fx_config = demo_executor_config, fx_session = None, fx_vm = None,
     fx_negotiated = False, fx_last_run_exit = None, fx_terminated = False\<rparr>"

lemma demo_node_host_laws:
  "processes_ok demo_node_host demo_live" "multi_threaded demo_node_host" "vmm_host_ok demo_node_host"
  "sockets_ok demo_node_host (\<lambda>_ _. 0)"
  by (simp_all add: demo_node_host_def processes_ok_def keeps_def demo_live_def multi_threaded_def
      vmm_host_ok_def sockets_ok_def moves_on_def split: prod.splits)

lemma demo_attempts: "attempts lib unicode demo_node_host (0, False) (demo_executor, (0, False))"
proof (rule attempts.assembled [of demo_executor_config])
  show "FirecrackerExecutor_try_new demo_executor_config = Ok demo_executor"
    by (simp add: FirecrackerExecutor_try_new_def FirecrackerExecutorConfig_validate_def demo_executor_def
        demo_executor_config_def)
  show "id_ok (node_id_str (ec_node_id demo_executor_config))"
    using demo_ids_ok by (simp add: demo_executor_config_def)
qed

lemma demo_bootstrap:
  "\<exists>e vm. FirecrackerVm_bootstrap demo_node_host False (FirecrackerVm_new demo_config ''/fc'' ''/s'', 0, False) =
     Some (Err e, vm, 0, True) \<and> vm_phase_of vm = Phase_Failed \<and> vm_child vm = Some ()"
proof -
  let ?vm = "FirecrackerVm_new demo_config ''/fc'' ''/s''
    \<lparr>vm_lifecycle := \<lparr>lc_phase = Phase_Launching, lc_teardowns = 0, lc_reason = None\<rparr>, vm_child := Some ()\<rparr>"
  have "deadline_turn (vm_clock demo_node_host) (0 + SOCKET_WAIT) (\<lambda>_. SOCKET_POLL) (socket_probe demo_node_host)
      (\<lambda>_. unexpected_exit ''timed out waiting for the API socket'') (?vm, 0, True) =
    Some (Done (Err (FirecrackerError_Io ''firecracker exited before opening the API socket'')),
      set_lifecycle (Lifecycle_fail_with UnexpectedExit) ?vm, 0, True)"
    by (simp add: deadline_turn_def socket_probe_def child_finished_def unexpected_exit_def demo_node_host_def)
  moreover have "ck_now demo_node_host (0, True) = 0" by (simp add: demo_node_host_def)
  ultimately have "wait_for_socket demo_node_host (?vm, 0, True) =
    Some (Err (FirecrackerError_Io ''firecracker exited before opening the API socket''),
      set_lifecycle (Lifecycle_fail_with UnexpectedExit) ?vm, 0, True)"
    by (simp add: wait_for_socket_def deadline_loop_def poll_done)
  moreover have "spawn_process demo_node_host (FirecrackerVm_new demo_config ''/fc'' ''/s''
    \<lparr>vm_lifecycle := \<lparr>lc_phase = Phase_Launching, lc_teardowns = 0, lc_reason = None\<rparr>\<rparr>, 0, False) =
    Some (Ok (), ?vm, 0, True)"
    by (simp add: spawn_process_def spawn_direct_def FirecrackerVm_new_def demo_config_def demo_node_host_def)
  ultimately show ?thesis
    by (simp add: FirecrackerVm_bootstrap_def vm_then_def advance_def Lifecycle_launch_def
        Lifecycle_transition_def ALLOWED_def FirecrackerVm_new_def Lifecycle_new_def require_jailer_def)
qed

lemma demo_build:
  "FirecrackerExecutor_stage lib unicode demo_node_host StageKind_Build (demo_executor, 0, False) =
     Some (stage_failed, demo_executor\<lparr>fx_terminated := True\<rparr>, 0, False)"
proof -
  obtain e vm where boot: "FirecrackerVm_bootstrap demo_node_host False
      (FirecrackerVm_new demo_config ''/fc'' ''/s'', 0, False) = Some (Err e, vm, 0, True)"
    and vm: "vm_phase_of vm = Phase_Failed" "vm_child vm = Some ()"
    using demo_bootstrap by blast
  have run: "block_on_vmm demo_node_host future s = map_option (\<lambda>(r, s). (Ok r, s)) (future s)" for future s
    by (simp add: block_on_vmm_def demo_node_host_def)
  have "reclaim_host demo_node_host vm (0, True) = (0, False)"
    using vm by (simp add: reclaim_host_def demo_node_host_def)
  then have "abandon_vm demo_node_host reason demo_executor (vm, 0, True) =
      Some (Err (InvalidExecutorOutput reason), demo_executor, 0, False)" for reason
    using vm by (simp add: abandon_vm_def run terminate_outcome FirecrackerVm_drop_def set_lifecycle_def
        vm_phase_of_def Lifecycle_reclaimed_def)
  moreover have "fx_session demo_executor = None" "fx_config demo_executor = demo_executor_config"
    by (simp_all add: demo_executor_def)
  ultimately have "ensure_session demo_node_host (demo_executor, 0, False) =
      Some (Err (InvalidExecutorOutput ''microvm bootstrap failed''), demo_executor, 0, False)"
    using boot by (simp add: ensure_session_def demo_executor_config_def run)
  then show ?thesis
    by (simp add: FirecrackerExecutor_stage_def stage_outcome_def run_guest_stage_def fx_then_def
        demo_executor_def teardown_def drop_session_def Let_def)
qed

lemma demo_attempt:
  "\<exists>q. FirecrackerExecutor_execute lib unicode demo_node_host demo_request (demo_executor, 0, False) =
     Some (Ok q, demo_executor\<lparr>fx_terminated := True\<rparr>, 0, False) \<and> res_verdict q = Verdict_SystemError"
proof -
  have start: "begin_attempt demo_executor = demo_executor"
    by (simp add: begin_attempt_def demo_executor_def)
  have node: "ec_node_id (fx_config demo_executor) = NodeId ''n1''"
    by (simp add: demo_executor_def demo_executor_config_def)
  have prepare: "FirecrackerExecutor_stage lib unicode demo_node_host StageKind_Prepare (demo_executor, 0, False) =
      Some (StageExecution_Succeeded ResourceUsage_default [] [] None, demo_executor, 0, False)"
    by (simp add: FirecrackerExecutor_stage_def stage_outcome_def demo_executor_def)
  have closed: "teardown demo_node_host (demo_executor\<lparr>fx_terminated := True\<rparr>, 0, False) =
      Some (demo_executor\<lparr>fx_terminated := True\<rparr>, 0, False)"
    by (simp add: teardown_def demo_executor_def drop_session_def)
  have plan: "plan_stages (req_plan demo_request) = ALGORITHM_BATCH_STAGES"
    and caps: "req_required_capabilities demo_request = [Capability ''algorithm.batch'']"
    by (simp_all add: demo_request_def EvaluationPlan_algorithm_batch_def)
  have add: "ResourceUsage_checked_add ResourceUsage_default ResourceUsage_default = Ok ResourceUsage_default"
    by (simp add: checked_add_default)
  obtain result state where eval: "evaluate (firecracker_stages lib unicode demo_node_host) demo_request
      (Some (demo_executor, 0, False)) = (result, state)" by force
  then have "state = Some (demo_executor\<lparr>fx_terminated := True\<rparr>, 0, False) \<and>
      (\<exists>q. result = Ok q \<and> res_verdict q = Verdict_SystemError)"
    by (auto simp: evaluate_def plan caps node prepare demo_build ExecutionProvenance_new_def
        EvaluationRun_record_def classify_outcome_eq EvaluationRun_new_def add StageReport_new_def
        enforce_collection_limit_def EvaluationRun_finish_def build_result_def EvaluationResult_new_def
        MAX_STAGES_def MAX_RESULT_DIAGNOSTICS_def MAX_RESULT_EVIDENCE_def ALGORITHM_BATCH_STAGES_def
        EvaluationIdentity_from_request_def validate_terminal_semantics_def ensure_def stage_failed_def
        append_skipped_reports_def append_skipped_stages_eq skipped_report_def
        validate_terminal_stage_pattern_def zero_score_eq Let_def)
  with eval closed start show ?thesis by (auto simp: FirecrackerExecutor_execute_def)
qed

section \<open>The executor behind a worker\<close>

text \<open>A node that evaluates in microVMs keeps every contract that a worker relies on.\<close>

interpretation firecracker_worker: worker
  "uds_client (pg_wire env) (service_channel env service) self" "control_inv env"
  "\<lambda>w w'. store_steps env (world_db w) (world_db w')" "\<lambda>w. result_recorded env (world_db w)"
  "firecracker_judge lib unicode host" "fx_state (\<lambda>_. {}) {}"
  for env service self lib unicode host
  by unfold_locales

section \<open>Properties\<close>

text \<open>C15: No process outlives its attempt: on a host where only a spawn starts a process and a kill with
  its wait ends it, and on the runtime the node uses, after any number of attempts, failed ones
  included, the executor holds neither a session nor a microVM and no process is alive that was not
  alive when the executor was assembled.\<close>

theorem no_process_outlives_its_attempt:
  assumes "processes_ok host live" and "multi_threaded host"
    and "attempts lib unicode host start (self, w)"
  shows "fx_session self = None \<and> fx_vm self = None \<and> live w \<subseteq> live start"
proof -
  have "ownership_ok host live" using assms(1,2) by (simp add: ownership_ok_def)
  from attempts_ok [OF this assms(3)] show ?thesis by (auto simp: fx_ok_def)
qed

lemma demo_attempted:
  "attempts lib unicode demo_node_host (0, False) (demo_executor\<lparr>fx_terminated := True\<rparr>, (0, False))"
  using demo_attempt attempts.attempted [OF demo_attempts demo_request_ok] by blast

theorem no_process_outlives_its_attempt_witness:
  "demo_live (0, False) = {} \<and> demo_live (0, True) \<noteq> {} \<and>
   fx_vm (demo_executor\<lparr>fx_terminated := True\<rparr>) = None"
  using no_process_outlives_its_attempt [OF demo_node_host_laws(1,2) demo_attempted]
  by (simp add: demo_live_def)

text \<open>C16: Whatever the guest sends, an attempt in a microVM that yields a result yields a valid one for
  exactly the requested evaluation, marked as made by Firecracker on this node and not eligible for
  production; and its verdict is one that the guest's exit codes or a failure of the attempt give:
  a wrong answer, a memory or output limit and a cancellation are never reported.\<close>

theorem attempt_result_is_sound:
  assumes "attempts lib unicode host start s" and "evaluation_request_ok request"
    and "FirecrackerExecutor_execute lib unicode host request s = Some (Ok q, s')"
  shows "evaluation_result_ok q \<and> res_identity q = EvaluationIdentity_from_request request \<and>
    prov_executor_kind (res_provenance q) = ExecutorKind_Firecracker \<and>
    \<not> prov_production_eligible (res_provenance q) \<and>
    prov_node_id (res_provenance q) = Some (ec_node_id (fx_config (fst s))) \<and>
    res_verdict q \<in> {Verdict_Accepted, Verdict_CompileError, Verdict_TimeLimitExceeded,
      Verdict_RuntimeError, Verdict_SystemError}"
proof -
  obtain self w where s': "s' = (self, w)" by force
  have "ownership_ok host (\<lambda>_. {})" by (simp add: ownership_ok_def)
  note ok = attempts_ok [OF this assms(1)]
  from execute_outcome [OF \<open>ownership_ok host (\<lambda>_. {})\<close> assms(2) _ assms(3) [unfolded s']] ok
  obtain provenance where "ExecutionProvenance_new ExecutorKind_Firecracker False
      (rt_digest (req_runtime request)) (Some (ec_node_id (fx_config (fst s)))) = Ok provenance"
    and "result_for request provenance q" by auto
  then show ?thesis
    using execute_verdict [OF assms(2,3)]
    by (auto simp: result_for_def ExecutionProvenance_new_Ok_iff guest_verdicts_def)
qed

theorem attempt_result_is_sound_witness:
  "\<exists>q s'. FirecrackerExecutor_execute demo_guest_json id demo_node_host demo_request (demo_executor, 0, False) =
     Some (Ok q, s') \<and> evaluation_result_ok q \<and>
     prov_node_id (res_provenance q) = Some (NodeId ''n1'') \<and> res_verdict q = Verdict_SystemError"
proof -
  obtain q where run: "FirecrackerExecutor_execute demo_guest_json id demo_node_host demo_request
      (demo_executor, 0, False) = Some (Ok q, demo_executor\<lparr>fx_terminated := True\<rparr>, 0, False)"
    and "res_verdict q = Verdict_SystemError" using demo_attempt by blast
  then show ?thesis
    using attempt_result_is_sound [OF demo_attempts demo_request_ok run]
    by (auto simp: demo_executor_def demo_executor_config_def)
qed



end
