(* ===== verification/Guest_Agent.thy ===== *)
theory Guest_Agent
  imports Vm_Config
begin

text \<open>
  \<open>crates/openoj-guest-agent/src/lib.rs\<close> and \<open>main.rs\<close>: the command agent inside the guest, which
  answers one frame after the other.  Files, processes, pipes and the control stream of the guest
  are a record of functions over its world; SHA-256 comes from a library and is one of them.
  \<open>None\<close> stands for a call that does not return.
\<close>

section \<open>The guest's host interface\<close>

record ('w, 'c) agent_host = "'w clock" +
  ah_create_dir_all :: "path \<Rightarrow> 'w \<Rightarrow> (unit, str) result \<times> 'w"
  ah_write :: "path \<Rightarrow> bytes \<Rightarrow> 'w \<Rightarrow> (unit, str) result \<times> 'w"
  ah_sha256 :: "bytes \<Rightarrow> bytes"
  ah_spawn :: "str \<Rightarrow> str list \<Rightarrow> path \<Rightarrow> 'w \<Rightarrow> ('c, str) result \<times> 'w"
  ah_try_wait :: "'c \<Rightarrow> 'w \<Rightarrow> (i32 option option, str) result \<times> 'w"
  ah_kill :: "'c \<Rightarrow> 'w \<Rightarrow> 'w"
  ah_wait :: "'c \<Rightarrow> 'w \<Rightarrow> 'w"
  ah_read_stdout :: "'c \<Rightarrow> nat \<Rightarrow> 'w \<Rightarrow> (bytes, str) result \<times> 'w"
  ah_read_stderr :: "'c \<Rightarrow> nat \<Rightarrow> 'w \<Rightarrow> (bytes, str) result \<times> 'w"
  ah_stream_read :: "nat \<Rightarrow> 'w \<Rightarrow> (bytes, str) result \<times> 'w"
  ah_stream_read_exact :: "nat \<Rightarrow> 'w \<Rightarrow> (bytes, str) result \<times> 'w"
  ah_stream_write_all :: "bytes \<Rightarrow> 'w \<Rightarrow> (unit, str) result \<times> 'w"
  ah_stream_flush :: "'w \<Rightarrow> (unit, str) result \<times> 'w"

definition SUPPORTED_CAPABILITIES :: "str list" where "SUPPORTED_CAPABILITIES = [''algorithm.batch'']"
definition INPUT_DIR :: str where "INPUT_DIR = ''inputs''"
definition TIMEOUT_EXIT_CODE :: i32 where "TIMEOUT_EXIT_CODE = 124"
definition BOOT_OUTPUT_LIMIT :: nat where "BOOT_OUTPUT_LIMIT = 1048576"
definition BOOT_DIAGNOSTICS :: nat where "BOOT_DIAGNOSTICS = 32"
definition BOOT_DIAGNOSTICS_BYTES :: nat where "BOOT_DIAGNOSTICS_BYTES = 8192"

datatype agent_error =
    AgentError_Io str
  | EmptyArgv
  | UnsafeName str
  | UnexpectedMessage str

definition AgentError_fmt :: "agent_error \<Rightarrow> str" where
  "AgentError_fmt error =
     (case error of
        AgentError_Io message \<Rightarrow> ''guest agent I/O error: '' @ message
      | EmptyArgv \<Rightarrow> ''command argument vector is empty''
      | UnsafeName name \<Rightarrow> ''unsafe input name: '' @ name
      | UnexpectedMessage kind \<Rightarrow> ''unexpected message type: '' @ kind)"

text \<open>The operator \<open>?\<close> on an operation of the world whose error is turned into the agent's.\<close>

definition io_then ::
  "('a, str) result \<times> 'w \<Rightarrow> ('a \<Rightarrow> 'w \<Rightarrow> ('b, agent_error) result \<times> 'w) \<Rightarrow> ('b, agent_error) result \<times> 'w" where
  "io_then r f = (case r of (Err error, w) \<Rightarrow> (Err (AgentError_Io error), w) | (Ok a, w) \<Rightarrow> f a w)"

section \<open>Inputs\<close>

definition accepts_capabilities :: "str list \<Rightarrow> bool" where
  "accepts_capabilities capabilities \<longleftrightarrow>
     capabilities \<noteq> [] \<and> list_all (\<lambda>c. c \<in> set SUPPORTED_CAPABILITIES) capabilities"

definition safe_input_path :: "path \<Rightarrow> str \<Rightarrow> (path, agent_error) result" where
  "safe_input_path work name =
     (if name = [] \<or> CHR ''/'' \<in> set name \<or> backslash \<in> set name \<or> name = ''..'' \<or>
         take 2 name = ''..''
      then Err (UnsafeName name)
      else Ok (path_join (path_join work INPUT_DIR) name))"

definition hex_pair :: "u8 \<Rightarrow> str" where
  "hex_pair b = [''0123456789abcdef'' ! (unat b div 16), ''0123456789abcdef'' ! (unat b mod 16)]"

definition hex :: "bytes \<Rightarrow> str" where
  "hex digest = concat (map hex_pair digest)"

definition write_input ::
  "('w, 'c, 'z) agent_host_scheme \<Rightarrow> path \<Rightarrow> str \<Rightarrow> str \<Rightarrow> bytes \<Rightarrow> 'w \<Rightarrow>
     (bool, agent_error) result \<times> 'w" where
  "write_input host work name digest content w =
     (case safe_input_path work name of
        Err e \<Rightarrow> (Err e, w)
      | Ok p \<Rightarrow>
          if digest \<noteq> hex (ah_sha256 host content) then (Ok False, w)
          else
            io_then (case path_parent p of
                Some dir \<Rightarrow> ah_create_dir_all host dir w
              | None \<Rightarrow> (Ok (), w)) (\<lambda>_ w.
            io_then (ah_write host p content w) (\<lambda>_ w. (Ok True, w))))"

section \<open>Commands\<close>

record command_output =
  co_exit_code :: i32
  co_stdout :: bytes
  co_stderr :: bytes

record stage_output_parts =
  so_exit_code :: i32
  so_output_digest :: str
  so_output_bytes :: u64
  so_usage :: guest_usage
  so_diagnostics :: "guest_diagnostic list"

function read_pipe_from ::
  "(nat \<Rightarrow> 'w \<Rightarrow> (bytes, str) result \<times> 'w) \<Rightarrow> nat \<Rightarrow> bytes \<Rightarrow> 'w \<Rightarrow>
     (bytes, agent_error) result \<times> 'w" where
  "read_pipe_from read limit out w =
     (case read 8192 w of
        (Err error, w') \<Rightarrow> (Err (AgentError_Io error), w')
      | (Ok buf, w') \<Rightarrow>
          if buf = [] then (Ok out, w')
          else if length out \<ge> limit then (Ok out, w')
          else read_pipe_from read limit (out @ take (limit - length out) buf) w')"
  by pat_completeness auto
termination
  by (relation "measure (\<lambda>(_, limit, out, _). limit - length out)")
    (auto simp: min_def simp flip: length_greater_0_conv)

declare read_pipe_from.simps [simp del]

definition read_pipe ::
  "(nat \<Rightarrow> 'w \<Rightarrow> (bytes, str) result \<times> 'w) option \<Rightarrow> nat \<Rightarrow> 'w \<Rightarrow>
     (bytes, agent_error) result \<times> 'w" where
  "read_pipe reader limit w =
     (case reader of None \<Rightarrow> (Ok [], w) | Some read \<Rightarrow> read_pipe_from read limit [] w)"

definition truncate_bytes :: "bytes \<Rightarrow> nat \<Rightarrow> bytes" where
  "truncate_bytes content limit = take limit content"

definition build_diagnostics :: "bytes \<Rightarrow> nat \<Rightarrow> guest_diagnostic list" where
  "build_diagnostics stderr limit =
     (if stderr = [] then []
      else map (GuestDiagnostic_new ''guest_stderr'') (take limit (lines (from_utf8_lossy stderr))))"

text \<open>The guards of the code rule out an empty vector, whose first element would panic.\<close>

definition spawn ::
  "('w, 'c, 'z) agent_host_scheme \<Rightarrow> str list \<Rightarrow> path \<Rightarrow> 'w \<Rightarrow> ('c, str) result \<times> 'w" where
  "spawn host argv work w = ah_spawn host (hd argv) (tl argv) work w"

definition child_probe ::
  "('w, 'c, 'z) agent_host_scheme \<Rightarrow> 'c \<Rightarrow> 'w \<Rightarrow>
     (((command_output, agent_error) result + unit) \<times> 'w) option" where
  "child_probe host child w =
     (case ah_try_wait host child w of
        (Err error, w) \<Rightarrow> Some (Inl (Err (AgentError_Io error)), w)
      | (Ok None, w) \<Rightarrow> Some (Inr (), w)
      | (Ok (Some status), w) \<Rightarrow>
          (case read_pipe (Some (ah_read_stdout host child)) BOOT_OUTPUT_LIMIT w of
             (Err e, w) \<Rightarrow> Some (Inl (Err e), w)
           | (Ok stdout, w) \<Rightarrow>
               (case read_pipe (Some (ah_read_stderr host child)) BOOT_DIAGNOSTICS_BYTES w of
                  (Err e, w) \<Rightarrow> Some (Inl (Err e), w)
                | (Ok stderr, w) \<Rightarrow>
                    Some (Inl (Ok \<lparr>co_exit_code = (case status of Some code \<Rightarrow> code | None \<Rightarrow> - 1),
                      co_stdout = stdout, co_stderr = stderr\<rparr>), w))))"

definition wait_with_timeout ::
  "('w, 'c, 'z) agent_host_scheme \<Rightarrow> 'c \<Rightarrow> nat \<Rightarrow> 'w \<Rightarrow>
     ((command_output, agent_error) result \<times> 'w) option" where
  "wait_with_timeout host child budget w =
     deadline_loop host (ck_now host w + budget) (\<lambda>_. 10) (child_probe host child)
       (\<lambda>_ w. (Ok \<lparr>co_exit_code = TIMEOUT_EXIT_CODE, co_stdout = [],
                   co_stderr = text_bytes ''guest stage timed out''\<rparr>,
               ah_wait host child (ah_kill host child w))) w"

definition u64_or_default :: "nat \<Rightarrow> u64" where
  "u64_or_default n = (if n < 2 ^ 64 then of_nat n else 0)"

definition stage_parts ::
  "('w, 'c, 'z) agent_host_scheme \<Rightarrow> nat \<Rightarrow> command_output \<Rightarrow> (stage_output_parts, agent_error) result" where
  "stage_parts host elapsed output =
     (let stdout = truncate_bytes (co_stdout output) BOOT_OUTPUT_LIMIT;
          combined = stdout @ co_stderr output
      in if length combined \<ge> 2 ^ 64 then Err (AgentError_Io ''output length overflow'')
         else
           let output_bytes = of_nat (length combined) in
           Ok \<lparr>so_exit_code = co_exit_code output, so_output_digest = hex (ah_sha256 host combined),
               so_output_bytes = output_bytes,
               so_usage = \<lparr>gu_cpu_time_ms = u64_or_default elapsed,
                 gu_wall_time_ms = u64_or_default elapsed, gu_memory_peak_bytes = 0,
                 gu_output_bytes = output_bytes\<rparr>,
               so_diagnostics = build_diagnostics (co_stderr output) BOOT_DIAGNOSTICS\<rparr>)"

definition run_command ::
  "('w, 'c, 'z) agent_host_scheme \<Rightarrow> str list \<Rightarrow> path \<Rightarrow> u64 \<Rightarrow> 'w \<Rightarrow>
     ((stage_output_parts, agent_error) result \<times> 'w) option" where
  "run_command host argv work wall_time_ms w =
     (if argv = [] then Some (Err EmptyArgv, w)
      else
        let started = ck_now host w in
        (case spawn host argv work w of
           (Err error, w) \<Rightarrow> Some (Err (AgentError_Io error), w)
         | (Ok child, w) \<Rightarrow>
             map_option (\<lambda>(output, w).
               (and_then output (stage_parts host (ck_now host w - started)), w))
               (wait_with_timeout host child (unat wall_time_ms) w)))"

definition stage_output ::
  "('w, 'c, 'z) agent_host_scheme \<Rightarrow> stage \<Rightarrow> str list \<Rightarrow> path \<Rightarrow> u64 \<Rightarrow> 'w \<Rightarrow>
     ((guest_message, agent_error) result \<times> 'w) option" where
  "stage_output host stage argv work wall_time_ms w =
     map_option (\<lambda>(parts, w).
       (map_ok (\<lambda>parts. Message_StageOutput stage (so_exit_code parts) (so_output_digest parts)
          (so_output_bytes parts) (so_usage parts) (so_diagnostics parts)) parts, w))
       (run_command host argv work wall_time_ms w)"

section \<open>Messages\<close>

definition handle ::
  "('w, 'c, 'z) agent_host_scheme \<Rightarrow> guest_message \<Rightarrow> path \<Rightarrow> 'w \<Rightarrow>
     ((guest_message option, agent_error) result \<times> 'w) option" where
  "handle host message work w =
     (case message of
        Message_Negotiate capabilities \<Rightarrow>
          Some (Ok (Some (Message_Negotiated (accepts_capabilities capabilities))), w)
      | Message_UploadInput name digest content \<Rightarrow>
          (case write_input host work name digest content w of
             (accepted, w) \<Rightarrow> Some (map_ok (\<lambda>b. Some (Message_UploadAck name b)) accepted, w))
      | Message_Build argv wall_time_ms \<Rightarrow>
          map_option (\<lambda>(r, w). (map_ok Some r, w)) (stage_output host Stage_Build argv work wall_time_ms w)
      | Message_Run argv wall_time_ms \<Rightarrow>
          map_option (\<lambda>(r, w). (map_ok Some r, w)) (stage_output host Stage_Run argv work wall_time_ms w)
      | Message_StageEvidence kind \<Rightarrow> Some (Ok (Some (Message_EvidenceAck kind True)), w)
      | Message_Cancel \<Rightarrow> Some (Ok (Some Message_Cancelled), w)
      | Message_Heartbeat \<Rightarrow> Some (Ok (Some Message_Ack), w)
      | other \<Rightarrow> Some (Err (UnexpectedMessage (message_type other)), w))"

definition send_response ::
  "guest_json \<Rightarrow> ('w, 'c, 'z) agent_host_scheme \<Rightarrow> guest_message option \<Rightarrow> 'w \<Rightarrow>
     (bool, agent_error) result \<times> 'w" where
  "send_response lib host response w =
     (case response of
        None \<Rightarrow> (Ok True, w)
      | Some reply \<Rightarrow>
          (case encode lib reply of
             Err error \<Rightarrow> (Err (AgentError_Io (''encode '' @ CodecError_fmt error)), w)
           | Ok frame \<Rightarrow>
               io_then (ah_stream_write_all host frame w) (\<lambda>_ w.
               io_then (ah_stream_flush host w) (\<lambda>_ w. (Ok True, w)))))"

definition serve_frame ::
  "guest_json \<Rightarrow> ('w, 'c, 'z) agent_host_scheme \<Rightarrow> path \<Rightarrow> 'w \<Rightarrow>
     ((bool, agent_error) result \<times> 'w) option" where
  "serve_frame lib host work w =
     (case ah_stream_read host 4 w of
        (Err error, w) \<Rightarrow> Some (Err (AgentError_Io error), w)
      | (Ok length_buf, w) \<Rightarrow>
          if length_buf = [] then Some (Ok False, w)
          else if length length_buf < 4 then Some (Err (AgentError_Io ''truncated length prefix''), w)
          else
            let declared = unat (u32_from_be_bytes length_buf) in
            if declared > MAX_FRAME_BYTES
            then Some (Err (AgentError_Io (''frame length '' @ show_nat declared @ '' exceeds bound'')), w)
            else
              (case ah_stream_read_exact host declared w of
                 (Err error, w) \<Rightarrow> Some (Err (AgentError_Io error), w)
               | (Ok body, w) \<Rightarrow>
                   (case decode lib (length_buf @ body) of
                      Err error \<Rightarrow> Some (Err (AgentError_Io (''decode '' @ CodecError_fmt error)), w)
                    | Ok message \<Rightarrow>
                        map_option (\<lambda>(response, w).
                          case response of
                            Err e \<Rightarrow> (Err e, w)
                          | Ok response \<Rightarrow> send_response lib host response w)
                          (handle host message work w))))"

text \<open>The loop of \<open>main\<close>: one control session, until it is closed or fails.\<close>

definition serve_session ::
  "guest_json \<Rightarrow> ('w, 'c, 'z) agent_host_scheme \<Rightarrow> path \<Rightarrow> 'w \<Rightarrow>
     ((unit, agent_error) result \<times> 'w) option" where
  "serve_session lib host work =
     poll (\<lambda>w. map_option (\<lambda>(served, w).
       (case served of
          Ok True \<Rightarrow> Again
        | Ok False \<Rightarrow> Done (Ok ())
        | Err e \<Rightarrow> Done (Err e), w)) (serve_frame lib host work w))"

end
