(* ===== verification/Agent_Correctness.thy ===== *)
theory Agent_Correctness
  imports Guest_Agent Guest_Correctness
begin

text \<open>
  The agent in the guest: what an upload may write, and that every request within the protocol's
  bounds is answered in time by a reply within them.
\<close>

section \<open>The input directory\<close>



section \<open>Commands end\<close>





section \<open>Replies\<close>






section \<open>A sample guest\<close>




section \<open>Properties\<close>





end
