(* ===== verification/Spec2Isabelle.thy ===== *)
theory Spec2Isabelle
  imports Store_Correctness Evaluation_Correctness Worker_Correctness Guest_Correctness Vm_Correctness Executor_Correctness Agent_Correctness
begin

text \<open>header\<close>

end
